(* ===== verification/Prelude.thy ===== *)
theory Prelude
  imports Main "HOL-Library.Word" "HOL-Library.List_Lexorder" "HOL-Library.Char_ord"
begin

text \<open>
  What every theory of the development shares: the machine types, the error values, Rust's
  ordered collections (\<open>BTreeMap\<close> and \<open>BTreeSet\<close> as strictly sorted lists, behind a
  locale), the parts of \<open>str\<close> and \<open>i64\<close> the language uses, and the collections of
  facts the component proofs rest on.

  Strings are lists of \<open>char\<close>, read as the bytes of the UTF-8 text, so that \<open>length\<close>
  is \<open>str::len\<close> and the order is the bytewise order of Rust's \<open>Ord for str\<close>.
\<close>

section \<open>Types and collections of facts\<close>

type_synonym i64 = "64 word"
type_synonym u16 = "16 word"
type_synonym u8 = "8 word"
type_synonym data = "8 word list"

text \<open>
  An error of the policy language: a fixed message, or a format string with the rendered
  arguments (those the code renders with \<open>Debug\<close> are left out).
\<close>

datatype error = Error string | ErrorFmt string "string list"

type_synonym 'a result = "error + 'a"

named_theorems monad_simps "unfolding of the result and evaluation monads"
named_theorems btree_simps "lookup laws of ordered maps"

section \<open>Results\<close>

definition bind_res :: "'e + 'a \<Rightarrow> ('a \<Rightarrow> 'e + 'b) \<Rightarrow> 'e + 'b" where
  "bind_res m f = (case m of Inl e \<Rightarrow> Inl e | Inr x \<Rightarrow> f x)"

lemma bind_res_simps [simp, monad_simps]:
  "bind_res (Inl e) f = Inl e"
  "bind_res (Inr x) f = f x"
  by (simp_all add: bind_res_def)

lemma bind_res_Inr_iff: "bind_res m f = Inr y \<longleftrightarrow> (\<exists>x. m = Inr x \<and> f x = Inr y)"
  by (cases m) auto

lemma bind_res_cong [fundef_cong]:
  "m = m' \<Longrightarrow> (\<And>x. m' = Inr x \<Longrightarrow> f x = f' x) \<Longrightarrow> bind_res m f = bind_res m' f'"
  by (cases m') auto

text \<open>\<open>iter().map(f).collect::<Result<Vec<_>, _>>()\<close>: the first error stops the loop.\<close>

fun map_res :: "('a \<Rightarrow> 'e + 'b) \<Rightarrow> 'a list \<Rightarrow> 'e + 'b list" where
  "map_res f [] = Inr []"
| "map_res f (x # xs) = bind_res (f x) (\<lambda>y. bind_res (map_res f xs) (\<lambda>ys. Inr (y # ys)))"

lemma map_res_cong [fundef_cong]:
  "xs = ys \<Longrightarrow> (\<And>x. x \<in> set ys \<Longrightarrow> f x = g x) \<Longrightarrow> map_res f xs = map_res g ys"
  by (induction ys arbitrary: xs) auto

lemma map_res_Inr: "(\<And>x. x \<in> set xs \<Longrightarrow> f x = Inr (g x)) \<Longrightarrow> map_res f xs = Inr (map g xs)"
  by (induction xs) auto

lemma map_res_Inr_iff: "map_res f xs = Inr ys \<longleftrightarrow> list_all2 (\<lambda>x y. f x = Inr y) xs ys"
  by (induction xs arbitrary: ys) (auto simp: bind_res_Inr_iff list_all2_Cons1)

fun map_opt :: "('a \<Rightarrow> 'b option) \<Rightarrow> 'a list \<Rightarrow> 'b list option" where
  "map_opt f [] = Some []"
| "map_opt f (x # xs) = (case f x of None \<Rightarrow> None | Some y \<Rightarrow> map_option ((#) y) (map_opt f xs))"

lemma map_opt_map: "(\<And>x. x \<in> set xs \<Longrightarrow> f x = Some (g x)) \<Longrightarrow> map_opt f xs = Some (map g xs)"
  by (induction xs) auto

lemma map_opt_cong [fundef_cong]:
  "xs = ys \<Longrightarrow> (\<And>x. x \<in> set ys \<Longrightarrow> f x = g x) \<Longrightarrow> map_opt f xs = map_opt g ys"
  by (induction ys arbitrary: xs) (auto split: option.splits)

section \<open>Ordered maps\<close>

text \<open>\<open>BTreeMap\<close>: an association list with strictly increasing keys.\<close>

fun bt_insert :: "'k::linorder \<Rightarrow> 'v \<Rightarrow> ('k \<times> 'v) list \<Rightarrow> ('k \<times> 'v) list" where
  "bt_insert k v [] = [(k, v)]"
| "bt_insert k v ((k', v') # m) =
     (if k < k' then (k, v) # (k', v') # m
      else if k = k' then (k, v) # m else (k', v') # bt_insert k v m)"

fun bt_get :: "'k \<Rightarrow> ('k \<times> 'v) list \<Rightarrow> 'v option" where
  "bt_get k [] = None"
| "bt_get k ((k', v) # m) = (if k = k' then Some v else bt_get k m)"

fun bt_remove :: "'k \<Rightarrow> ('k \<times> 'v) list \<Rightarrow> ('k \<times> 'v) list" where
  "bt_remove k [] = []"
| "bt_remove k ((k', v) # m) = (if k = k' then m else (k', v) # bt_remove k m)"

definition bt_wf :: "('k::linorder \<times> 'v) list \<Rightarrow> bool" where
  "bt_wf m = sorted_wrt (<) (map fst m)"

text \<open>\<open>collect()\<close> into a map: later entries overwrite earlier ones.\<close>

definition bt_collect :: "('k::linorder \<times> 'v) list \<Rightarrow> ('k \<times> 'v) list" where
  "bt_collect xs = foldl (\<lambda>m (k, v). bt_insert k v m) [] xs"

text \<open>\<open>self.clone().into_iter().chain(other.clone().into_iter()).collect()\<close>.\<close>

definition bt_merge :: "('k::linorder \<times> 'v) list \<Rightarrow> ('k \<times> 'v) list \<Rightarrow> ('k \<times> 'v) list" where
  "bt_merge a b = bt_collect (a @ b)"

lemma bt_get_map_of: "bt_get k m = map_of m k"
  by (induction m) auto

lemma bt_get_insert [simp, btree_simps]:
  "bt_get x (bt_insert k v m) = (if x = k then Some v else bt_get x m)"
  by (induction m) auto

lemma bt_wf_Nil [simp]: "bt_wf []"
  by (simp add: bt_wf_def)

lemma set_keys_bt_insert [simp]: "set (map fst (bt_insert k v m)) = insert k (set (map fst m))"
  by (induction k v m rule: bt_insert.induct) auto

lemma bt_wf_Cons: "bt_wf (a # m) \<longleftrightarrow> (\<forall>x \<in> set (map fst m). fst a < x) \<and> bt_wf m"
  by (simp add: bt_wf_def)

lemma bt_wf_insert [simp]: "bt_wf m \<Longrightarrow> bt_wf (bt_insert k v m)"
proof (induction k v m rule: bt_insert.induct)
  case (2 k v k' v' m)
  then have "\<forall>x \<in> set (map fst m). k' < x" and "bt_wf m"
    by (simp_all add: bt_wf_Cons)
  with "2.IH" show ?case
    by (auto simp: bt_wf_Cons simp del: set_map)
qed (simp add: bt_wf_Cons)

lemma bt_get_None: "k \<notin> set (map fst m) \<Longrightarrow> bt_get k m = None"
  by (induction k m rule: bt_get.induct) auto

lemma set_bt_remove: "x \<in> set (map fst (bt_remove k m)) \<Longrightarrow> x \<in> set (map fst m)"
  by (induction k m rule: bt_remove.induct) (auto split: if_splits)

lemma bt_get_remove [simp, btree_simps]:
  "bt_wf m \<Longrightarrow> bt_get x (bt_remove k m) = (if x = k then None else bt_get x m)"
proof (induction k m rule: bt_remove.induct)
  case (2 k k' v m)
  then have "k' \<notin> set (map fst m)" and "bt_wf m"
    by (auto simp: bt_wf_Cons)
  with 2 show ?case by (auto simp: bt_get_None)
qed simp

lemma bt_wf_remove [simp]: "bt_wf m \<Longrightarrow> bt_wf (bt_remove k m)"
proof (induction k m rule: bt_remove.induct)
  case (2 k k' v m)
  then have "\<forall>x \<in> set (map fst m). k' < x" and "bt_wf m"
    by (simp_all add: bt_wf_Cons)
  moreover have "\<forall>x \<in> set (map fst (bt_remove k m)). k' < x"
    using calculation(1) set_bt_remove [of _ k m] by blast
  ultimately show ?case
    using "2.IH" by (auto simp: bt_wf_Cons simp del: set_map)
qed simp

section \<open>The map interface\<close>

text \<open>
  What the clients of a \<open>BTreeMap\<close> rely on: the lookup laws of insertion and removal and
  the invariant both keep. The bulk operations of the code (\<open>cut\<close> removes a list of names,
  \<open>collect\<close> inserts a list of entries) follow from them once and for all.
\<close>

locale ordered_map =
  fixes emp :: "'m"
    and ins :: "'k \<Rightarrow> 'v \<Rightarrow> 'm \<Rightarrow> 'm"
    and del :: "'k \<Rightarrow> 'm \<Rightarrow> 'm"
    and get :: "'k \<Rightarrow> 'm \<Rightarrow> 'v option"
    and wf :: "'m \<Rightarrow> bool"
  assumes get_emp: "get k emp = None"
    and get_ins: "wf m \<Longrightarrow> get x (ins k v m) = (if x = k then Some v else get x m)"
    and get_del: "wf m \<Longrightarrow> get x (del k m) = (if x = k then None else get x m)"
    and wf_emp: "wf emp"
    and wf_ins: "wf m \<Longrightarrow> wf (ins k v m)"
    and wf_del: "wf m \<Longrightarrow> wf (del k m)"
begin

lemma cut_spec:
  "wf m \<Longrightarrow> wf (foldl (\<lambda>m k. del k m) m ks) \<and>
     get x (foldl (\<lambda>m k. del k m) m ks) = (if x \<in> set ks then None else get x m)"
  by (induction ks arbitrary: m) (auto simp: get_del wf_del)

lemma collect_spec:
  "wf m \<Longrightarrow> wf (foldl (\<lambda>m (k, v). ins k v m) m xs) \<and>
     get x (foldl (\<lambda>m (k, v). ins k v m) m xs) =
       (case map_of (rev xs) x of Some v \<Rightarrow> Some v | None \<Rightarrow> get x m)"
  by (induction xs rule: rev_induct) (simp_all add: get_ins wf_ins split: prod.split)

end

interpretation bt: ordered_map "[]" bt_insert bt_remove bt_get bt_wf
  by unfold_locales auto

lemma bt_wf_collect [simp]: "bt_wf (bt_collect xs)"
  using bt.collect_spec [OF bt_wf_Nil, of xs undefined] by (simp add: bt_collect_def)

lemma bt_get_collect [btree_simps]: "bt_get x (bt_collect xs) = map_of (rev xs) x"
  using bt.collect_spec [OF bt_wf_Nil, of xs x]
  by (simp add: bt_collect_def split: option.splits)

lemma bt_wf_distinct: "bt_wf m \<Longrightarrow> distinct (map fst m) \<and> sorted (map fst m)"
  by (simp add: bt_wf_def strict_sorted_iff)

lemma map_of_rev_wf: "bt_wf m \<Longrightarrow> map_of (rev m) x = map_of m x"
proof -
  assume "bt_wf m"
  then have "distinct (map fst (rev m))" and "distinct (map fst m)"
    using bt_wf_distinct [of m] by (simp_all add: rev_map [symmetric])
  then show ?thesis
    by (metis map_of_eq_Some_iff not_Some_eq set_rev)
qed

lemma bt_wf_merge [simp]: "bt_wf (bt_merge a b)"
  by (simp add: bt_merge_def)

text \<open>In a merge the second map wins.\<close>

lemma bt_get_merge [btree_simps]:
  "bt_wf a \<Longrightarrow> bt_wf b \<Longrightarrow>
     bt_get x (bt_merge a b) = (case bt_get x b of Some v \<Rightarrow> Some v | None \<Rightarrow> bt_get x a)"
  unfolding bt_merge_def bt_get_collect
  by (simp add: bt_get_map_of map_add_def map_of_rev_wf split: option.split)

lemma bt_get_in_set: "bt_wf m \<Longrightarrow> bt_get k m = Some v \<longleftrightarrow> (k, v) \<in> set m"
  using bt_wf_distinct [of m] by (simp add: bt_get_map_of)

lemma bt_eqI: "bt_wf a \<Longrightarrow> bt_wf b \<Longrightarrow> (\<And>k. bt_get k a = bt_get k b) \<Longrightarrow> a = b"
proof -
  assume wf: "bt_wf a" "bt_wf b" and eq: "\<And>k. bt_get k a = bt_get k b"
  have s: "set a = set b"
    using eq bt_get_in_set [OF wf(1)] bt_get_in_set [OF wf(2)] by auto
  have "inj_on fst (set a \<union> set b)"
    using bt_wf_distinct [OF wf(1)] s by (simp add: distinct_map)
  then show ?thesis
    using bt_wf_distinct [OF wf(1)] bt_wf_distinct [OF wf(2)] s
    by (blast intro: map_sorted_distinct_set_unique)
qed

section \<open>Ordered sets\<close>

text \<open>\<open>BTreeSet\<close>: a strictly increasing list; insertion keeps an element already there.\<close>

definition bs_insert :: "'a::linorder \<Rightarrow> 'a list \<Rightarrow> 'a list" where
  "bs_insert x s = (if x \<in> set s then s else insort x s)"

definition bs_remove :: "'a \<Rightarrow> 'a list \<Rightarrow> 'a list" where
  "bs_remove x s = filter (\<lambda>y. y \<noteq> x) s"

definition bs_wf :: "'a::linorder list \<Rightarrow> bool" where
  "bs_wf s = sorted_wrt (<) s"

lemma set_bs_insert [simp]: "set (bs_insert x s) = insert x (set s)"
  by (auto simp: bs_insert_def set_insort_key)

lemma set_bs_remove [simp]: "set (bs_remove x s) = set s - {x}"
  by (auto simp: bs_remove_def)

lemma bs_wf_Nil [simp]: "bs_wf []"
  by (simp add: bs_wf_def)

lemma bs_wf_insert [simp]: "bs_wf s \<Longrightarrow> bs_wf (bs_insert x s)"
  by (auto simp: bs_wf_def bs_insert_def strict_sorted_iff sorted_insort distinct_insort)

lemma bs_wf_remove [simp]: "bs_wf s \<Longrightarrow> bs_wf (bs_remove x s)"
  by (simp add: bs_wf_def bs_remove_def sorted_wrt_filter)

lemma bs_eqI: "bs_wf s \<Longrightarrow> bs_wf t \<Longrightarrow> set s = set t \<Longrightarrow> s = t"
  by (simp add: bs_wf_def strict_sorted_iff sorted_distinct_set_unique)

end
