(* ===== verification/RustStd.thy ===== *)
theory RustStd
  imports Prelude
begin

text \<open>
  The parts of Rust's standard library the modelled code calls: ASCII classes and string
  operations on \<open>str\<close>, decimal printing and parsing of integers, and \<open>i64\<close> arithmetic as
  the release profile compiles it (overflow wraps; only division traps). Shared facts about
  them: splitting undoes joining, parsing undoes printing.
\<close>

section \<open>Strings\<close>

definition is_alpha :: "char \<Rightarrow> bool" where
  "is_alpha c \<longleftrightarrow> (65 \<le> (of_char c :: nat) \<and> (of_char c :: nat) \<le> 90) \<or>
                 (97 \<le> (of_char c :: nat) \<and> (of_char c :: nat) \<le> 122)"

definition is_digit :: "char \<Rightarrow> bool" where
  "is_digit c \<longleftrightarrow> 48 \<le> (of_char c :: nat) \<and> (of_char c :: nat) \<le> 57"

definition is_alnum :: "char \<Rightarrow> bool" where
  "is_alnum c \<longleftrightarrow> is_alpha c \<or> is_digit c"

definition starts_with :: "string \<Rightarrow> string \<Rightarrow> bool" where
  "starts_with s p \<longleftrightarrow> take (length p) s = p"

definition ends_with :: "string \<Rightarrow> string \<Rightarrow> bool" where
  "ends_with s p \<longleftrightarrow> take (length p) (rev s) = rev p"

fun str_contains :: "string \<Rightarrow> string \<Rightarrow> bool" where
  "str_contains [] p = (p = [])"
| "str_contains (c # s) p = (starts_with (c # s) p \<or> str_contains s p)"

definition trim_start_char :: "char \<Rightarrow> string \<Rightarrow> string" where
  "trim_start_char c s = dropWhile (\<lambda>x. x = c) s"

definition trim_end_char :: "char \<Rightarrow> string \<Rightarrow> string" where
  "trim_end_char c s = rev (dropWhile (\<lambda>x. x = c) (rev s))"

text \<open>\<open>trim_start_matches\<close> with a string pattern removes every leading copy.\<close>

function trim_start_str :: "string \<Rightarrow> string \<Rightarrow> string" where
  "trim_start_str p s = (if p \<noteq> [] \<and> starts_with s p then trim_start_str p (drop (length p) s) else s)"
  by pat_completeness auto
termination
proof (relation "measure (\<lambda>(p, s). length s)")
  fix p s :: string
  assume "p \<noteq> [] \<and> starts_with s p"
  then have "p \<noteq> []" and "s \<noteq> []"
    by (auto simp: starts_with_def)
  then show "((p, drop (length p) s), (p, s)) \<in> measure (\<lambda>(p, s). length s)"
    by simp
qed simp

declare trim_start_str.simps [simp del]

lemma trim_start_str_id: "\<not> starts_with s p \<Longrightarrow> trim_start_str p s = s"
  by (simp add: trim_start_str.simps)

text \<open>\<open>s.split(c)\<close> for a character.\<close>

fun split_char :: "char \<Rightarrow> string \<Rightarrow> string list" where
  "split_char c [] = [[]]"
| "split_char c (x # s) =
     (if x = c then [] # split_char c s
      else case split_char c s of [] \<Rightarrow> [[x]] | p # ps \<Rightarrow> (x # p) # ps)"

text \<open>\<open>s.split("::")\<close>: from the left, without overlaps.\<close>

fun split_cc :: "string \<Rightarrow> string list" where
  "split_cc [] = [[]]"
| "split_cc [c] = [[c]]"
| "split_cc (c # d # s) =
     (if c = CHR '':'' \<and> d = CHR '':'' then [] # split_cc s
      else case split_cc (d # s) of [] \<Rightarrow> [[c]] | p # ps \<Rightarrow> (c # p) # ps)"

text \<open>\<open>v.join(sep)\<close>.\<close>

fun join :: "string \<Rightarrow> string list \<Rightarrow> string" where
  "join sep [] = []"
| "join sep [x] = x"
| "join sep (x # y # xs) = x @ sep @ join sep (y # xs)"

lemma split_cc_nonempty [simp]: "split_cc s \<noteq> []"
  by (induction s rule: split_cc.induct) (auto split: list.splits)

lemma split_char_nonempty [simp]: "split_char c s \<noteq> []"
  by (induction c s rule: split_char.induct) (auto split: list.splits)

lemma split_cc_no_colon: "CHR '':'' \<notin> set s \<Longrightarrow> split_cc s = [s]"
  by (induction s rule: split_cc.induct) auto

lemma split_cc_append:
  "CHR '':'' \<notin> set p \<Longrightarrow> split_cc (p @ ''::'' @ s) = p # split_cc s"
proof (induction p)
  case (Cons c p)
  then show ?case
    by (cases p) auto
qed simp

lemma split_cc_join:
  "ps \<noteq> [] \<Longrightarrow> (\<And>p. p \<in> set ps \<Longrightarrow> CHR '':'' \<notin> set p) \<Longrightarrow> split_cc (join ''::'' ps) = ps"
proof (induction "''::''" ps rule: join.induct)
  case (2 x)
  then show ?case by (simp add: split_cc_no_colon)
next
  case (3 x y xs)
  then have "split_cc (join ''::'' (x # y # xs)) = x # split_cc (join ''::'' (y # xs))"
    using split_cc_append [of x] by simp
  with 3 show ?case by simp
qed simp

section \<open>Decimal integers\<close>

definition digit_char :: "nat \<Rightarrow> char" where
  "digit_char d = char_of (48 + d)"

fun show_nat :: "nat \<Rightarrow> string" where
  "show_nat n = (if n < 10 then [digit_char n] else show_nat (n div 10) @ [digit_char (n mod 10)])"

declare show_nat.simps [simp del]

definition digit_val :: "char \<Rightarrow> nat" where
  "digit_val c = of_char c - 48"

text \<open>The value of a digit string; \<open>None\<close> when it is empty or holds another character.\<close>

definition parse_nat :: "string \<Rightarrow> nat option" where
  "parse_nat s =
     (if s \<noteq> [] \<and> (\<forall>c \<in> set s. is_digit c) then Some (foldl (\<lambda>n c. 10 * n + digit_val c) 0 s)
      else None)"

definition show_i64 :: "i64 \<Rightarrow> string" where
  "show_i64 i = (if sint i < 0 then CHR ''-'' # show_nat (nat (- sint i)) else show_nat (nat (sint i)))"

text \<open>\<open>str::parse::<i64>\<close>: an optional sign, digits, and a range check.\<close>

definition parse_i64 :: "string \<Rightarrow> i64 option" where
  "parse_i64 s =
     (case s of
        [] \<Rightarrow> None
      | c # cs \<Rightarrow>
          if c = CHR ''-'' then
            (case parse_nat cs of
               None \<Rightarrow> None
             | Some n \<Rightarrow> if n \<le> 2 ^ 63 then Some (word_of_int (- int n)) else None)
          else
            (case parse_nat (if c = CHR ''+'' then cs else s) of
               None \<Rightarrow> None
             | Some n \<Rightarrow> if n < 2 ^ 63 then Some (word_of_nat n) else None))"

text \<open>\<open>str::parse::<usize>\<close> on a 64-bit target: an optional \<open>+\<close>, digits, a range check.\<close>

definition parse_usize :: "string \<Rightarrow> nat option" where
  "parse_usize s =
     (case s of
        [] \<Rightarrow> None
      | c # cs \<Rightarrow>
          (case parse_nat (if c = CHR ''+'' then cs else s) of
             None \<Rightarrow> None
           | Some n \<Rightarrow> if n < 2 ^ 64 then Some n else None))"

lemma digit_char_props:
  assumes "d < 10"
  shows "is_digit (digit_char d)" "digit_val (digit_char d) = d"
proof -
  have "(of_char (digit_char d) :: nat) = 48 + d"
    using assms by (simp add: digit_char_def)
  then show "is_digit (digit_char d)" "digit_val (digit_char d) = d"
    using assms by (simp_all add: is_digit_def digit_val_def)
qed

lemma show_nat_digits: "show_nat n \<noteq> [] \<and> (\<forall>c \<in> set (show_nat n). is_digit c)"
proof (induction n rule: show_nat.induct)
  case (1 n)
  then show ?case
    by (subst (1 2) show_nat.simps) (auto simp: digit_char_props)
qed

lemma foldl_show_nat: "foldl (\<lambda>n c. 10 * n + digit_val c) 0 (show_nat n) = n"
proof (induction n rule: show_nat.induct)
  case (1 n)
  then show ?case
    by (subst show_nat.simps) (auto simp: digit_char_props)
qed

lemma parse_show_nat [simp]: "parse_nat (show_nat n) = Some n"
  using show_nat_digits [of n] by (auto simp: parse_nat_def foldl_show_nat)

lemma is_digit_not_sign: "is_digit c \<Longrightarrow> c \<noteq> CHR ''-'' \<and> c \<noteq> CHR ''+'' \<and> c \<noteq> CHR '':''"
  by (auto simp: is_digit_def)

lemma parse_show_usize: "n < 2 ^ 64 \<Longrightarrow> parse_usize (show_nat n) = Some n"
proof -
  assume n: "n < 2 ^ 64"
  obtain c cs where s: "show_nat n = c # cs" and c: "is_digit c"
    using show_nat_digits [of n] by (cases "show_nat n") auto
  have "parse_nat (c # cs) = Some n"
    using parse_show_nat [of n] by (simp add: s)
  with n s show ?thesis
    using is_digit_not_sign [OF c] by (simp add: parse_usize_def)
qed

lemma parse_show_i64: "parse_i64 (show_i64 i) = Some i"
proof (cases "sint i < 0")
  case True
  have "- sint i \<le> 2 ^ 63"
    using sint_ge [of i] by simp
  then have "nat (- sint i) \<le> 2 ^ 63" by simp
  with True show ?thesis
    by (simp add: parse_i64_def show_i64_def)
next
  case False
  have "sint i < 2 ^ 63"
    using sint_lt [of i] by simp
  with False have lt: "nat (sint i) < 2 ^ 63" by simp
  obtain c cs where s: "show_nat (nat (sint i)) = c # cs" and c: "is_digit c"
    using show_nat_digits [of "nat (sint i)"] by (cases "show_nat (nat (sint i))") auto
  have "parse_nat (c # cs) = Some (nat (sint i))"
    using parse_show_nat [of "nat (sint i)"] by (simp add: s)
  moreover have "(word_of_nat (nat (sint i)) :: i64) = i"
    using False by (simp add: of_nat_nat)
  ultimately show ?thesis
    using False s lt is_digit_not_sign [OF c]
    by (simp add: parse_i64_def show_i64_def)
qed

section \<open>Signed 64-bit arithmetic\<close>

definition i64_min :: i64 where
  "i64_min = word_of_int (- (2 ^ 63))"

definition trunc_div :: "int \<Rightarrow> int \<Rightarrow> int" where
  "trunc_div a b = sgn a * sgn b * (\<bar>a\<bar> div \<bar>b\<bar>)"

definition trunc_rem :: "int \<Rightarrow> int \<Rightarrow> int" where
  "trunc_rem a b = a - b * trunc_div a b"

text \<open>
  \<open>/\<close> and \<open>%\<close> panic on a zero divisor and on \<open>i64::MIN / -1\<close>, in every profile: \<open>None\<close>.
\<close>

definition i64_div :: "i64 \<Rightarrow> i64 \<Rightarrow> i64 option" where
  "i64_div a b = (if b = 0 \<or> a = i64_min \<and> b = - 1 then None
                  else Some (word_of_int (trunc_div (sint a) (sint b))))"

definition i64_rem :: "i64 \<Rightarrow> i64 \<Rightarrow> i64 option" where
  "i64_rem a b = (if b = 0 \<or> a = i64_min \<and> b = - 1 then None
                  else Some (word_of_int (trunc_rem (sint a) (sint b))))"

definition i64_abs :: "i64 \<Rightarrow> i64" where
  "i64_abs a = (if sint a < 0 then - a else a)"

definition i64_le :: "i64 \<Rightarrow> i64 \<Rightarrow> bool" where
  "i64_le a b \<longleftrightarrow> sint a \<le> sint b"

definition i64_lt :: "i64 \<Rightarrow> i64 \<Rightarrow> bool" where
  "i64_lt a b \<longleftrightarrow> sint a < sint b"

text \<open>\<open>as u8\<close>, \<open>as u16\<close>, \<open>as u32\<close> keep the low bits; \<open>u16 as i64\<close> extends with zeros.\<close>

definition i64_to_u8 :: "i64 \<Rightarrow> u8" where "i64_to_u8 i = ucast i"
definition i64_to_u16 :: "i64 \<Rightarrow> u16" where "i64_to_u16 i = ucast i"
definition i64_to_u32 :: "i64 \<Rightarrow> nat" where "i64_to_u32 i = unat (ucast i :: 32 word)"
definition u8_to_i64 :: "u8 \<Rightarrow> i64" where "u8_to_i64 i = ucast i"
definition u16_to_i64 :: "u16 \<Rightarrow> i64" where "u16_to_i64 i = ucast i"
definition usize_to_i64 :: "nat \<Rightarrow> i64" where "usize_to_i64 n = word_of_nat n"

lemma trunc_div_rem: "b \<noteq> 0 \<Longrightarrow> trunc_div a b * b + trunc_rem a b = a"
  by (simp add: trunc_rem_def algebra_simps)

lemma u16_roundtrip: "i64_to_u16 (u16_to_i64 p) = p"
  by (simp add: i64_to_u16_def u16_to_i64_def ucast_down_ucast_id is_down_def target_size source_size
      word_size)

end
