(* ===== verification/Labels.thy ===== *)
theory Labels
  imports RustStd
begin

text \<open>
  \<open>armour-lang/src/labels.rs\<close>: the nodes and labels that name services and hosts, their
  printing and parsing, and the matching of one label (the pattern) against another. Rust's
  derived \<open>Ord\<close> on nodes is the \<open>linorder\<close> instance, its order on labels the
  lexicographic order of lists; Rust's \<open>PartialEq\<close> on labels is \<open>label_eq\<close> (each matches
  the other), not equality of the node lists.
\<close>

section \<open>Nodes\<close>

datatype node = Any string | RecAny string | Str string

fun node_rank :: "node \<Rightarrow> nat \<times> string" where
  "node_rank (Any s) = (0, s)"
| "node_rank (RecAny s) = (1, s)"
| "node_rank (Str s) = (2, s)"

text \<open>The derived order: the variant first, then its string.\<close>

instantiation node :: linorder
begin

definition less_eq_node :: "node \<Rightarrow> node \<Rightarrow> bool" where
  "less_eq_node a b \<longleftrightarrow> fst (node_rank a) < fst (node_rank b) \<or>
     fst (node_rank a) = fst (node_rank b) \<and> snd (node_rank a) \<le> snd (node_rank b)"

definition less_node :: "node \<Rightarrow> node \<Rightarrow> bool" where
  "less_node a b \<longleftrightarrow> fst (node_rank a) < fst (node_rank b) \<or>
     fst (node_rank a) = fst (node_rank b) \<and> snd (node_rank a) < snd (node_rank b)"

instance
proof
  fix a b :: node
  assume "a \<le> b" "b \<le> a"
  then show "a = b"
    by (cases a; cases b) (auto simp: less_eq_node_def)
qed (auto simp: less_eq_node_def less_node_def)

end

fun show_node :: "node \<Rightarrow> string" where
  "show_node (Any s) = (if s = [] then ''*'' else ''<'' @ s @ ''>'')"
| "show_node (RecAny s) = (if s = [] then ''**'' else ''<<'' @ s @ ''>>'')"
| "show_node (Str s) = s"

text \<open>The three regular expressions of \<open>NODE_ANY\<close>, \<open>NODE_REC_ANY\<close> and \<open>NODE_STR\<close>.\<close>

definition is_var_name :: "string \<Rightarrow> bool" where
  "is_var_name s = (case s of [] \<Rightarrow> False | c # cs \<Rightarrow> is_alpha c \<and> list_all is_alnum cs)"

definition node_any_re :: "string \<Rightarrow> bool" where
  "node_any_re s = (length s \<ge> 2 \<and> hd s = CHR ''<'' \<and> last s = CHR ''>'' \<and>
                    is_var_name (butlast (tl s)))"

definition node_rec_any_re :: "string \<Rightarrow> bool" where
  "node_rec_any_re s = (length s \<ge> 4 \<and> take 2 s = ''<<'' \<and> drop (length s - 2) s = ''>>'' \<and>
                        is_var_name (butlast (butlast (drop 2 s))))"

definition is_sep :: "char \<Rightarrow> bool" where
  "is_sep c \<longleftrightarrow> c = CHR '' '' \<or> c = CHR ''_'' \<or> c = CHR ''+'' \<or> c = CHR ''-''"

fun node_str_tail :: "string \<Rightarrow> bool" where
  "node_str_tail [] = True"
| "node_str_tail [c] = is_alnum c"
| "node_str_tail (c # d # s) =
     (if is_alnum c then node_str_tail (d # s) else is_sep c \<and> is_alnum d \<and> node_str_tail s)"

definition node_str_re :: "string \<Rightarrow> bool" where
  "node_str_re s = (case s of [] \<Rightarrow> False | c # cs \<Rightarrow> is_alnum c \<and> node_str_tail cs)"

definition strip_angles :: "string \<Rightarrow> string" where
  "strip_angles s = trim_end_char (CHR ''>'') (trim_start_char (CHR ''<'') s)"

definition parse_node :: "string \<Rightarrow> node result" where
  "parse_node s =
     (if s = ''*'' then Inr (Any [])
      else if s = ''**'' then Inr (RecAny [])
      else if node_any_re s then Inr (Any (strip_angles s))
      else if node_rec_any_re s then Inr (RecAny (strip_angles s))
      else if node_str_re s then Inr (Str s)
      else Inl (ErrorFmt ''bad label: {}'' [s]))"

datatype match_node = Mismatch | Match | MapTo string node | MapRec string node

fun node_match_with :: "node \<Rightarrow> node \<Rightarrow> match_node" where
  "node_match_with (Str x) (Str y) = (if x = y then Match else Mismatch)"
| "node_match_with (Str x) l = Mismatch"
| "node_match_with (Any x) l = (if x \<noteq> [] then MapTo x l else Match)"
| "node_match_with (RecAny x) l = (if x \<noteq> [] then MapRec x l else Match)"

fun get_str :: "node \<Rightarrow> string option" where
  "get_str (Str s) = Some s"
| "get_str _ = None"

fun get_any :: "node \<Rightarrow> string option" where
  "get_any (Any s) = (if s \<noteq> [] then Some s else None)"
| "get_any (RecAny s) = (if s \<noteq> [] then Some s else None)"
| "get_any (Str s) = None"

section \<open>Labels\<close>

type_synonym label = "node list"
type_synonym label_match = "(string \<times> label) list"

definition show_label :: "label \<Rightarrow> string" where
  "show_label l = join ''::'' (map show_node l)"

definition parse_label :: "string \<Rightarrow> label result" where
  "parse_label s = map_res parse_node (split_cc s)"

definition label_try_from :: "string list \<Rightarrow> label result" where
  "label_try_from ss = map_res parse_node ss"

definition label_concat :: "label \<Rightarrow> label \<Rightarrow> label" where
  "label_concat l1 l2 = l1 @ l2"

definition label_prefix :: "label \<Rightarrow> string \<Rightarrow> label" where
  "label_prefix l s = Str s # l"

definition label_push :: "label \<Rightarrow> node \<Rightarrow> label" where
  "label_push l n = l @ [n]"

definition label_len :: "label \<Rightarrow> nat" where
  "label_len l = length l"

definition label_get :: "label \<Rightarrow> nat \<Rightarrow> node option" where
  "label_get l i = (if i < length l then Some (l ! i) else None)"

definition label_get_string :: "label \<Rightarrow> nat \<Rightarrow> string option" where
  "label_get_string l i = (case label_get l i of Some (Str s) \<Rightarrow> Some s | _ \<Rightarrow> None)"

definition label_parts :: "label \<Rightarrow> string list option" where
  "label_parts l = map_opt get_str l"

definition label_vars :: "label \<Rightarrow> string list" where
  "label_vars l = List.map_filter get_any l"

definition split_first :: "label \<Rightarrow> (label \<times> label option) option" where
  "split_first l =
     (case l of [] \<Rightarrow> None
      | n # rest \<Rightarrow> Some ([n], if rest = [] then None else Some rest))"

section \<open>Matching\<close>

text \<open>The pattern, lengthened when its last node is \<open>**\<close> or \<open><<y>>\<close>.\<close>

definition extend_pattern :: "label \<Rightarrow> label \<Rightarrow> label" where
  "extend_pattern p l =
     (case rev p of
        RecAny y # _ \<Rightarrow> p @ replicate (length l - length p) (RecAny y)
      | _ \<Rightarrow> p)"

text \<open>
  The loop over the zipped nodes. \<open>eqv\<close> is the equality of labels the loop uses when a
  variable is bound twice.
\<close>

fun match_loop :: "(label \<Rightarrow> label \<Rightarrow> bool) \<Rightarrow> label_match \<Rightarrow> (node \<times> node) list \<Rightarrow> label_match option" where
  "match_loop eqv m [] = Some m"
| "match_loop eqv m ((pat, n) # rest) =
     (case node_match_with pat n of
        MapTo l r \<Rightarrow>
          (case bt_get l m of
             Some other \<Rightarrow> if \<not> eqv other [r] then None else match_loop eqv (bt_insert l [r] m) rest
           | None \<Rightarrow> match_loop eqv (bt_insert l [r] m) rest)
      | MapRec l r \<Rightarrow>
          (case bt_get l m of
             None \<Rightarrow> match_loop eqv (bt_insert l [r] m) rest
           | Some x \<Rightarrow> match_loop eqv (bt_insert l (x @ [r]) m) rest)
      | Match \<Rightarrow> match_loop eqv m rest
      | Mismatch \<Rightarrow> None)"

definition match_gen :: "(label \<Rightarrow> label \<Rightarrow> bool) \<Rightarrow> label \<Rightarrow> label \<Rightarrow> label_match option" where
  "match_gen eqv p l =
     (let pattern = extend_pattern p l in
      if length pattern \<noteq> length l then None else match_loop eqv [] (zip pattern l))"

text \<open>
  \<open>match_with\<close> and \<open>==\<close> call each other. The recursion is two deep: the labels compared
  inside a match are bound values, and comparing those binds no variable twice.
  \<open>match_depth\<close> bounds the depth; \<open>match_with_unfold\<close> below shows that the bound is immaterial.
\<close>

fun match_depth :: "nat \<Rightarrow> label \<Rightarrow> label \<Rightarrow> label_match option" where
  "match_depth 0 = match_gen (\<lambda>_ _. False)"
| "match_depth (Suc n) = match_gen (\<lambda>a b. match_depth n a b \<noteq> None \<and> match_depth n b a \<noteq> None)"

definition match_with :: "label \<Rightarrow> label \<Rightarrow> label_match option" where
  "match_with = match_depth 1"

definition matches_with :: "label \<Rightarrow> label \<Rightarrow> bool" where
  "matches_with p l \<longleftrightarrow> match_with p l \<noteq> None"

definition label_eq :: "label \<Rightarrow> label \<Rightarrow> bool" where
  "label_eq a b \<longleftrightarrow> matches_with a b \<and> matches_with b a"

definition match_get_label :: "label_match \<Rightarrow> string \<Rightarrow> label option" where
  "match_get_label m s = bt_get s m"

definition match_get :: "label_match \<Rightarrow> string \<Rightarrow> string option" where
  "match_get m s = map_option show_label (match_get_label m s)"

definition match_pairs :: "label_match \<Rightarrow> (string \<times> string) list" where
  "match_pairs m = map (\<lambda>(k, v). (k, show_label v)) m"

definition show_match :: "label_match \<Rightarrow> string" where
  "show_match m = join ''; '' (map (\<lambda>(k, v). ''<'' @ k @ ''> |-> '' @ show_label v) m)"

section \<open>Login times\<close>

definition login_time :: "i64 \<Rightarrow> label" where
  "login_time t = [Str ''ControlPlane'', Str ''LoginTime'', Str (show_i64 t)]"

definition is_login_time :: "label \<Rightarrow> bool" where
  "is_login_time l \<longleftrightarrow> length l = 3 \<and> l ! 0 = Str ''ControlPlane'' \<and> l ! 1 = Str ''LoginTime''"

text \<open>
  Indexing past the end and a failed \<open>unwrap\<close> panic: the outer \<open>None\<close>.
\<close>

definition get_login_time :: "label \<Rightarrow> i64 option option" where
  "get_login_time l =
     (if is_login_time l then
        (if 3 < length l then
           (case l ! 3 of
              Str s \<Rightarrow> (case parse_i64 s of None \<Rightarrow> None | Some i \<Rightarrow> Some (Some i))
            | _ \<Rightarrow> Some None)
         else None)
      else Some None)"

section \<open>The recursion of matching and equality\<close>

text \<open>The loop compares a bound value only with a label of one node.\<close>

lemma match_loop_eqv_cong:
  "(\<And>x r. e x [r] = e' x [r]) \<Longrightarrow> match_loop e m z = match_loop e' m z"
proof (induction e m z rule: match_loop.induct)
  case (2 eqv m pat n rest)
  then show ?case
    by (simp split: match_node.splits option.splits)
qed simp

lemma match_gen_single_right: "match_gen e x [r] = match_gen e' x [r]"
proof (cases "extend_pattern x [r]")
  case (Cons a q)
  then show ?thesis
    by (cases q; cases a) (auto simp: match_gen_def split: match_node.splits)
qed (simp add: match_gen_def)

lemma match_loop_rec_any:
  "(\<forall>a \<in> set z. fst a = RecAny y) \<Longrightarrow> match_loop e m z = match_loop e' m z"
proof (induction e m z rule: match_loop.induct)
  case (2 eqv m pat n rest)
  then show ?case
    by (auto split: option.splits)
qed simp

lemma match_gen_single_left: "match_gen e [r] x = match_gen e' [r] x"
proof (cases r)
  case (RecAny y)
  have "set (zip (extend_pattern [RecAny y] x) x) \<subseteq> {RecAny y} \<times> UNIV"
    by (auto simp: extend_pattern_def dest!: set_zip_leftD)
  then have "match_loop e [] (zip (extend_pattern [RecAny y] x) x) =
             match_loop e' [] (zip (extend_pattern [RecAny y] x) x)"
    by (intro match_loop_rec_any [where y = y]) auto
  with RecAny show ?thesis
    by (simp add: match_gen_def Let_def)
next
  case (Any y)
  then show ?thesis
    by (cases x) (auto simp: match_gen_def extend_pattern_def)
next
  case (Str y)
  then show ?thesis
    by (cases x; cases "hd x") (auto simp: match_gen_def extend_pattern_def)
qed

lemma match_depth_single:
  "match_depth n x [r] = match_gen e x [r]" "match_depth n [r] x = match_gen e [r] x"
  by (cases n; simp only: match_depth.simps; rule match_gen_single_right match_gen_single_left)+

lemma match_gen_eqv_cong: "(\<And>x r. e x [r] = e' x [r]) \<Longrightarrow> match_gen e p l = match_gen e' p l"
  unfolding match_gen_def Let_def by (simp only: match_loop_eqv_cong [of e e'])

lemma match_depth_stable: "match_depth (Suc n) p l = match_with p l"
  unfolding match_with_def One_nat_def match_depth.simps(2)
  by (rule match_gen_eqv_cong) (simp only: match_depth_single [where e = "\<lambda>_ _. False"])

lemma match_with_unfold: "match_with p l = match_gen label_eq p l"
proof -
  have "match_with p l = match_depth (Suc 1) p l"
    by (simp only: match_depth_stable)
  also have "\<dots> = match_gen label_eq p l"
    unfolding match_depth.simps(2)
    by (rule match_gen_eqv_cong) (simp only: label_eq_def matches_with_def match_with_def)
  finally show ?thesis .
qed

section \<open>Matching against concrete labels\<close>

text \<open>
  A label without variables or wildcards, such as a registered service label. The abstract
  meaning of a pattern without \<open>**\<close>: some assignment of nodes to its variables makes the
  label an instance of it.
\<close>

definition concrete :: "label \<Rightarrow> bool" where
  "concrete l \<longleftrightarrow> (\<forall>n \<in> set l. \<exists>s. n = Str s)"

definition no_rec_any :: "label \<Rightarrow> bool" where
  "no_rec_any l \<longleftrightarrow> (\<forall>n \<in> set l. \<forall>y. n \<noteq> RecAny y)"

fun node_instance :: "(string \<Rightarrow> label option) \<Rightarrow> node \<Rightarrow> node \<Rightarrow> bool" where
  "node_instance \<sigma> (Str s) n = (n = Str s)"
| "node_instance \<sigma> (Any x) n = (x = [] \<or> \<sigma> x = Some [n])"
| "node_instance \<sigma> (RecAny x) n = False"

definition label_instance :: "(string \<Rightarrow> label option) \<Rightarrow> label \<Rightarrow> label \<Rightarrow> bool" where
  "label_instance \<sigma> p l \<longleftrightarrow> list_all2 (node_instance \<sigma>) p l"

lemma extend_pattern_no_rec [simp]: "no_rec_any p \<Longrightarrow> extend_pattern p l = p"
  by (cases p rule: rev_cases) (auto simp: extend_pattern_def no_rec_any_def split: node.splits)

lemma label_eq_single_Str [simp]: "label_eq [Str a] [Str b] = (a = b)"
  by (auto simp: label_eq_def matches_with_def match_with_def match_gen_def extend_pattern_def)

definition str_values :: "label_match \<Rightarrow> bool" where
  "str_values m \<longleftrightarrow> (\<forall>x v. bt_get x m = Some v \<longrightarrow> (\<exists>s. v = [Str s]))"

lemma str_values_Nil [simp]: "str_values []"
  by (simp add: str_values_def)

lemma str_values_insert [simp]: "str_values m \<Longrightarrow> str_values (bt_insert x [Str s] m)"
  by (simp add: str_values_def)

text \<open>The loop keeps what it has bound and makes every node an instance.\<close>

lemma match_loop_sound:
  assumes "match_loop label_eq m z = Some m'" and "str_values m"
    and "no_rec_any (map fst z)" and "concrete (map snd z)"
  shows "(\<forall>x v. bt_get x m = Some v \<longrightarrow> bt_get x m' = Some v) \<and>
         list_all (\<lambda>(a, b). node_instance (\<lambda>x. bt_get x m') a b) z"
  using assms
proof (induction z arbitrary: m)
  case (Cons ab z)
  obtain a s where ab: "ab = (a, Str s)"
    using Cons.prems(4) by (cases ab) (auto simp: concrete_def)
  have z: "no_rec_any (map fst z)" "concrete (map snd z)"
    using Cons.prems(3,4) by (auto simp: concrete_def no_rec_any_def)
  show ?case
  proof (cases a)
    case (Str t)
    with Cons.prems ab z show ?thesis
      by (auto simp: dest!: Cons.IH split: if_splits)
  next
    case (Any x)
    show ?thesis
    proof (cases "x = []")
      case True
      with Any Cons.prems ab z show ?thesis
        by (auto dest!: Cons.IH)
    next
      case False
      have one: "v = [Str s]" if v: "bt_get x m = Some v" and e: "label_eq v [Str s]" for v
      proof -
        obtain t where "v = [Str t]"
          using v Cons.prems(2) by (auto simp: str_values_def)
        with e show ?thesis by simp
      qed
      from False Any Cons.prems ab one have m: "match_loop label_eq (bt_insert x [Str s] m) z = Some m'"
        and eq: "bt_get x m = None \<or> bt_get x m = Some [Str s]"
        by (auto split: option.splits if_splits)
      have *: "(\<forall>y v. bt_get y (bt_insert x [Str s] m) = Some v \<longrightarrow> bt_get y m' = Some v) \<and>
         list_all (\<lambda>(a, b). node_instance (\<lambda>x. bt_get x m') a b) z"
        using m z Cons.prems(2) by (intro Cons.IH) simp_all
      then have "bt_get x m' = Some [Str s]" by simp
      moreover have "bt_get y m = Some v \<longrightarrow> bt_get y m' = Some v" for y v
        using * eq by (cases "y = x") auto
      ultimately show ?thesis
        using * ab Any by simp
    qed
  next
    case (RecAny x)
    with Cons.prems(3) ab show ?thesis by (simp add: no_rec_any_def)
  qed
qed simp

text \<open>If an assignment agrees with what is bound and makes every node an instance, the loop succeeds.\<close>

lemma match_loop_complete:
  assumes "list_all (\<lambda>(a, b). node_instance \<sigma> a b) z" and "concrete (map snd z)"
    and "\<And>x v. bt_get x m = Some v \<Longrightarrow> \<sigma> x = Some v" and "str_values m"
  shows "match_loop label_eq m z \<noteq> None"
  using assms
proof (induction z arbitrary: m)
  case (Cons ab z)
  obtain a s where ab: "ab = (a, Str s)"
    using Cons.prems(2) by (cases ab) (auto simp: concrete_def)
  have z: "concrete (map snd z)" "list_all (\<lambda>(a, b). node_instance \<sigma> a b) z"
    using Cons.prems(1,2) by (auto simp: concrete_def)
  show ?case
  proof (cases a)
    case (Any x)
    show ?thesis
    proof (cases "x = []")
      case False
      then have \<sigma>: "\<sigma> x = Some [Str s]"
        using Cons.prems(1) ab Any by simp
      then have "bt_get x m = None \<or> bt_get x m = Some [Str s]"
        using Cons.prems(3) [of x] by (cases "bt_get x m") auto
      moreover have "match_loop label_eq (bt_insert x [Str s] m) z \<noteq> None"
        using z Cons.prems(3,4) \<sigma> by (intro Cons.IH) (auto split: if_splits)
      ultimately show ?thesis
        using ab Any False by auto
    qed (use Cons z ab Any in auto)
  qed (use Cons z ab in auto)
qed simp

lemma match_with_instance:
  assumes "no_rec_any p" and "concrete l"
  shows "(\<forall>m. match_with p l = Some m \<longrightarrow> label_instance (\<lambda>x. bt_get x m) p l) \<and>
         (matches_with p l \<longleftrightarrow> (\<exists>\<sigma>. label_instance \<sigma> p l))"
proof -
  have sound: "label_instance (\<lambda>x. bt_get x m) p l" if "match_with p l = Some m" for m
  proof -
    have len: "length p = length l" and loop: "match_loop label_eq [] (zip p l) = Some m"
      using that assms(1)
      by (auto simp: match_with_unfold match_gen_def split: if_splits)
    have "list_all (\<lambda>(a, b). node_instance (\<lambda>x. bt_get x m) a b) (zip p l)"
      using match_loop_sound [OF loop str_values_Nil] assms len by simp
    then show ?thesis
      using len by (simp add: label_instance_def list_all2_iff list_all_iff)
  qed
  have complete: "matches_with p l" if "label_instance \<sigma> p l" for \<sigma>
  proof -
    have len: "length p = length l" and inst: "list_all (\<lambda>(a, b). node_instance \<sigma> a b) (zip p l)"
      using that by (auto simp: label_instance_def list_all2_iff list_all_iff)
    have "match_loop label_eq [] (zip p l) \<noteq> None"
      using inst assms(2) len by (intro match_loop_complete [where \<sigma> = \<sigma>]) simp_all
    then show ?thesis
      using assms(1) len by (simp add: matches_with_def match_with_unfold match_gen_def)
  qed
  show ?thesis
    using sound complete by (auto simp: matches_with_def)
qed

lemma label_instance_concrete: "concrete p \<Longrightarrow> label_instance \<sigma> p l = (l = p)"
proof (induction p arbitrary: l)
  case (Cons a p)
  then obtain s where "a = Str s" and "concrete p" by (auto simp: concrete_def)
  with Cons.IH show ?case
    by (cases l) (auto simp: label_instance_def)
qed (simp add: label_instance_def)

lemma concrete_no_rec [simp]: "concrete l \<Longrightarrow> no_rec_any l"
  by (auto simp: concrete_def no_rec_any_def)

lemma label_eq_concrete: "concrete a \<Longrightarrow> concrete b \<Longrightarrow> label_eq a b = (a = b)"
  using match_with_instance [of a b] match_with_instance [of b a]
  by (auto simp: label_eq_def label_instance_concrete)

section \<open>A trailing wildcard\<close>

lemma match_loop_append:
  "match_loop e m (y @ z) = (case match_loop e m y of None \<Rightarrow> None | Some m' \<Rightarrow> match_loop e m' z)"
  by (induction e m y rule: match_loop.induct) (auto split: match_node.splits option.splits)

lemma match_loop_wild: "(\<forall>a \<in> set z. fst a = RecAny []) \<Longrightarrow> match_loop e m z = Some m"
  by (induction z arbitrary: m) auto

lemma match_loop_capture:
  assumes "y \<noteq> []" and "k = length l"
  shows "match_loop e m (zip (replicate k (RecAny y)) l) =
     Some (if l = [] then m
           else bt_insert y ((case bt_get y m of None \<Rightarrow> [] | Some x \<Rightarrow> x) @ l) m)"
  using assms
proof (induction l arbitrary: m k)
  case (Cons n l)
  have ins: "bt_insert y v (bt_insert y w m) = bt_insert y v m" for v w m
    by (induction m) auto
  from Cons show ?case
    by (cases "bt_get y m") (simp_all add: ins)
qed simp

lemma match_loop_frame:
  "match_loop e m z = Some m' \<Longrightarrow> \<forall>a \<in> set z. get_any (fst a) \<noteq> Some y \<Longrightarrow> bt_get y m' = bt_get y m"
proof (induction e m z rule: match_loop.induct)
  case (2 eqv m pat n rest)
  then show ?case
    by (cases pat; cases n) (auto split: if_splits option.splits)
qed simp

lemma extend_pattern_snoc:
  "extend_pattern (q @ [RecAny y]) l = q @ RecAny y # replicate (length l - Suc (length q)) (RecAny y)"
  by (simp add: extend_pattern_def)

lemma match_with_snoc:
  "match_with (q @ [RecAny y]) l =
     (if length q < length l then
        (case match_loop label_eq [] (zip q (take (length q) l)) of
           None \<Rightarrow> None
         | Some m \<Rightarrow> match_loop label_eq m
                       (zip (replicate (length l - length q) (RecAny y)) (drop (length q) l)))
      else None)"
proof (cases "length q < length l")
  case True
  define k where "k = length l - Suc (length q)"
  have k: "length l - length q = Suc k" "Suc (length q + k) = length l"
    using True by (simp_all add: k_def)
  have "zip (q @ RecAny y # replicate k (RecAny y)) l =
        zip q (take (length q) l) @ zip (replicate (Suc k) (RecAny y)) (drop (length q) l)"
    by (simp add: zip_append1)
  then show ?thesis
    using True k
    by (simp add: match_with_unfold match_gen_def extend_pattern_snoc match_loop_append k_def [symmetric]
        del: replicate_Suc split: option.split)
qed (auto simp: match_with_unfold match_gen_def extend_pattern_snoc)

lemma matches_with_wild:
  assumes "no_rec_any q"
  shows "matches_with (q @ [RecAny []]) l \<longleftrightarrow>
         length q < length l \<and> matches_with q (take (length q) l)"
proof -
  have "match_loop label_eq m (zip (replicate k (RecAny [])) r) = Some m" for m k r
    by (rule match_loop_wild) (auto dest!: set_zip_leftD)
  then show ?thesis
    using assms
    by (auto simp: matches_with_def match_with_snoc match_with_unfold [of q] match_gen_def
        split: option.splits)
qed

lemma match_with_tail:
  assumes "y \<noteq> []" and "y \<notin> set (label_vars q)"
    and "match_with (q @ [RecAny y]) l = Some m"
  shows "length q < length l \<and> bt_get y m = Some (drop (length q) l)"
proof -
  obtain m' where len: "length q < length l"
    and q: "match_loop label_eq [] (zip q (take (length q) l)) = Some m'"
    and r: "match_loop label_eq m' (zip (replicate (length l - length q) (RecAny y))
              (drop (length q) l)) = Some m"
    using assms(3) by (auto simp: match_with_snoc split: if_splits option.splits)
  have "get_any a \<noteq> Some y" if "a \<in> set q" for a
    using that assms(2) by (force simp: label_vars_def List.map_filter_def image_iff)
  then have "\<forall>a \<in> set (zip q (take (length q) l)). get_any (fst a) \<noteq> Some y"
    by (auto dest: set_zip_leftD)
  then have "bt_get y m' = None"
    using match_loop_frame [OF q, of y] by simp
  with r len assms(1) show ?thesis
    by (auto simp: match_loop_capture)
qed

section \<open>Equality is not reflexive\<close>

text \<open>
  A repeated \<open><<a>>\<close> followed by \<open><a>\<close> binds \<open>a\<close> to two nodes and then to one, so the label
  does not match itself.
\<close>

lemma label_eq_not_refl:
  "\<not> label_eq [RecAny ''a'', RecAny ''a'', Any ''a''] [RecAny ''a'', RecAny ''a'', Any ''a'']"
  by (simp add: label_eq_def matches_with_def match_with_def match_gen_def extend_pattern_def)

section \<open>Printing and parsing\<close>

fun wf_node :: "node \<Rightarrow> bool" where
  "wf_node (Any s) \<longleftrightarrow> s = [] \<or> is_var_name s"
| "wf_node (RecAny s) \<longleftrightarrow> s = [] \<or> is_var_name s"
| "wf_node (Str s) \<longleftrightarrow> node_str_re s"

lemma alnum_not_special:
  "is_alnum c \<Longrightarrow> c \<noteq> CHR ''<'' \<and> c \<noteq> CHR ''>'' \<and> c \<noteq> CHR '':'' \<and> c \<noteq> CHR ''*''"
  by (auto simp: is_alnum_def is_alpha_def is_digit_def)

lemma var_name_alnum: "is_var_name s \<Longrightarrow> s \<noteq> [] \<and> (\<forall>c \<in> set s. is_alnum c)"
  by (auto simp: is_var_name_def is_alnum_def list_all_iff split: list.splits)

lemma var_name_not_special: "is_var_name s \<Longrightarrow> c \<in> set s \<Longrightarrow>
    c \<noteq> CHR ''<'' \<and> c \<noteq> CHR ''>'' \<and> c \<noteq> CHR '':'' \<and> c \<noteq> CHR ''*''"
  using var_name_alnum alnum_not_special by blast

lemma node_str_tail_chars: "node_str_tail s \<Longrightarrow> c \<in> set s \<Longrightarrow> is_alnum c \<or> is_sep c"
  by (induction s rule: node_str_tail.induct) (auto split: if_splits)

lemma node_str_not_special: "node_str_re s \<Longrightarrow> c \<in> set s \<Longrightarrow>
    c \<noteq> CHR ''<'' \<and> c \<noteq> CHR ''>'' \<and> c \<noteq> CHR '':'' \<and> c \<noteq> CHR ''*''"
  using node_str_tail_chars [of "tl s" c] alnum_not_special [of c]
  by (cases s) (auto simp: node_str_re_def is_sep_def)

lemma dropWhile_none: "(\<And>c. c \<in> set s \<Longrightarrow> c \<noteq> x) \<Longrightarrow> dropWhile (\<lambda>c. c = x) s = s"
  by (cases s) auto

lemma strip_angles_one:
  "is_var_name s \<Longrightarrow> strip_angles (CHR ''<'' # s @ ''>'') = s"
  "is_var_name s \<Longrightarrow> strip_angles (CHR ''<'' # CHR ''<'' # s @ ''>>'') = s"
proof -
  assume s: "is_var_name s"
  then obtain c cs where c: "s = c # cs" and "c \<noteq> CHR ''<''"
    using var_name_not_special [OF s, of "hd s"] by (cases s) (auto simp: is_var_name_def)
  moreover have "dropWhile (\<lambda>c. c = CHR ''>'') (rev s) = rev s"
    using var_name_not_special [OF s] by (intro dropWhile_none) auto
  ultimately show "strip_angles (CHR ''<'' # s @ ''>'') = s"
    and "strip_angles (CHR ''<'' # CHR ''<'' # s @ ''>>'') = s"
    by (simp_all add: strip_angles_def trim_end_char_def trim_start_char_def)
qed

lemma node_any_re_iff: "node_any_re s \<longleftrightarrow> (\<exists>v. is_var_name v \<and> s = CHR ''<'' # v @ ''>'')"
proof
  assume re: "node_any_re s"
  then obtain t where s: "s = CHR ''<'' # t" and "t \<noteq> []" and "last t = CHR ''>''"
    and v: "is_var_name (butlast t)"
    by (cases s) (auto simp: node_any_re_def split: if_splits)
  then have "t = butlast t @ ''>''"
    by (metis append_butlast_last_id)
  with s v show "\<exists>v. is_var_name v \<and> s = CHR ''<'' # v @ ''>''" by blast
next
  assume "\<exists>v. is_var_name v \<and> s = CHR ''<'' # v @ ''>''"
  then show "node_any_re s"
    by (auto simp: node_any_re_def butlast_append)
qed

lemma node_rec_any_re_iff:
  "node_rec_any_re s \<longleftrightarrow> (\<exists>v. is_var_name v \<and> s = CHR ''<'' # CHR ''<'' # v @ ''>>'')"
proof
  assume re: "node_rec_any_re s"
  then obtain t where s: "s = CHR ''<'' # CHR ''<'' # t" and len: "2 \<le> length t"
    and v: "is_var_name (butlast (butlast t))"
    by (cases s; cases "tl s") (auto simp: node_rec_any_re_def numeral_2_eq_2)
  have "drop (length s - 2) s = drop (length t - 2) t"
  proof -
    obtain k where "length t = Suc (Suc k)"
      using len by (metis add_2_eq_Suc le_Suc_ex)
    then show ?thesis using s by simp
  qed
  then have e: "drop (length t - 2) t = ''>>''"
    using re by (simp add: node_rec_any_re_def)
  have "butlast (butlast t) = take (length t - 2) t"
    by (simp add: butlast_conv_take numeral_2_eq_2)
  then have "t = butlast (butlast t) @ ''>>''"
    using e by (metis append_take_drop_id)
  with s v show "\<exists>v. is_var_name v \<and> s = CHR ''<'' # CHR ''<'' # v @ ''>>''" by blast
next
  assume "\<exists>v. is_var_name v \<and> s = CHR ''<'' # CHR ''<'' # v @ ''>>''"
  then show "node_rec_any_re s"
    by (auto simp: node_rec_any_re_def butlast_append numeral_2_eq_2)
qed

lemma var_name_head: "is_var_name (c # s) \<Longrightarrow> c \<noteq> CHR ''<''"
  using var_name_not_special [of "c # s" c] by simp

lemma parse_node_iff: "parse_node s = Inr n \<longleftrightarrow> wf_node n \<and> show_node n = s"
proof
  assume p: "parse_node s = Inr n"
  then show "wf_node n \<and> show_node n = s"
    using strip_angles_one
    by (auto simp: parse_node_def node_any_re_iff node_rec_any_re_iff is_var_name_def
        split: if_splits)
next
  assume n: "wf_node n \<and> show_node n = s"
  show "parse_node s = Inr n"
  proof (cases n)
    case (Any v)
    then show ?thesis
      using n strip_angles_one(1) [of v]
      by (auto simp: parse_node_def node_any_re_iff split: if_splits)
  next
    case (RecAny v)
    then show ?thesis
      using n strip_angles_one(2) [of v]
      by (auto simp: parse_node_def node_any_re_iff node_rec_any_re_iff split: if_splits
          dest!: var_name_head dest: sym)
  next
    case (Str v)
    then have re: "node_str_re s" and s: "s = v" using n by auto
    then obtain c cs where c: "s = c # cs" by (cases s) (auto simp: node_str_re_def)
    have "c \<noteq> CHR ''<'' \<and> c \<noteq> CHR ''*''"
      using node_str_not_special [OF re, of c] c by simp
    with re s c Str show ?thesis
      by (auto simp: parse_node_def node_any_re_iff node_rec_any_re_iff)
  qed
qed

lemma show_node_no_colon: "wf_node n \<Longrightarrow> CHR '':'' \<notin> set (show_node n)"
  using var_name_not_special node_str_not_special by (cases n) auto

lemma join_split_cc: "join ''::'' (split_cc s) = s"
proof (induction s rule: split_cc.induct)
  case (3 c d s)
  obtain p ps where "split_cc (d # s) = p # ps"
    using split_cc_nonempty [of "d # s"] by (cases "split_cc (d # s)") auto
  moreover obtain q qs where "split_cc s = q # qs"
    using split_cc_nonempty [of s] by (cases "split_cc s") auto
  ultimately show ?case
    using 3 by (cases ps) auto
qed simp_all

lemma parse_label_iff:
  "parse_label s = Inr l \<longleftrightarrow> l \<noteq> [] \<and> (\<forall>n \<in> set l. wf_node n) \<and> show_label l = s"
proof
  assume "parse_label s = Inr l"
  then have all: "list_all2 (\<lambda>x y. wf_node y \<and> show_node y = x) (split_cc s) l"
    by (simp add: parse_label_def map_res_Inr_iff parse_node_iff)
  then have "map show_node l = split_cc s" and "\<forall>n \<in> set l. wf_node n"
    by (auto simp: list_all2_conv_all_nth in_set_conv_nth intro!: nth_equalityI)
  moreover from this have "l \<noteq> []"
    by (metis list.map_disc_iff split_cc_nonempty)
  ultimately show "l \<noteq> [] \<and> (\<forall>n \<in> set l. wf_node n) \<and> show_label l = s"
    by (simp add: show_label_def join_split_cc)
next
  assume l: "l \<noteq> [] \<and> (\<forall>n \<in> set l. wf_node n) \<and> show_label l = s"
  then have "split_cc s = map show_node l"
    using split_cc_join [of "map show_node l"] show_node_no_colon by (force simp: show_label_def)
  then show "parse_label s = Inr l"
    using l by (simp add: parse_label_def map_res_Inr_iff parse_node_iff list_all2_map1
        list.rel_refl_strong)
qed

section \<open>Properties\<close>

text \<open>Matching and equality of labels, which call each other, satisfy their equations: the bound
  on the depth of the model is immaterial, at any depth above it the result is the same.\<close>

theorem match_with_recursion:
  "match_with p l = match_gen (\<lambda>a b. match_with a b \<noteq> None \<and> match_with b a \<noteq> None) p l \<and>
   match_depth (Suc n) p l = match_with p l"
proof
  have "label_eq = (\<lambda>a b. match_with a b \<noteq> None \<and> match_with b a \<noteq> None)"
    by (simp add: fun_eq_iff label_eq_def matches_with_def)
  then show "match_with p l = match_gen (\<lambda>a b. match_with a b \<noteq> None \<and> match_with b a \<noteq> None) p l"
    using match_with_unfold [of p l] by simp
qed (rule match_depth_stable)

text \<open>C15: a pattern without \<open>**\<close> matches a label of a service exactly when the label is an instance
  of it, and the match returned is an assignment that makes it one.\<close>

theorem match_finds_instance:
  assumes "no_rec_any p" and "concrete l"
  shows "(\<forall>m. match_with p l = Some m \<longrightarrow> label_instance (\<lambda>x. bt_get x m) p l) \<and>
         (matches_with p l \<longleftrightarrow> (\<exists>\<sigma>. label_instance \<sigma> p l))"
  using assms by (rule match_with_instance)

theorem match_finds_instance_witness:
  "match_with [Str ''a'', Any ''x'', Any ''x''] [Str ''a'', Str ''b'', Str ''b''] = Some [(''x'', [Str ''b''])] \<and>
   label_instance (\<lambda>x. bt_get x [(''x'', [Str ''b''])]) [Str ''a'', Any ''x'', Any ''x'']
     [Str ''a'', Str ''b'', Str ''b''] \<and>
   \<not> (\<exists>\<sigma>. label_instance \<sigma> [Str ''a'', Any ''x'', Any ''x''] [Str ''a'', Str ''b'', Str ''c''])"
proof -
  have "match_with [Str ''a'', Any ''x'', Any ''x''] [Str ''a'', Str ''b'', Str ''b''] = Some [(''x'', [Str ''b''])]"
    and "\<not> matches_with [Str ''a'', Any ''x'', Any ''x''] [Str ''a'', Str ''b'', Str ''c'']"
    by code_simp+
  then show ?thesis
    using match_finds_instance [of "[Str ''a'', Any ''x'', Any ''x'']" "[Str ''a'', Str ''b'', Str ''b'']"]
      match_finds_instance [of "[Str ''a'', Any ''x'', Any ''x'']" "[Str ''a'', Str ''b'', Str ''c'']"]
    by (simp add: no_rec_any_def concrete_def)
qed

text \<open>A trailing \<open>**\<close> matches any one or more nodes after a match of what precedes it, and a
  trailing \<open><<y>>\<close> binds \<open>y\<close> to exactly those nodes.\<close>

theorem trailing_wildcard:
  "(no_rec_any q \<longrightarrow> (matches_with (q @ [RecAny []]) l \<longleftrightarrow>
      length q < length l \<and> matches_with q (take (length q) l))) \<and>
   (y \<noteq> [] \<longrightarrow> y \<notin> set (label_vars q) \<longrightarrow> match_with (q @ [RecAny y]) l = Some m \<longrightarrow>
      length q < length l \<and> match_get_label m y = Some (drop (length q) l))"
  using matches_with_wild match_with_tail [of y q l m] by (auto simp: match_get_label_def)

theorem trailing_wildcard_witness:
  "matches_with ([Str ''a''] @ [RecAny []]) [Str ''a'', Str ''b'', Str ''c''] \<and>
   \<not> matches_with ([Str ''a''] @ [RecAny []]) [Str ''a''] \<and>
   match_get_label [(''y'', [Str ''b'', Str ''c''])] ''y'' = Some (drop 1 [Str ''a'', Str ''b'', Str ''c''])"
proof -
  have "match_with ([Str ''a''] @ [RecAny ''y'']) [Str ''a'', Str ''b'', Str ''c''] =
      Some [(''y'', [Str ''b'', Str ''c''])]"
    and "matches_with [Str ''a''] (take 1 [Str ''a'', Str ''b'', Str ''c''])"
    by code_simp+
  then show ?thesis
    using trailing_wildcard [of "[Str ''a'']" "[Str ''a'', Str ''b'', Str ''c'']" "''y''" "[(''y'', [Str ''b'', Str ''c''])]"]
      trailing_wildcard [of "[Str ''a'']" "[Str ''a'']"]
    by (simp add: no_rec_any_def label_vars_def map_filter_simps)
qed

text \<open>C36: parsing accepts exactly the texts that labels of well-formed nodes print to, and gives the
  label back: parsing a printed label is the identity, and so is printing a parsed one.\<close>

theorem parse_show_label:
  "parse_label s = Inr l \<longleftrightarrow> l \<noteq> [] \<and> (\<forall>n \<in> set l. wf_node n) \<and> show_label l = s"
  by (rule parse_label_iff)

theorem parse_show_label_witness:
  "parse_label ''a::<x>::**'' = Inr [Str ''a'', Any ''x'', RecAny []]"
  unfolding parse_show_label by code_simp

text \<open>On labels without wildcards the equality of labels is the equality of their nodes, but in
  general it is not even reflexive.\<close>

theorem label_equality:
  "(concrete a \<longrightarrow> concrete b \<longrightarrow> (label_eq a b \<longleftrightarrow> a = b)) \<and>
   (\<exists>c. \<not> label_eq c c \<and> (\<forall>n \<in> set c. wf_node n))"
proof
  have "\<forall>n \<in> set [RecAny ''a'', RecAny ''a'', Any ''a'']. wf_node n"
    by code_simp
  then show "\<exists>c. \<not> label_eq c c \<and> (\<forall>n \<in> set c. wf_node n)"
    using label_eq_not_refl by blast
qed (simp add: label_eq_concrete)

theorem label_equality_witness:
  "label_eq [Str ''a'', Str ''b''] [Str ''a'', Str ''b''] \<and> \<not> label_eq [Str ''a''] [Str ''b'']"
  using label_equality [of "[Str ''a'', Str ''b'']" "[Str ''a'', Str ''b'']"]
    label_equality [of "[Str ''a'']" "[Str ''b'']"]
  by (simp add: concrete_def)

text \<open>Reading the time back from a login label panics on every label that is one, those that
  \<open>login_time\<close> builds included: the index is one past the end.\<close>

theorem login_time_panics:
  "(get_login_time l = None \<longleftrightarrow> is_login_time l) \<and> is_login_time (login_time t)"
  by (simp add: get_login_time_def is_login_time_def login_time_def)

end
