(* ===== verification/Syntax.thy ===== *)
theory Syntax
  imports Labels
begin

text \<open>
  The surface syntax shared by the parser and the type checker, from
  \<open>armour-lang/src/parser.rs\<close> (and \<open>lexer.rs\<close> for locations): identifiers, type expressions,
  operators with their printing, iterators, and the regular-expression patterns with the
  encoding of a capture's conversion in the capture's name. Rust's \<open>Phantom\<close> variants carry no
  value and are left out; the compiled \<open>regex::Regex\<close> next to a \<open>Pat\<close> is a function of it and
  is a parameter wherever it is run.
\<close>

section \<open>Locations and identifiers\<close>

type_synonym loc = "nat \<times> nat"
type_synonym ident = string

definition dummy_loc :: loc where
  "dummy_loc = (0, 0)"

definition show_loc :: "loc \<Rightarrow> string" where
  "show_loc l = ''line '' @ show_nat (fst l) @ '', column '' @ show_nat (snd l)"

record loc_ident =
  li_loc :: loc
  li_id :: ident

section \<open>Type expressions\<close>

datatype ptyp = PAtom loc_ident | PCons loc_ident ptyp | PTuple "ptyp list"

record param =
  param_name :: loc_ident
  param_typ :: ptyp

record head =
  head_id :: loc_ident
  head_typs :: "ptyp list option"
  head_typ :: "ptyp option"

record fn_head =
  fn_id :: loc_ident
  fn_params :: "param list"
  fn_typ :: "ptyp option"

section \<open>Operators\<close>

datatype prefix_op = PMinus | PNot

datatype infix_op =
    Equal | NotEqual | Plus | Minus | Divide | Multiply | Remainder
  | GreaterThanEqual | LessThanEqual | GreaterThan | LessThan
  | And | Or | Concat | ConcatStr | Module | In | Dot

datatype iter_op = All | AnyIt | Filter | FilterMap | ForEach | Fold | Map

fun show_prefix :: "prefix_op \<Rightarrow> string" where
  "show_prefix PMinus = ''-''"
| "show_prefix PNot = ''!''"

fun show_infix :: "infix_op \<Rightarrow> string" where
  "show_infix Equal = ''==''"
| "show_infix NotEqual = ''!=''"
| "show_infix Plus = ''+''"
| "show_infix Minus = ''-''"
| "show_infix Divide = ''/''"
| "show_infix Multiply = ''*''"
| "show_infix Remainder = ''%''"
| "show_infix GreaterThanEqual = ''>=''"
| "show_infix LessThanEqual = ''<=''"
| "show_infix GreaterThan = ''>''"
| "show_infix LessThan = ''<''"
| "show_infix And = ''&&''"
| "show_infix Or = ''||''"
| "show_infix Concat = ''@''"
| "show_infix ConcatStr = ''++''"
| "show_infix Module = ''::''"
| "show_infix In = ''in''"
| "show_infix Dot = ''.''"

fun show_iter :: "iter_op \<Rightarrow> string" where
  "show_iter All = ''all''"
| "show_iter AnyIt = ''any''"
| "show_iter Filter = ''filter''"
| "show_iter FilterMap = ''filter_map''"
| "show_iter Map = ''map''"
| "show_iter ForEach = ''foreach''"
| "show_iter Fold = ''fold''"

section \<open>Patterns\<close>

datatype as_conv = AsStr | AsI64 | AsBase64

datatype pat =
    PatAny
  | PatLit string
  | PatClass string
  | PatAlt "pat list"
  | PatSeq "pat list"
  | PatAs ident as_conv
  | PatOpt pat
  | PatStar pat
  | PatPlus pat
  | PatCaseInsensitive pat
  | PatIgnoreWhitespace pat

text \<open>A regular expression of the language is its \<open>Pat\<close>; equality compares the \<open>Pat\<close> only.\<close>

datatype pattern = RegexPat pat | LabelPat label

fun class_regex :: "string \<Rightarrow> string option" where
  "class_regex s =
     (if s = ''alpha'' then Some ''[[:alpha:]]''
      else if s = ''alphanum'' then Some ''[[:alnum:]]''
      else if s = ''base64'' then Some ''(([A-Za-z0-9+/]{4})*([A-Za-z0-9+/]{2}==|[A-Za-z0-9+/]{3}=)?)''
      else if s = ''digit'' then Some ''[[:digit:]]''
      else if s = ''hex_digit'' then Some ''[[:xdigit:]]''
      else if s = ''s'' then Some ''[[:space:]]''
      else None)"

text \<open>
  \<open>escape\<close> is \<open>regex::escape\<close>. An unknown character class reaches \<open>unreachable!()\<close>: \<open>None\<close>.
\<close>

fun to_regex_str :: "(string \<Rightarrow> string) \<Rightarrow> bool \<Rightarrow> pat \<Rightarrow> string option" where
  "to_regex_str escape ws PatAny = Some ''.''"
| "to_regex_str escape ws (PatLit s) = Some (escape s)"
| "to_regex_str escape ws (PatClass s) = class_regex s"
| "to_regex_str escape ws (PatAlt vs) =
     map_option (\<lambda>rs. ''('' @ join ''|'' rs @ '')'') (map_opt (to_regex_str escape ws) vs)"
| "to_regex_str escape ws (PatSeq vs) =
     map_option (\<lambda>rs. ''('' @ join (if ws then [CHR 0x5C] @ ''s*'' else []) rs @ '')'')
       (map_opt (to_regex_str escape ws) vs)"
| "to_regex_str escape ws (PatAs i AsStr) = Some (''(?P<'' @ i @ ''>.+?)'')"
| "to_regex_str escape ws (PatAs i AsI64) = Some (''(?P<_i64'' @ i @ ''>-?[[:digit:]]+)'')"
| "to_regex_str escape ws (PatAs i AsBase64) =
     Some (''(?P<_b64'' @ i @ ''>([A-Za-z0-9+/]{4})*([A-Za-z0-9+/]{2}==|[A-Za-z0-9+/]{3}=)?)'')"
| "to_regex_str escape ws (PatOpt p) = map_option (\<lambda>r. r @ ''?'') (to_regex_str escape ws p)"
| "to_regex_str escape ws (PatStar p) = map_option (\<lambda>r. r @ ''*?'') (to_regex_str escape ws p)"
| "to_regex_str escape ws (PatPlus p) = map_option (\<lambda>r. r @ ''+?'') (to_regex_str escape ws p)"
| "to_regex_str escape ws (PatCaseInsensitive p) =
     map_option (\<lambda>r. ''(?i:'' @ r @ '')'') (to_regex_str escape ws p)"
| "to_regex_str escape ws (PatIgnoreWhitespace p) = to_regex_str escape True p"

fun has_as :: "pat \<Rightarrow> bool" where
  "has_as PatAny = False"
| "has_as (PatLit _) = False"
| "has_as (PatClass _) = False"
| "has_as (PatAs _ _) = True"
| "has_as (PatAlt vs) = (\<exists>p \<in> set vs. has_as p)"
| "has_as (PatSeq vs) = (\<exists>p \<in> set vs. has_as p)"
| "has_as (PatOpt p) = has_as p"
| "has_as (PatStar p) = has_as p"
| "has_as (PatPlus p) = has_as p"
| "has_as (PatCaseInsensitive p) = has_as p"
| "has_as (PatIgnoreWhitespace p) = has_as p"

text \<open>The capture name back to the variable and its conversion.\<close>

definition strip_as :: "string \<Rightarrow> string \<times> as_conv" where
  "strip_as s =
     (if starts_with s ''_i64'' then (trim_start_str ''_i64'' s, AsI64)
      else if starts_with s ''_b64'' then (trim_start_str ''_b64'' s, AsBase64)
      else (s, AsStr))"

text \<open>The name \<open>to_regex_str\<close> gives the capture of \<open>As\<close>.\<close>

fun as_name :: "ident \<Rightarrow> as_conv \<Rightarrow> string" where
  "as_name i AsStr = i"
| "as_name i AsI64 = ''_i64'' @ i"
| "as_name i AsBase64 = ''_b64'' @ i"

lemma starts_with_append [simp]: "starts_with (p @ s) p"
  by (simp add: starts_with_def)

lemma trim_start_str_prefix:
  "p \<noteq> [] \<Longrightarrow> \<not> starts_with s p \<Longrightarrow> trim_start_str p (p @ s) = s"
  by (subst trim_start_str.simps) (simp add: trim_start_str_id)

lemma strip_as_name:
  assumes "\<not> starts_with i ''_i64''" and "\<not> starts_with i ''_b64''"
  shows "strip_as (as_name i a) = (i, a)"
  using assms trim_start_str_prefix [of "''_i64''" i] trim_start_str_prefix [of "''_b64''" i]
  by (cases a) (simp_all add: strip_as_def, simp_all add: starts_with_def)

section \<open>Properties\<close>

text \<open>The variable and the conversion of a capture are read back from the name of its group,
  unless the variable itself begins like the mark of a conversion: then the mark is taken for one
  of the group's and the variable is lost.\<close>

theorem capture_names_read_back:
  "(\<not> starts_with i ''_i64'' \<longrightarrow> \<not> starts_with i ''_b64'' \<longrightarrow> strip_as (as_name i a) = (i, a)) \<and>
   strip_as (as_name ''_i64x'' AsStr) = (''x'', AsI64)"
proof
  show "strip_as (as_name ''_i64x'' AsStr) = (''x'', AsI64)"
    by code_simp
qed (simp add: strip_as_name)

theorem capture_names_read_back_witness:
  "strip_as (as_name ''port'' AsI64) = (''port'', AsI64)"
  using capture_names_read_back [of "''port''" AsI64] by (simp add: starts_with_def)

end
