(* ===== verification/Types.thy ===== *)
theory Types
  imports Syntax
begin

text \<open>
  \<open>armour-lang/src/types.rs\<close>: the flat types of the data plane and of the control plane behind
  the trait \<open>TFlatTyp\<close>, structured types, unification, argument checking, signatures, and the
  conversions between the two planes. The trait is a record of the associated functions (one
  value per implementing type); what its clients rely on is the locale \<open>flat_types\<close>,
  interpreted for both implementations.
\<close>

section \<open>Flat types\<close>

datatype flat_typ =
    BoolT | ConnectionT | DataT | F64T | HttpRequestT | HttpResponseT | I64T | IDT
  | IpAddrT | LabelT | RegexT | ReturnT | StrT | UnitT

fun show_flat_typ :: "flat_typ \<Rightarrow> string" where
  "show_flat_typ BoolT = ''bool''"
| "show_flat_typ ConnectionT = ''Connection''"
| "show_flat_typ DataT = ''data''"
| "show_flat_typ F64T = ''f64''"
| "show_flat_typ HttpRequestT = ''HttpRequest''"
| "show_flat_typ HttpResponseT = ''HttpResponse''"
| "show_flat_typ I64T = ''i64''"
| "show_flat_typ IDT = ''ID''"
| "show_flat_typ IpAddrT = ''IpAddr''"
| "show_flat_typ LabelT = ''Label''"
| "show_flat_typ RegexT = ''regex''"
| "show_flat_typ ReturnT = ''!''"
| "show_flat_typ StrT = ''str''"
| "show_flat_typ UnitT = ''unit''"

datatype 'f ty = FlatTyp 'f | ListT "'f ty" | TupleT "'f ty list"

type_synonym 'f loc_type = "loc option \<times> 'f ty"

datatype 'f ty_error =
    TyMismatch string "'f loc_type" "'f loc_type"
  | TyArgs string nat nat
  | TyParse string
  | TyDest

definition flat_try_from_str :: "string \<Rightarrow> flat_typ ty_error + flat_typ" where
  "flat_try_from_str s =
     (if s = ''bool'' then Inr BoolT
      else if s = ''Connection'' then Inr ConnectionT
      else if s = ''data'' then Inr DataT
      else if s = ''f64'' then Inr F64T
      else if s = ''HttpRequest'' then Inr HttpRequestT
      else if s = ''HttpResponse'' then Inr HttpResponseT
      else if s = ''i64'' then Inr I64T
      else if s = ''ID'' then Inr IDT
      else if s = ''IpAddr'' then Inr IpAddrT
      else if s = ''Label'' then Inr LabelT
      else if s = ''regex'' then Inr RegexT
      else if s = ''str'' then Inr StrT
      else if s = ''unit'' then Inr UnitT
      else Inl (TyParse s))"

datatype cp_flat_typ =
    CredentialsT | DPFlatTyp flat_typ | OnboardingDataT | OnboardingResultT | PolicyT | PrimitiveT

fun show_cp_flat_typ :: "cp_flat_typ \<Rightarrow> string" where
  "show_cp_flat_typ CredentialsT = ''Credentials''"
| "show_cp_flat_typ (DPFlatTyp t) = show_flat_typ t"
| "show_cp_flat_typ OnboardingDataT = ''OnboardingData''"
| "show_cp_flat_typ OnboardingResultT = ''OnboardingResult''"
| "show_cp_flat_typ PolicyT = ''Policy''"
| "show_cp_flat_typ PrimitiveT = ''Primitive''"

section \<open>Conversions between the planes\<close>

fun cp_of_dp_typ :: "flat_typ ty \<Rightarrow> cp_flat_typ ty" where
  "cp_of_dp_typ (FlatTyp f) = FlatTyp (DPFlatTyp f)"
| "cp_of_dp_typ (TupleT ts) = TupleT (map cp_of_dp_typ ts)"
| "cp_of_dp_typ (ListT t) = ListT (cp_of_dp_typ t)"

text \<open>A control-plane type has no data-plane counterpart: the conversion panics (\<open>None\<close>).\<close>

fun dp_of_cp_flat :: "cp_flat_typ \<Rightarrow> flat_typ option" where
  "dp_of_cp_flat (DPFlatTyp d) = Some d"
| "dp_of_cp_flat _ = None"

fun dp_of_cp_typ :: "cp_flat_typ ty \<Rightarrow> flat_typ ty option" where
  "dp_of_cp_typ (FlatTyp f) = map_option FlatTyp (dp_of_cp_flat f)"
| "dp_of_cp_typ (TupleT ts) = map_option TupleT (map_opt dp_of_cp_typ ts)"
| "dp_of_cp_typ (ListT t) = map_option ListT (dp_of_cp_typ t)"

definition cp_of_dp_loc :: "flat_typ loc_type \<Rightarrow> cp_flat_typ loc_type" where
  "cp_of_dp_loc lt = (fst lt, cp_of_dp_typ (snd lt))"

fun cp_of_dp_error :: "flat_typ ty_error \<Rightarrow> cp_flat_typ ty_error" where
  "cp_of_dp_error (TyMismatch s t1 t2) = TyMismatch s (cp_of_dp_loc t1) (cp_of_dp_loc t2)"
| "cp_of_dp_error (TyArgs s i j) = TyArgs s i j"
| "cp_of_dp_error (TyParse s) = TyParse s"
| "cp_of_dp_error TyDest = TyDest"

definition cp_try_from_str :: "string \<Rightarrow> cp_flat_typ ty_error + cp_flat_typ" where
  "cp_try_from_str s =
     (if s = ''Credentials'' then Inr CredentialsT
      else if s = ''OnboardingData'' then Inr OnboardingDataT
      else if s = ''OnboardingResult'' then Inr OnboardingResultT
      else if s = ''Policy'' then Inr PolicyT
      else if s = ''Primitive'' then Inr PrimitiveT
      else case flat_try_from_str s of
             Inr t \<Rightarrow> Inr (DPFlatTyp t)
           | Inl e \<Rightarrow> Inl (cp_of_dp_error e))"

section \<open>The trait\<close>

record 'f tflat =
  t_return :: 'f
  t_unit :: 'f
  t_bool :: 'f
  t_connection :: 'f
  t_data :: 'f
  t_f64 :: 'f
  t_label :: 'f
  t_id :: 'f
  t_i64 :: 'f
  t_ip_addr :: 'f
  t_http_request :: 'f
  t_http_response :: 'f
  t_regex :: 'f
  t_str :: 'f
  t_show :: "'f \<Rightarrow> string"
  t_parse :: "string \<Rightarrow> 'f ty_error + 'f"

definition dp_types :: "flat_typ tflat" where
  "dp_types = \<lparr>t_return = ReturnT, t_unit = UnitT, t_bool = BoolT, t_connection = ConnectionT,
     t_data = DataT, t_f64 = F64T, t_label = LabelT, t_id = IDT, t_i64 = I64T, t_ip_addr = IpAddrT,
     t_http_request = HttpRequestT, t_http_response = HttpResponseT, t_regex = RegexT,
     t_str = StrT, t_show = show_flat_typ, t_parse = flat_try_from_str\<rparr>"

definition cp_types :: "cp_flat_typ tflat" where
  "cp_types = \<lparr>t_return = DPFlatTyp ReturnT, t_unit = DPFlatTyp UnitT, t_bool = DPFlatTyp BoolT,
     t_connection = DPFlatTyp ConnectionT, t_data = DPFlatTyp DataT, t_f64 = DPFlatTyp F64T,
     t_label = DPFlatTyp LabelT, t_id = DPFlatTyp IDT, t_i64 = DPFlatTyp I64T,
     t_ip_addr = DPFlatTyp IpAddrT, t_http_request = DPFlatTyp HttpRequestT,
     t_http_response = DPFlatTyp HttpResponseT, t_regex = DPFlatTyp RegexT,
     t_str = DPFlatTyp StrT, t_show = show_cp_flat_typ, t_parse = cp_try_from_str\<rparr>"

section \<open>Structured types\<close>

abbreviation return_typ :: "'f tflat \<Rightarrow> 'f ty" where
  "return_typ T \<equiv> FlatTyp (t_return T)"

abbreviation unit_typ :: "'f tflat \<Rightarrow> 'f ty" where
  "unit_typ T \<equiv> FlatTyp (t_unit T)"

abbreviation bool_typ :: "'f tflat \<Rightarrow> 'f ty" where
  "bool_typ T \<equiv> FlatTyp (t_bool T)"

abbreviation i64_typ :: "'f tflat \<Rightarrow> 'f ty" where
  "i64_typ T \<equiv> FlatTyp (t_i64 T)"

abbreviation str_typ :: "'f tflat \<Rightarrow> 'f ty" where
  "str_typ T \<equiv> FlatTyp (t_str T)"

fun show_typ :: "'f tflat \<Rightarrow> 'f ty \<Rightarrow> string" where
  "show_typ T (FlatTyp f) = t_show T f"
| "show_typ T (ListT t) = ''List<'' @ show_typ T t @ ''>''"
| "show_typ T (TupleT ts) =
     (case map (show_typ T) ts of
        [] \<Rightarrow> ''Option<?>''
      | [s] \<Rightarrow> ''Option<'' @ s @ ''>''
      | ss \<Rightarrow> ''('' @ join '', '' ss @ '')'')"

definition any_option :: "'f ty" where
  "any_option = TupleT []"

definition option_typ :: "'f ty \<Rightarrow> 'f ty" where
  "option_typ t = TupleT [t]"

function (sequential) unify :: "'f tflat \<Rightarrow> 'f ty \<Rightarrow> 'f ty \<Rightarrow> 'f ty" where
  "unify T (ListT l1) (ListT l2) = ListT (unify T l1 l2)"
| "unify T (TupleT l1) (TupleT l2) =
     (if l1 = [] then TupleT l2
      else if l2 = [] then TupleT l1
      else TupleT (map (\<lambda>(t1, t2). unify T t1 t2) (zip l1 l2)))"
| "unify T a b = (if a = return_typ T then b else a)"
  by pat_completeness auto
termination
  by (relation "measure (\<lambda>(T, a, b). size a)")
    (auto dest!: set_zip_leftD simp: less_Suc_eq_le intro!: size_list_estimation')

function (sequential) can_unify :: "'f tflat \<Rightarrow> 'f ty \<Rightarrow> 'f ty \<Rightarrow> bool" where
  "can_unify T (ListT l1) (ListT l2) = can_unify T l1 l2"
| "can_unify T (TupleT l1) (TupleT l2) =
     (length l1 = length l2 \<and> list_all (\<lambda>(t1, t2). can_unify T t1 t2) (zip l1 l2)
      \<or> length l1 = 0 \<and> length l2 = 1
      \<or> length l1 = 1 \<and> length l2 = 0)"
| "can_unify T a b = (a = return_typ T \<or> b = return_typ T \<or> a = b)"
  by pat_completeness auto
termination
  by (relation "measure (\<lambda>(T, a, b). size a)")
    (auto dest!: set_zip_leftD simp: less_Suc_eq_le intro!: size_list_estimation')

text \<open>\<open>type_check\<close>: the argument count, then the first pair that does not unify.\<close>

fun type_check_args :: "'f tflat \<Rightarrow> string \<Rightarrow> ('f loc_type \<times> 'f loc_type) list \<Rightarrow> 'f ty_error + unit" where
  "type_check_args T s [] = Inr ()"
| "type_check_args T s ((t1, t2) # ts) =
     (if \<not> can_unify T (snd t1) (snd t2) then Inl (TyMismatch s t1 t2) else type_check_args T s ts)"

definition type_check ::
    "'f tflat \<Rightarrow> string \<Rightarrow> 'f loc_type list \<Rightarrow> 'f loc_type list \<Rightarrow> 'f ty_error + unit" where
  "type_check T s v1 v2 =
     (if length v1 = length v2 then type_check_args T s (zip v1 v2)
      else Inl (TyArgs s (length v1) (length v2)))"

definition is_unit_typ :: "'f tflat \<Rightarrow> 'f ty \<Rightarrow> bool" where
  "is_unit_typ T t = (\<exists>u. type_check T [] [(None, t)] [(None, unit_typ T)] = Inr u)"

definition dest_option :: "'f tflat \<Rightarrow> 'f ty \<Rightarrow> 'f ty_error + 'f ty" where
  "dest_option T t =
     (case t of
        TupleT [] \<Rightarrow> Inr (return_typ T)
      | TupleT [u] \<Rightarrow> Inr u
      | _ \<Rightarrow> Inl TyDest)"

definition dest_list :: "'f ty \<Rightarrow> 'f ty option" where
  "dest_list t = (case t of ListT u \<Rightarrow> Some u | _ \<Rightarrow> None)"

fun from_parse :: "'f tflat \<Rightarrow> ptyp \<Rightarrow> 'f ty_error + 'f ty" where
  "from_parse T (PAtom a) =
     (case t_parse T (li_id a) of Inr f \<Rightarrow> Inr (FlatTyp f) | Inl e \<Rightarrow> Inl e)"
| "from_parse T (PCons c b) =
     (if li_id c = ''List'' then
        (case from_parse T b of Inr t \<Rightarrow> Inr (ListT t) | Inl e \<Rightarrow> Inl e)
      else if li_id c = ''Option'' then
        (case from_parse T b of Inr t \<Rightarrow> Inr (TupleT [t]) | Inl e \<Rightarrow> Inl e)
      else Inl (TyParse (''expecting \"List\", got '' @ li_id c)))"
| "from_parse T (PTuple l) =
     (case l of
        [] \<Rightarrow> Inr (unit_typ T)
      | [t] \<Rightarrow> from_parse T t
      | _ \<Rightarrow> (case map_res (from_parse T) l of Inr ts \<Rightarrow> Inr (TupleT ts) | Inl e \<Rightarrow> Inl e))"

definition intrinsic :: "'f tflat \<Rightarrow> 'f ty \<Rightarrow> string option" where
  "intrinsic T t =
     (if t = return_typ T then None
      else case t of
        ListT _ \<Rightarrow> Some ''list''
      | TupleT ts \<Rightarrow> (if length ts < 2 then Some ''option'' else None)
      | FlatTyp _ \<Rightarrow> Some (show_typ T t))"

section \<open>Types of the operators\<close>

fun prefix_typ :: "'f tflat \<Rightarrow> prefix_op \<Rightarrow> 'f ty \<times> 'f ty" where
  "prefix_typ T PNot = (bool_typ T, bool_typ T)"
| "prefix_typ T PMinus = (i64_typ T, i64_typ T)"

text \<open>\<open>Module\<close> and \<open>Dot\<close> are removed by the parser; asking for their type panics (\<open>None\<close>).\<close>

fun infix_typ :: "'f tflat \<Rightarrow> infix_op \<Rightarrow> ('f ty \<times> 'f ty \<times> 'f ty) option" where
  "infix_typ T Concat = Some (ListT (return_typ T), ListT (return_typ T), ListT (return_typ T))"
| "infix_typ T ConcatStr = Some (str_typ T, str_typ T, str_typ T)"
| "infix_typ T Equal = Some (return_typ T, return_typ T, bool_typ T)"
| "infix_typ T NotEqual = Some (return_typ T, return_typ T, bool_typ T)"
| "infix_typ T In = Some (return_typ T, ListT (return_typ T), bool_typ T)"
| "infix_typ T And = Some (bool_typ T, bool_typ T, bool_typ T)"
| "infix_typ T Or = Some (bool_typ T, bool_typ T, bool_typ T)"
| "infix_typ T Divide = Some (i64_typ T, i64_typ T, i64_typ T)"
| "infix_typ T Remainder = Some (i64_typ T, i64_typ T, i64_typ T)"
| "infix_typ T Minus = Some (i64_typ T, i64_typ T, i64_typ T)"
| "infix_typ T Plus = Some (i64_typ T, i64_typ T, i64_typ T)"
| "infix_typ T Multiply = Some (i64_typ T, i64_typ T, i64_typ T)"
| "infix_typ T GreaterThan = Some (i64_typ T, i64_typ T, bool_typ T)"
| "infix_typ T GreaterThanEqual = Some (i64_typ T, i64_typ T, bool_typ T)"
| "infix_typ T LessThan = Some (i64_typ T, i64_typ T, bool_typ T)"
| "infix_typ T LessThanEqual = Some (i64_typ T, i64_typ T, bool_typ T)"
| "infix_typ T Module = None"
| "infix_typ T Dot = None"

definition pattern_typ :: "'f tflat \<Rightarrow> pattern \<Rightarrow> 'f ty" where
  "pattern_typ T p = (case p of RegexPat _ \<Rightarrow> str_typ T | LabelPat _ \<Rightarrow> FlatTyp (t_label T))"

section \<open>Signatures\<close>

text \<open>\<open>None\<close> for the arguments: any argument list is accepted.\<close>

record 'f signature =
  sig_args :: "'f ty list option"
  sig_typ :: "'f ty"

definition new_sig :: "'f ty list \<Rightarrow> 'f ty \<Rightarrow> 'f signature" where
  "new_sig args t = \<lparr>sig_args = Some args, sig_typ = t\<rparr>"

definition new_noargs :: "'f ty \<Rightarrow> 'f signature" where
  "new_noargs t = \<lparr>sig_args = None, sig_typ = t\<rparr>"

definition default_sig :: "'f tflat \<Rightarrow> 'f signature" where
  "default_sig T = \<lparr>sig_args = None, sig_typ = unit_typ T\<rparr>"

definition show_sig :: "'f tflat \<Rightarrow> 'f signature \<Rightarrow> string" where
  "show_sig T s =
     ''('' @ (case sig_args s of Some ts \<Rightarrow> join '', '' (map (show_typ T) ts) | None \<Rightarrow> ''_'') @
     '') -> '' @ show_typ T (sig_typ s)"

definition dp_of_cp_sig :: "cp_flat_typ signature \<Rightarrow> flat_typ signature option" where
  "dp_of_cp_sig s =
     (case sig_args s of
        None \<Rightarrow> map_option new_noargs (dp_of_cp_typ (sig_typ s))
      | Some args \<Rightarrow>
          (case map_opt dp_of_cp_typ args of
             None \<Rightarrow> None
           | Some as \<Rightarrow> map_option (new_sig as) (dp_of_cp_typ (sig_typ s))))"

definition cp_of_dp_sig :: "flat_typ signature \<Rightarrow> cp_flat_typ signature" where
  "cp_of_dp_sig s =
     (case sig_args s of
        None \<Rightarrow> new_noargs (cp_of_dp_typ (sig_typ s))
      | Some args \<Rightarrow> new_sig (map cp_of_dp_typ args) (cp_of_dp_typ (sig_typ s)))"

definition opt_parse :: "'f tflat \<Rightarrow> ptyp option \<Rightarrow> 'f ty_error + 'f ty" where
  "opt_parse T t = (case t of Some t \<Rightarrow> from_parse T t | None \<Rightarrow> Inr (unit_typ T))"

text \<open>\<open>FnDecl::typ\<close> and \<open>Head::typ\<close>: the return type is parsed first.\<close>

definition fn_decl_typ :: "'f tflat \<Rightarrow> fn_head \<Rightarrow> 'f ty_error + 'f signature" where
  "fn_decl_typ T h =
     (case opt_parse T (fn_typ h) of Inl e \<Rightarrow> Inl e
      | Inr ty \<Rightarrow>
          (case map_res (\<lambda>p. from_parse T (param_typ p)) (fn_params h) of Inl e \<Rightarrow> Inl e
           | Inr args \<Rightarrow> Inr (new_sig args ty)))"

definition head_sig :: "'f tflat \<Rightarrow> head \<Rightarrow> 'f ty_error + 'f signature" where
  "head_sig T h =
     (case opt_parse T (head_typ h) of Inl e \<Rightarrow> Inl e
      | Inr ty \<Rightarrow>
          (case head_typs h of
             Some args \<Rightarrow>
               (case map_res (from_parse T) args of Inl e \<Rightarrow> Inl e | Inr ts \<Rightarrow> Inr (new_sig ts ty))
           | None \<Rightarrow> Inr (new_noargs ty)))"

section \<open>Unification\<close>

lemma nth_in_zip: "i < length xs \<Longrightarrow> length xs = length ys \<Longrightarrow> (xs ! i, ys ! i) \<in> set (zip xs ys)"
  by (auto simp: in_set_zip)

lemma can_unify_refl [simp]: "can_unify T a a"
  by (induction a) (auto simp: list_all_iff set_zip in_set_conv_nth)

lemma can_unify_sym: "can_unify T a b \<Longrightarrow> can_unify T b a"
proof (induction T a b rule: can_unify.induct)
  case (2 T l1 l2)
  have IH: "can_unify T x y \<Longrightarrow> can_unify T y x" if "(x, y) \<in> set (zip l1 l2)" for x y
    using that "2.IH" by blast
  show ?case
    using "2.prems" IH by (auto simp: list_all_length nth_in_zip)
qed auto

lemma can_unify_return [simp]:
  "can_unify T (return_typ T) a"
  "can_unify T a (return_typ T)"
  by (cases a; simp)+

lemma unify_return [simp]:
  "unify T (return_typ T) a = a"
  "unify T a (return_typ T) = a"
  by (cases a; simp)+

lemma unify_sym: "can_unify T a b \<Longrightarrow> unify T a b = unify T b a"
proof (induction T a b rule: can_unify.induct)
  case (2 T l1 l2)
  show ?case
  proof (cases "l1 = [] \<or> l2 = []")
    case False
    then have l: "length l1 = length l2" and u: "list_all (\<lambda>(t1, t2). can_unify T t1 t2) (zip l1 l2)"
      using 2 by auto
    have "unify T (l1 ! i) (l2 ! i) = unify T (l2 ! i) (l1 ! i)" if "i < length l1" for i
      using "2.IH" [OF nth_in_zip [OF that l] refl] u l that by (auto simp: list_all_length)
    then show ?thesis
      using False l by (auto intro!: nth_equalityI)
  qed auto
qed auto

text \<open>A unifier unifies with both sides: nothing in either type is lost.\<close>

lemma can_unify_unify: "can_unify T a b \<Longrightarrow> can_unify T a (unify T a b)"
proof (induction T a b rule: can_unify.induct)
  case (2 T l1 l2)
  show ?case
  proof (cases "l1 = [] \<or> l2 = []")
    case True
    then show ?thesis
      using 2 by auto
  next
    case False
    then have l: "length l1 = length l2" and u: "list_all (\<lambda>(t1, t2). can_unify T t1 t2) (zip l1 l2)"
      using 2 by auto
    have "can_unify T (l1 ! i) (unify T (l1 ! i) (l2 ! i))" if "i < length l1" for i
      using "2.IH" [OF nth_in_zip [OF that l] refl] u l that by (auto simp: list_all_length)
    then show ?thesis
      using False l by (auto simp: list_all_length)
  qed
qed auto

lemma unify_idem [simp]: "unify T a a = a"
  by (induction a) (auto simp: zip_same_conv_map intro!: nth_equalityI)

section \<open>Argument checking\<close>

lemma type_check_args_iff:
  "type_check_args T s ts = Inr () \<longleftrightarrow> (\<forall>(t1, t2) \<in> set ts. can_unify T (snd t1) (snd t2))"
  by (induction ts) (auto split: if_splits)

lemma type_check_Inr_iff:
  "type_check T s v1 v2 = Inr () \<longleftrightarrow> list_all2 (\<lambda>t1 t2. can_unify T (snd t1) (snd t2)) v1 v2"
  by (auto simp: type_check_def type_check_args_iff list_all2_iff)

text \<open>The error names the first pair that does not unify.\<close>

lemma type_check_args_first:
  assumes "list_all (\<lambda>(t1, t2). can_unify T (snd t1) (snd t2)) ok"
    and "\<not> can_unify T (snd t1) (snd t2)"
  shows "type_check_args T s (ok @ (t1, t2) # rest) = Inl (TyMismatch s t1 t2)"
  using assms by (induction ok) auto

lemma is_unit_typ_iff: "is_unit_typ T t \<longleftrightarrow> t = unit_typ T \<or> t = return_typ T \<or> t_unit T = t_return T"
  by (cases t) (auto simp: is_unit_typ_def type_check_def)

lemma dest_option_option [simp]: "dest_option T (option_typ t) = Inr t"
  by (simp add: dest_option_def option_typ_def)

lemma dest_option_Inr:
  "dest_option T t = Inr u \<longleftrightarrow> t = any_option \<and> u = return_typ T \<or> t = option_typ u"
  by (auto simp: dest_option_def option_typ_def any_option_def split: ty.splits list.splits)

section \<open>The two implementations of the trait\<close>

text \<open>
  What the clients rely on: the return type is not the type of a literal they build, and the
  parser of type names is the inverse of printing on every type but the return type.
\<close>

locale flat_types =
  fixes T :: "'f tflat"
  assumes return_neq: "t_return T \<noteq> t_unit T" "t_return T \<noteq> t_bool T" "t_return T \<noteq> t_i64 T"
      "t_return T \<noteq> t_str T" "t_return T \<noteq> t_label T"
    and bool_neq: "t_bool T \<noteq> t_unit T" "t_bool T \<noteq> t_i64 T" "t_bool T \<noteq> t_str T"
    and i64_neq: "t_i64 T \<noteq> t_str T"
    and parse_show: "t_parse T s = Inr f \<longleftrightarrow> t_show T f = s \<and> f \<noteq> t_return T"
begin

lemma is_unit_iff: "is_unit_typ T t \<longleftrightarrow> t = unit_typ T \<or> t = return_typ T"
  using return_neq by (auto simp: is_unit_typ_iff)

lemma bool_not_unit [simp]: "\<not> is_unit_typ T (bool_typ T)"
  using return_neq bool_neq by (auto simp: is_unit_iff)

text \<open>Unifiability is not transitive: the return type unifies with everything.\<close>

lemma not_transitive:
  "can_unify T (bool_typ T) (return_typ T) \<and> can_unify T (return_typ T) (i64_typ T) \<and>
   \<not> can_unify T (bool_typ T) (i64_typ T)"
  using return_neq bool_neq by auto

lemma show_inj: "t_show T f = t_show T g \<Longrightarrow> f \<noteq> t_return T \<Longrightarrow> g \<noteq> t_return T \<Longrightarrow> f = g"
  using parse_show [of "t_show T f" f] parse_show [of "t_show T f" g] by simp

text \<open>A type expression never denotes the return type.\<close>

lemma from_parse_not_return: "from_parse T p \<noteq> Inr (return_typ T)"
proof (induction p)
  case (PAtom a)
  then show ?case
    using parse_show by (auto split: sum.splits)
next
  case (PTuple l)
  then show ?case
    using return_neq by (auto simp: return_neq(1) [symmetric] split: list.splits sum.splits)
qed (auto split: sum.splits if_splits)

end

interpretation dp: flat_types dp_types
proof unfold_locales
  show "t_parse dp_types s = Inr f \<longleftrightarrow> t_show dp_types f = s \<and> f \<noteq> t_return dp_types" for s f
    by (cases f) (auto simp: dp_types_def flat_try_from_str_def)
qed (simp_all add: dp_types_def)

lemma flat_try_from_str_iff: "flat_try_from_str s = Inr f \<longleftrightarrow> show_flat_typ f = s \<and> f \<noteq> ReturnT"
  using dp.parse_show by (simp add: dp_types_def)

interpretation cp: flat_types cp_types
proof unfold_locales
  have "cp_try_from_str s = Inr f \<longleftrightarrow> show_cp_flat_typ f = s \<and> f \<noteq> DPFlatTyp ReturnT" for s f
  proof (cases f)
    case (DPFlatTyp t)
    have "show_flat_typ t \<notin> {''Credentials'', ''OnboardingData'', ''OnboardingResult'', ''Policy'', ''Primitive''}"
      by (cases t) auto
    then show ?thesis
      using DPFlatTyp flat_try_from_str_iff [of s t]
      by (auto simp: cp_try_from_str_def split: sum.splits)
  qed (auto simp: cp_try_from_str_def split: sum.splits if_splits)
  then show "t_parse cp_types s = Inr f \<longleftrightarrow> t_show cp_types f = s \<and> f \<noteq> t_return cp_types" for s f
    by (simp add: cp_types_def)
qed (simp_all add: cp_types_def)

section \<open>The data plane inside the control plane\<close>

lemma map_opt_inverse: "(\<And>x. x \<in> set xs \<Longrightarrow> g (f x) = Some x) \<Longrightarrow> map_opt g (map f xs) = Some xs"
  by (induction xs) auto

lemma dp_of_cp_of_dp [simp]: "dp_of_cp_typ (cp_of_dp_typ t) = Some t"
  by (induction t) (simp_all add: map_opt_inverse)

lemma cp_of_dp_typ_inj [simp]: "cp_of_dp_typ a = cp_of_dp_typ b \<longleftrightarrow> a = b"
  by (metis dp_of_cp_of_dp option.inject)

lemma map_opt_Some_set: "map_opt g xs = Some ys \<Longrightarrow> (\<And>x y. x \<in> set xs \<Longrightarrow> g x = Some y \<Longrightarrow> x = f y) \<Longrightarrow> xs = map f ys"
proof (induction xs arbitrary: ys)
  case (Cons x xs)
  from Cons.prems(1) obtain z zs where z: "g x = Some z" "map_opt g xs = Some zs" "ys = z # zs"
    by (auto split: option.splits)
  have "xs = map f zs"
    by (rule Cons.IH [OF z(2)]) (simp add: Cons.prems(2))
  then show ?case
    using z Cons.prems(2) [OF _ z(1)] by simp
qed simp

lemma dp_of_cp_typ_D: "dp_of_cp_typ c = Some t \<Longrightarrow> c = cp_of_dp_typ t"
proof (induction c arbitrary: t)
  case (FlatTyp f)
  then show ?case
    by (cases f) auto
next
  case (TupleT cs)
  from TupleT.prems obtain ts where ts: "map_opt dp_of_cp_typ cs = Some ts" "t = TupleT ts"
    by auto
  have "cs = map cp_of_dp_typ ts"
    using map_opt_Some_set [OF ts(1)] TupleT.IH by blast
  then show ?case
    using ts by simp
qed auto

lemma dp_of_cp_typ_iff: "dp_of_cp_typ c = Some t \<longleftrightarrow> c = cp_of_dp_typ t"
  using dp_of_cp_typ_D by auto

lemma cp_return [simp]: "return_typ cp_types = cp_of_dp_typ (return_typ dp_types)"
  by (simp add: cp_types_def dp_types_def)

lemma FlatTyp_eq_cp_of_dp [simp]:
  "FlatTyp f = cp_of_dp_typ a \<longleftrightarrow> (\<exists>g. a = FlatTyp g \<and> f = DPFlatTyp g)"
  "cp_of_dp_typ a = FlatTyp f \<longleftrightarrow> (\<exists>g. a = FlatTyp g \<and> f = DPFlatTyp g)"
  by (cases a; auto)+

lemma can_unify_cp_of_dp [simp]:
  "can_unify cp_types (cp_of_dp_typ a) (cp_of_dp_typ b) = can_unify dp_types a b"
proof (induction "dp_types" a b rule: can_unify.induct)
  case (2 l1 l2)
  then have "can_unify cp_types (cp_of_dp_typ x) (cp_of_dp_typ y) = can_unify dp_types x y"
    if "(x, y) \<in> set (zip l1 l2)" for x y
    using that by blast
  then show ?case
    by (auto simp: list_all_length nth_in_zip)
qed (auto simp: cp_types_def dp_types_def)

lemma unify_cp_of_dp [simp]:
  "unify cp_types (cp_of_dp_typ a) (cp_of_dp_typ b) = cp_of_dp_typ (unify dp_types a b)"
proof (induction "dp_types" a b rule: unify.induct)
  case (2 l1 l2)
  show ?case
  proof (cases "l1 = [] \<or> l2 = []")
    case False
    then have "unify cp_types (cp_of_dp_typ x) (cp_of_dp_typ y) = cp_of_dp_typ (unify dp_types x y)"
      if "(x, y) \<in> set (zip l1 l2)" for x y
      using that "2" by blast
    then show ?thesis
      using False by (auto simp: zip_map_map)
  qed auto
qed (simp_all add: cp_types_def dp_types_def)

text \<open>Checking arguments in the control plane is checking them in the data plane, errors included.\<close>

lemma type_check_args_cp_of_dp:
  "type_check_args cp_types s (map (\<lambda>(a, b). (cp_of_dp_loc a, cp_of_dp_loc b)) ts) =
   map_sum cp_of_dp_error id (type_check_args dp_types s ts)"
  by (induction ts) (auto simp: cp_of_dp_loc_def)

lemma type_check_cp_of_dp:
  "type_check cp_types s (map cp_of_dp_loc a) (map cp_of_dp_loc b) =
   map_sum cp_of_dp_error id (type_check dp_types s a b)"
  using type_check_args_cp_of_dp [of s "zip a b"] by (simp add: type_check_def zip_map_map)

lemma dp_of_cp_of_dp_sig: "dp_of_cp_sig (cp_of_dp_sig s) = Some s"
  by (cases s) (simp add: dp_of_cp_sig_def cp_of_dp_sig_def new_sig_def new_noargs_def
      map_opt_inverse split: option.splits)

section \<open>Properties\<close>


text \<open>The unifier of two unifiable types does not depend on their order and unifies with
  both of them.\<close>

theorem unify_upper_bound:
  "can_unify T a b \<Longrightarrow>
     unify T a b = unify T b a \<and> can_unify T a (unify T a b) \<and> can_unify T (unify T a b) b"
  using unify_sym can_unify_unify can_unify_sym by metis

theorem unify_upper_bound_witness:
  "unify dp_types (TupleT [ListT (FlatTyp ReturnT), FlatTyp I64T]) (TupleT [ListT (FlatTyp StrT), FlatTyp ReturnT]) =
   unify dp_types (TupleT [ListT (FlatTyp StrT), FlatTyp ReturnT]) (TupleT [ListT (FlatTyp ReturnT), FlatTyp I64T])"
  using unify_upper_bound [of dp_types "TupleT [ListT (FlatTyp ReturnT), FlatTyp I64T]"
      "TupleT [ListT (FlatTyp StrT), FlatTyp ReturnT]"]
  by (simp add: dp_types_def)

text \<open>The control plane checks the arguments of a data-plane function exactly as the data
  plane does: same verdict, and the same error read in control-plane types.\<close>

theorem type_check_planes:
  "type_check cp_types s (map cp_of_dp_loc a) (map cp_of_dp_loc b) =
   map_sum cp_of_dp_error id (type_check dp_types s a b)"
  by (rule type_check_cp_of_dp)

end
