(* ===== verification/Literals.thy ===== *)
theory Literals
  imports Types
begin

text \<open>
  \<open>armour-lang/src/literals.rs\<close>: methods, versions, headers, identities, connections,
  requests and responses, the literals of the data plane with their hand-written and derived
  equality, the trait \<open>TFlatLiteral\<close> and the structured literals over it.

  The Rust types \<open>ID\<close>, \<open>Connection\<close>, \<open>Headers\<close>, \<open>HttpRequest\<close> and \<open>HttpResponse\<close> take the plane
  as a phantom parameter only: the conversions between planes copy every field, so one record
  models both instances. An \<open>f64\<close> is its bit pattern.
\<close>

section \<open>Methods and versions\<close>

datatype http_method = GET | POST | PUT | DELETE | HEAD | OPTIONS | CONNECT | PATCH | TRACE

fun show_method :: "http_method \<Rightarrow> string" where
  "show_method GET = ''GET''"
| "show_method POST = ''POST''"
| "show_method PUT = ''PUT''"
| "show_method DELETE = ''DELETE''"
| "show_method HEAD = ''HEAD''"
| "show_method OPTIONS = ''OPTIONS''"
| "show_method CONNECT = ''CONNECT''"
| "show_method PATCH = ''PATCH''"
| "show_method TRACE = ''TRACE''"

definition parse_method :: "string \<Rightarrow> http_method option" where
  "parse_method s =
     (if s = ''GET'' then Some GET
      else if s = ''POST'' then Some POST
      else if s = ''PUT'' then Some PUT
      else if s = ''DELETE'' then Some DELETE
      else if s = ''HEAD'' then Some HEAD
      else if s = ''OPTIONS'' then Some OPTIONS
      else if s = ''CONNECT'' then Some CONNECT
      else if s = ''PATCH'' then Some PATCH
      else if s = ''TRACE'' then Some TRACE
      else None)"

definition default_method :: http_method where
  "default_method = GET"

datatype http_version = HTTP_09 | HTTP_10 | HTTP_11 | HTTP_20

definition parse_version :: "string \<Rightarrow> http_version option" where
  "parse_version s =
     (if s = ''HTTP/0.9'' \<or> s = ''HTTP_09'' then Some HTTP_09
      else if s = ''HTTP/1.0'' \<or> s = ''HTTP_10'' then Some HTTP_10
      else if s = ''HTTP/1.1'' \<or> s = ''HTTP_11'' then Some HTTP_11
      else if s = ''HTTP/2.0'' \<or> s = ''HTTP_20'' then Some HTTP_20
      else None)"

fun show_version :: "http_version \<Rightarrow> string" where
  "show_version HTTP_09 = ''HTTP/0.9''"
| "show_version HTTP_10 = ''HTTP/1.0''"
| "show_version HTTP_11 = ''HTTP/1.1''"
| "show_version HTTP_20 = ''HTTP/2.0''"

definition default_version :: http_version where
  "default_version = HTTP_11"

lemma parse_show_method [simp]: "parse_method (show_method m) = Some m"
  by (cases m) (simp_all add: parse_method_def)

lemma parse_show_version [simp]: "parse_version (show_version v) = Some v"
  by (cases v) (simp_all add: parse_version_def)

section \<open>Addresses\<close>

text \<open>\<open>std::net::IpAddr\<close> with its derived order: every V4 address below every V6 address.\<close>

datatype ip_addr = V4 u8 u8 u8 u8 | V6 "128 word"

fun ip_key :: "ip_addr \<Rightarrow> nat list" where
  "ip_key (V4 a b c d) = [0, unat a, unat b, unat c, unat d]"
| "ip_key (V6 w) = [1, unat w]"

lemma ip_key_inj: "ip_key x = ip_key y \<Longrightarrow> x = y"
  by (cases x; cases y) (auto intro: unsigned_word_eqI)

instantiation ip_addr :: linorder
begin

definition less_eq_ip_addr :: "ip_addr \<Rightarrow> ip_addr \<Rightarrow> bool" where
  "less_eq_ip_addr a b \<longleftrightarrow> ip_key a \<le> ip_key b"

definition less_ip_addr :: "ip_addr \<Rightarrow> ip_addr \<Rightarrow> bool" where
  "less_ip_addr a b \<longleftrightarrow> ip_key a < ip_key b"

instance
  by standard (auto simp: less_eq_ip_addr_def less_ip_addr_def intro: ip_key_inj)

end

text \<open>\<open>Ipv6Addr::to_ipv4\<close>: the mapped (\<open>::ffff:a.b.c.d\<close>) and the compatible (\<open>::a.b.c.d\<close>) form.\<close>

definition to_ipv4 :: "128 word \<Rightarrow> ip_addr option" where
  "to_ipv4 w =
     (let hi = drop_bit 32 w
      in if hi = 0 \<or> hi = 0xFFFF
         then Some (V4 (ucast (drop_bit 24 w)) (ucast (drop_bit 16 w)) (ucast (drop_bit 8 w)) (ucast w))
         else None)"

section \<open>Identities, connections, messages\<close>

text \<open>The header map: a name to its values in order of arrival.\<close>

type_synonym headers = "(string \<times> data list) list"

record ID =
  id_hosts :: "string list"
  id_ips :: "ip_addr list"
  id_port :: "u16 option"
  id_labels :: "label list"

record connection =
  conn_from :: ID
  conn_to :: ID
  conn_number :: i64

record http_request =
  req_method :: http_method
  req_version :: http_version
  req_path :: string
  req_query :: string
  req_headers :: headers
  req_connection :: connection

record http_response =
  res_version :: http_version
  res_status :: u16
  res_headers :: headers
  res_reason :: "string option"
  res_connection :: connection

definition default_id :: ID where
  "default_id = \<lparr>id_hosts = [], id_ips = [], id_port = None, id_labels = []\<rparr>"

definition default_connection :: connection where
  "default_connection = \<lparr>conn_from = default_id, conn_to = default_id, conn_number = 0\<rparr>"

definition default_request :: http_request where
  "default_request = \<lparr>req_method = default_method, req_version = default_version, req_path = [],
     req_query = [], req_headers = [], req_connection = default_connection\<rparr>"

definition default_response :: http_response where
  "default_response = \<lparr>res_version = default_version, res_status = 0, res_headers = [],
     res_reason = None, res_connection = default_connection\<rparr>"

section \<open>Literals of the data plane\<close>

type_synonym f64 = "64 word"

datatype flat_literal =
    BoolL bool
  | ConnectionL connection
  | DataL data
  | FloatL f64
  | HttpRequestL http_request
  | HttpResponseL http_response
  | IDL ID
  | IntL i64
  | IpAddrL ip_addr
  | LabelL label
  | RegexL pat
  | StrL string
  | UnitL

datatype 'l literal = FlatLit 'l | ListL "'l literal list" | TupleL "'l literal list"

section \<open>Equality\<close>

text \<open>
  \<open>==\<close> is derived, down to the two types where it is not HOL's equality: labels compare by
  matching in both directions, and \<open>f64\<close> by IEEE 754, where NaN differs from itself and the two
  zeros are equal.
\<close>

definition f64_is_nan :: "f64 \<Rightarrow> bool" where
  "f64_is_nan x \<longleftrightarrow> take_bit 63 x > 0x7FF0000000000000"

definition f64_eq :: "f64 \<Rightarrow> f64 \<Rightarrow> bool" where
  "f64_eq x y \<longleftrightarrow> \<not> f64_is_nan x \<and> \<not> f64_is_nan y \<and> (x = y \<or> take_bit 63 x = 0 \<and> take_bit 63 y = 0)"

definition id_eq :: "ID \<Rightarrow> ID \<Rightarrow> bool" where
  "id_eq a b \<longleftrightarrow>
     id_hosts a = id_hosts b \<and> id_ips a = id_ips b \<and> id_port a = id_port b \<and>
     list_all2 label_eq (id_labels a) (id_labels b)"

definition connection_eq :: "connection \<Rightarrow> connection \<Rightarrow> bool" where
  "connection_eq a b \<longleftrightarrow>
     id_eq (conn_from a) (conn_from b) \<and> id_eq (conn_to a) (conn_to b) \<and> conn_number a = conn_number b"

definition request_eq :: "http_request \<Rightarrow> http_request \<Rightarrow> bool" where
  "request_eq a b \<longleftrightarrow>
     req_method a = req_method b \<and> req_version a = req_version b \<and> req_path a = req_path b \<and>
     req_query a = req_query b \<and> req_headers a = req_headers b \<and>
     connection_eq (req_connection a) (req_connection b)"

definition response_eq :: "http_response \<Rightarrow> http_response \<Rightarrow> bool" where
  "response_eq a b \<longleftrightarrow>
     res_version a = res_version b \<and> res_status a = res_status b \<and> res_headers a = res_headers b \<and>
     res_reason a = res_reason b \<and> connection_eq (res_connection a) (res_connection b)"

fun flat_eq :: "flat_literal \<Rightarrow> flat_literal \<Rightarrow> bool" where
  "flat_eq (BoolL a) l = (case l of BoolL b \<Rightarrow> a = b | _ \<Rightarrow> False)"
| "flat_eq (ConnectionL a) l = (case l of ConnectionL b \<Rightarrow> connection_eq a b | _ \<Rightarrow> False)"
| "flat_eq (DataL a) l = (case l of DataL b \<Rightarrow> a = b | _ \<Rightarrow> False)"
| "flat_eq (FloatL a) l = (case l of FloatL b \<Rightarrow> f64_eq a b | _ \<Rightarrow> False)"
| "flat_eq (HttpRequestL a) l = (case l of HttpRequestL b \<Rightarrow> request_eq a b | _ \<Rightarrow> False)"
| "flat_eq (HttpResponseL a) l = (case l of HttpResponseL b \<Rightarrow> response_eq a b | _ \<Rightarrow> False)"
| "flat_eq (IDL a) l = (case l of IDL b \<Rightarrow> id_eq a b | _ \<Rightarrow> False)"
| "flat_eq (IntL a) l = (case l of IntL b \<Rightarrow> a = b | _ \<Rightarrow> False)"
| "flat_eq (IpAddrL a) l = (case l of IpAddrL b \<Rightarrow> a = b | _ \<Rightarrow> False)"
| "flat_eq (LabelL a) l = (case l of LabelL b \<Rightarrow> label_eq a b | _ \<Rightarrow> False)"
| "flat_eq (RegexL a) l = (case l of RegexL b \<Rightarrow> a = b | _ \<Rightarrow> False)"
| "flat_eq (StrL a) l = (case l of StrL b \<Rightarrow> a = b | _ \<Rightarrow> False)"
| "flat_eq UnitL l = (case l of UnitL \<Rightarrow> True | _ \<Rightarrow> False)"

fun flat_typ_of :: "flat_literal \<Rightarrow> flat_typ" where
  "flat_typ_of (BoolL _) = BoolT"
| "flat_typ_of (ConnectionL _) = ConnectionT"
| "flat_typ_of (DataL _) = DataT"
| "flat_typ_of (FloatL _) = F64T"
| "flat_typ_of (HttpRequestL _) = HttpRequestT"
| "flat_typ_of (HttpResponseL _) = HttpResponseT"
| "flat_typ_of (IDL _) = IDT"
| "flat_typ_of (IntL _) = I64T"
| "flat_typ_of (IpAddrL _) = IpAddrT"
| "flat_typ_of (LabelL _) = LabelT"
| "flat_typ_of (RegexL _) = RegexT"
| "flat_typ_of (StrL _) = StrT"
| "flat_typ_of UnitL = UnitT"

section \<open>The trait\<close>

text \<open>
  The associated functions of \<open>TFlatLiteral\<close>, one value per implementing type. A getter on a
  literal of another constructor panics (\<open>None\<close>).
\<close>

record ('f, 'l) tlit =
  l_types :: "'f tflat"
  l_typ :: "'l \<Rightarrow> 'f"
  l_eq :: "'l \<Rightarrow> 'l \<Rightarrow> bool"
  l_bool :: "bool \<Rightarrow> 'l"
  l_is_bool :: "'l \<Rightarrow> bool"
  l_get_bool :: "'l \<Rightarrow> bool option"
  l_connection :: "connection \<Rightarrow> 'l"
  l_data :: "data \<Rightarrow> 'l"
  l_is_data :: "'l \<Rightarrow> bool"
  l_get_data :: "'l \<Rightarrow> data option"
  l_float :: "f64 \<Rightarrow> 'l"
  l_http_request :: "http_request \<Rightarrow> 'l"
  l_http_response :: "http_response \<Rightarrow> 'l"
  l_id :: "ID \<Rightarrow> 'l"
  l_int :: "i64 \<Rightarrow> 'l"
  l_ip_addr :: "ip_addr \<Rightarrow> 'l"
  l_label :: "label \<Rightarrow> 'l"
  l_is_label :: "'l \<Rightarrow> bool"
  l_get_label :: "'l \<Rightarrow> label option"
  l_regex :: "pat \<Rightarrow> 'l"
  l_str :: "string \<Rightarrow> 'l"
  l_is_str :: "'l \<Rightarrow> bool"
  l_get_str :: "'l \<Rightarrow> string option"
  l_unit :: 'l
  l_is_unit :: "'l \<Rightarrow> bool"

definition dp_lits :: "(flat_typ, flat_literal) tlit" where
  "dp_lits = \<lparr>l_types = dp_types, l_typ = flat_typ_of, l_eq = flat_eq,
     l_bool = BoolL,
     l_is_bool = (\<lambda>l. case l of BoolL _ \<Rightarrow> True | _ \<Rightarrow> False),
     l_get_bool = (\<lambda>l. case l of BoolL b \<Rightarrow> Some b | _ \<Rightarrow> None),
     l_connection = ConnectionL,
     l_data = DataL,
     l_is_data = (\<lambda>l. case l of DataL _ \<Rightarrow> True | _ \<Rightarrow> False),
     l_get_data = (\<lambda>l. case l of DataL d \<Rightarrow> Some d | _ \<Rightarrow> None),
     l_float = FloatL, l_http_request = HttpRequestL, l_http_response = HttpResponseL,
     l_id = IDL, l_int = IntL, l_ip_addr = IpAddrL, l_label = LabelL,
     l_is_label = (\<lambda>l. case l of LabelL _ \<Rightarrow> True | _ \<Rightarrow> False),
     l_get_label = (\<lambda>l. case l of LabelL d \<Rightarrow> Some d | _ \<Rightarrow> None),
     l_regex = RegexL, l_str = StrL,
     l_is_str = (\<lambda>l. case l of StrL _ \<Rightarrow> True | _ \<Rightarrow> False),
     l_get_str = (\<lambda>l. case l of StrL d \<Rightarrow> Some d | _ \<Rightarrow> None),
     l_unit = UnitL, l_is_unit = (\<lambda>l. flat_eq l UnitL)\<rparr>"

section \<open>Structured literals\<close>

definition lit_bool :: "('f, 'l) tlit \<Rightarrow> bool \<Rightarrow> 'l literal" where
  "lit_bool L b = FlatLit (l_bool L b)"

definition lit_is_bool :: "('f, 'l) tlit \<Rightarrow> 'l literal \<Rightarrow> bool" where
  "lit_is_bool L l = (case l of FlatLit f \<Rightarrow> l_is_bool L f | _ \<Rightarrow> False)"

definition lit_get_bool :: "('f, 'l) tlit \<Rightarrow> 'l literal \<Rightarrow> bool option" where
  "lit_get_bool L l = (case l of FlatLit f \<Rightarrow> l_get_bool L f | _ \<Rightarrow> None)"

definition lit_data :: "('f, 'l) tlit \<Rightarrow> data \<Rightarrow> 'l literal" where
  "lit_data L d = FlatLit (l_data L d)"

definition lit_is_data :: "('f, 'l) tlit \<Rightarrow> 'l literal \<Rightarrow> bool" where
  "lit_is_data L l = (case l of FlatLit f \<Rightarrow> l_is_data L f | _ \<Rightarrow> False)"

definition lit_get_data :: "('f, 'l) tlit \<Rightarrow> 'l literal \<Rightarrow> data option" where
  "lit_get_data L l = (case l of FlatLit f \<Rightarrow> l_get_data L f | _ \<Rightarrow> None)"

definition lit_int :: "('f, 'l) tlit \<Rightarrow> i64 \<Rightarrow> 'l literal" where
  "lit_int L i = FlatLit (l_int L i)"

definition lit_str :: "('f, 'l) tlit \<Rightarrow> string \<Rightarrow> 'l literal" where
  "lit_str L s = FlatLit (l_str L s)"

definition lit_label :: "('f, 'l) tlit \<Rightarrow> label \<Rightarrow> 'l literal" where
  "lit_label L l = FlatLit (l_label L l)"

definition lit_id :: "('f, 'l) tlit \<Rightarrow> ID \<Rightarrow> 'l literal" where
  "lit_id L i = FlatLit (l_id L i)"

definition lit_ip :: "('f, 'l) tlit \<Rightarrow> ip_addr \<Rightarrow> 'l literal" where
  "lit_ip L i = FlatLit (l_ip_addr L i)"

definition lit_connection :: "('f, 'l) tlit \<Rightarrow> connection \<Rightarrow> 'l literal" where
  "lit_connection L c = FlatLit (l_connection L c)"

definition lit_unit :: "('f, 'l) tlit \<Rightarrow> 'l literal" where
  "lit_unit L = FlatLit (l_unit L)"

definition lit_is_unit :: "('f, 'l) tlit \<Rightarrow> 'l literal \<Rightarrow> bool" where
  "lit_is_unit L l = (case l of FlatLit f \<Rightarrow> l_is_unit L f | _ \<Rightarrow> False)"

definition lit_is_tuple :: "'l literal \<Rightarrow> bool" where
  "lit_is_tuple l = (case l of TupleL _ \<Rightarrow> True | _ \<Rightarrow> False)"

definition lit_none :: "'l literal" where
  "lit_none = TupleL []"

definition lit_some :: "'l literal \<Rightarrow> 'l literal" where
  "lit_some l = TupleL [l]"

definition dest_some :: "'l literal \<Rightarrow> 'l literal option" where
  "dest_some l = (case l of TupleL [x] \<Rightarrow> Some x | _ \<Rightarrow> None)"

definition lit_opt :: "'l literal option \<Rightarrow> 'l literal" where
  "lit_opt x = (case x of Some v \<Rightarrow> lit_some v | None \<Rightarrow> lit_none)"

text \<open>The type of a list is the type of its first element, not a list type.\<close>

fun lit_typ :: "('f, 'l) tlit \<Rightarrow> 'l literal \<Rightarrow> 'f ty" where
  "lit_typ L (FlatLit f) = FlatTyp (l_typ L f)"
| "lit_typ L (ListL ls) = (case ls of l # _ \<Rightarrow> lit_typ L l | [] \<Rightarrow> return_typ (l_types L))"
| "lit_typ L (TupleL ls) = TupleT (map (lit_typ L) ls)"

fun lit_eq :: "('l \<Rightarrow> 'l \<Rightarrow> bool) \<Rightarrow> 'l literal \<Rightarrow> 'l literal \<Rightarrow> bool" where
  "lit_eq e (FlatLit a) (FlatLit b) = e a b"
| "lit_eq e (ListL as) (ListL bs) = list_all2 (lit_eq e) as bs"
| "lit_eq e (TupleL as) (TupleL bs) = list_all2 (lit_eq e) as bs"
| "lit_eq e _ _ = False"

section \<open>The contract of the trait\<close>

text \<open>
  What generic code relies on: a getter answers exactly on the literals its constructor builds,
  the predicate says when, the unit literal is recognised, and \<open>==\<close> on the types the evaluator
  branches on is HOL's equality.
\<close>

locale flat_lit =
  fixes L :: "('f, 'l) tlit"
  assumes get_bool: "l_get_bool L x = Some b \<longleftrightarrow> x = l_bool L b"
    and is_bool: "l_is_bool L x \<longleftrightarrow> l_get_bool L x \<noteq> None"
    and get_data: "l_get_data L x = Some d \<longleftrightarrow> x = l_data L d"
    and is_data: "l_is_data L x \<longleftrightarrow> l_get_data L x \<noteq> None"
    and get_label: "l_get_label L x = Some p \<longleftrightarrow> x = l_label L p"
    and is_label: "l_is_label L x \<longleftrightarrow> l_get_label L x \<noteq> None"
    and get_str: "l_get_str L x = Some s \<longleftrightarrow> x = l_str L s"
    and is_str: "l_is_str L x \<longleftrightarrow> l_get_str L x \<noteq> None"
    and is_unit: "l_is_unit L x \<longleftrightarrow> x = l_unit L"
    and int_inj: "l_int L i = l_int L j \<longleftrightarrow> i = j"
    and typ_bool: "l_typ L x = t_bool (l_types L) \<longleftrightarrow> l_is_bool L x"
    and typ_unit: "l_typ L x = t_unit (l_types L) \<longleftrightarrow> x = l_unit L"
    and typ_not_return: "l_typ L x \<noteq> t_return (l_types L)"
    and eq_bool: "l_eq L (l_bool L b) x \<longleftrightarrow> x = l_bool L b"
    and eq_int: "l_eq L (l_int L i) x \<longleftrightarrow> x = l_int L i"
    and eq_str: "l_eq L (l_str L s) x \<longleftrightarrow> x = l_str L s"
    and eq_label: "l_eq L (l_label L p) (l_label L q) \<longleftrightarrow> label_eq p q"
begin

lemma get_bool_bool [simp]: "l_get_bool L (l_bool L b) = Some b"
  by (simp add: get_bool)

lemma bool_inj [simp]: "l_bool L a = l_bool L b \<longleftrightarrow> a = b"
proof
  assume "l_bool L a = l_bool L b"
  then have "l_get_bool L (l_bool L a) = l_get_bool L (l_bool L b)"
    by (rule arg_cong)
  then show "a = b"
    unfolding get_bool_bool by (rule option.inject [THEN iffD1])
qed simp

lemma is_bool_bool [simp]: "l_is_bool L (l_bool L b)"
  by (simp add: is_bool)

lemma lit_is_bool_iff: "lit_is_bool L x \<longleftrightarrow> (\<exists>b. x = lit_bool L b)"
  by (cases x) (auto simp: lit_is_bool_def lit_bool_def is_bool get_bool)

lemma lit_get_bool_iff: "lit_get_bool L x = Some b \<longleftrightarrow> x = lit_bool L b"
  by (cases x) (auto simp: lit_get_bool_def lit_bool_def get_bool)

lemma lit_bool_inj [simp]: "lit_bool L a = lit_bool L b \<longleftrightarrow> a = b"
  by (simp add: lit_bool_def)

lemma lit_is_unit_iff: "lit_is_unit L x \<longleftrightarrow> x = lit_unit L"
  by (cases x) (auto simp: lit_is_unit_def lit_unit_def is_unit)

lemma bool_not_unit: "t_bool (l_types L) \<noteq> t_unit (l_types L) \<Longrightarrow> l_bool L b \<noteq> l_unit L"
  using typ_bool [of "l_bool L b"] typ_unit [of "l_bool L b"] by auto

text \<open>The type of a literal is the return type only for an empty list, or a list of such.\<close>

lemma lit_typ_return: "lit_typ L x = return_typ (l_types L) \<Longrightarrow> \<exists>ls. x = ListL ls"
  by (cases x) (auto simp: typ_not_return)

lemma lit_typ_bool: "lit_typ L (FlatLit x) = bool_typ (l_types L) \<longleftrightarrow> (\<exists>b. x = l_bool L b)"
  by (auto simp: typ_bool is_bool get_bool)

end

interpretation dp_lit: flat_lit dp_lits
proof unfold_locales
  show "l_is_unit dp_lits x \<longleftrightarrow> x = l_unit dp_lits" for x
    by (cases x) (simp_all add: dp_lits_def)
  show "l_typ dp_lits x = t_unit (l_types dp_lits) \<longleftrightarrow> x = l_unit dp_lits" for x
    by (cases x) (simp_all add: dp_lits_def dp_types_def)
  show "l_typ dp_lits x = t_bool (l_types dp_lits) \<longleftrightarrow> l_is_bool dp_lits x" for x
    by (cases x) (simp_all add: dp_lits_def dp_types_def)
  show "l_typ dp_lits x \<noteq> t_return (l_types dp_lits)" for x
    by (cases x) (simp_all add: dp_lits_def dp_types_def)
qed (auto simp: dp_lits_def split: flat_literal.splits)

text \<open>The type of a list literal forgets that it is a list.\<close>

lemma lit_typ_list_not_list:
  "lit_typ dp_lits (ListL [FlatLit (IntL i)]) = i64_typ dp_types"
  by (simp add: dp_lits_def dp_types_def)

end
