(* ===== verification/Messages.thy ===== *)
theory Messages
  imports Literals
begin

text \<open>
  The operations of \<open>armour-lang/src/literals.rs\<close> on headers, identities, connections,
  requests and responses, the list-as-set operations \<open>VecSet\<close>, and the conversions into
  literals (\<open>From\<close>). Every operation builds literals through the trait.
\<close>

section \<open>Headers\<close>

definition hdr_header :: "('f, 'l) tlit \<Rightarrow> headers \<Rightarrow> string \<Rightarrow> 'l literal" where
  "hdr_header L h s =
     (case bt_get s h of None \<Rightarrow> lit_none | Some vs \<Rightarrow> lit_some (ListL (map (lit_data L) vs)))"

definition hdr_unique :: "('f, 'l) tlit \<Rightarrow> headers \<Rightarrow> string \<Rightarrow> 'l literal" where
  "hdr_unique L h s =
     (case bt_get s h of Some [d] \<Rightarrow> lit_some (lit_data L d) | _ \<Rightarrow> lit_none)"

definition hdr_set :: "string \<Rightarrow> data \<Rightarrow> headers \<Rightarrow> headers" where
  "hdr_set k v h =
     (case bt_get k h of Some l \<Rightarrow> bt_insert k (l @ [v]) h | None \<Rightarrow> bt_insert k [v] h)"

definition hdr_headers :: "('f, 'l) tlit \<Rightarrow> headers \<Rightarrow> 'l literal" where
  "hdr_headers L h = ListL (map (\<lambda>kv. lit_str L (fst kv)) h)"

definition hdr_pairs :: "('f, 'l) tlit \<Rightarrow> headers \<Rightarrow> 'l literal" where
  "hdr_pairs L h =
     ListL (concat (map (\<lambda>(k, vs). map (\<lambda>v. TupleL [lit_str L k, lit_data L v]) vs) h))"

text \<open>\<open>From<Vec<(&str, &[u8])>>\<close>.\<close>

definition hdr_from :: "(string \<times> data) list \<Rightarrow> headers" where
  "hdr_from kvs = foldl (\<lambda>h (k, v). hdr_set k v h) [] kvs"

section \<open>Identities\<close>

definition id_new :: "string list \<Rightarrow> ip_addr list \<Rightarrow> u16 option \<Rightarrow> label list \<Rightarrow> ID" where
  "id_new hosts ips port labels =
     \<lparr>id_hosts = hosts, id_ips = ips, id_port = port, id_labels = labels\<rparr>"

text \<open>The first host, unless \<open>is_ip\<close> (\<open>IpAddr::from_str\<close>) reads it as an address.\<close>

definition id_host :: "(string \<Rightarrow> bool) \<Rightarrow> ID \<Rightarrow> string option" where
  "id_host is_ip i =
     (case id_hosts i of h # _ \<Rightarrow> if \<not> is_ip h then Some h else None | [] \<Rightarrow> None)"

definition id_labels_lit :: "('f, 'l) tlit \<Rightarrow> ID \<Rightarrow> 'l literal" where
  "id_labels_lit L i = ListL (map (lit_label L) (id_labels i))"

definition id_hosts_lit :: "('f, 'l) tlit \<Rightarrow> ID \<Rightarrow> 'l literal" where
  "id_hosts_lit L i = ListL (map (lit_str L) (id_hosts i))"

definition id_ips_lit :: "('f, 'l) tlit \<Rightarrow> ID \<Rightarrow> 'l literal" where
  "id_ips_lit L i = ListL (map (lit_ip L) (id_ips i))"

definition id_port_lit :: "('f, 'l) tlit \<Rightarrow> ID \<Rightarrow> 'l literal" where
  "id_port_lit L i =
     (case id_port i of Some p \<Rightarrow> lit_some (lit_int L (u16_to_i64 p)) | None \<Rightarrow> lit_none)"

definition id_add_label :: "label \<Rightarrow> ID \<Rightarrow> ID" where
  "id_add_label l i = i\<lparr>id_labels := bs_insert l (id_labels i)\<rparr>"

definition id_add_host :: "string \<Rightarrow> ID \<Rightarrow> ID" where
  "id_add_host h i = i\<lparr>id_hosts := bs_insert h (id_hosts i)\<rparr>"

definition id_add_ip :: "ip_addr \<Rightarrow> ID \<Rightarrow> ID" where
  "id_add_ip a i = i\<lparr>id_ips := bs_insert a (id_ips i)\<rparr>"

definition id_set_port :: "u16 \<Rightarrow> ID \<Rightarrow> ID" where
  "id_set_port p i = i\<lparr>id_port := Some p\<rparr>"

definition id_has_label :: "label \<Rightarrow> ID \<Rightarrow> bool" where
  "id_has_label l i = (\<exists>x \<in> set (id_labels i). matches_with l x)"

definition id_find_label :: "label \<Rightarrow> ID \<Rightarrow> label option" where
  "id_find_label l i = find (\<lambda>x. matches_with l x) (id_labels i)"

definition id_has_host :: "string \<Rightarrow> ID \<Rightarrow> bool" where
  "id_has_host h i = (h \<in> set (id_hosts i))"

definition id_has_ip :: "ip_addr \<Rightarrow> ID \<Rightarrow> bool" where
  "id_has_ip a i = (a \<in> set (id_ips i))"

section \<open>Connections\<close>

definition conn_new :: "ID \<Rightarrow> ID \<Rightarrow> i64 \<Rightarrow> connection" where
  "conn_new from to n = \<lparr>conn_from = from, conn_to = to, conn_number = n\<rparr>"

text \<open>\<open>From<(&ID, &ID, usize)>\<close>: the number wraps into \<open>i64\<close>.\<close>

definition conn_from_usize :: "ID \<Rightarrow> ID \<Rightarrow> nat \<Rightarrow> connection" where
  "conn_from_usize from to n = conn_new from to (usize_to_i64 n)"

definition conn_literal :: "('f, 'l) tlit \<Rightarrow> ID \<Rightarrow> ID \<Rightarrow> i64 \<Rightarrow> 'l literal" where
  "conn_literal L from to n = FlatLit (l_connection L (conn_new from to n))"

definition conn_from_lit :: "('f, 'l) tlit \<Rightarrow> connection \<Rightarrow> 'l literal" where
  "conn_from_lit L c = lit_id L (conn_from c)"

definition conn_to_lit :: "('f, 'l) tlit \<Rightarrow> connection \<Rightarrow> 'l literal" where
  "conn_to_lit L c = lit_id L (conn_to c)"

definition conn_from_to :: "('f, 'l) tlit \<Rightarrow> connection \<Rightarrow> 'l literal" where
  "conn_from_to L c = TupleL [conn_from_lit L c, conn_to_lit L c]"

definition conn_number_lit :: "('f, 'l) tlit \<Rightarrow> connection \<Rightarrow> 'l literal" where
  "conn_number_lit L c = lit_int L (conn_number c)"

definition conn_set_from :: "ID \<Rightarrow> connection \<Rightarrow> connection" where
  "conn_set_from i c = c\<lparr>conn_from := i\<rparr>"

definition conn_set_to :: "ID \<Rightarrow> connection \<Rightarrow> connection" where
  "conn_set_to i c = c\<lparr>conn_to := i\<rparr>"

definition conn_set_number :: "i64 \<Rightarrow> connection \<Rightarrow> connection" where
  "conn_set_number n c = c\<lparr>conn_number := n\<rparr>"

section \<open>Requests\<close>

definition req_new ::
    "string \<Rightarrow> string \<Rightarrow> string \<Rightarrow> string \<Rightarrow> (string \<times> data) list \<Rightarrow> connection \<Rightarrow> http_request" where
  "req_new mt version path query hs c =
     \<lparr>req_method = (case parse_method mt of Some m \<Rightarrow> m | None \<Rightarrow> default_method),
      req_version = (case parse_version version of Some v \<Rightarrow> v | None \<Rightarrow> default_version),
      req_path = path, req_query = query, req_headers = hdr_from hs, req_connection = c\<rparr>"

definition req_of_method :: "http_method \<Rightarrow> http_request" where
  "req_of_method m = default_request\<lparr>req_method := m\<rparr>"

definition req_connection_lit :: "('f, 'l) tlit \<Rightarrow> http_request \<Rightarrow> 'l literal" where
  "req_connection_lit L r = lit_connection L (req_connection r)"

definition req_method_lit :: "('f, 'l) tlit \<Rightarrow> http_request \<Rightarrow> 'l literal" where
  "req_method_lit L r = lit_str L (show_method (req_method r))"

definition req_version_lit :: "('f, 'l) tlit \<Rightarrow> http_request \<Rightarrow> 'l literal" where
  "req_version_lit L r = lit_str L (show_version (req_version r))"

definition req_path_lit :: "('f, 'l) tlit \<Rightarrow> http_request \<Rightarrow> 'l literal" where
  "req_path_lit L r = lit_str L (req_path r)"

definition req_query_lit :: "('f, 'l) tlit \<Rightarrow> http_request \<Rightarrow> 'l literal" where
  "req_query_lit L r = lit_str L (req_query r)"

text \<open>\<open>trim_matches('/')\<close>, then \<open>split('/')\<close>.\<close>

definition req_route :: "('f, 'l) tlit \<Rightarrow> http_request \<Rightarrow> 'l literal" where
  "req_route L r =
     ListL (map (lit_str L)
       (split_char CHR ''/'' (trim_end_char CHR ''/'' (trim_start_char CHR ''/'' (req_path r)))))"

text \<open>
  \<open>query_pairs\<close> goes through the crate \<open>url\<close>: \<open>parse\<close> gives the pairs of a URL, or \<open>None\<close> when
  the URL is malformed.
\<close>

definition req_query_pairs ::
    "('f, 'l) tlit \<Rightarrow> (string \<Rightarrow> (string \<times> string) list option) \<Rightarrow> http_request \<Rightarrow> 'l literal" where
  "req_query_pairs L parse r =
     (case parse (''http://x/?'' @ req_query r) of
        Some kvs \<Rightarrow> ListL (map (\<lambda>(k, v). TupleL [lit_str L k, lit_str L v]) kvs)
      | None \<Rightarrow> ListL [])"

definition req_set_path :: "string \<Rightarrow> http_request \<Rightarrow> http_request" where
  "req_set_path s r = r\<lparr>req_path := s\<rparr>"

definition req_set_query :: "string \<Rightarrow> http_request \<Rightarrow> http_request" where
  "req_set_query s r = r\<lparr>req_query := s\<rparr>"

definition req_header :: "('f, 'l) tlit \<Rightarrow> http_request \<Rightarrow> string \<Rightarrow> 'l literal" where
  "req_header L r s = hdr_header L (req_headers r) s"

definition req_unique_header :: "('f, 'l) tlit \<Rightarrow> http_request \<Rightarrow> string \<Rightarrow> 'l literal" where
  "req_unique_header L r s = hdr_unique L (req_headers r) s"

definition req_set_header :: "string \<Rightarrow> data \<Rightarrow> http_request \<Rightarrow> http_request" where
  "req_set_header k v r = r\<lparr>req_headers := hdr_set k v (req_headers r)\<rparr>"

definition req_headers_lit :: "('f, 'l) tlit \<Rightarrow> http_request \<Rightarrow> 'l literal" where
  "req_headers_lit L r = hdr_headers L (req_headers r)"

definition req_header_pairs :: "('f, 'l) tlit \<Rightarrow> http_request \<Rightarrow> 'l literal" where
  "req_header_pairs L r = hdr_pairs L (req_headers r)"

definition req_set_connection :: "connection \<Rightarrow> http_request \<Rightarrow> http_request" where
  "req_set_connection c r = r\<lparr>req_connection := c\<rparr>"

definition req_set_from :: "ID \<Rightarrow> http_request \<Rightarrow> http_request" where
  "req_set_from i r = r\<lparr>req_connection := (req_connection r)\<lparr>conn_from := i\<rparr>\<rparr>"

definition req_set_to :: "ID \<Rightarrow> http_request \<Rightarrow> http_request" where
  "req_set_to i r = r\<lparr>req_connection := (req_connection r)\<lparr>conn_to := i\<rparr>\<rparr>"

definition req_from_lit :: "('f, 'l) tlit \<Rightarrow> http_request \<Rightarrow> 'l literal" where
  "req_from_lit L r = conn_from_lit L (req_connection r)"

definition req_to_lit :: "('f, 'l) tlit \<Rightarrow> http_request \<Rightarrow> 'l literal" where
  "req_to_lit L r = conn_to_lit L (req_connection r)"

definition req_from_to :: "('f, 'l) tlit \<Rightarrow> http_request \<Rightarrow> 'l literal" where
  "req_from_to L r = conn_from_to L (req_connection r)"

section \<open>Responses\<close>

definition res_new ::
    "string \<Rightarrow> u16 \<Rightarrow> string option \<Rightarrow> (string \<times> data) list \<Rightarrow> connection \<Rightarrow> http_response" where
  "res_new version status reason hs c =
     \<lparr>res_version = (case parse_version version of Some v \<Rightarrow> v | None \<Rightarrow> default_version),
      res_status = status, res_headers = hdr_from hs, res_reason = reason, res_connection = c\<rparr>"

definition res_literal :: "('f, 'l) tlit \<Rightarrow> u16 \<Rightarrow> 'l literal" where
  "res_literal L status = FlatLit (l_http_response L (default_response\<lparr>res_status := status\<rparr>))"

definition res_connection_lit :: "('f, 'l) tlit \<Rightarrow> http_response \<Rightarrow> 'l literal" where
  "res_connection_lit L r = lit_connection L (res_connection r)"

definition res_status_lit :: "('f, 'l) tlit \<Rightarrow> http_response \<Rightarrow> 'l literal" where
  "res_status_lit L r = lit_int L (u16_to_i64 (res_status r))"

definition res_version_lit :: "('f, 'l) tlit \<Rightarrow> http_response \<Rightarrow> 'l literal" where
  "res_version_lit L r = lit_str L (show_version (res_version r))"

definition res_header :: "('f, 'l) tlit \<Rightarrow> http_response \<Rightarrow> string \<Rightarrow> 'l literal" where
  "res_header L r s = hdr_header L (res_headers r) s"

definition res_unique_header :: "('f, 'l) tlit \<Rightarrow> http_response \<Rightarrow> string \<Rightarrow> 'l literal" where
  "res_unique_header L r s = hdr_unique L (res_headers r) s"

definition res_reason_lit :: "('f, 'l) tlit \<Rightarrow> http_response \<Rightarrow> 'l literal" where
  "res_reason_lit L r =
     (case res_reason r of Some s \<Rightarrow> lit_some (lit_str L s) | None \<Rightarrow> lit_none)"

definition res_set_reason :: "string \<Rightarrow> http_response \<Rightarrow> http_response" where
  "res_set_reason s r = r\<lparr>res_reason := Some s\<rparr>"

definition res_set_header :: "string \<Rightarrow> data \<Rightarrow> http_response \<Rightarrow> http_response" where
  "res_set_header k v r = r\<lparr>res_headers := hdr_set k v (res_headers r)\<rparr>"

definition res_headers_lit :: "('f, 'l) tlit \<Rightarrow> http_response \<Rightarrow> 'l literal" where
  "res_headers_lit L r = hdr_headers L (res_headers r)"

definition res_header_pairs :: "('f, 'l) tlit \<Rightarrow> http_response \<Rightarrow> 'l literal" where
  "res_header_pairs L r = hdr_pairs L (res_headers r)"

definition res_set_connection :: "connection \<Rightarrow> http_response \<Rightarrow> http_response" where
  "res_set_connection c r = r\<lparr>res_connection := c\<rparr>"

definition res_set_from :: "ID \<Rightarrow> http_response \<Rightarrow> http_response" where
  "res_set_from i r = r\<lparr>res_connection := (res_connection r)\<lparr>conn_from := i\<rparr>\<rparr>"

definition res_set_to :: "ID \<Rightarrow> http_response \<Rightarrow> http_response" where
  "res_set_to i r = r\<lparr>res_connection := (res_connection r)\<lparr>conn_to := i\<rparr>\<rparr>"

definition res_from_lit :: "('f, 'l) tlit \<Rightarrow> http_response \<Rightarrow> 'l literal" where
  "res_from_lit L r = conn_from_lit L (res_connection r)"

definition res_to_lit :: "('f, 'l) tlit \<Rightarrow> http_response \<Rightarrow> 'l literal" where
  "res_to_lit L r = conn_to_lit L (res_connection r)"

definition res_from_to :: "('f, 'l) tlit \<Rightarrow> http_response \<Rightarrow> 'l literal" where
  "res_from_to L r = conn_from_to L (res_connection r)"

section \<open>Lists as sets\<close>

abbreviation lit_in :: "('f, 'l) tlit \<Rightarrow> 'l literal \<Rightarrow> 'l literal list \<Rightarrow> bool" where
  "lit_in L x ys \<equiv> list_ex (\<lambda>y. lit_eq (l_eq L) x y) ys"

definition vs_contains :: "('f, 'l) tlit \<Rightarrow> 'l literal list \<Rightarrow> 'l literal \<Rightarrow> 'l literal" where
  "vs_contains L l x = lit_bool L (lit_in L x l)"

definition vs_is_subset :: "('f, 'l) tlit \<Rightarrow> 'l literal list \<Rightarrow> 'l literal list \<Rightarrow> 'l literal" where
  "vs_is_subset L x y = lit_bool L (list_all (\<lambda>ex. lit_in L ex y) x)"

definition vs_is_disjoint :: "('f, 'l) tlit \<Rightarrow> 'l literal list \<Rightarrow> 'l literal list \<Rightarrow> 'l literal" where
  "vs_is_disjoint L x y = lit_bool L (\<not> list_ex (\<lambda>ex. lit_in L ex y) x)"

definition vs_difference :: "('f, 'l) tlit \<Rightarrow> 'l literal list \<Rightarrow> 'l literal list \<Rightarrow> 'l literal" where
  "vs_difference L x y = ListL (filter (\<lambda>ex. \<not> lit_in L ex y) x)"

definition vs_intersection :: "('f, 'l) tlit \<Rightarrow> 'l literal list \<Rightarrow> 'l literal list \<Rightarrow> 'l literal" where
  "vs_intersection L x y = ListL (filter (\<lambda>ex. lit_in L ex y) x)"

section \<open>Conversions into literals\<close>

definition lit_of_id :: "('f, 'l) tlit \<Rightarrow> ID \<Rightarrow> 'l literal" where
  "lit_of_id L i = TupleL [id_hosts_lit L i, id_ips_lit L i, id_port_lit L i, id_labels_lit L i]"

definition lit_of_connection :: "('f, 'l) tlit \<Rightarrow> connection \<Rightarrow> 'l literal" where
  "lit_of_connection L c =
     TupleL [lit_of_id L (conn_from c), lit_of_id L (conn_to c), lit_int L (conn_number c)]"

definition lit_of_request :: "('f, 'l) tlit \<Rightarrow> http_request \<Rightarrow> 'l literal" where
  "lit_of_request L r =
     TupleL [req_method_lit L r, req_version_lit L r, req_path_lit L r, req_query_lit L r,
       req_header_pairs L r, lit_of_connection L (req_connection r)]"

definition lit_of_response :: "('f, 'l) tlit \<Rightarrow> http_response \<Rightarrow> 'l literal" where
  "lit_of_response L r =
     TupleL [res_version_lit L r, res_status_lit L r, res_header_pairs L r,
       lit_of_connection L (res_connection r)]"

definition lit_of_ip :: "('f, 'l) tlit \<Rightarrow> ip_addr \<Rightarrow> 'l literal" where
  "lit_of_ip L ip =
     (case (case ip of V6 w \<Rightarrow> to_ipv4 w | v4 \<Rightarrow> Some v4) of
        Some (V4 a b c d) \<Rightarrow> TupleL (map (\<lambda>x. lit_int L (u8_to_i64 x)) [a, b, c, d])
      | _ \<Rightarrow> lit_none)"

definition lit_of_match :: "('f, 'l) tlit \<Rightarrow> label_match \<Rightarrow> 'l literal" where
  "lit_of_match L m = ListL (map (\<lambda>(x, y). TupleL [lit_str L x, lit_str L y]) (match_pairs m))"

definition try_bool :: "('f, 'l) tlit \<Rightarrow> 'l literal \<Rightarrow> bool option" where
  "try_bool L l = (if lit_is_bool L l then lit_get_bool L l else None)"

definition try_unit :: "('f, 'l) tlit \<Rightarrow> 'l literal \<Rightarrow> unit option" where
  "try_unit L l = (if lit_is_unit L l then Some () else None)"

section \<open>Header maps\<close>

text \<open>The values stored under a name, none when the name is absent.\<close>

definition hdr_values :: "string \<Rightarrow> headers \<Rightarrow> data list" where
  "hdr_values k h = (case bt_get k h of Some vs \<Rightarrow> vs | None \<Rightarrow> [])"

text \<open>Headers as the code keeps them: ordered names, each with a value.\<close>

definition hdr_wf :: "headers \<Rightarrow> bool" where
  "hdr_wf h \<longleftrightarrow> bt_wf h \<and> (\<forall>k. bt_get k h \<noteq> Some [])"

lemma hdr_wf_Nil [simp]: "hdr_wf []"
  by (simp add: hdr_wf_def)

lemma hdr_wf_set [simp]: "hdr_wf h \<Longrightarrow> hdr_wf (hdr_set k v h)"
  by (auto simp: hdr_wf_def hdr_set_def split: option.split)

lemma hdr_values_set [simp]:
  "hdr_values x (hdr_set k v h) = (if x = k then hdr_values k h @ [v] else hdr_values x h)"
  by (auto simp: hdr_values_def hdr_set_def split: option.split)

lemma hdr_values_Nil [simp]: "hdr_values x [] = []"
  by (simp add: hdr_values_def)

lemma hdr_from_snoc: "hdr_from (kvs @ [(k, v)]) = hdr_set k v (hdr_from kvs)"
  by (simp add: hdr_from_def)

lemma hdr_wf_from [simp]: "hdr_wf (hdr_from kvs)"
proof (induction kvs rule: rev_induct)
  case (snoc kv kvs)
  then show ?case
    by (cases kv) (simp add: hdr_from_snoc)
qed (simp add: hdr_from_def)

lemma hdr_values_from: "hdr_values k (hdr_from kvs) = map snd (filter (\<lambda>kv. fst kv = k) kvs)"
proof (induction kvs rule: rev_induct)
  case (snoc kv kvs)
  then show ?case
    by (cases kv) (auto simp: hdr_from_snoc)
qed (simp add: hdr_from_def)

lemma bt_get_values: "hdr_wf h \<Longrightarrow> bt_get k h = (if hdr_values k h = [] then None else Some (hdr_values k h))"
  by (auto simp: hdr_values_def hdr_wf_def split: option.split)

lemma hdr_header_values:
  "hdr_wf h \<Longrightarrow> hdr_header L h k =
     (if hdr_values k h = [] then lit_none else lit_some (ListL (map (lit_data L) (hdr_values k h))))"
  by (simp add: hdr_header_def bt_get_values)

lemma hdr_unique_values:
  "hdr_unique L h k = (case hdr_values k h of [v] \<Rightarrow> lit_some (lit_data L v) | _ \<Rightarrow> lit_none)"
  by (simp add: hdr_unique_def hdr_values_def split: option.split list.split)

lemma hdr_set_eqI: "hdr_wf h \<Longrightarrow> hdr_wf h' \<Longrightarrow> (\<And>k. hdr_values k h = hdr_values k h') \<Longrightarrow> h = h'"
  by (rule bt_eqI) (auto simp: bt_get_values, auto simp: hdr_wf_def)

section \<open>Identities\<close>

definition id_wf :: "ID \<Rightarrow> bool" where
  "id_wf i \<longleftrightarrow> bs_wf (id_hosts i) \<and> bs_wf (id_ips i) \<and> bs_wf (id_labels i)"

lemma id_wf_ops [simp]:
  "id_wf default_id"
  "id_wf i \<Longrightarrow> id_wf (id_add_label l i)"
  "id_wf i \<Longrightarrow> id_wf (id_add_host h i)"
  "id_wf i \<Longrightarrow> id_wf (id_add_ip a i)"
  "id_wf i \<Longrightarrow> id_wf (id_set_port p i)"
  by (simp_all add: id_wf_def default_id_def id_add_label_def id_add_host_def id_add_ip_def id_set_port_def)

lemma id_has_label_add [simp]: "id_has_label p (id_add_label l i) \<longleftrightarrow> matches_with p l \<or> id_has_label p i"
  by (auto simp: id_has_label_def id_add_label_def)

lemma id_has_label_frame [simp]:
  "id_has_label p (id_add_host h i) = id_has_label p i"
  "id_has_label p (id_add_ip a i) = id_has_label p i"
  "id_has_label p (id_set_port n i) = id_has_label p i"
  by (simp_all add: id_has_label_def id_add_host_def id_add_ip_def id_set_port_def)

lemma id_has_host_ip_add [simp]:
  "id_has_host h' (id_add_host h i) \<longleftrightarrow> h' = h \<or> id_has_host h' i"
  "id_has_ip a' (id_add_ip a i) \<longleftrightarrow> a' = a \<or> id_has_ip a' i"
  by (auto simp: id_has_host_def id_add_host_def id_has_ip_def id_add_ip_def)

lemma id_find_label_has: "id_find_label p i \<noteq> None \<longleftrightarrow> id_has_label p i"
  by (auto simp: id_find_label_def id_has_label_def find_None_iff)

lemma id_add_label_commute:
  "id_wf i \<Longrightarrow> id_add_label a (id_add_label b i) = id_add_label b (id_add_label a i)"
  using bs_eqI [of "bs_insert a (bs_insert b (id_labels i))" "bs_insert b (bs_insert a (id_labels i))"]
  by (auto simp: id_add_label_def id_wf_def insert_commute)

section \<open>Properties\<close>

text \<open>\<open>Headers::from\<close> loses nothing and invents nothing: the header of a name is the list of
  the values given for it, in the order they were given, and \<open>unique_header\<close> answers exactly
  when there is one.\<close>

theorem headers_from_spec:
  "hdr_header L (hdr_from kvs) k =
     (case map snd (filter (\<lambda>kv. fst kv = k) kvs) of
        [] \<Rightarrow> lit_none | vs \<Rightarrow> lit_some (ListL (map (lit_data L) vs))) \<and>
   hdr_unique L (hdr_from kvs) k =
     (case map snd (filter (\<lambda>kv. fst kv = k) kvs) of
        [v] \<Rightarrow> lit_some (lit_data L v) | _ \<Rightarrow> lit_none)"
  by (auto simp: hdr_header_values hdr_unique_values hdr_values_from split: list.split)

text \<open>Setting headers of different names commutes, and the value set is the last value of its
  header.\<close>

theorem set_header_spec:
  assumes "hdr_wf h"
  shows "hdr_values k (hdr_set k v h) = hdr_values k h @ [v] \<and>
    (k' \<noteq> k \<longrightarrow> hdr_values k' (hdr_set k v h) = hdr_values k' h \<and>
       hdr_set k v (hdr_set k' v' h) = hdr_set k' v' (hdr_set k v h)) \<and>
    hdr_wf (hdr_set k v h)"
  using assms by (auto intro: hdr_set_eqI)

theorem set_header_spec_witness:
  "hdr_set ''b'' [2] (hdr_set ''a'' [1] []) = hdr_set ''a'' [1] (hdr_set ''b'' [2] [])"
  using set_header_spec [of "[]" "''b''" "[2]" "''a''" "[1]"] by simp

end
