(* ===== verification/Expressions.thy ===== *)
theory Expressions
  imports Messages
begin

text \<open>
  The expressions of \<open>armour-lang/src/expressions.rs\<close> and their variables: locally nameless
  terms with named free variables (\<open>Var\<close>), de Bruijn indices (\<open>BVar\<close>) and the binder
  \<open>Closure\<close>; \<open>shift\<close>, \<open>subst\<close>, \<open>abs\<close> and \<open>apply\<close>, the smart constructors for \<open>let\<close> and
  iterations, and the conversion of control-plane expressions into data-plane ones.
\<close>

section \<open>Expressions\<close>

datatype block = ListBlock | TupleBlock | Block

datatype 'l expr =
    Var ident
  | BVar ident nat
  | LitExpr "'l literal"
  | ReturnExpr "'l expr"
  | PrefixExpr prefix_op "'l expr"
  | InfixExpr infix_op "'l expr" "'l expr"
  | BlockExpr block "'l expr list"
  | LetExpr "string list" "'l expr" "'l expr"
  | IterExpr iter_op "string list" "'l expr" "'l expr" "(string \<times> 'l expr) option"
  | Closure ident "'l expr"
  | IfExpr "'l expr" "'l expr" "'l expr option"
  | IfMatchExpr "string list" "('l expr \<times> pattern) list" "'l expr" "'l expr option"
  | IfSomeMatchExpr "'l expr" "'l expr" "'l expr option"
  | CallExpr string "'l expr list" bool

text \<open>\<open>is_free u\<close>: the index \<open>u\<close> does not occur.\<close>

fun is_free :: "nat \<Rightarrow> 'l expr \<Rightarrow> bool" where
  "is_free u (Var _) = True"
| "is_free u (BVar _ u1) = (u1 \<noteq> u)"
| "is_free u (LitExpr _) = True"
| "is_free u (Closure _ e) = is_free (u + 1) e"
| "is_free u (ReturnExpr e) = is_free u e"
| "is_free u (PrefixExpr _ e) = is_free u e"
| "is_free u (InfixExpr _ e1 e2) = (is_free u e1 \<and> is_free u e2)"
| "is_free u (LetExpr _ e1 e2) = (is_free u e1 \<and> is_free u e2)"
| "is_free u (IterExpr _ _ e1 e2 acc) =
     (is_free u e1 \<and> is_free u e2 \<and> (case acc of Some (_, a) \<Rightarrow> is_free u a | None \<Rightarrow> True))"
| "is_free u (BlockExpr _ es) = list_all (is_free u) es"
| "is_free u (IfExpr c t alt) =
     (is_free u c \<and> is_free u t \<and> (case alt of Some a \<Rightarrow> is_free u a | None \<Rightarrow> True))"
| "is_free u (IfSomeMatchExpr e t alt) =
     (is_free u e \<and> is_free u t \<and> (case alt of Some a \<Rightarrow> is_free u a | None \<Rightarrow> True))"
| "is_free u (IfMatchExpr _ ms t alt) =
     (list_all (\<lambda>(x, _). is_free u x) ms \<and> is_free u t \<and>
      (case alt of Some a \<Rightarrow> is_free u a | None \<Rightarrow> True))"
| "is_free u (CallExpr _ args _) = list_all (is_free u) args"

text \<open>\<open>shift i d\<close>: with \<open>i \<noteq> 0\<close> the indices from \<open>d\<close> on grow by one, whatever \<open>i\<close> is.\<close>

fun shift :: "nat \<Rightarrow> nat \<Rightarrow> 'l expr \<Rightarrow> 'l expr" where
  "shift i d (Var x) = Var x"
| "shift i d (LitExpr l) = LitExpr l"
| "shift i d (BVar x j) = (if i = 0 then BVar x j else if d \<le> j then BVar x (j + 1) else BVar x j)"
| "shift i d (LetExpr l e1 e2) = LetExpr l (shift i d e1) (shift i d e2)"
| "shift i d (IterExpr op l e1 e2 acc) =
     IterExpr op l (shift i d e1) (shift i d e2) (map_option (\<lambda>(n, a). (n, shift i d a)) acc)"
| "shift i d (Closure v e) = Closure v (shift i (d + 1) e)"
| "shift i d (ReturnExpr e) = ReturnExpr (shift i d e)"
| "shift i d (PrefixExpr p e) = PrefixExpr p (shift i d e)"
| "shift i d (InfixExpr op e1 e2) = InfixExpr op (shift i d e1) (shift i d e2)"
| "shift i d (BlockExpr b es) = BlockExpr b (map (shift i d) es)"
| "shift i d (IfExpr c t alt) = IfExpr (shift i d c) (shift i d t) (map_option (shift i d) alt)"
| "shift i d (IfMatchExpr vs ms t alt) =
     IfMatchExpr vs (map (\<lambda>(e, p). (shift i d e, p)) ms) (shift i d t) (map_option (shift i d) alt)"
| "shift i d (IfSomeMatchExpr e t alt) =
     IfSomeMatchExpr (shift i d e) (shift i d t) (map_option (shift i d) alt)"
| "shift i d (CallExpr f args as) = CallExpr f (map (shift i d) args) as"

fun subst :: "nat \<Rightarrow> 'l expr \<Rightarrow> bool \<Rightarrow> 'l expr \<Rightarrow> 'l expr" where
  "subst i u dg (Var x) = Var x"
| "subst i u dg (LitExpr l) = LitExpr l"
| "subst i u dg (BVar x j) =
     (if j < i then BVar x j
      else if j = i then (if dg then shift i 0 u else u)
      else BVar x (if dg then j - 1 else j))"
| "subst i u dg (LetExpr l e1 e2) = LetExpr l (subst i u dg e1) (subst i u dg e2)"
| "subst i u dg (IterExpr op l e1 e2 acc) =
     IterExpr op l (subst i u dg e1) (subst i u dg e2) (map_option (\<lambda>(n, a). (n, subst i u dg a)) acc)"
| "subst i u dg (Closure v e) = Closure v (subst (i + 1) u dg e)"
| "subst i u dg (ReturnExpr e) = ReturnExpr (subst i u dg e)"
| "subst i u dg (PrefixExpr p e) = PrefixExpr p (subst i u dg e)"
| "subst i u dg (InfixExpr op e1 e2) = InfixExpr op (subst i u dg e1) (subst i u dg e2)"
| "subst i u dg (BlockExpr b es) = BlockExpr b (map (subst i u dg) es)"
| "subst i u dg (IfExpr c t alt) =
     IfExpr (subst i u dg c) (subst i u dg t) (map_option (subst i u dg) alt)"
| "subst i u dg (IfMatchExpr vs ms t alt) =
     IfMatchExpr vs (map (\<lambda>(e, p). (subst i u dg e, p)) ms) (subst i u dg t)
       (map_option (subst i u dg) alt)"
| "subst i u dg (IfSomeMatchExpr e t alt) =
     IfSomeMatchExpr (subst i u dg e) (subst i u dg t) (map_option (subst i u dg) alt)"
| "subst i u dg (CallExpr f args as) = CallExpr f (map (subst i u dg) args) as"

text \<open>\<open>psubst\<close> goes under the leading closures without renumbering.\<close>

fun psubst :: "nat \<Rightarrow> 'l expr \<Rightarrow> 'l expr \<Rightarrow> 'l expr" where
  "psubst i u (Closure v e) = Closure v (psubst i u e)"
| "psubst i u e = subst i u True e"

fun propagate_subst :: "nat \<Rightarrow> nat \<Rightarrow> 'l expr \<Rightarrow> 'l expr \<Rightarrow> 'l expr" where
  "propagate_subst i j u (Closure v e) =
     (if j = 0 then psubst i u e else Closure v (propagate_subst i (j - 1) u e))"
| "propagate_subst i j u e = psubst i u e"

text \<open>The body under \<open>i\<close> closures; \<open>i - 1\<close> wraps as \<open>usize\<close>.\<close>

fun at_depth :: "nat \<Rightarrow> 'l expr \<Rightarrow> 'l expr option" where
  "at_depth i (Closure v e) = at_depth (if i = 0 then 2 ^ 64 - 1 else i - 1) e"
| "at_depth i e = (if i = 0 then Some e else None)"

fun apply_expr :: "'l expr \<Rightarrow> 'l expr \<Rightarrow> 'l expr result" where
  "apply_expr (Closure v e) u = Inr (subst 0 u True e)"
| "apply_expr e u = Inl (Error ''apply: expression is not a closure'')"

fun abs_expr :: "nat \<Rightarrow> string \<Rightarrow> 'l expr \<Rightarrow> 'l expr" where
  "abs_expr i v (BVar x j) = BVar x j"
| "abs_expr i v (LitExpr l) = LitExpr l"
| "abs_expr i v (Var x) = (if x = v then BVar x i else Var x)"
| "abs_expr i v (LetExpr l e1 e2) = LetExpr l (abs_expr i v e1) (abs_expr i v e2)"
| "abs_expr i v (IterExpr op l e1 e2 acc) =
     IterExpr op l (abs_expr i v e1) (abs_expr i v e2) (map_option (\<lambda>(n, a). (n, abs_expr i v a)) acc)"
| "abs_expr i v (Closure v2 e) = Closure v2 (abs_expr (i + 1) v e)"
| "abs_expr i v (ReturnExpr e) = ReturnExpr (abs_expr i v e)"
| "abs_expr i v (PrefixExpr p e) = PrefixExpr p (abs_expr i v e)"
| "abs_expr i v (InfixExpr op e1 e2) = InfixExpr op (abs_expr i v e1) (abs_expr i v e2)"
| "abs_expr i v (BlockExpr b es) = BlockExpr b (map (abs_expr i v) es)"
| "abs_expr i v (IfExpr c t alt) =
     IfExpr (abs_expr i v c) (abs_expr i v t) (map_option (abs_expr i v) alt)"
| "abs_expr i v (IfMatchExpr vs ms t alt) =
     IfMatchExpr vs (map (\<lambda>(e, p). (abs_expr i v e, p)) ms) (abs_expr i v t)
       (map_option (abs_expr i v) alt)"
| "abs_expr i v (IfSomeMatchExpr e t alt) =
     IfSomeMatchExpr (abs_expr i v e) (abs_expr i v t) (map_option (abs_expr i v) alt)"
| "abs_expr i v (CallExpr f args as) = CallExpr f (map (abs_expr i v) args) as"

definition closure_expr :: "string \<Rightarrow> 'l expr \<Rightarrow> 'l expr" where
  "closure_expr v e = (if v = ''_'' then e else Closure v (abs_expr 0 v e))"

text \<open>\<open>for s in v.iter().rev() { c = c.closure_expr(s) }\<close>.\<close>

definition closures :: "string list \<Rightarrow> 'l expr \<Rightarrow> 'l expr" where
  "closures vs e = foldr closure_expr vs e"

definition let_expr :: "'l expr \<Rightarrow> string list \<Rightarrow> 'l expr \<Rightarrow> 'l expr" where
  "let_expr body vs e =
     (if vs = [''_''] then BlockExpr Block [e, body] else LetExpr vs e (closures vs body))"

definition iter_expr ::
    "'l expr \<Rightarrow> iter_op \<Rightarrow> string list \<Rightarrow> 'l expr \<Rightarrow> (string \<times> 'l expr) option \<Rightarrow> 'l expr" where
  "iter_expr body op vs e acc =
     (let c = closures vs body;
          c' = (case acc of Some (n, _) \<Rightarrow> closure_expr n c | None \<Rightarrow> c)
      in IterExpr op vs e c' acc)"

definition expr_none :: "'l expr" where
  "expr_none = LitExpr lit_none"

definition expr_some :: "'l literal \<Rightarrow> 'l expr" where
  "expr_some l = LitExpr (lit_some l)"

definition expr_unit :: "('f, 'l) tlit \<Rightarrow> 'l expr" where
  "expr_unit L = LitExpr (lit_unit L)"

definition expr_call :: "string \<Rightarrow> 'l expr list \<Rightarrow> 'l expr" where
  "expr_call f args = CallExpr f args False"

text \<open>\<open>TExpr::host\<close>: \<open>as_id\<close> recognises an identity literal of the plane.\<close>

definition expr_host :: "('l \<Rightarrow> ID option) \<Rightarrow> (string \<Rightarrow> bool) \<Rightarrow> 'l expr \<Rightarrow> string option" where
  "expr_host as_id is_ip e =
     (case e of
        LitExpr (FlatLit l) \<Rightarrow> (case as_id l of Some i \<Rightarrow> id_host is_ip i | None \<Rightarrow> None)
      | _ \<Rightarrow> None)"

section \<open>From the control plane to the data plane\<close>

text \<open>\<open>dp\<close> converts a flat literal, \<open>None\<close> where the code panics.\<close>

fun lit_convert :: "('c \<Rightarrow> 'd option) \<Rightarrow> 'c literal \<Rightarrow> 'd literal option" where
  "lit_convert dp (FlatLit l) = map_option FlatLit (dp l)"
| "lit_convert dp (ListL ls) = map_option ListL (map_opt (lit_convert dp) ls)"
| "lit_convert dp (TupleL ls) = map_option TupleL (map_opt (lit_convert dp) ls)"

definition opt_convert :: "('a \<Rightarrow> 'b option) \<Rightarrow> 'a option \<Rightarrow> 'b option option" where
  "opt_convert f a = (case a of None \<Rightarrow> Some None | Some x \<Rightarrow> map_option Some (f x))"

lemma opt_convert_cong [fundef_cong]:
  "a = b \<Longrightarrow> (\<And>x. b = Some x \<Longrightarrow> f x = g x) \<Longrightarrow> opt_convert f a = opt_convert g b"
  by (cases b) (simp_all add: opt_convert_def)

fun expr_convert :: "('c \<Rightarrow> 'd option) \<Rightarrow> 'c expr \<Rightarrow> 'd expr option" where
  "expr_convert dp (Var v) = Some (Var v)"
| "expr_convert dp (BVar v u) = Some (BVar v u)"
| "expr_convert dp (LitExpr l) = map_option LitExpr (lit_convert dp l)"
| "expr_convert dp (ReturnExpr e) = map_option ReturnExpr (expr_convert dp e)"
| "expr_convert dp (PrefixExpr p e) = map_option (PrefixExpr p) (expr_convert dp e)"
| "expr_convert dp (InfixExpr op e1 e2) =
     (case (expr_convert dp e1, expr_convert dp e2) of
        (Some a, Some b) \<Rightarrow> Some (InfixExpr op a b) | _ \<Rightarrow> None)"
| "expr_convert dp (BlockExpr b es) = map_option (BlockExpr b) (map_opt (expr_convert dp) es)"
| "expr_convert dp (LetExpr vs e1 e2) =
     (case (expr_convert dp e1, expr_convert dp e2) of
        (Some a, Some b) \<Rightarrow> Some (LetExpr vs a b) | _ \<Rightarrow> None)"
| "expr_convert dp (IterExpr op vs e1 e2 acc) =
     (case (expr_convert dp e1, expr_convert dp e2,
            opt_convert (\<lambda>(n, a). map_option (Pair n) (expr_convert dp a)) acc) of
        (Some a, Some b, Some c) \<Rightarrow> Some (IterExpr op vs a b c) | _ \<Rightarrow> None)"
| "expr_convert dp (Closure v e) = map_option (Closure v) (expr_convert dp e)"
| "expr_convert dp (IfExpr c t alt) =
     (case (expr_convert dp c, expr_convert dp t, opt_convert (expr_convert dp) alt) of
        (Some a, Some b, Some d) \<Rightarrow> Some (IfExpr a b d) | _ \<Rightarrow> None)"
| "expr_convert dp (IfMatchExpr vs ms t alt) =
     (case (map_opt (\<lambda>(e, p). map_option (\<lambda>e'. (e', p)) (expr_convert dp e)) ms,
            expr_convert dp t, opt_convert (expr_convert dp) alt) of
        (Some a, Some b, Some d) \<Rightarrow> Some (IfMatchExpr vs a b d) | _ \<Rightarrow> None)"
| "expr_convert dp (IfSomeMatchExpr e t alt) =
     (case (expr_convert dp e, expr_convert dp t, opt_convert (expr_convert dp) alt) of
        (Some a, Some b, Some d) \<Rightarrow> Some (IfSomeMatchExpr a b d) | _ \<Rightarrow> None)"
| "expr_convert dp (CallExpr f args as) =
     map_option (\<lambda>es. CallExpr f es as) (map_opt (expr_convert dp) args)"

section \<open>Closed terms\<close>

text \<open>Every index below \<open>k\<close> or bound; the free names of a term.\<close>

fun lc_at :: "nat \<Rightarrow> 'l expr \<Rightarrow> bool" where
  "lc_at k (Var _) = True"
| "lc_at k (BVar _ j) = (j < k)"
| "lc_at k (LitExpr _) = True"
| "lc_at k (Closure _ e) = lc_at (k + 1) e"
| "lc_at k (ReturnExpr e) = lc_at k e"
| "lc_at k (PrefixExpr _ e) = lc_at k e"
| "lc_at k (InfixExpr _ e1 e2) = (lc_at k e1 \<and> lc_at k e2)"
| "lc_at k (LetExpr _ e1 e2) = (lc_at k e1 \<and> lc_at k e2)"
| "lc_at k (IterExpr _ _ e1 e2 acc) =
     (lc_at k e1 \<and> lc_at k e2 \<and> pred_option (\<lambda>(n, a). lc_at k a) acc)"
| "lc_at k (BlockExpr _ es) = list_all (lc_at k) es"
| "lc_at k (IfExpr c t alt) = (lc_at k c \<and> lc_at k t \<and> pred_option (lc_at k) alt)"
| "lc_at k (IfSomeMatchExpr e t alt) = (lc_at k e \<and> lc_at k t \<and> pred_option (lc_at k) alt)"
| "lc_at k (IfMatchExpr _ ms t alt) =
     (list_all (\<lambda>(x, _). lc_at k x) ms \<and> lc_at k t \<and> pred_option (lc_at k) alt)"
| "lc_at k (CallExpr _ args _) = list_all (lc_at k) args"

fun fv :: "'l expr \<Rightarrow> string set" where
  "fv (Var x) = {x}"
| "fv (BVar _ _) = {}"
| "fv (LitExpr _) = {}"
| "fv (Closure _ e) = fv e"
| "fv (ReturnExpr e) = fv e"
| "fv (PrefixExpr _ e) = fv e"
| "fv (InfixExpr _ e1 e2) = fv e1 \<union> fv e2"
| "fv (LetExpr _ e1 e2) = fv e1 \<union> fv e2"
| "fv (IterExpr _ _ e1 e2 acc) = fv e1 \<union> fv e2 \<union> (case acc of None \<Rightarrow> {} | Some (_, a) \<Rightarrow> fv a)"
| "fv (BlockExpr _ es) = (\<Union>e \<in> set es. fv e)"
| "fv (IfExpr c t alt) = fv c \<union> fv t \<union> (case alt of None \<Rightarrow> {} | Some a \<Rightarrow> fv a)"
| "fv (IfSomeMatchExpr e t alt) = fv e \<union> fv t \<union> (case alt of None \<Rightarrow> {} | Some a \<Rightarrow> fv a)"
| "fv (IfMatchExpr _ ms t alt) =
     (\<Union>(e, p) \<in> set ms. fv e) \<union> fv t \<union> (case alt of None \<Rightarrow> {} | Some a \<Rightarrow> fv a)"
| "fv (CallExpr _ args _) = (\<Union>e \<in> set args. fv e)"

text \<open>Substitution of a term for a free name: what binding and applying amounts to.\<close>

fun nsubst :: "string \<Rightarrow> 'l expr \<Rightarrow> 'l expr \<Rightarrow> 'l expr" where
  "nsubst v u (Var x) = (if x = v then u else Var x)"
| "nsubst v u (BVar x j) = BVar x j"
| "nsubst v u (LitExpr l) = LitExpr l"
| "nsubst v u (Closure x e) = Closure x (nsubst v u e)"
| "nsubst v u (ReturnExpr e) = ReturnExpr (nsubst v u e)"
| "nsubst v u (PrefixExpr p e) = PrefixExpr p (nsubst v u e)"
| "nsubst v u (InfixExpr op e1 e2) = InfixExpr op (nsubst v u e1) (nsubst v u e2)"
| "nsubst v u (LetExpr l e1 e2) = LetExpr l (nsubst v u e1) (nsubst v u e2)"
| "nsubst v u (IterExpr op l e1 e2 acc) =
     IterExpr op l (nsubst v u e1) (nsubst v u e2) (map_option (\<lambda>(n, a). (n, nsubst v u a)) acc)"
| "nsubst v u (BlockExpr b es) = BlockExpr b (map (nsubst v u) es)"
| "nsubst v u (IfExpr c t alt) = IfExpr (nsubst v u c) (nsubst v u t) (map_option (nsubst v u) alt)"
| "nsubst v u (IfSomeMatchExpr e t alt) =
     IfSomeMatchExpr (nsubst v u e) (nsubst v u t) (map_option (nsubst v u) alt)"
| "nsubst v u (IfMatchExpr vs ms t alt) =
     IfMatchExpr vs (map (\<lambda>(e, p). (nsubst v u e, p)) ms) (nsubst v u t) (map_option (nsubst v u) alt)"
| "nsubst v u (CallExpr f args as) = CallExpr f (map (nsubst v u) args) as"

section \<open>Binding and applying\<close>

text \<open>Induction on terms, with the hypotheses of nested terms stated on the elements.\<close>

lemma expr_induct [case_names Var BVar Lit Return Prefix Infix Block Let Iter Closure If IfMatch IfSome Call]:
  assumes "\<And>x. P (Var x)" "\<And>x j. P (BVar x j)" "\<And>l. P (LitExpr l)"
    and "\<And>e. P e \<Longrightarrow> P (ReturnExpr e)"
    and "\<And>p e. P e \<Longrightarrow> P (PrefixExpr p e)"
    and "\<And>op e1 e2. P e1 \<Longrightarrow> P e2 \<Longrightarrow> P (InfixExpr op e1 e2)"
    and "\<And>b es. (\<And>e. e \<in> set es \<Longrightarrow> P e) \<Longrightarrow> P (BlockExpr b es)"
    and "\<And>l e1 e2. P e1 \<Longrightarrow> P e2 \<Longrightarrow> P (LetExpr l e1 e2)"
    and "\<And>op l e1 e2 acc. P e1 \<Longrightarrow> P e2 \<Longrightarrow> (\<And>n a. acc = Some (n, a) \<Longrightarrow> P a) \<Longrightarrow> P (IterExpr op l e1 e2 acc)"
    and "\<And>v e. P e \<Longrightarrow> P (Closure v e)"
    and "\<And>c t alt. P c \<Longrightarrow> P t \<Longrightarrow> (\<And>a. alt = Some a \<Longrightarrow> P a) \<Longrightarrow> P (IfExpr c t alt)"
    and "\<And>vs ms t alt. (\<And>e p. (e, p) \<in> set ms \<Longrightarrow> P e) \<Longrightarrow> P t \<Longrightarrow> (\<And>a. alt = Some a \<Longrightarrow> P a) \<Longrightarrow>
      P (IfMatchExpr vs ms t alt)"
    and "\<And>e t alt. P e \<Longrightarrow> P t \<Longrightarrow> (\<And>a. alt = Some a \<Longrightarrow> P a) \<Longrightarrow> P (IfSomeMatchExpr e t alt)"
    and "\<And>f args as. (\<And>e. e \<in> set args \<Longrightarrow> P e) \<Longrightarrow> P (CallExpr f args as)"
  shows "P e"
proof (induction e)
  case (IfMatchExpr vs ms t alt)
  have "P e" if "(e, p) \<in> set ms" for e p
    using IfMatchExpr(1) [OF that] by simp
  then show ?case
    using IfMatchExpr(2, 3) by (intro assms(12)) auto
next
  case (IterExpr op l e1 e2 acc)
  have "P a" if "acc = Some (n, a)" for n a
    using IterExpr(3) [of "(n, a)" a] that by simp
  then show ?case
    using IterExpr(1, 2) by (intro assms(9)) auto
qed (auto intro: assms)

lemma pred_option_iff: "pred_option P a \<longleftrightarrow> (\<forall>x. a = Some x \<longrightarrow> P x)"
  by (cases a) auto

lemma map_option_id_iff: "map_option f a = a \<longleftrightarrow> (\<forall>x. a = Some x \<longrightarrow> f x = x)"
  by (cases a) auto

lemma map_option_eq_iff: "map_option f a = map_option g a \<longleftrightarrow> (\<forall>x. a = Some x \<longrightarrow> f x = g x)"
  by (cases a) auto

lemma map_option_pair_eq: "map_option f (map_option g a) = map_option h a \<longleftrightarrow> (\<forall>x. a = Some x \<longrightarrow> f (g x) = h x)"
  by (cases a) auto

lemma map_option_two_eq:
  "map_option f (map_option g a) = map_option h (map_option k a) \<longleftrightarrow> (\<forall>x. a = Some x \<longrightarrow> f (g x) = h (k x))"
  by (cases a) auto

lemma map_id_iff: "map f xs = xs \<longleftrightarrow> (\<forall>x \<in> set xs. f x = x)"
  by (induction xs) auto

lemmas expr_nested = list_all_iff pred_option_iff map_option_id_iff map_option_eq_iff
  map_option_pair_eq map_option_two_eq map_id_iff map_eq_conv

lemma lc_at_mono: "lc_at k e \<Longrightarrow> k \<le> k' \<Longrightarrow> lc_at k' e"
  by (induction e arbitrary: k k' rule: expr_induct) (auto simp: expr_nested)

lemma shift_lc: "lc_at d e \<Longrightarrow> shift i d e = e"
  by (induction e arbitrary: d rule: expr_induct) (auto simp: expr_nested)

lemma shift_0: "shift 0 d e = e"
  by (induction e arbitrary: d rule: expr_induct) (auto simp: expr_nested)

lemma subst_lc: "lc_at i e \<Longrightarrow> subst i u dg e = e"
  by (induction e arbitrary: i rule: expr_induct) (auto simp: expr_nested)

lemma lc_at_abs: "lc_at i e \<Longrightarrow> lc_at (Suc i) (abs_expr i v e)"
  by (induction e arbitrary: i rule: expr_induct) (auto simp: expr_nested)

lemma fv_abs: "fv (abs_expr i v e) = fv e - {v}"
  by (induction e arbitrary: i rule: expr_induct) (auto split: option.splits)

lemma abs_fresh: "v \<notin> fv e \<Longrightarrow> abs_expr i v e = e"
  by (induction e arbitrary: i rule: expr_induct) (auto simp: expr_nested)

lemma nsubst_fresh: "v \<notin> fv e \<Longrightarrow> nsubst v u e = e"
  by (induction e rule: expr_induct) (auto simp: expr_nested)

lemma subst_abs: "lc_at i e \<Longrightarrow> lc_at 0 u \<Longrightarrow> subst i u True (abs_expr i v e) = nsubst v u e"
  by (induction e arbitrary: i rule: expr_induct) (auto simp: expr_nested shift_lc)

lemma lc_at_subst: "lc_at (Suc i) e \<Longrightarrow> lc_at 0 u \<Longrightarrow> lc_at i (subst i u True e)"
  by (induction e arbitrary: i rule: expr_induct) (auto simp: expr_nested shift_lc lc_at_mono)

lemma subst_not_occurring: "is_free i e \<Longrightarrow> subst i u dg e = subst i u' dg e"
  by (induction e arbitrary: i rule: expr_induct) (auto simp: expr_nested split: option.splits)

lemma apply_closure_expr:
  "lc_at 0 e \<Longrightarrow> lc_at 0 u \<Longrightarrow>
     apply_expr (closure_expr v e) u = (if v = ''_'' then apply_expr e u else Inr (nsubst v u e))"
  by (simp add: closure_expr_def subst_abs)

lemma lc_closure_expr: "lc_at 0 e \<Longrightarrow> lc_at 0 (closure_expr v e)"
  using lc_at_abs [of 0 e v] by (simp add: closure_expr_def)

lemma lc_closures: "lc_at 0 e \<Longrightarrow> lc_at 0 (closures vs e)"
  unfolding closures_def by (induction vs) (simp_all add: lc_closure_expr)

lemma fv_closure_expr: "fv (closure_expr v e) = fv e - (if v = ''_'' then {} else {v})"
  by (simp add: closure_expr_def fv_abs)

lemma nsubst_abs:
  "v \<noteq> w \<Longrightarrow> w \<notin> fv u \<Longrightarrow> nsubst v u (abs_expr i w e) = abs_expr i w (nsubst v u e)"
  by (induction e arbitrary: i rule: expr_induct) (auto simp: expr_nested abs_fresh)

lemma nsubst_closures:
  "v \<notin> set vs \<Longrightarrow> fv u = {} \<Longrightarrow> nsubst v u (closures vs e) = closures vs (nsubst v u e)"
  unfolding closures_def by (induction vs) (auto simp: closure_expr_def nsubst_abs)

lemma lc_nsubst: "lc_at i e \<Longrightarrow> lc_at 0 u \<Longrightarrow> lc_at i (nsubst v u e)"
  by (induction e arbitrary: i rule: expr_induct) (auto simp: expr_nested lc_at_mono)

section \<open>Several arguments\<close>

text \<open>\<open>for u in us { e = e.apply(u)? }\<close>: how the evaluator passes arguments.\<close>

fun apply_all :: "'l expr \<Rightarrow> 'l expr list \<Rightarrow> 'l expr result" where
  "apply_all e [] = Inr e"
| "apply_all e (u # us) = bind_res (apply_expr e u) (\<lambda>e'. apply_all e' us)"

lemma apply_all_closures:
  assumes "length vs = length us" "distinct vs" "''_'' \<notin> set vs" "lc_at 0 e"
    and "\<forall>u \<in> set us. lc_at 0 u \<and> fv u = {}"
  shows "apply_all (closures vs e) us = Inr (fold (\<lambda>(v, u). nsubst v u) (zip vs us) e)"
  using assms
proof (induction vs us arbitrary: e rule: list_induct2)
  case (Cons v vs u us)
  then have "apply_expr (closures (v # vs) e) u = Inr (closures vs (nsubst v u e))"
    using apply_closure_expr [of "closures vs e" u v] lc_closures [of e vs] nsubst_closures [of v vs u e]
    by (auto simp: closures_def)
  then show ?case
    using Cons by (simp add: lc_nsubst)
qed (simp add: closures_def)

section \<open>Properties\<close>

text \<open>Binding a name in a closed term and applying the closure to a closed term is substituting
  the term for the name; the name \<open>_\<close> binds nothing, so the term itself is applied.\<close>

theorem bind_then_apply:
  assumes "lc_at 0 e" and "lc_at 0 u"
  shows "apply_expr (closure_expr v e) u =
    (if v = ''_'' then apply_expr e u else Inr (nsubst v u e))"
  using assms by (rule apply_closure_expr)

theorem bind_then_apply_witness:
  "apply_expr (closure_expr ''x'' (InfixExpr Plus (Var ''x'') (Var ''y''))) (LitExpr (FlatLit (IntL 1))) =
     Inr (InfixExpr Plus (LitExpr (FlatLit (IntL 1))) (Var ''y'')) \<and>
   apply_expr (closure_expr ''_'' (Var ''y'')) (LitExpr (FlatLit (IntL 1))) =
     Inl (Error ''apply: expression is not a closure'')"
  using bind_then_apply [of "InfixExpr Plus (Var ''x'') (Var ''y'')" "LitExpr (FlatLit (IntL 1))" "''x''"]
    bind_then_apply [of "Var ''y''" "LitExpr (FlatLit (IntL 1))" "''_''"]
  by simp

text \<open>C29: closing a term over distinct names and applying the result to as many closed arguments
  substitutes every argument for its name, in order; the scope stays closed on the way.\<close>

theorem closures_apply_all:
  assumes "length vs = length us" and "distinct vs" and "''_'' \<notin> set vs" and "lc_at 0 e"
    and "\<forall>u \<in> set us. lc_at 0 u \<and> fv u = {}"
  shows "apply_all (closures vs e) us = Inr (fold (\<lambda>(v, u). nsubst v u) (zip vs us) e) \<and>
    lc_at 0 (closures vs e)"
  using apply_all_closures [OF assms] lc_closures [OF assms(4)] by blast

theorem closures_apply_all_witness:
  "apply_all (closures [''x'', ''y''] (InfixExpr Minus (Var ''x'') (Var ''y'')))
     [LitExpr (FlatLit (IntL 1)), LitExpr (FlatLit (IntL 2))] =
   Inr (InfixExpr Minus (LitExpr (FlatLit (IntL 1))) (LitExpr (FlatLit (IntL 2))))"
  using closures_apply_all [of "[''x'', ''y'']" "[LitExpr (FlatLit (IntL 1)), LitExpr (FlatLit (IntL 2))]"
      "InfixExpr Minus (Var ''x'') (Var ''y'')"]
  by simp

text \<open>The free names of an abstraction are those of the body less the bound one, and applying
  a closure to a closed term leaves no new index behind.\<close>

theorem scope_of_binding:
  "fv (abs_expr i v e) = fv e - {v} \<and>
   (lc_at i e \<longrightarrow> lc_at (Suc i) (abs_expr i v e)) \<and>
   (lc_at (Suc i) e \<longrightarrow> lc_at 0 u \<longrightarrow> lc_at i (subst i u True e))"
  by (simp add: fv_abs lc_at_abs lc_at_subst)

theorem scope_of_binding_witness:
  "lc_at 0 (subst 0 (LitExpr (FlatLit UnitL)) True (abs_expr 0 ''x'' (Closure ''y'' (Var ''x''))))"
  using scope_of_binding [of 0 "''x''" "Closure ''y'' (Var ''x'')" "LitExpr (FlatLit UnitL)"]
    scope_of_binding [of 0 "''x''" "abs_expr 0 ''x'' (Closure ''y'' (Var ''x''))" "LitExpr (FlatLit UnitL)"]
  by simp

end
