(* ===== verification/Headers.thy ===== *)
theory Headers
  imports Expressions
begin

text \<open>
  \<open>armour-lang/src/headers.rs\<close>: the signatures of the builtin functions and of the internal
  services of both planes, and the table of a program's function signatures with name
  resolution. The \<open>match\<close> of \<open>builtins\<close> and \<open>internal_service\<close> on a function name is a table
  with one row per arm.
\<close>

section \<open>Builtin functions\<close>

definition flat_builtin_table :: "(string \<times> flat_typ list \<times> flat_typ) list" where
  "flat_builtin_table =
    [(''option::Some'', [ReturnT], ReturnT),
     (''i64::abs'', [I64T], I64T),
     (''i64::to_str'', [I64T], StrT),
     (''str::len'', [StrT], I64T),
     (''str::to_lowercase'', [StrT], StrT),
     (''str::to_uppercase'', [StrT], StrT),
     (''str::trim_start'', [StrT], StrT),
     (''str::trim_end'', [StrT], StrT),
     (''str::as_bytes'', [StrT], DataT),
     (''str::from_utf8'', [DataT], StrT),
     (''str::to_base64'', [StrT], StrT),
     (''str::is_match'', [StrT, RegexT], BoolT),
     (''regex::is_match'', [RegexT, StrT], BoolT),
     (''data::to_base64'', [DataT], StrT),
     (''data::len'', [DataT], I64T),
     (''i64::pow'', [I64T, I64T], I64T),
     (''i64::min'', [I64T, I64T], I64T),
     (''i64::max'', [I64T, I64T], I64T),
     (''str::starts_with'', [StrT, StrT], BoolT),
     (''str::ends_with'', [StrT, StrT], BoolT),
     (''str::contains'', [StrT, StrT], BoolT),
     (''HttpRequest::GET'', [], HttpRequestT),
     (''HttpRequest::POST'', [], HttpRequestT),
     (''HttpRequest::PUT'', [], HttpRequestT),
     (''HttpRequest::DELETE'', [], HttpRequestT),
     (''HttpRequest::HEAD'', [], HttpRequestT),
     (''HttpRequest::OPTIONS'', [], HttpRequestT),
     (''HttpRequest::CONNECT'', [], HttpRequestT),
     (''HttpRequest::PATCH'', [], HttpRequestT),
     (''HttpRequest::TRACE'', [], HttpRequestT),
     (''HttpRequest::connection'', [HttpRequestT], ConnectionT),
     (''HttpRequest::from'', [HttpRequestT], IDT),
     (''HttpRequest::to'', [HttpRequestT], IDT),
     (''HttpRequest::set_from'', [HttpRequestT, IDT], HttpRequestT),
     (''HttpRequest::set_to'', [HttpRequestT, IDT], HttpRequestT),
     (''HttpRequest::method'', [HttpRequestT], StrT),
     (''HttpRequest::version'', [HttpRequestT], StrT),
     (''HttpRequest::path'', [HttpRequestT], StrT),
     (''HttpRequest::query'', [HttpRequestT], StrT),
     (''HttpRequest::set_path'', [HttpRequestT, StrT], HttpRequestT),
     (''HttpRequest::set_query'', [HttpRequestT, StrT], HttpRequestT),
     (''HttpRequest::set_header'', [HttpRequestT, StrT, DataT], HttpRequestT),
     (''HttpRequest::set_connection'', [HttpRequestT, ConnectionT], HttpRequestT),
     (''HttpResponse::new'', [I64T], HttpResponseT),
     (''HttpResponse::connection'', [HttpResponseT], ConnectionT),
     (''HttpResponse::from'', [HttpResponseT], IDT),
     (''HttpResponse::to'', [HttpResponseT], IDT),
     (''HttpResponse::set_from'', [HttpResponseT, IDT], HttpResponseT),
     (''HttpResponse::set_to'', [HttpResponseT, IDT], HttpResponseT),
     (''HttpResponse::status'', [HttpResponseT], I64T),
     (''HttpResponse::version'', [HttpResponseT], StrT),
     (''HttpResponse::set_reason'', [HttpResponseT, StrT], HttpResponseT),
     (''HttpResponse::set_header'', [HttpResponseT, StrT, DataT], HttpResponseT),
     (''HttpResponse::set_connection'', [HttpResponseT, ConnectionT], HttpResponseT),
     (''IpAddr::localhost'', [], IpAddrT),
     (''IpAddr::from'', [I64T, I64T, I64T, I64T], IpAddrT),
     (''ID::default'', [], IDT),
     (''ID::add_label'', [IDT, LabelT], IDT),
     (''ID::add_host'', [IDT, StrT], IDT),
     (''ID::add_ip'', [IDT, IpAddrT], IDT),
     (''ID::set_port'', [IDT, I64T], IDT),
     (''ID::has_label'', [IDT, LabelT], BoolT),
     (''ID::has_host'', [IDT, StrT], BoolT),
     (''ID::has_ip'', [IDT, IpAddrT], BoolT),
     (''Connection::default'', [], ConnectionT),
     (''Connection::new'', [IDT, IDT, I64T], ConnectionT),
     (''Connection::from'', [ConnectionT], IDT),
     (''Connection::to'', [ConnectionT], IDT),
     (''Connection::number'', [ConnectionT], I64T),
     (''Connection::set_from'', [ConnectionT, IDT], ConnectionT),
     (''Connection::set_to'', [ConnectionT, IDT], ConnectionT),
     (''Connection::set_number'', [ConnectionT, I64T], ConnectionT),
     (''Label::is_match'', [LabelT, LabelT], BoolT),
     (''System::getCurrentTime'', [], I64T)]"

definition flat_internal_table :: "(string \<times> flat_typ list \<times> flat_typ) list" where
  "flat_internal_table =
    [(''Ingress::has_label'', [LabelT], BoolT),
     (''Egress::set_id'', [], UnitT),
     (''Egress::has_label'', [LabelT], BoolT),
     (''Egress::push'', [DataT], UnitT),
     (''Egress::add_label'', [LabelT], UnitT),
     (''Egress::remove_label'', [LabelT], UnitT),
     (''Egress::wipe'', [], UnitT)]"

definition typ_builtin_table :: "'f tflat \<Rightarrow> (string \<times> 'f ty list \<times> 'f ty) list" where
  "typ_builtin_table T =
    [(''option::is_none'', [any_option], FlatTyp (t_bool T)),
     (''option::is_some'', [any_option], FlatTyp (t_bool T)),
     (''list::len'', [(ListT (FlatTyp (t_return T)))], FlatTyp (t_i64 T)),
     (''list::reduce'', [(ListT (FlatTyp (t_return T)))], (option_typ (FlatTyp (t_return T)))),
     (''list::is_subset'', [(ListT (FlatTyp (t_return T))), (ListT (FlatTyp (t_return T)))], FlatTyp (t_bool T)),
     (''list::is_disjoint'', [(ListT (FlatTyp (t_return T))), (ListT (FlatTyp (t_return T)))], FlatTyp (t_bool T)),
     (''list::difference'', [(ListT (FlatTyp (t_return T))), (ListT (FlatTyp (t_return T)))], (ListT (FlatTyp (t_return T)))),
     (''list::intersection'', [(ListT (FlatTyp (t_return T))), (ListT (FlatTyp (t_return T)))], (ListT (FlatTyp (t_return T)))),
     (''HttpRequest::query_pairs'', [FlatTyp (t_http_request T)], (ListT (TupleT [FlatTyp (t_str T), FlatTyp (t_str T)]))),
     (''HttpRequest::from_to'', [FlatTyp (t_http_request T)], (TupleT [FlatTyp (t_id T), FlatTyp (t_id T)])),
     (''HttpRequest::header'', [FlatTyp (t_http_request T), FlatTyp (t_str T)], (option_typ (ListT (FlatTyp (t_data T))))),
     (''HttpRequest::header_pairs'', [FlatTyp (t_http_request T)], (ListT (TupleT [FlatTyp (t_str T), FlatTyp (t_data T)]))),
     (''HttpResponse::reason'', [FlatTyp (t_http_response T)], (option_typ (FlatTyp (t_str T)))),
     (''HttpRequest::unique_header'', [FlatTyp (t_http_request T), FlatTyp (t_str T)], (option_typ (FlatTyp (t_data T)))),
     (''HttpResponse::from_to'', [FlatTyp (t_http_response T)], (TupleT [FlatTyp (t_id T), FlatTyp (t_id T)])),
     (''HttpResponse::header'', [FlatTyp (t_http_response T), FlatTyp (t_str T)], (option_typ (ListT (FlatTyp (t_data T))))),
     (''HttpResponse::headers'', [FlatTyp (t_http_response T)], (ListT (FlatTyp (t_str T)))),
     (''HttpResponse::header_pairs'', [FlatTyp (t_http_response T)], (ListT (TupleT [FlatTyp (t_str T), FlatTyp (t_data T)]))),
     (''HttpResponse::unique_header'', [FlatTyp (t_http_response T), FlatTyp (t_str T)], (option_typ (FlatTyp (t_data T)))),
     (''IpAddr::lookup'', [FlatTyp (t_str T)], (option_typ (ListT (FlatTyp (t_ip_addr T))))),
     (''IpAddr::octets'', [FlatTyp (t_ip_addr T)], (TupleT [FlatTyp (t_i64 T), FlatTyp (t_i64 T), FlatTyp (t_i64 T), FlatTyp (t_i64 T)])),
     (''ID::find_label'', [FlatTyp (t_id T), FlatTyp (t_label T)], (option_typ (FlatTyp (t_label T)))),
     (''ID::labels'', [FlatTyp (t_id T)], (ListT (FlatTyp (t_label T)))),
     (''ID::hosts'', [FlatTyp (t_id T)], (ListT (FlatTyp (t_str T)))),
     (''ID::ips'', [FlatTyp (t_id T)], (ListT (FlatTyp (t_ip_addr T)))),
     (''ID::port'', [FlatTyp (t_id T)], (option_typ (FlatTyp (t_i64 T)))),
     (''Label::captures'', [FlatTyp (t_label T), FlatTyp (t_label T)], (option_typ (ListT (TupleT [FlatTyp (t_str T), FlatTyp (t_str T)])))),
     (''Label::concat'', [FlatTyp (t_label T), FlatTyp (t_label T)], FlatTyp (t_label T)),
     (''Label::parts'', [FlatTyp (t_label T)], (option_typ (ListT (FlatTyp (t_str T)))))]"

definition typ_internal_table :: "'f tflat \<Rightarrow> (string \<times> 'f ty list \<times> 'f ty) list" where
  "typ_internal_table T =
    [(''Egress::find_label'', [FlatTyp (t_label T)], (option_typ (FlatTyp (t_label T)))),
     (''Egress::id'', [], (option_typ (FlatTyp (t_label T)))),
     (''Egress::data'', [], (ListT (FlatTyp (t_data T)))),
     (''Egress::pop'', [], (option_typ (FlatTyp (t_data T)))),
     (''Ingress::id'', [], (option_typ (FlatTyp (t_label T)))),
     (''Ingress::data'', [], (ListT (FlatTyp (t_data T)))),
     (''Ingress::find_label'', [FlatTyp (t_label T)], (option_typ (FlatTyp (t_label T))))]"

definition cp_builtin_table :: "(string \<times> cp_flat_typ ty list \<times> cp_flat_typ ty) list" where
  "cp_builtin_table =
    [(''allow_egress'', [], FlatTyp PolicyT),
     (''allow_ingress'', [], FlatTyp PolicyT),
     (''Primitive::allow_rest_request'', [], FlatTyp PrimitiveT),
     (''Primitive::allow_rest_response'', [], FlatTyp PrimitiveT),
     (''Primitive::allow_tcp_connection'', [], FlatTyp PrimitiveT),
     (''compile_egress'', [FlatTyp PrimitiveT, FlatTyp (t_id cp_types)], FlatTyp PolicyT),
     (''compile_ingress'', [FlatTyp PrimitiveT, FlatTyp (t_id cp_types)], FlatTyp PolicyT),
     (''deny_egress'', [], FlatTyp PolicyT),
     (''deny_ingress'', [], FlatTyp PolicyT),
     (''Primitive::on_tcp_disconnect'', [], FlatTyp PrimitiveT),
     (''ControlPlane::onboard'', [FlatTyp (t_id cp_types)], FlatTyp (t_bool cp_types)),
     (''ControlPlane::onboarded'', [FlatTyp OnboardingDataT], (option_typ (FlatTyp (t_id cp_types)))),
     (''ControlPlane::newID'', [FlatTyp OnboardingDataT], FlatTyp (t_id cp_types)),
     (''ControlPlane::verify_credentials'', [FlatTyp OnboardingDataT, FlatTyp (t_label cp_types)], FlatTyp (t_bool cp_types)),
     (''Label::new'', [FlatTyp (t_str cp_types)], FlatTyp (t_label cp_types)),
     (''Label::login_time'', [FlatTyp (t_i64 cp_types)], FlatTyp (t_label cp_types)),
     (''OnboardingData::proposed_labels'', [FlatTyp OnboardingDataT], (ListT (FlatTyp (t_label cp_types)))),
     (''OnboardingData::has_proposed_label'', [FlatTyp OnboardingDataT, FlatTyp (t_label cp_types)], FlatTyp (t_bool cp_types)),
     (''OnboardingData::has_ip'', [FlatTyp OnboardingDataT, FlatTyp (t_ip_addr cp_types)], FlatTyp (t_bool cp_types)),
     (''OnboardingData::host'', [FlatTyp OnboardingDataT], FlatTyp (t_label cp_types)),
     (''OnboardingData::service'', [FlatTyp OnboardingDataT], FlatTyp (t_label cp_types)),
     (''OnboardingResult::Ok'', [FlatTyp (t_id cp_types), FlatTyp PolicyT, FlatTyp PolicyT], FlatTyp OnboardingResultT),
     (''OnboardingResult::Err'', [FlatTyp (t_str cp_types), FlatTyp (t_id cp_types), FlatTyp PolicyT, FlatTyp PolicyT], FlatTyp OnboardingResultT),
     (''OnboardingResult::ErrID'', [FlatTyp (t_str cp_types), FlatTyp (t_id cp_types)], FlatTyp OnboardingResultT),
     (''OnboardingResult::ErrStr'', [FlatTyp (t_str cp_types)], FlatTyp OnboardingResultT)]"

text \<open>The trait \<open>TBuiltin\<close> on the flat types of a plane.\<close>

record 'f tbuiltin =
  b_types :: "'f tflat"
  b_flat :: "string \<Rightarrow> 'f signature option"
  b_flat_internal :: "string \<Rightarrow> 'f signature option"

definition lookup_flat :: "(string \<times> flat_typ list \<times> flat_typ) list \<Rightarrow> string \<Rightarrow> flat_typ signature option" where
  "lookup_flat tab f =
     map_option (\<lambda>(args, t). new_sig (map FlatTyp args) (FlatTyp t)) (map_of tab f)"

definition lookup_typ :: "(string \<times> 'f ty list \<times> 'f ty) list \<Rightarrow> string \<Rightarrow> 'f signature option" where
  "lookup_typ tab f = map_option (\<lambda>(args, t). new_sig args t) (map_of tab f)"

definition dp_flat_builtins :: "string \<Rightarrow> flat_typ signature option" where
  "dp_flat_builtins = lookup_flat flat_builtin_table"

definition dp_flat_internal :: "string \<Rightarrow> flat_typ signature option" where
  "dp_flat_internal = lookup_flat flat_internal_table"

definition cp_flat_builtins :: "string \<Rightarrow> cp_flat_typ signature option" where
  "cp_flat_builtins f =
     (case lookup_typ cp_builtin_table f of
        Some s \<Rightarrow> Some s
      | None \<Rightarrow> map_option cp_of_dp_sig (dp_flat_builtins f))"

definition cp_flat_internal :: "string \<Rightarrow> cp_flat_typ signature option" where
  "cp_flat_internal f = map_option cp_of_dp_sig (dp_flat_internal f)"

definition dp_builtin :: "flat_typ tbuiltin" where
  "dp_builtin = \<lparr>b_types = dp_types, b_flat = dp_flat_builtins, b_flat_internal = dp_flat_internal\<rparr>"

definition cp_builtin :: "cp_flat_typ tbuiltin" where
  "cp_builtin = \<lparr>b_types = cp_types, b_flat = cp_flat_builtins, b_flat_internal = cp_flat_internal\<rparr>"

definition builtins :: "'f tbuiltin \<Rightarrow> string \<Rightarrow> 'f signature option" where
  "builtins B f =
     (case lookup_typ (typ_builtin_table (b_types B)) f of Some s \<Rightarrow> Some s | None \<Rightarrow> b_flat B f)"

definition internal_service :: "'f tbuiltin \<Rightarrow> string \<Rightarrow> 'f signature option" where
  "internal_service B f =
     (case lookup_typ (typ_internal_table (b_types B)) f of
        Some s \<Rightarrow> Some s | None \<Rightarrow> b_flat_internal B f)"

section \<open>The signatures of a program\<close>

type_synonym 'f header_table = "(string \<times> 'f signature) list"

definition headers_merge :: "'f header_table \<Rightarrow> 'f header_table \<Rightarrow> 'f header_table" where
  "headers_merge a b = bt_merge a b"

definition dp_of_cp_headers :: "cp_flat_typ header_table \<Rightarrow> flat_typ header_table option" where
  "dp_of_cp_headers h =
     map_option bt_collect (map_opt (\<lambda>(s, sig). map_option (Pair s) (dp_of_cp_sig sig)) h)"

text \<open>\<open>add_function\<close> inserts first: on a duplicate the new signature stays and the error is
  returned.\<close>

definition add_function ::
    "string \<Rightarrow> 'f signature \<Rightarrow> 'f header_table \<Rightarrow> error option \<times> 'f header_table" where
  "add_function name sig h =
     ((case bt_get name h of
         Some _ \<Rightarrow> Some (ErrorFmt ''duplicate function'' [name])
       | None \<Rightarrow> None), bt_insert name sig h)"

definition headers_cut :: "string list \<Rightarrow> 'f header_table \<Rightarrow> 'f header_table" where
  "headers_cut names h = foldl (\<lambda>h s. bt_remove s h) h names"

definition header_typ :: "'f tbuiltin \<Rightarrow> 'f header_table \<Rightarrow> string \<Rightarrow> 'f signature option" where
  "header_typ B h name =
     (case builtins B name of
        Some s \<Rightarrow> Some s
      | None \<Rightarrow> (case internal_service B name of Some s \<Rightarrow> Some s | None \<Rightarrow> bt_get name h))"

definition return_typ_of :: "'f tbuiltin \<Rightarrow> 'f header_table \<Rightarrow> string \<Rightarrow> 'f ty result" where
  "return_typ_of B h name =
     (case header_typ B h name of
        Some s \<Rightarrow> Inr (sig_typ s) | None \<Rightarrow> Inl (Error ''no current function''))"

definition is_builtin :: "'f tbuiltin \<Rightarrow> string \<Rightarrow> bool" where
  "is_builtin B name \<longleftrightarrow> builtins B name \<noteq> None \<or> parse_usize name \<noteq> None"

definition is_internal :: "'f tbuiltin \<Rightarrow> string \<Rightarrow> bool" where
  "is_internal B name \<longleftrightarrow> internal_service B name \<noteq> None \<or> is_builtin B name"

definition split_name :: "string \<Rightarrow> (string \<times> string) option" where
  "split_name name = (case split_cc name of [m, f] \<Rightarrow> Some (m, f) | _ \<Rightarrow> None)"

definition method_name :: "'f tbuiltin \<Rightarrow> string \<Rightarrow> string option" where
  "method_name B name =
     (case builtins B name of
        Some s \<Rightarrow>
          (case sig_args s of
             Some (t # _) \<Rightarrow>
               (case split_name name of
                  Some (m, f) \<Rightarrow> if m = show_typ (b_types B) t then Some f else None
                | None \<Rightarrow> None)
           | _ \<Rightarrow> None)
      | None \<Rightarrow> None)"

text \<open>Without an argument \<open>expect\<close> panics: \<open>None\<close>.\<close>

definition resolve_name :: "'f tbuiltin \<Rightarrow> string \<Rightarrow> 'f ty list \<Rightarrow> string option" where
  "resolve_name B name typs =
     (if starts_with name ''.::'' then
        (let rest = trim_start_str ''.::'' name
         in case typs of
              [] \<Rightarrow> None
            | t # _ \<Rightarrow>
                (case intrinsic (b_types B) t of
                   Some i \<Rightarrow>
                     (let s = i @ ''::'' @ rest in if is_builtin B s then Some s else Some rest)
                 | None \<Rightarrow> Some rest))
      else Some name)"

section \<open>The tables\<close>

lemma map_of_all: "map_of tab f = Some v \<Longrightarrow> list_all (\<lambda>(n, x). P n x) tab \<Longrightarrow> P f v"
  by (induction tab) (auto split: if_splits)

lemma flat_builtin_names: "list_all (\<lambda>(n, _). split_name n \<noteq> None) flat_builtin_table"
  by code_simp

lemma typ_builtin_names: "list_all (\<lambda>n. split_name n \<noteq> None) (map fst (typ_builtin_table T))"
  unfolding typ_builtin_table_def list.map fst_conv by code_simp

lemma typ_internal_names: "list_all (\<lambda>n. split_name n \<noteq> None) (map fst (typ_internal_table T))"
  unfolding typ_internal_table_def list.map fst_conv by code_simp

lemma flat_internal_names: "list_all (\<lambda>(n, _). split_name n \<noteq> None) flat_internal_table"
  by code_simp

lemma typ_builtin_table_cp:
  "typ_builtin_table cp_types =
     map (\<lambda>(n, args, t). (n, map cp_of_dp_typ args, cp_of_dp_typ t)) (typ_builtin_table dp_types)"
  by (simp add: typ_builtin_table_def cp_types_def dp_types_def option_typ_def any_option_def)

lemma typ_internal_table_cp:
  "typ_internal_table cp_types =
     map (\<lambda>(n, args, t). (n, map cp_of_dp_typ args, cp_of_dp_typ t)) (typ_internal_table dp_types)"
  by (simp add: typ_internal_table_def cp_types_def dp_types_def option_typ_def any_option_def)

lemma lookup_typ_map:
  "lookup_typ (map (\<lambda>(n, args, t). (n, map cp_of_dp_typ args, cp_of_dp_typ t)) tab) f =
     map_option cp_of_dp_sig (lookup_typ tab f)"
  by (induction tab) (auto simp: lookup_typ_def cp_of_dp_sig_def new_sig_def)

lemma cp_table_disjoint:
  "list_all (\<lambda>(n, _). map_of cp_builtin_table n = None) flat_builtin_table"
  by code_simp

text \<open>Every builtin of the data plane is named \<open>module::function\<close>.\<close>

lemma lookup_typ_names:
  "lookup_typ tab f = Some s \<Longrightarrow> list_all P (map fst tab) \<Longrightarrow> P f"
  by (auto simp: lookup_typ_def list_all_iff dest!: map_of_SomeD)

lemma lookup_flat_names:
  "lookup_flat tab f = Some s \<Longrightarrow> list_all (\<lambda>(n, _). P n) tab \<Longrightarrow> P f"
  by (auto simp: lookup_flat_def list_all_iff dest!: map_of_SomeD)

lemma dp_builtin_qualified: "builtins dp_builtin f = Some s \<Longrightarrow> split_name f \<noteq> None"
  using lookup_typ_names [OF _ typ_builtin_names] lookup_flat_names [OF _ flat_builtin_names]
  by (auto simp: builtins_def dp_builtin_def dp_flat_builtins_def split: option.splits)

lemma dp_internal_qualified: "internal_service dp_builtin f = Some s \<Longrightarrow> split_name f \<noteq> None"
  using lookup_typ_names [OF _ typ_internal_names] lookup_flat_names [OF _ flat_internal_names]
  by (auto simp: internal_service_def dp_builtin_def dp_flat_internal_def split: option.splits)

lemma cp_flat_builtins_dp: "dp_flat_builtins f = Some s \<Longrightarrow> cp_flat_builtins f = Some (cp_of_dp_sig s)"
proof -
  assume s: "dp_flat_builtins f = Some s"
  then have "map_of cp_builtin_table f = None"
    using cp_table_disjoint unfolding dp_flat_builtins_def by (rule lookup_flat_names)
  then show ?thesis
    using s by (simp add: cp_flat_builtins_def lookup_typ_def)
qed

text \<open>The control plane has every builtin of the data plane, with the same signature.\<close>

lemma cp_builtins_dp: "builtins dp_builtin f = Some s \<Longrightarrow> builtins cp_builtin f = Some (cp_of_dp_sig s)"
  by (auto simp: builtins_def dp_builtin_def cp_builtin_def typ_builtin_table_cp lookup_typ_map
      cp_flat_builtins_dp split: option.splits)

lemma cp_internal_dp: "internal_service cp_builtin f = map_option cp_of_dp_sig (internal_service dp_builtin f)"
  by (auto simp: internal_service_def dp_builtin_def cp_builtin_def typ_internal_table_cp lookup_typ_map
      cp_flat_internal_def split: option.splits)

section \<open>Signature tables\<close>

lemma headers_cut_get [simp]:
  "bt_wf h \<Longrightarrow> bt_get k (headers_cut names h) = (if k \<in> set names then None else bt_get k h)"
  by (simp add: headers_cut_def bt.cut_spec)

lemma add_function_get [simp]:
  "bt_get k (snd (add_function name sig h)) = (if k = name then Some sig else bt_get k h)"
  by (simp add: add_function_def)

lemma add_function_err: "fst (add_function name sig h) = None \<longleftrightarrow> bt_get name h = None"
  by (simp add: add_function_def split: option.split)

lemma header_typ_builtin: "builtins B name = Some s \<Longrightarrow> header_typ B h name = Some s"
  by (simp add: header_typ_def)

lemma resolve_plain: "\<not> starts_with name ''.::'' \<Longrightarrow> resolve_name B name typs = Some name"
  by (simp add: resolve_name_def)

section \<open>Properties\<close>

text \<open>No function of a data-plane program can be mistaken for a builtin or an internal service:
  those are all named \<open>module::function\<close>, so a name without \<open>::\<close> has the signature the program
  declared for it, and the last declaration added under the name is the one kept.\<close>

theorem user_functions_not_shadowed:
  assumes "split_name name = None"
  shows "header_typ dp_builtin (snd (add_function name sig h)) name = Some sig"
  using assms dp_builtin_qualified [of name] dp_internal_qualified [of name]
  by (auto simp: header_typ_def split: option.split)

theorem user_functions_not_shadowed_witness:
  "header_typ dp_builtin (snd (add_function ''main'' (new_noargs (FlatTyp UnitT)) [])) ''main'' =
     Some (new_noargs (FlatTyp UnitT))"
  by (rule user_functions_not_shadowed) code_simp

text \<open>The control plane is a conservative extension of the data plane: every builtin of the data
  plane has the same signature there, read in control-plane types, and the internal services
  are exactly those of the data plane.\<close>

theorem control_plane_extends_builtins:
  "(builtins dp_builtin f = Some s \<longrightarrow> builtins cp_builtin f = Some (cp_of_dp_sig s)) \<and>
   internal_service cp_builtin f = map_option cp_of_dp_sig (internal_service dp_builtin f)"
  using cp_builtins_dp cp_internal_dp by blast

theorem control_plane_extends_builtins_witness:
  "builtins cp_builtin ''list::len'' =
     Some (new_sig [ListT (FlatTyp (DPFlatTyp ReturnT))] (FlatTyp (DPFlatTyp I64T)))"
  using control_plane_extends_builtins [of "''list::len''" "new_sig [ListT (FlatTyp ReturnT)] (FlatTyp I64T)"]
  by (simp add: builtins_def dp_builtin_def lookup_typ_def typ_builtin_table_def dp_types_def
      cp_of_dp_sig_def new_sig_def)

end
