(* ===== verification/Meta.thy ===== *)
theory Meta
  imports Headers
begin

text \<open>
  \<open>armour-lang/src/meta.rs\<close>: the metadata a message carries, the actor \<open>IngressEgress\<close> that
  holds the metadata of the incoming and of the outgoing message, and its two message handlers.
  A handler is a function from the actor's state to the reply and the next state. The call it
  handles is the struct \<open>Call\<close> of \<open>externals.rs\<close>.
\<close>

section \<open>Calls\<close>

record 'l call =
  call_external :: string
  call_method :: string
  call_args :: "'l literal list"

definition call_new :: "string \<Rightarrow> string \<Rightarrow> 'l literal list \<Rightarrow> 'l call" where
  "call_new ext m args = \<lparr>call_external = ext, call_method = m, call_args = args\<rparr>"

definition call_path :: "'l call \<Rightarrow> string" where
  "call_path c = call_external c @ ''::'' @ call_method c"

definition call_split :: "'l call \<Rightarrow> string \<times> string \<times> 'l literal list" where
  "call_split c = (call_external c, call_method c, call_args c)"

section \<open>Metadata\<close>

record meta =
  meta_id :: "label option"
  meta_data :: "data list"
  meta_labels :: "label list"

definition meta_default :: meta where
  "meta_default = \<lparr>meta_id = None, meta_data = [], meta_labels = []\<rparr>"

definition meta_new :: "label \<Rightarrow> meta" where
  "meta_new i = \<lparr>meta_id = Some i, meta_data = [], meta_labels = []\<rparr>"

definition meta_set_id :: "label \<Rightarrow> meta \<Rightarrow> meta" where
  "meta_set_id l m = m\<lparr>meta_id := Some l\<rparr>"

definition meta_push_data :: "data \<Rightarrow> meta \<Rightarrow> meta" where
  "meta_push_data d m = m\<lparr>meta_data := meta_data m @ [d]\<rparr>"

text \<open>\<open>Vec::pop\<close>.\<close>

definition meta_pop_data :: "meta \<Rightarrow> data option \<times> meta" where
  "meta_pop_data m =
     (if meta_data m = [] then (None, m)
      else (Some (last (meta_data m)), m\<lparr>meta_data := butlast (meta_data m)\<rparr>))"

definition meta_insert_label :: "label \<Rightarrow> meta \<Rightarrow> meta" where
  "meta_insert_label l m = m\<lparr>meta_labels := bs_insert l (meta_labels m)\<rparr>"

definition meta_has_label :: "label \<Rightarrow> meta \<Rightarrow> bool" where
  "meta_has_label l m = list_ex (matches_with l) (meta_labels m)"

definition meta_find_label :: "label \<Rightarrow> meta \<Rightarrow> label option" where
  "meta_find_label l m = find (matches_with l) (meta_labels m)"

text \<open>The loop runs over a copy of the set and removes from the set itself.\<close>

definition meta_remove_label :: "label \<Rightarrow> meta \<Rightarrow> meta" where
  "meta_remove_label l m =
     m\<lparr>meta_labels :=
         foldl (\<lambda>s x. if matches_with l x then bs_remove x s else s) (meta_labels m) (meta_labels m)\<rparr>"

definition meta_wipe :: "meta \<Rightarrow> meta" where
  "meta_wipe m = m\<lparr>meta_id := None, meta_data := [], meta_labels := []\<rparr>"

definition meta_is_empty :: "meta \<Rightarrow> bool" where
  "meta_is_empty m \<longleftrightarrow> meta_id m = None \<and> meta_data m = [] \<and> meta_labels m = []"

definition meta_try_from :: "string \<Rightarrow> meta option" where
  "meta_try_from s = (case parse_label s of Inr l \<Rightarrow> Some (meta_new l) | Inl _ \<Rightarrow> None)"

section \<open>The actor\<close>

record ingress_egress =
  ie_ingress :: meta
  ie_egress :: meta
  ie_egress_id :: label

definition ie_default :: ingress_egress where
  "ie_default = \<lparr>ie_ingress = meta_default, ie_egress = meta_default, ie_egress_id = [Str ''egress'']\<rparr>"

definition ie_new :: "meta option \<Rightarrow> label \<Rightarrow> ingress_egress" where
  "ie_new ingress i =
     \<lparr>ie_ingress = (case ingress of Some m \<Rightarrow> m | None \<Rightarrow> meta_default),
      ie_egress = meta_default, ie_egress_id = i\<rparr>"

text \<open>
  The arms of \<open>match (method, args)\<close> on the metadata of one direction: the reply and the next
  metadata.
\<close>

definition meta_method ::
    "('f, 'l) tlit \<Rightarrow> label \<Rightarrow> string \<Rightarrow> string \<Rightarrow> 'l literal list \<Rightarrow> meta \<Rightarrow> 'l expr result \<times> meta" where
  "meta_method L egress_id mdl mth args m =
     (let unit = Inr (expr_unit L);
          bad = (Inl (ErrorFmt ''eval, call: {}::{}: {:?}'' [mdl, mth]), m)
      in case args of
           [] \<Rightarrow>
             (if mth = ''id'' then (Inr (LitExpr (lit_opt (map_option (lit_label L) (meta_id m)))), m)
              else if mth = ''data'' then (Inr (LitExpr (ListL (map (lit_data L) (meta_data m)))), m)
              else if mth = ''set_id'' then (unit, meta_set_id egress_id m)
              else if mth = ''pop'' then
                (case meta_pop_data m of
                   (d, m') \<Rightarrow> (Inr (LitExpr (lit_opt (map_option (lit_data L) d))), m'))
              else if mth = ''wipe'' then (unit, meta_wipe m)
              else bad)
         | [FlatLit fl] \<Rightarrow>
             (if mth = ''push'' then
                (case l_get_data L fl of Some d \<Rightarrow> (unit, meta_push_data d m) | None \<Rightarrow> bad)
              else
                (case l_get_label L fl of
                   Some l \<Rightarrow>
                     (if mth = ''add_label'' then (unit, meta_insert_label l m)
                      else if mth = ''remove_label'' then (unit, meta_remove_label l m)
                      else if mth = ''has_label'' then
                        (Inr (LitExpr (lit_bool L (meta_has_label l m))), m)
                      else if mth = ''find_label'' then
                        (Inr (LitExpr (lit_opt (map_option (lit_label L) (meta_find_label l m)))), m)
                      else bad)
                 | None \<Rightarrow> bad))
         | _ \<Rightarrow> bad)"

definition handle_call ::
    "('f, 'l) tlit \<Rightarrow> 'l call \<Rightarrow> ingress_egress \<Rightarrow> 'l expr result \<times> ingress_egress" where
  "handle_call L c s =
     (case call_split c of (mdl, mth, args) \<Rightarrow>
        if mdl = ''Ingress'' then
          (case meta_method L (ie_egress_id s) mdl mth args (ie_ingress s) of
             (r, m) \<Rightarrow> (r, s\<lparr>ie_ingress := m\<rparr>))
        else if mdl = ''Egress'' then
          (case meta_method L (ie_egress_id s) mdl mth args (ie_egress s) of
             (r, m) \<Rightarrow> (r, s\<lparr>ie_egress := m\<rparr>))
        else (Inl (ErrorFmt ''eval, unknown module: {}'' [call_path c]), s))"

definition handle_egress :: "ingress_egress \<Rightarrow> meta result" where
  "handle_egress s =
     (if meta_is_empty (ie_egress s) then Inl (Error ''empty egress'')
      else Inr (meta_set_id (ie_egress_id s) (ie_egress s)))"

section \<open>The operations on metadata\<close>

definition meta_wf :: "meta \<Rightarrow> bool" where
  "meta_wf m \<longleftrightarrow> bs_wf (meta_labels m)"

lemma remove_loop:
  "foldl (\<lambda>s x. if P x then bs_remove x s else s) s xs = filter (\<lambda>y. \<not> (P y \<and> y \<in> set xs)) s"
  by (induction xs arbitrary: s) (auto simp: bs_remove_def intro!: filter_cong)

lemma meta_remove_label_filter:
  "meta_remove_label l m = m\<lparr>meta_labels := filter (\<lambda>x. \<not> matches_with l x) (meta_labels m)\<rparr>"
  by (auto simp: meta_remove_label_def remove_loop intro!: filter_cong arg_cong [where f = "\<lambda>s. m\<lparr>meta_labels := s\<rparr>"])

lemma meta_wf_ops [simp]:
  "meta_wf meta_default" "meta_wf (meta_new i)"
  "meta_wf m \<Longrightarrow> meta_wf (meta_set_id i m)"
  "meta_wf m \<Longrightarrow> meta_wf (meta_push_data d m)"
  "meta_wf m \<Longrightarrow> meta_wf (snd (meta_pop_data m))"
  "meta_wf m \<Longrightarrow> meta_wf (meta_insert_label l m)"
  "meta_wf m \<Longrightarrow> meta_wf (meta_remove_label l m)"
  "meta_wf (meta_wipe m)"
  by (simp_all add: meta_wf_def meta_default_def meta_new_def meta_set_id_def meta_push_data_def
      meta_pop_data_def meta_insert_label_def meta_remove_label_filter meta_wipe_def bs_wf_def
      sorted_wrt_filter bs_insert_def strict_sorted_iff sorted_insort distinct_insort)

lemma pop_push [simp]: "meta_pop_data (meta_push_data d m) = (Some d, m)"
  by (simp add: meta_pop_data_def meta_push_data_def)

lemma has_label_find: "meta_has_label l m \<longleftrightarrow> meta_find_label l m \<noteq> None"
  by (auto simp: meta_has_label_def meta_find_label_def find_None_iff list_ex_iff)

lemma has_label_insert [simp]:
  "meta_has_label p (meta_insert_label l m) \<longleftrightarrow> matches_with p l \<or> meta_has_label p m"
  by (auto simp: meta_has_label_def meta_insert_label_def list_ex_iff)

lemma has_label_remove [simp]: "\<not> meta_has_label l (meta_remove_label l m)"
  by (simp add: meta_has_label_def meta_remove_label_filter list_ex_iff)

lemma wipe_empty [simp]: "meta_is_empty (meta_wipe m)"
  by (simp add: meta_is_empty_def meta_wipe_def)

section \<open>The handlers\<close>

text \<open>An actor whose label sets are ordered sets, as every message leaves it.\<close>

definition ie_wf :: "ingress_egress \<Rightarrow> bool" where
  "ie_wf s \<longleftrightarrow> meta_wf (ie_ingress s) \<and> meta_wf (ie_egress s)"

lemma ie_update_id [simp]:
  "s\<lparr>ie_ingress := ie_ingress s\<rparr> = s"
  "s\<lparr>ie_egress := ie_egress s\<rparr> = s"
  by (cases s; simp)+

lemmas meta_method_unfold = meta_method_def Let_def

text \<open>The arguments a method distinguishes: none, one flat literal, anything else.\<close>

lemma args_cases:
  obtains "args = []" | fl where "args = [FlatLit fl]"
    | "\<And>e mdl mth m. meta_method L e mdl mth args m = (Inl (ErrorFmt ''eval, call: {}::{}: {:?}'' [mdl, mth]), m)"
  by (cases args rule: list.exhaust [case_names Nil Cons]; cases "tl args"; cases "hd args")
    (auto simp: meta_method_unfold)

lemma meta_method_wf: "meta_wf m \<Longrightarrow> meta_wf (snd (meta_method L e mdl mth args m))"
proof (rule args_cases [of args _ L])
  show "meta_wf m \<Longrightarrow> args = [] \<Longrightarrow> ?thesis"
    using meta_wf_ops(5) [of m] by (cases "meta_pop_data m") (simp add: meta_method_unfold)
  show "meta_wf m \<Longrightarrow> args = [FlatLit fl] \<Longrightarrow> ?thesis" for fl
    by (simp add: meta_method_unfold split: option.split)
qed simp

lemma meta_method_error:
  "fst (meta_method L e mdl mth args m) = Inl err \<Longrightarrow> snd (meta_method L e mdl mth args m) = m"
proof (rule args_cases [of args _ L])
  show "fst (meta_method L e mdl mth args m) = Inl err \<Longrightarrow> args = [] \<Longrightarrow> ?thesis"
    by (simp add: meta_method_unfold split: prod.splits if_splits)
  show "fst (meta_method L e mdl mth args m) = Inl err \<Longrightarrow> args = [FlatLit fl] \<Longrightarrow> ?thesis" for fl
    by (simp add: meta_method_unfold split: option.splits if_splits)
qed simp

definition read_only :: "string \<Rightarrow> bool" where
  "read_only mth \<longleftrightarrow> mth \<in> {''id'', ''data'', ''has_label'', ''find_label''}"

lemma meta_method_read_only: "read_only mth \<Longrightarrow> snd (meta_method L e mdl mth args m) = m"
proof (rule args_cases [of args _ L])
  show "read_only mth \<Longrightarrow> args = [] \<Longrightarrow> ?thesis"
    by (auto simp: meta_method_unfold read_only_def)
  show "read_only mth \<Longrightarrow> args = [FlatLit fl] \<Longrightarrow> ?thesis" for fl
    by (auto simp: meta_method_unfold read_only_def split: option.split)
qed simp

lemma handle_call_new:
  "handle_call L (call_new mdl mth args) s =
     (if mdl = ''Ingress'' then
        (fst (meta_method L (ie_egress_id s) mdl mth args (ie_ingress s)),
         s\<lparr>ie_ingress := snd (meta_method L (ie_egress_id s) mdl mth args (ie_ingress s))\<rparr>)
      else if mdl = ''Egress'' then
        (fst (meta_method L (ie_egress_id s) mdl mth args (ie_egress s)),
         s\<lparr>ie_egress := snd (meta_method L (ie_egress_id s) mdl mth args (ie_egress s))\<rparr>)
      else (Inl (ErrorFmt ''eval, unknown module: {}'' [mdl @ ''::'' @ mth]), s))"
  by (simp add: handle_call_def call_new_def call_split_def call_path_def split: prod.split)

text \<open>One call: the reply and the next state.\<close>

definition ask :: "('f, 'l) tlit \<Rightarrow> string \<Rightarrow> string \<Rightarrow> 'l literal list \<Rightarrow> ingress_egress \<Rightarrow> 'l expr result" where
  "ask L mdl mth args s = fst (handle_call L (call_new mdl mth args) s)"

definition tell :: "('f, 'l) tlit \<Rightarrow> string \<Rightarrow> string \<Rightarrow> 'l literal list \<Rightarrow> ingress_egress \<Rightarrow> ingress_egress" where
  "tell L mdl mth args s = snd (handle_call L (call_new mdl mth args) s)"

text \<open>The calls on incoming metadata that have a signature.\<close>

lemma ingress_signatures:
  "internal_service dp_builtin (''Ingress::'' @ mth) \<noteq> None \<Longrightarrow> read_only mth"
  by (auto simp: internal_service_def dp_builtin_def lookup_typ_def typ_internal_table_def
      dp_flat_internal_def lookup_flat_def flat_internal_table_def read_only_def split: if_splits)

section \<open>Properties\<close>

text \<open>A call that the type checker lets a policy make on the metadata of the incoming message
  never changes it, nor anything else the actor holds: only \<open>id\<close>, \<open>data\<close>, \<open>has_label\<close> and
  \<open>find_label\<close> have a signature.\<close>

theorem typed_ingress_calls_read_only:
  assumes "internal_service dp_builtin (''Ingress::'' @ mth) \<noteq> None"
  shows "tell L ''Ingress'' mth args s = s"
  using meta_method_read_only [OF ingress_signatures [OF assms], of L] by (simp add: tell_def handle_call_new)

theorem typed_ingress_calls_read_only_witness:
  "tell dp_lits ''Ingress'' ''data'' [] (ie_new (Some (meta_new [Str ''a''])) [Str ''e'']) =
     ie_new (Some (meta_new [Str ''a''])) [Str ''e'']"
  by (rule typed_ingress_calls_read_only)
    (simp add: internal_service_def dp_builtin_def lookup_typ_def typ_internal_table_def)

text \<open>Every call to the actor keeps its label sets ordered, leaves the direction it does not
  name and the egress identity alone, and changes nothing when it is answered by an error.\<close>

theorem metadata_calls_confined:
  assumes "ie_wf s"
  shows "ie_wf (tell L mdl mth args s) \<and>
    ie_egress_id (tell L mdl mth args s) = ie_egress_id s \<and>
    (mdl \<noteq> ''Ingress'' \<longrightarrow> ie_ingress (tell L mdl mth args s) = ie_ingress s) \<and>
    (mdl \<noteq> ''Egress'' \<longrightarrow> ie_egress (tell L mdl mth args s) = ie_egress s) \<and>
    (\<forall>err. ask L mdl mth args s = Inl err \<longrightarrow> tell L mdl mth args s = s)"
  using assms
  by (auto simp: ask_def tell_def handle_call_new ie_wf_def meta_method_wf dest: meta_method_error)

theorem metadata_calls_confined_witness:
  "ie_ingress (tell dp_lits ''Egress'' ''push'' [FlatLit (DataL [1])] ie_default) = meta_default"
  using metadata_calls_confined [of ie_default dp_lits "''Egress''" "''push''" "[FlatLit (DataL [1])]"]
  by (simp add: ie_wf_def ie_default_def)

text \<open>What a policy writes to the outgoing metadata it reads back: the data pushed last is popped,
  a label added is found by every pattern that matches it, a pattern finds nothing after its
  labels are removed, and after a wipe there is no egress metadata to send.\<close>

theorem egress_read_back:
  "ask dp_lits ''Egress'' ''pop'' [] (tell dp_lits ''Egress'' ''push'' [FlatLit (DataL d)] s) =
     Inr (LitExpr (lit_some (FlatLit (DataL d)))) \<and>
   tell dp_lits ''Egress'' ''pop'' [] (tell dp_lits ''Egress'' ''push'' [FlatLit (DataL d)] s) = s \<and>
   ask dp_lits ''Egress'' ''has_label'' [FlatLit (LabelL p)]
       (tell dp_lits ''Egress'' ''add_label'' [FlatLit (LabelL l)] s) =
     Inr (LitExpr (FlatLit (BoolL (matches_with p l \<or> meta_has_label p (ie_egress s))))) \<and>
   ask dp_lits ''Egress'' ''has_label'' [FlatLit (LabelL p)]
       (tell dp_lits ''Egress'' ''remove_label'' [FlatLit (LabelL p)] s) =
     Inr (LitExpr (FlatLit (BoolL False))) \<and>
   handle_egress (tell dp_lits ''Egress'' ''wipe'' [] s) = Inl (Error ''empty egress'')"
  by (simp add: ask_def tell_def handle_call_new meta_method_unfold dp_lits_def lit_bool_def lit_data_def
      lit_opt_def handle_egress_def)

end
