(* ===== verification/Builtins.thy ===== *)
theory Builtins
  imports Headers
begin

text \<open>
  The trait \<open>TInterpret\<close> of \<open>armour-lang/src/interpret.rs\<close>: operators and builtin functions on
  structured literals and on the flat literals of the data plane. \<open>Option\<close> is \<open>option\<close>; where
  an arm can panic there is an outer \<open>option\<close> with \<open>None\<close> for the panic. Integer arithmetic is
  that of a release build: it wraps, and only the division of the least integer by \<open>-1\<close> panics.
\<close>

section \<open>What the builtins read from outside\<close>

text \<open>
  The clock, the resolver, the Unicode tables of \<open>str\<close> and the crates \<open>base64\<close>, \<open>url\<close> and
  \<open>regex\<close>. \<open>lib_captures\<close> gives the text of each named group that took part in a match.
\<close>

record lib =
  lib_now :: i64
  lib_lookup_host :: "string \<Rightarrow> ip_addr list option"
  lib_lookup_addr :: "ip_addr \<Rightarrow> string option"
  lib_lower :: "string \<Rightarrow> string"
  lib_upper :: "string \<Rightarrow> string"
  lib_trim_start :: "string \<Rightarrow> string"
  lib_trim_end :: "string \<Rightarrow> string"
  lib_utf8_lossy :: "data \<Rightarrow> string"
  lib_base64 :: "data \<Rightarrow> string"
  lib_base64_decode :: "string \<Rightarrow> data option"
  lib_query_pairs :: "string \<Rightarrow> (string \<times> string) list option"
  lib_is_match :: "pat \<Rightarrow> string \<Rightarrow> bool"
  lib_captures :: "pat \<Rightarrow> string \<Rightarrow> (string \<Rightarrow> string option) option"

definition str_bytes :: "string \<Rightarrow> data" where
  "str_bytes s = map of_char s"

section \<open>Flat literals of the data plane\<close>

text \<open>\<open>Not\<close> returns the literal it is given, as the code does.\<close>

definition dp_prefix :: "prefix_op \<Rightarrow> flat_literal \<Rightarrow> flat_literal literal option" where
  "dp_prefix p l =
     (case (p, l) of
        (PNot, BoolL b) \<Rightarrow> Some (FlatLit (BoolL b))
      | (PMinus, IntL i) \<Rightarrow> Some (FlatLit (IntL (- i)))
      | _ \<Rightarrow> None)"

fun int_infix :: "infix_op \<Rightarrow> i64 \<Rightarrow> i64 \<Rightarrow> flat_literal option option" where
  "int_infix Plus i j = Some (Some (IntL (i + j)))"
| "int_infix Minus i j = Some (Some (IntL (i - j)))"
| "int_infix Divide i j = (if j = 0 then Some None else map_option (Some \<circ> IntL) (i64_div i j))"
| "int_infix Multiply i j = Some (Some (IntL (i * j)))"
| "int_infix Remainder i j = (if j = 0 then Some None else map_option (Some \<circ> IntL) (i64_rem i j))"
| "int_infix LessThan i j = Some (Some (BoolL (i64_lt i j)))"
| "int_infix LessThanEqual i j = Some (Some (BoolL (i64_le i j)))"
| "int_infix GreaterThan i j = Some (Some (BoolL (i64_lt j i)))"
| "int_infix GreaterThanEqual i j = Some (Some (BoolL (i64_le j i)))"
| "int_infix _ i j = Some None"

definition dp_infix :: "infix_op \<Rightarrow> flat_literal \<Rightarrow> flat_literal \<Rightarrow> flat_literal literal option option" where
  "dp_infix op a b =
     map_option (map_option FlatLit)
      (if op = Equal then Some (Some (BoolL (flat_eq a b)))
       else if op = NotEqual then Some (Some (BoolL (\<not> flat_eq a b)))
       else case (a, b) of
          (IntL i, IntL j) \<Rightarrow> int_infix op i j
        | (BoolL i, BoolL j) \<Rightarrow>
            (if op = And then Some (Some (BoolL (i \<and> j)))
             else if op = Or then Some (Some (BoolL (i \<or> j))) else Some None)
        | (StrL i, StrL j) \<Rightarrow> (if op = ConcatStr then Some (Some (StrL (i @ j))) else Some None)
        | _ \<Rightarrow> Some None)"

abbreviation dp_request :: "http_request \<Rightarrow> flat_literal literal" where
  "dp_request r \<equiv> FlatLit (HttpRequestL r)"

abbreviation dp_response :: "http_response \<Rightarrow> flat_literal literal" where
  "dp_response r \<equiv> FlatLit (HttpResponseL r)"

definition dp_call0 :: "lib \<Rightarrow> string \<Rightarrow> flat_literal literal option" where
  "dp_call0 lb f =
     (if f = ''HttpRequest::GET'' then Some (dp_request default_request)
      else if f = ''HttpRequest::POST'' then Some (dp_request (req_of_method POST))
      else if f = ''HttpRequest::PUT'' then Some (dp_request (req_of_method PUT))
      else if f = ''HttpRequest::DELETE'' then Some (dp_request (req_of_method DELETE))
      else if f = ''HttpRequest::HEAD'' then Some (dp_request (req_of_method HEAD))
      else if f = ''HttpRequest::OPTIONS'' then Some (dp_request (req_of_method OPTIONS))
      else if f = ''HttpRequest::CONNECT'' then Some (dp_request (req_of_method CONNECT))
      else if f = ''HttpRequest::PATCH'' then Some (dp_request (req_of_method PATCH))
      else if f = ''HttpRequest::TRACE'' then Some (dp_request (req_of_method TRACE))
      else if f = ''ID::default'' then Some (FlatLit (IDL default_id))
      else if f = ''Connection::default'' then Some (FlatLit (ConnectionL default_connection))
      else if f = ''IpAddr::localhost'' then Some (FlatLit (IpAddrL (V4 127 0 0 1)))
      else if f = ''System::getCurrentTime'' then Some (FlatLit (IntL (lib_now lb)))
      else None)"

text \<open>The arms of \<open>eval_call1\<close>, grouped by the constructor of the argument.\<close>

definition int_call1 :: "string \<Rightarrow> i64 \<Rightarrow> flat_literal literal option" where
  "int_call1 f i =
     (if f = ''i64::abs'' then Some (FlatLit (IntL (i64_abs i)))
      else if f = ''i64::to_str'' then Some (FlatLit (StrL (show_i64 i)))
      else if f = ''HttpResponse::new'' then Some (res_literal dp_lits (i64_to_u16 i))
      else None)"

definition is_v4 :: "ip_addr \<Rightarrow> bool" where
  "is_v4 ip = (case ip of V4 _ _ _ _ \<Rightarrow> True | V6 _ \<Rightarrow> False)"

definition str_call1 :: "lib \<Rightarrow> string \<Rightarrow> string \<Rightarrow> flat_literal literal option" where
  "str_call1 lb f s =
     (if f = ''str::len'' then Some (FlatLit (IntL (usize_to_i64 (length s))))
      else if f = ''str::to_lowercase'' then Some (FlatLit (StrL (lib_lower lb s)))
      else if f = ''str::to_uppercase'' then Some (FlatLit (StrL (lib_upper lb s)))
      else if f = ''str::trim_start'' then Some (FlatLit (StrL (lib_trim_start lb s)))
      else if f = ''str::trim_end'' then Some (FlatLit (StrL (lib_trim_end lb s)))
      else if f = ''str::as_bytes'' then Some (FlatLit (DataL (str_bytes s)))
      else if f = ''str::to_base64'' then Some (FlatLit (StrL (lib_base64 lb (str_bytes s))))
      else if f = ''IpAddr::lookup'' then
        Some (case lib_lookup_host lb s of
                Some ips \<Rightarrow> lit_some (ListL (map (\<lambda>ip. FlatLit (IpAddrL ip)) (filter is_v4 ips)))
              | None \<Rightarrow> lit_none)
      else None)"

definition data_call1 :: "lib \<Rightarrow> string \<Rightarrow> data \<Rightarrow> flat_literal literal option" where
  "data_call1 lb f d =
     (if f = ''str::from_utf8'' then Some (FlatLit (StrL (lib_utf8_lossy lb d)))
      else if f = ''data::to_base64'' then Some (FlatLit (StrL (lib_base64 lb d)))
      else if f = ''data::len'' then Some (FlatLit (IntL (usize_to_i64 (length d))))
      else None)"

definition request_call1 :: "lib \<Rightarrow> string \<Rightarrow> http_request \<Rightarrow> flat_literal literal option" where
  "request_call1 lb f r =
     (if f = ''HttpRequest::connection'' then Some (req_connection_lit dp_lits r)
      else if f = ''HttpRequest::from'' then Some (req_from_lit dp_lits r)
      else if f = ''HttpRequest::to'' then Some (req_to_lit dp_lits r)
      else if f = ''HttpRequest::from_to'' then Some (req_from_to dp_lits r)
      else if f = ''HttpRequest::method'' then Some (req_method_lit dp_lits r)
      else if f = ''HttpRequest::version'' then Some (req_version_lit dp_lits r)
      else if f = ''HttpRequest::path'' then Some (req_path_lit dp_lits r)
      else if f = ''HttpRequest::route'' then Some (req_route dp_lits r)
      else if f = ''HttpRequest::query'' then Some (req_query_lit dp_lits r)
      else if f = ''HttpRequest::query_pairs'' then Some (req_query_pairs dp_lits (lib_query_pairs lb) r)
      else if f = ''HttpRequest::header_pairs'' then Some (req_header_pairs dp_lits r)
      else if f = ''HttpRequest::headers'' then Some (req_headers_lit dp_lits r)
      else None)"

definition response_call1 :: "string \<Rightarrow> http_response \<Rightarrow> flat_literal literal option" where
  "response_call1 f r =
     (if f = ''HttpResponse::connection'' then Some (res_connection_lit dp_lits r)
      else if f = ''HttpResponse::from'' then Some (res_from_lit dp_lits r)
      else if f = ''HttpResponse::to'' then Some (res_to_lit dp_lits r)
      else if f = ''HttpResponse::from_to'' then Some (res_from_to dp_lits r)
      else if f = ''HttpResponse::status'' then Some (res_status_lit dp_lits r)
      else if f = ''HttpResponse::version'' then Some (res_version_lit dp_lits r)
      else if f = ''HttpResponse::reason'' then Some (res_reason_lit dp_lits r)
      else if f = ''HttpResponse::header_pairs'' then Some (res_header_pairs dp_lits r)
      else if f = ''HttpResponse::headers'' then Some (res_headers_lit dp_lits r)
      else None)"

definition id_call1 :: "string \<Rightarrow> ID \<Rightarrow> flat_literal literal option" where
  "id_call1 f i =
     (if f = ''ID::labels'' then Some (id_labels_lit dp_lits i)
      else if f = ''ID::hosts'' then Some (id_hosts_lit dp_lits i)
      else if f = ''ID::ips'' then Some (id_ips_lit dp_lits i)
      else if f = ''ID::port'' then Some (id_port_lit dp_lits i)
      else None)"

definition connection_call1 :: "string \<Rightarrow> connection \<Rightarrow> flat_literal literal option" where
  "connection_call1 f c =
     (if f = ''Connection::from_to'' then Some (conn_from_to dp_lits c)
      else if f = ''Connection::from'' then Some (conn_from_lit dp_lits c)
      else if f = ''Connection::to'' then Some (conn_to_lit dp_lits c)
      else if f = ''Connection::number'' then Some (conn_number_lit dp_lits c)
      else None)"

definition dp_call1 :: "lib \<Rightarrow> string \<Rightarrow> flat_literal \<Rightarrow> flat_literal literal option" where
  "dp_call1 lb f l =
     (if f = ''option::Some'' then Some (lit_some (FlatLit l))
      else case l of
        IntL i \<Rightarrow> int_call1 f i
      | StrL s \<Rightarrow> str_call1 lb f s
      | DataL d \<Rightarrow> data_call1 lb f d
      | HttpRequestL r \<Rightarrow> request_call1 lb f r
      | HttpResponseL r \<Rightarrow> response_call1 f r
      | IpAddrL ip \<Rightarrow>
          (if f = ''IpAddr::octets'' then Some (lit_of_ip dp_lits ip)
           else if f = ''IpAddr::reverse_lookup'' then
             Some (case lib_lookup_addr lb ip of
                     Some s \<Rightarrow> lit_some (FlatLit (StrL s)) | None \<Rightarrow> lit_none)
           else None)
      | IDL i \<Rightarrow> id_call1 f i
      | ConnectionL c \<Rightarrow> connection_call1 f c
      | LabelL p \<Rightarrow>
          (if f = ''Label::parts'' then
             Some (lit_opt (map_option (\<lambda>ss. ListL (map (lit_str dp_lits) ss)) (label_parts p)))
           else None)
      | _ \<Rightarrow> None)"

definition int_call2 :: "string \<Rightarrow> i64 \<Rightarrow> i64 \<Rightarrow> flat_literal literal option" where
  "int_call2 f i j =
     (if f = ''i64::pow'' then Some (FlatLit (IntL (i ^ i64_to_u32 j)))
      else if f = ''i64::min'' then Some (FlatLit (IntL (if i64_le i j then i else j)))
      else if f = ''i64::max'' then Some (FlatLit (IntL (if i64_le i j then j else i)))
      else None)"

definition str_call2 :: "string \<Rightarrow> string \<Rightarrow> string \<Rightarrow> flat_literal literal option" where
  "str_call2 f i j =
     (if f = ''str::starts_with'' then Some (FlatLit (BoolL (starts_with i j)))
      else if f = ''str::ends_with'' then Some (FlatLit (BoolL (ends_with i j)))
      else if f = ''str::contains'' then Some (FlatLit (BoolL (str_contains i j)))
      else None)"

definition request_call2 :: "string \<Rightarrow> http_request \<Rightarrow> flat_literal \<Rightarrow> flat_literal literal option" where
  "request_call2 f r l =
     (case l of
        StrL q \<Rightarrow>
          (if f = ''HttpRequest::set_path'' then Some (dp_request (req_set_path q r))
           else if f = ''HttpRequest::set_query'' then Some (dp_request (req_set_query q r))
           else if f = ''HttpRequest::header'' then Some (req_header dp_lits r q)
           else if f = ''HttpRequest::unique_header'' then Some (req_unique_header dp_lits r q)
           else None)
      | ConnectionL c \<Rightarrow>
          (if f = ''HttpRequest::set_connection'' then Some (dp_request (req_set_connection c r)) else None)
      | IDL i \<Rightarrow>
          (if f = ''HttpRequest::set_from'' then Some (dp_request (req_set_from i r))
           else if f = ''HttpRequest::set_to'' then Some (dp_request (req_set_to i r))
           else None)
      | _ \<Rightarrow> None)"

definition response_call2 :: "string \<Rightarrow> http_response \<Rightarrow> flat_literal \<Rightarrow> flat_literal literal option" where
  "response_call2 f r l =
     (case l of
        StrL q \<Rightarrow>
          (if f = ''HttpResponse::header'' then Some (res_header dp_lits r q)
           else if f = ''HttpResponse::unique_header'' then Some (res_unique_header dp_lits r q)
           else if f = ''HttpResponse::set_reason'' then Some (dp_response (res_set_reason q r))
           else None)
      | ConnectionL c \<Rightarrow>
          (if f = ''HttpResponse::set_connection'' then Some (dp_response (res_set_connection c r)) else None)
      | IDL i \<Rightarrow>
          (if f = ''HttpResponse::set_from'' then Some (dp_response (res_set_from i r))
           else if f = ''HttpResponse::set_to'' then Some (dp_response (res_set_to i r))
           else None)
      | _ \<Rightarrow> None)"

definition id_call2 :: "string \<Rightarrow> ID \<Rightarrow> flat_literal \<Rightarrow> flat_literal literal option" where
  "id_call2 f i l =
     (case l of
        LabelL p \<Rightarrow>
          (if f = ''ID::find_label'' then Some (lit_opt (map_option (lit_label dp_lits) (id_find_label p i)))
           else if f = ''ID::has_label'' then Some (lit_bool dp_lits (id_has_label p i))
           else if f = ''ID::add_label'' then Some (FlatLit (IDL (id_add_label p i)))
           else None)
      | StrL h \<Rightarrow>
          (if f = ''ID::has_host'' then Some (lit_bool dp_lits (id_has_host h i))
           else if f = ''ID::add_host'' then Some (FlatLit (IDL (id_add_host h i)))
           else None)
      | IpAddrL a \<Rightarrow>
          (if f = ''ID::has_ip'' then Some (lit_bool dp_lits (id_has_ip a i))
           else if f = ''ID::add_ip'' then Some (FlatLit (IDL (id_add_ip a i)))
           else None)
      | IntL q \<Rightarrow>
          (if f = ''ID::set_port'' then Some (FlatLit (IDL (id_set_port (i64_to_u16 q) i))) else None)
      | _ \<Rightarrow> None)"

definition connection_call2 :: "string \<Rightarrow> connection \<Rightarrow> flat_literal \<Rightarrow> flat_literal literal option" where
  "connection_call2 f c l =
     (case l of
        IDL i \<Rightarrow>
          (if f = ''Connection::set_from'' then Some (FlatLit (ConnectionL (conn_set_from i c)))
           else if f = ''Connection::set_to'' then Some (FlatLit (ConnectionL (conn_set_to i c)))
           else None)
      | IntL n \<Rightarrow>
          (if f = ''Connection::set_number'' then Some (FlatLit (ConnectionL (conn_set_number n c)))
           else None)
      | _ \<Rightarrow> None)"

definition label_call2 :: "string \<Rightarrow> label \<Rightarrow> label \<Rightarrow> flat_literal literal option" where
  "label_call2 f i j =
     (if f = ''Label::captures'' then Some (lit_opt (map_option (lit_of_match dp_lits) (match_with i j)))
      else if f = ''Label::concat'' then Some (lit_label dp_lits (label_concat i j))
      else if f = ''Label::is_match'' then Some (lit_bool dp_lits (matches_with i j))
      else None)"

definition dp_call2 :: "lib \<Rightarrow> string \<Rightarrow> flat_literal \<Rightarrow> flat_literal \<Rightarrow> flat_literal literal option" where
  "dp_call2 lb f a b =
     (case (a, b) of
        (IntL i, IntL j) \<Rightarrow> int_call2 f i j
      | (StrL i, StrL j) \<Rightarrow> str_call2 f i j
      | (StrL s, RegexL r) \<Rightarrow>
          (if f = ''str::is_match'' then Some (lit_bool dp_lits (lib_is_match lb r s)) else None)
      | (RegexL r, StrL s) \<Rightarrow>
          (if f = ''regex::is_match'' then Some (lit_bool dp_lits (lib_is_match lb r s)) else None)
      | (HttpRequestL r, l) \<Rightarrow> request_call2 f r l
      | (HttpResponseL r, l) \<Rightarrow> response_call2 f r l
      | (IDL i, l) \<Rightarrow> id_call2 f i l
      | (ConnectionL c, l) \<Rightarrow> connection_call2 f c l
      | (LabelL i, LabelL j) \<Rightarrow> label_call2 f i j
      | _ \<Rightarrow> None)"

definition dp_call3 :: "string \<Rightarrow> flat_literal \<Rightarrow> flat_literal \<Rightarrow> flat_literal \<Rightarrow> flat_literal literal option" where
  "dp_call3 f a b c =
     (case (a, b, c) of
        (HttpRequestL r, StrL h, DataL v) \<Rightarrow>
          (if f = ''HttpRequest::set_header'' then Some (dp_request (req_set_header h v r)) else None)
      | (HttpResponseL r, StrL h, DataL v) \<Rightarrow>
          (if f = ''HttpResponse::set_header'' then Some (dp_response (res_set_header h v r)) else None)
      | (IDL from, IDL to, IntL n) \<Rightarrow>
          (if f = ''Connection::new'' then Some (conn_literal dp_lits from to n) else None)
      | _ \<Rightarrow> None)"

definition dp_call4 ::
    "string \<Rightarrow> flat_literal \<Rightarrow> flat_literal \<Rightarrow> flat_literal \<Rightarrow> flat_literal \<Rightarrow> flat_literal literal option" where
  "dp_call4 f a b c d =
     (case (a, b, c, d) of
        (IntL a, IntL b, IntL c, IntL d) \<Rightarrow>
          (if f = ''IpAddr::from'' then
             Some (FlatLit (IpAddrL (V4 (i64_to_u8 a) (i64_to_u8 b) (i64_to_u8 c) (i64_to_u8 d))))
           else None)
      | _ \<Rightarrow> None)"

section \<open>The trait\<close>

record 'l tinterp =
  i_prefix :: "prefix_op \<Rightarrow> 'l \<Rightarrow> 'l literal option"
  i_infix :: "infix_op \<Rightarrow> 'l \<Rightarrow> 'l \<Rightarrow> 'l literal option option"
  i_call0 :: "lib \<Rightarrow> string \<Rightarrow> 'l literal option"
  i_call1 :: "lib \<Rightarrow> string \<Rightarrow> 'l \<Rightarrow> 'l literal option"
  i_call2 :: "lib \<Rightarrow> string \<Rightarrow> 'l \<Rightarrow> 'l \<Rightarrow> 'l literal option"
  i_call3 :: "string \<Rightarrow> 'l \<Rightarrow> 'l \<Rightarrow> 'l \<Rightarrow> 'l literal option"
  i_call4 :: "string \<Rightarrow> 'l \<Rightarrow> 'l \<Rightarrow> 'l \<Rightarrow> 'l \<Rightarrow> 'l literal option"

definition dp_interp :: "flat_literal tinterp" where
  "dp_interp = \<lparr>i_prefix = dp_prefix, i_infix = dp_infix, i_call0 = dp_call0, i_call1 = dp_call1,
     i_call2 = dp_call2, i_call3 = dp_call3, i_call4 = dp_call4\<rparr>"

text \<open>What the evaluator needs of a plane: its builtin signatures, its literals, its operations.\<close>

record ('f, 'l) plane =
  pl_builtin :: "'f tbuiltin"
  pl_lits :: "('f, 'l) tlit"
  pl_interp :: "'l tinterp"

definition dp_plane :: "(flat_typ, flat_literal) plane" where
  "dp_plane = \<lparr>pl_builtin = dp_builtin, pl_lits = dp_lits, pl_interp = dp_interp\<rparr>"

section \<open>Structured literals\<close>

definition lit_prefix :: "('f, 'l) plane \<Rightarrow> prefix_op \<Rightarrow> 'l literal \<Rightarrow> 'l literal option" where
  "lit_prefix P p l = (case l of FlatLit fl \<Rightarrow> i_prefix (pl_interp P) p fl | _ \<Rightarrow> None)"

definition lit_infix ::
    "('f, 'l) plane \<Rightarrow> infix_op \<Rightarrow> 'l literal \<Rightarrow> 'l literal \<Rightarrow> 'l literal option option" where
  "lit_infix P op a b =
     (case (a, b) of
        (FlatLit x, FlatLit y) \<Rightarrow> i_infix (pl_interp P) op x y
      | _ \<Rightarrow>
          Some (case b of
             ListL j \<Rightarrow>
               (if op = Concat then (case a of ListL i \<Rightarrow> Some (ListL (i @ j)) | _ \<Rightarrow> None)
                else if op = In then Some (vs_contains (pl_lits P) j a)
                else None)
           | _ \<Rightarrow> None))"

definition lit_call0 :: "('f, 'l) plane \<Rightarrow> lib \<Rightarrow> string \<Rightarrow> 'l literal option" where
  "lit_call0 P lb f = i_call0 (pl_interp P) lb f"

definition lit_call1 :: "('f, 'l) plane \<Rightarrow> lib \<Rightarrow> string \<Rightarrow> 'l literal \<Rightarrow> 'l literal option" where
  "lit_call1 P lb f l =
     (case l of
        FlatLit fl \<Rightarrow> i_call1 (pl_interp P) lb f fl
      | TupleL t \<Rightarrow>
          (if f = ''option::is_none'' then Some (lit_bool (pl_lits P) (t = []))
           else if f = ''option::is_some'' then Some (lit_bool (pl_lits P) (length t = 1))
           else case parse_usize f of
                  Some i \<Rightarrow> if i < length t then Some (t ! i) else None
                | None \<Rightarrow> None)
      | ListL ls \<Rightarrow>
          (if f = ''list::len'' then Some (lit_int (pl_lits P) (usize_to_i64 (length ls)))
           else if f = ''list::reduce'' then
             (case ls of
                v # _ \<Rightarrow>
                  (if list_all (\<lambda>w. lit_eq (l_eq (pl_lits P)) v w) ls then Some (lit_some v)
                   else Some lit_none)
              | [] \<Rightarrow> Some lit_none)
           else None))"

definition lit_call2 :: "('f, 'l) plane \<Rightarrow> lib \<Rightarrow> string \<Rightarrow> 'l literal \<Rightarrow> 'l literal \<Rightarrow> 'l literal option" where
  "lit_call2 P lb f a b =
     (case (a, b) of
        (FlatLit x, FlatLit y) \<Rightarrow> i_call2 (pl_interp P) lb f x y
      | (ListL i, ListL j) \<Rightarrow>
          (if f = ''list::is_subset'' then Some (vs_is_subset (pl_lits P) i j)
           else if f = ''list::is_disjoint'' then Some (vs_is_disjoint (pl_lits P) i j)
           else if f = ''list::difference'' then Some (vs_difference (pl_lits P) i j)
           else if f = ''list::intersection'' then Some (vs_intersection (pl_lits P) i j)
           else None)
      | _ \<Rightarrow> None)"

definition lit_call3 :: "('f, 'l) plane \<Rightarrow> string \<Rightarrow> 'l literal \<Rightarrow> 'l literal \<Rightarrow> 'l literal \<Rightarrow> 'l literal option" where
  "lit_call3 P f a b c =
     (case (a, b, c) of
        (FlatLit x, FlatLit y, FlatLit z) \<Rightarrow> i_call3 (pl_interp P) f x y z | _ \<Rightarrow> None)"

definition lit_call4 ::
    "('f, 'l) plane \<Rightarrow> string \<Rightarrow> 'l literal \<Rightarrow> 'l literal \<Rightarrow> 'l literal \<Rightarrow> 'l literal \<Rightarrow> 'l literal option" where
  "lit_call4 P f a b c d =
     (case (a, b, c, d) of
        (FlatLit w, FlatLit x, FlatLit y, FlatLit z) \<Rightarrow> i_call4 (pl_interp P) f w x y z
      | _ \<Rightarrow> None)"

end
