(* ===== verification/BuiltinTypes.thy ===== *)
theory BuiltinTypes
  imports Builtins
begin

text \<open>
  The signatures of \<open>headers.rs\<close> against the implementation in \<open>interpret.rs\<close>: a builtin of the
  data plane called with arguments of its parameter types returns a value, of its result type.
\<close>

section \<open>Typing of literals\<close>

text \<open>The types a literal may be used at: \<open>!\<close> stands for any, \<open>None\<close> is an option of anything.\<close>

fun has_typ :: "('f, 'l) tlit \<Rightarrow> 'l literal \<Rightarrow> 'f ty \<Rightarrow> bool" where
  "has_typ L (FlatLit l) t \<longleftrightarrow> t = return_typ (l_types L) \<or> t = FlatTyp (l_typ L l)"
| "has_typ L (ListL ls) t \<longleftrightarrow>
     t = return_typ (l_types L) \<or> (case t of ListT u \<Rightarrow> list_all (\<lambda>l. has_typ L l u) ls | _ \<Rightarrow> False)"
| "has_typ L (TupleL ls) t \<longleftrightarrow>
     t = return_typ (l_types L) \<or>
     (case t of
        TupleT ts \<Rightarrow> ls = [] \<and> length ts = 1 \<or> ts = [] \<and> length ls \<le> 1 \<or> list_all2 (has_typ L) ls ts
      | _ \<Rightarrow> False)"

text \<open>The dispatch of \<open>eval_call\<close> on the number of arguments.\<close>

definition builtin_call :: "('f, 'l) plane \<Rightarrow> lib \<Rightarrow> string \<Rightarrow> 'l literal list \<Rightarrow> 'l literal option" where
  "builtin_call P lb f ls =
     (case ls of
        [] \<Rightarrow> lit_call0 P lb f
      | [a] \<Rightarrow> lit_call1 P lb f a
      | [a, b] \<Rightarrow> lit_call2 P lb f a b
      | [a, b, c] \<Rightarrow> lit_call3 P f a b c
      | [a, b, c, d] \<Rightarrow> lit_call4 P f a b c d
      | _ \<Rightarrow> None)"

definition sound :: "string \<Rightarrow> flat_typ ty list \<Rightarrow> flat_typ ty \<Rightarrow> bool" where
  "sound f args r \<longleftrightarrow>
     (\<forall>lb ls. list_all2 (has_typ dp_lits) ls args \<longrightarrow>
        (\<exists>v. builtin_call dp_plane lb f ls = Some v \<and> has_typ dp_lits v r))"

lemma dp_lits_sel [simp]:
  "l_types dp_lits = dp_types" "l_typ dp_lits = flat_typ_of" "l_eq dp_lits = flat_eq"
  "l_bool dp_lits = BoolL" "l_connection dp_lits = ConnectionL" "l_data dp_lits = DataL"
  "l_http_request dp_lits = HttpRequestL" "l_http_response dp_lits = HttpResponseL"
  "l_id dp_lits = IDL" "l_int dp_lits = IntL" "l_ip_addr dp_lits = IpAddrL"
  "l_label dp_lits = LabelL" "l_str dp_lits = StrL" "l_unit dp_lits = UnitL"
  "t_return dp_types = ReturnT"
  by (simp_all add: dp_lits_def dp_types_def)

lemma has_typ_flat: "f \<noteq> ReturnT \<Longrightarrow> has_typ dp_lits l (FlatTyp f) \<longleftrightarrow> (\<exists>x. l = FlatLit x \<and> flat_typ_of x = f)"
  by (cases l) (auto simp: dp_lits_def dp_types_def)

lemma flat_typ_of_iff [simp]:
  "flat_typ_of x = BoolT \<longleftrightarrow> (\<exists>v. x = BoolL v)"
  "flat_typ_of x = ConnectionT \<longleftrightarrow> (\<exists>v. x = ConnectionL v)"
  "flat_typ_of x = DataT \<longleftrightarrow> (\<exists>v. x = DataL v)"
  "flat_typ_of x = HttpRequestT \<longleftrightarrow> (\<exists>v. x = HttpRequestL v)"
  "flat_typ_of x = HttpResponseT \<longleftrightarrow> (\<exists>v. x = HttpResponseL v)"
  "flat_typ_of x = I64T \<longleftrightarrow> (\<exists>v. x = IntL v)"
  "flat_typ_of x = IDT \<longleftrightarrow> (\<exists>v. x = IDL v)"
  "flat_typ_of x = IpAddrT \<longleftrightarrow> (\<exists>v. x = IpAddrL v)"
  "flat_typ_of x = LabelT \<longleftrightarrow> (\<exists>v. x = LabelL v)"
  "flat_typ_of x = RegexT \<longleftrightarrow> (\<exists>v. x = RegexL v)"
  "flat_typ_of x = StrT \<longleftrightarrow> (\<exists>v. x = StrL v)"
  by (cases x; simp)+

lemma builtin_call_flat [simp]:
  "builtin_call dp_plane lb f [] = dp_call0 lb f"
  "builtin_call dp_plane lb f [FlatLit x] = dp_call1 lb f x"
  "builtin_call dp_plane lb f [FlatLit x, FlatLit y] = dp_call2 lb f x y"
  "builtin_call dp_plane lb f [FlatLit x, FlatLit y, FlatLit z] = dp_call3 f x y z"
  "builtin_call dp_plane lb f [FlatLit x, FlatLit y, FlatLit z, FlatLit w] = dp_call4 f x y z w"
  by (simp_all add: builtin_call_def lit_call0_def lit_call1_def lit_call2_def lit_call3_def
      lit_call4_def dp_plane_def dp_interp_def)

lemmas message_lits = req_connection_lit_def req_from_lit_def req_to_lit_def req_from_to_def
  req_method_lit_def req_version_lit_def req_path_lit_def req_query_lit_def
  res_connection_lit_def res_from_lit_def res_to_lit_def res_from_to_def res_status_lit_def
  res_version_lit_def res_literal_def conn_from_lit_def conn_to_lit_def conn_number_lit_def
  conn_literal_def lit_id_def lit_str_def lit_int_def lit_connection_def lit_label_def lit_bool_def

text \<open>Soundness as a condition on the arguments, one at a time.\<close>

lemma all_args:
  "(\<forall>ls. list_all2 R ls (t # ts) \<longrightarrow> P ls) \<longleftrightarrow> (\<forall>l. R l t \<longrightarrow> (\<forall>ls. list_all2 R ls ts \<longrightarrow> P (l # ls)))"
  by (auto simp: list_all2_Cons2)

lemma all_flat:
  "a \<noteq> ReturnT \<Longrightarrow> (\<forall>l. has_typ dp_lits l (FlatTyp a) \<longrightarrow> P l) \<longleftrightarrow> (\<forall>x. flat_typ_of x = a \<longrightarrow> P (FlatLit x))"
  by (auto simp: has_typ_flat)

lemma sound_unfold:
  "sound f args r \<longleftrightarrow>
     (\<forall>lb. \<forall>ls. list_all2 (has_typ dp_lits) ls args \<longrightarrow>
        (\<exists>v. builtin_call dp_plane lb f ls = Some v \<and> has_typ dp_lits v r))"
  by (simp add: sound_def)

lemma has_typ_flat_lit [simp]:
  "has_typ dp_lits (FlatLit l) (FlatTyp f) \<longleftrightarrow> f = ReturnT \<or> f = flat_typ_of l"
  by (simp add: dp_lits_def dp_types_def)

definition flat_sound :: "string \<times> flat_typ list \<times> flat_typ \<Rightarrow> bool" where
  "flat_sound row = (case row of (f, args, r) \<Rightarrow>
     f = ''option::Some'' \<or> sound f (map FlatTyp args) (FlatTyp r))"

lemmas flat_builtin_simps = flat_sound_def sound_unfold all_args all_flat

lemmas call_defs = dp_call0_def dp_call1_def dp_call2_def dp_call3_def dp_call4_def
  int_call1_def str_call1_def data_call1_def request_call1_def response_call1_def id_call1_def
  connection_call1_def int_call2_def str_call2_def request_call2_def response_call2_def id_call2_def
  connection_call2_def label_call2_def

text \<open>Every flat signature but \<open>option::Some\<close>, which is declared at \<open>!\<close>.\<close>

lemma flat_table_sound: "list_all flat_sound flat_builtin_table"
  unfolding flat_builtin_table_def list.pred_inject
  by (intro conjI TrueI) (auto simp: flat_builtin_simps call_defs message_lits)

section \<open>Structured signatures\<close>

lemma has_typ_return [simp]: "has_typ dp_lits l (FlatTyp ReturnT)"
  by (cases l) auto

lemma has_typ_any_list [simp]: "has_typ dp_lits l (ListT (FlatTyp ReturnT)) \<longleftrightarrow> (\<exists>ls. l = ListL ls)"
  by (cases l) (auto simp: list_all_iff)

lemma has_typ_list [simp]:
  "has_typ dp_lits (ListL ls) (ListT t) \<longleftrightarrow> (\<forall>l \<in> set ls. has_typ dp_lits l t)"
  by (simp add: list_all_iff)

lemma has_typ_any_option [simp]: "has_typ dp_lits l (TupleT []) \<longleftrightarrow> (\<exists>ls. l = TupleL ls \<and> length ls \<le> 1)"
  by (cases l) auto

lemma has_typ_option [simp]:
  "has_typ dp_lits (lit_opt x) (TupleT [t]) \<longleftrightarrow> (\<forall>v. x = Some v \<longrightarrow> has_typ dp_lits v t)"
  "has_typ dp_lits lit_none (TupleT [t])"
  "has_typ dp_lits (lit_some v) (TupleT [t]) \<longleftrightarrow> has_typ dp_lits v t"
  by (auto simp: lit_opt_def lit_none_def lit_some_def split: option.split)

lemma all_any_list:
  "(\<forall>l. has_typ dp_lits l (ListT (FlatTyp ReturnT)) \<longrightarrow> P l) \<longleftrightarrow> (\<forall>ls. P (ListL ls))"
  by auto

lemma all_any_option:
  "(\<forall>l. has_typ dp_lits l (TupleT []) \<longrightarrow> P l) \<longleftrightarrow> (\<forall>ls. length ls \<le> 1 \<longrightarrow> P (TupleL ls))"
  by auto

definition typ_sound :: "string \<times> flat_typ ty list \<times> flat_typ ty \<Rightarrow> bool" where
  "typ_sound row = (case row of (f, args, r) \<Rightarrow> f = ''IpAddr::octets'' \<or> sound f args r)"

lemmas typ_builtin_simps = typ_sound_def sound_unfold all_args all_flat all_any_list all_any_option

lemma builtin_call_struct [simp]:
  "builtin_call dp_plane lb f [ListL a] = lit_call1 dp_plane lb f (ListL a)"
  "builtin_call dp_plane lb f [TupleL a] = lit_call1 dp_plane lb f (TupleL a)"
  "builtin_call dp_plane lb f [ListL a, ListL b] = lit_call2 dp_plane lb f (ListL a) (ListL b)"
  by (simp_all add: builtin_call_def)

lemma pl_lits_dp [simp]: "pl_lits dp_plane = dp_lits"
  by (simp add: dp_plane_def)

lemmas struct_defs = lit_call1_def lit_call2_def vs_is_subset_def vs_is_disjoint_def
  vs_difference_def vs_intersection_def

lemmas message_structs = req_query_pairs_def req_header_def req_unique_header_def req_header_pairs_def
  res_header_def res_unique_header_def res_headers_lit_def res_header_pairs_def res_reason_lit_def
  hdr_header_def hdr_unique_def hdr_headers_def hdr_pairs_def id_labels_lit_def id_hosts_lit_def
  id_ips_lit_def id_port_lit_def conn_from_to_def lit_of_match_def lit_data_def lit_ip_def

lemma typ_table_sound: "list_all typ_sound (typ_builtin_table dp_types)"
  unfolding typ_builtin_table_def dp_types_def tflat.simps option_typ_def any_option_def list.pred_inject
  by (intro conjI TrueI) (auto simp: typ_builtin_simps call_defs struct_defs message_lits message_structs list_all_iff split: option.split list.split)

lemma new_sig_inject: "new_sig a r = new_sig b t \<longleftrightarrow> a = b \<and> r = t"
  by (simp add: new_sig_def)

lemma builtin_sound:
  assumes "builtins dp_builtin f = Some (new_sig args r)" and "f \<notin> {''option::Some'', ''IpAddr::octets''}"
  shows "sound f args r"
proof (cases "map_of (typ_builtin_table dp_types) f")
  case None
  then obtain a t where "map_of flat_builtin_table f = Some (a, t)" "args = map FlatTyp a" "r = FlatTyp t"
    using assms(1)
    by (auto simp: builtins_def dp_builtin_def lookup_typ_def dp_flat_builtins_def lookup_flat_def
        new_sig_inject)
  then show ?thesis
    using flat_table_sound assms(2) by (auto simp: list_all_iff flat_sound_def dest!: map_of_SomeD)
next
  case (Some row)
  then have "map_of (typ_builtin_table dp_types) f = Some (args, r)"
    using assms(1) by (cases row) (simp add: builtins_def dp_builtin_def lookup_typ_def new_sig_inject)
  then show ?thesis
    using typ_table_sound assms(2) by (auto simp: list_all_iff typ_sound_def dest!: map_of_SomeD)
qed

section \<open>Properties\<close>

text \<open>C8: every builtin of the data plane is implemented at its signature: called with arguments of
  its parameter types it does not fail, and its result has its result type. The two exceptions
  are \<open>option::Some\<close> and \<open>IpAddr::octets\<close>.\<close>

theorem builtin_calls_sound:
  assumes "builtins dp_builtin f = Some (new_sig args r)"
    and "f \<notin> {''option::Some'', ''IpAddr::octets''}"
    and "list_all2 (has_typ dp_lits) ls args"
  shows "\<exists>v. builtin_call dp_plane lb f ls = Some v \<and> has_typ dp_lits v r"
  using builtin_sound [OF assms(1, 2)] assms(3) by (simp add: sound_def)

theorem builtin_calls_sound_witness:
  "\<forall>lb. \<exists>v. builtin_call dp_plane lb ''i64::max'' [FlatLit (IntL 1), FlatLit (IntL 2)] = Some v \<and>
     has_typ dp_lits v (FlatTyp I64T)"
proof (rule allI, rule builtin_calls_sound)
  show "builtins dp_builtin ''i64::max'' = Some (new_sig [FlatTyp I64T, FlatTyp I64T] (FlatTyp I64T))"
    by (simp add: builtins_def dp_builtin_def lookup_typ_def typ_builtin_table_def dp_flat_builtins_def
        lookup_flat_def flat_builtin_table_def)
qed simp_all


text \<open>The operator \<open>!\<close> of the data plane returns its argument: \<open>!true\<close> is \<open>true\<close> and \<open>!false\<close> is
  \<open>false\<close>.\<close>

theorem not_is_identity:
  "lit_prefix dp_plane PNot (lit_bool dp_lits b) = Some (lit_bool dp_lits b)"
  by (simp add: lit_prefix_def dp_plane_def dp_interp_def dp_prefix_def lit_bool_def)

end
