(* ===== verification/Eval.thy ===== *)
theory Eval
  imports Builtins Meta
begin

text \<open>
  The evaluator of \<open>armour-lang/src/interpret.rs\<close> (\<open>TExprInterpreter::eval\<close>). An evaluation
  reads and changes a machine: the actor that holds the metadata, the trace of everything
  that happened outside the program, and the state of the interpreter. It ends with a value, an error, a
  panic, or without fuel.
\<close>

section \<open>Outcomes and machines\<close>

datatype 'a outcome = Ok 'a | Err error | Panic | NoFuel

text \<open>
  \<open>Builtin\<close> marks every call of a builtin, so that the clock and the resolver may answer
  differently each time; \<open>Rpc\<close> is an awaited external call, \<open>Spawn\<close> one that is only started.
  \<open>mc_state\<close> is the parameter \<open>State\<close> of \<open>TExprInterpreter\<close>: \<open>()\<close> for the data plane.
\<close>

datatype 'l event = Builtin string | Rpc "'l call" | Spawn "'l call"

record ('s, 'l) machine =
  mc_meta :: ingress_egress
  mc_trace :: "'l event list"
  mc_state :: 's

type_synonym ('s, 'l, 'a) ev = "('s, 'l) machine \<Rightarrow> 'a outcome \<times> ('s, 'l) machine"

definition ev_ok :: "'a \<Rightarrow> ('s, 'l, 'a) ev" where
  "ev_ok x = (\<lambda>s. (Ok x, s))"

definition ev_err :: "error \<Rightarrow> ('s, 'l, 'a) ev" where
  "ev_err e = (\<lambda>s. (Err e, s))"

definition ev_panic :: "('s, 'l, 'a) ev" where
  "ev_panic = (\<lambda>s. (Panic, s))"

definition ev_bind :: "('s, 'l, 'a) ev \<Rightarrow> ('a \<Rightarrow> ('s, 'l, 'b) ev) \<Rightarrow> ('s, 'l, 'b) ev" where
  "ev_bind m f = (\<lambda>s.
     case m s of
       (Ok x, s') \<Rightarrow> f x s'
     | (Err e, s') \<Rightarrow> (Err e, s')
     | (Panic, s') \<Rightarrow> (Panic, s')
     | (NoFuel, s') \<Rightarrow> (NoFuel, s'))"

definition ev_res :: "'a result \<Rightarrow> ('s, 'l, 'a) ev" where
  "ev_res r = (case r of Inl e \<Rightarrow> ev_err e | Inr x \<Rightarrow> ev_ok x)"

text \<open>\<open>None\<close> is a panic.\<close>

definition ev_opt :: "'a option \<Rightarrow> ('s, 'l, 'a) ev" where
  "ev_opt x = (case x of None \<Rightarrow> ev_panic | Some y \<Rightarrow> ev_ok y)"

section \<open>The environment\<close>

text \<open>
  \<open>en_rpc\<close> stands for the Cap'n Proto service behind an external and \<open>en_lib\<close> for the clock,
  the resolver and the crates; both may depend on all that happened before. \<open>en_call\<close> is the
  method \<open>eval_call\<close> of the trait, which the control plane overrides.
\<close>

record ('s, 'f, 'l) env =
  en_plane :: "('f, 'l) plane"
  en_code :: "(string \<times> 'l expr) list"
  en_lib :: "'l event list \<Rightarrow> lib"
  en_rpc :: "'l event list \<Rightarrow> 'l call \<Rightarrow> 'l literal result"
  en_call :: "string \<Rightarrow> 'l expr list \<Rightarrow> ('s, 'l, 'l expr) ev"

abbreviation en_lits :: "('s, 'f, 'l) env \<Rightarrow> ('f, 'l) tlit" where
  "en_lits X \<equiv> pl_lits (en_plane X)"

definition is_return :: "'l expr \<Rightarrow> bool" where
  "is_return e = (case e of ReturnExpr _ \<Rightarrow> True | _ \<Rightarrow> False)"

definition strip_return :: "'l expr \<Rightarrow> 'l expr" where
  "strip_return e = (case e of ReturnExpr r \<Rightarrow> r | _ \<Rightarrow> e)"

fun literal_vector :: "'l expr list \<Rightarrow> 'l literal list result" where
  "literal_vector [] = Inr []"
| "literal_vector (a # args) =
     (case a of
        LitExpr l \<Rightarrow> bind_res (literal_vector args) (\<lambda>ls. Inr (l # ls))
      | _ \<Rightarrow> Inl (Error ''arg is not a literal''))"

section \<open>Builtin calls\<close>

definition call_result :: "string \<Rightarrow> 'l literal option \<Rightarrow> 'l expr result" where
  "call_result msg r = (case r of Some l \<Rightarrow> Inr (LitExpr l) | None \<Rightarrow> Inl (Error msg))"

text \<open>The default \<open>eval_call\<close>, on a snapshot of the outside world.\<close>

definition eval_builtin :: "('f, 'l) plane \<Rightarrow> lib \<Rightarrow> string \<Rightarrow> 'l expr list \<Rightarrow> 'l expr result" where
  "eval_builtin P lb f args =
     (case args of
        [] \<Rightarrow> call_result ''eval, call(0): type error'' (lit_call0 P lb f)
      | [LitExpr a] \<Rightarrow> call_result ''eval, call(1): type error'' (lit_call1 P lb f a)
      | [LitExpr a, LitExpr b] \<Rightarrow> call_result ''eval, call(2): type error'' (lit_call2 P lb f a b)
      | [LitExpr a, LitExpr b, LitExpr c] \<Rightarrow>
          call_result ''eval, call(3): type error'' (lit_call3 P f a b c)
      | [LitExpr a, LitExpr b, LitExpr c, LitExpr d] \<Rightarrow>
          call_result ''eval, call(4): type error'' (lit_call4 P f a b c d)
      | _ \<Rightarrow> Inl (ErrorFmt ''eval, call ({}): {}: {:?}'' [show_nat (length args), f]))"

definition default_eval_call ::
    "('f, 'l) plane \<Rightarrow> ('l event list \<Rightarrow> lib) \<Rightarrow> string \<Rightarrow> 'l expr list \<Rightarrow> ('s, 'l, 'l expr) ev" where
  "default_eval_call P lib_at f args = (\<lambda>s.
     ev_res (eval_builtin P (lib_at (mc_trace s)) f args)
       (s\<lparr>mc_trace := Builtin f # mc_trace s\<rparr>))"

section \<open>External calls\<close>

definition send_meta :: "('s, 'f, 'l) env \<Rightarrow> 'l call \<Rightarrow> ('s, 'l, 'l expr) ev" where
  "send_meta X c = (\<lambda>s.
     case handle_call (en_lits X) c (mc_meta s) of (r, m) \<Rightarrow> ev_res r (s\<lparr>mc_meta := m\<rparr>))"

definition send_rpc :: "('s, 'f, 'l) env \<Rightarrow> 'l call \<Rightarrow> ('s, 'l, 'l expr) ev" where
  "send_rpc X c = (\<lambda>s.
     ev_res (bind_res (en_rpc X (mc_trace s) c) (\<lambda>l. Inr (LitExpr l)))
       (s\<lparr>mc_trace := Rpc c # mc_trace s\<rparr>))"

definition spawn_rpc :: "('s, 'f, 'l) env \<Rightarrow> 'l call \<Rightarrow> ('s, 'l, 'l expr) ev" where
  "spawn_rpc X c = (\<lambda>s. (Ok (expr_unit (en_lits X)), s\<lparr>mc_trace := Spawn c # mc_trace s\<rparr>))"

section \<open>Matching\<close>

text \<open>The named groups of the regular expression of a pattern, in order.\<close>

fun capture_names :: "pat \<Rightarrow> string list" where
  "capture_names (PatAs i a) = [as_name i a]"
| "capture_names (PatAlt ps) = concat (map capture_names ps)"
| "capture_names (PatSeq ps) = concat (map capture_names ps)"
| "capture_names (PatOpt p) = capture_names p"
| "capture_names (PatStar p) = capture_names p"
| "capture_names (PatPlus p) = capture_names p"
| "capture_names (PatCaseInsensitive p) = capture_names p"
| "capture_names (PatIgnoreWhitespace p) = capture_names p"
| "capture_names _ = []"

type_synonym 'l captures = "(string \<times> 'l expr) list"

text \<open>
  The loop over the group names. A group that took no part panics (outer \<open>None\<close>); text that
  does not convert ends the loop with no match (inner \<open>None\<close>).
\<close>

fun collect_captures ::
    "('f, 'l) tlit \<Rightarrow> (string \<Rightarrow> data option) \<Rightarrow> (string \<Rightarrow> string option) \<Rightarrow> string list \<Rightarrow> 'l captures \<Rightarrow>
       'l captures option option" where
  "collect_captures L b64 cap [] m = Some (Some m)"
| "collect_captures L b64 cap (name # names) m =
     (case cap name of
        None \<Rightarrow> None
      | Some txt \<Rightarrow>
          (case strip_as name of (v, a) \<Rightarrow>
             (case (case a of
                      AsI64 \<Rightarrow> map_option (lit_int L) (parse_i64 txt)
                    | AsBase64 \<Rightarrow> map_option (lit_data L) (b64 txt)
                    | AsStr \<Rightarrow> Some (lit_str L txt)) of
                None \<Rightarrow> Some None
              | Some l \<Rightarrow> collect_captures L b64 cap names (bt_insert v (LitExpr l) m))))"

definition perform_regex_match ::
    "('f, 'l) tlit \<Rightarrow> lib \<Rightarrow> pat \<Rightarrow> 'l expr \<Rightarrow> ('l expr \<times> 'l captures option) option option" where
  "perform_regex_match L lb p e =
     (case e of
        ReturnExpr _ \<Rightarrow> Some (Some (e, None))
      | LitExpr (FlatLit fl) \<Rightarrow>
          (if l_is_str L fl then
             (case l_get_str L fl of
                None \<Rightarrow> None
              | Some s \<Rightarrow>
                  (if capture_names p = [] then
                     Some (Some (e, if lib_is_match lb p s then Some [] else None))
                   else
                     (case lib_captures lb p s of
                        Some cap \<Rightarrow>
                          map_option (\<lambda>c. Some (e, c))
                            (collect_captures L (lib_base64_decode lb) cap (capture_names p) [])
                      | None \<Rightarrow> Some (Some (e, None)))))
           else Some None)
      | _ \<Rightarrow> Some None)"

definition perform_label_match ::
    "('f, 'l) tlit \<Rightarrow> label \<Rightarrow> 'l expr \<Rightarrow> ('l expr \<times> 'l captures option) option option" where
  "perform_label_match L p e =
     (case e of
        ReturnExpr _ \<Rightarrow> Some (Some (e, None))
      | LitExpr (FlatLit fl) \<Rightarrow>
          (if l_is_label L fl then
             (case l_get_label L fl of
                None \<Rightarrow> None
              | Some l \<Rightarrow>
                  Some (Some (e,
                    map_option (\<lambda>m. bt_collect (map (\<lambda>(x, y). (x, LitExpr (lit_str L y))) (match_pairs m)))
                      (match_with p l))))
           else Some None)
      | _ \<Rightarrow> Some None)"

definition perform_match ::
    "('f, 'l) tlit \<Rightarrow> lib \<Rightarrow> pattern \<Rightarrow> 'l expr \<Rightarrow> ('l expr \<times> 'l captures option) option option" where
  "perform_match L lb p e =
     (case p of RegexPat re \<Rightarrow> perform_regex_match L lb re e | LabelPat l \<Rightarrow> perform_label_match L l e)"

section \<open>The loops of the evaluator\<close>

text \<open>
  Each loop takes the evaluation of one expression, \<open>ev\<close>, as its argument; \<open>eval\<close> below passes
  itself, with less fuel.
\<close>

fun ev_map :: "('a \<Rightarrow> ('s, 'l, 'b) ev) \<Rightarrow> 'a list \<Rightarrow> ('s, 'l, 'b list) ev" where
  "ev_map f [] = ev_ok []"
| "ev_map f (x # xs) = ev_bind (f x) (\<lambda>y. ev_bind (ev_map f xs) (\<lambda>ys. ev_ok (y # ys)))"

text \<open>\<open>for (v, lit) in vs.iter().zip(lits) { if v != "_" { e = e.apply(lit)? } }\<close>.\<close>

fun apply_vars :: "(string \<times> 'l literal) list \<Rightarrow> 'l expr \<Rightarrow> 'l expr result" where
  "apply_vars [] e = Inr e"
| "apply_vars ((v, l) # z) e =
     (if v \<noteq> ''_'' then bind_res (apply_expr e (LitExpr l)) (apply_vars z) else apply_vars z e)"

text \<open>What one element of the list is applied to in an iteration.\<close>

definition apply_item :: "string list \<Rightarrow> 'l literal \<Rightarrow> 'l expr \<Rightarrow> 'l expr result" where
  "apply_item vs l e =
     (case (if length vs \<noteq> 1 then (case l of TupleL ts \<Rightarrow> Some ts | _ \<Rightarrow> None) else None) of
        Some ts \<Rightarrow>
          (if length vs = length ts then apply_vars (zip vs ts) e
           else Inl (Error ''eval, iter-expression (tuple length mismatch)''))
      | None \<Rightarrow>
          (if length vs = 1 then
             (if vs ! 0 \<noteq> ''_'' then apply_expr e (LitExpr l) else Inr e)
           else Inl (Error ''eval, iter-expression (not a tuple list)'')))"

text \<open>The loop of an iteration: the results in order, and the last accumulator.\<close>

fun ev_iter ::
    "('l expr \<Rightarrow> ('s, 'l, 'l expr) ev) \<Rightarrow> string list \<Rightarrow> 'l expr \<Rightarrow> 'l literal list \<Rightarrow> 'l expr option \<Rightarrow>
       ('s, 'l, 'l expr list \<times> 'l expr option) ev" where
  "ev_iter ev vs body [] acc = ev_ok ([], acc)"
| "ev_iter ev vs body (l # ls) acc =
     ev_bind (ev_res (case acc of Some a \<Rightarrow> apply_expr body a | None \<Rightarrow> Inr body)) (\<lambda>e1.
     ev_bind (ev_res (apply_item vs l e1)) (\<lambda>e2.
     ev_bind (ev e2) (\<lambda>r.
     ev_bind (ev_iter ev vs body ls (map_option (\<lambda>_. r) acc)) (\<lambda>(rs, acc').
     ev_ok (r # rs, acc')))))"

text \<open>\<open>all\<close> and \<open>any\<close> stop at the first literal that decides; \<open>get_bool\<close> panics on the others.\<close>

fun all_bool :: "('f, 'l) tlit \<Rightarrow> 'l literal list \<Rightarrow> bool option" where
  "all_bool L [] = Some True"
| "all_bool L (l # ls) =
     (case lit_get_bool L l of None \<Rightarrow> None | Some b \<Rightarrow> if b then all_bool L ls else Some False)"

fun any_bool :: "('f, 'l) tlit \<Rightarrow> 'l literal list \<Rightarrow> bool option" where
  "any_bool L [] = Some False"
| "any_bool L (l # ls) =
     (case lit_get_bool L l of None \<Rightarrow> None | Some b \<Rightarrow> if b then Some True else any_bool L ls)"

fun filter_bool :: "('f, 'l) tlit \<Rightarrow> ('l literal \<times> 'l literal) list \<Rightarrow> 'l literal list option" where
  "filter_bool L [] = Some []"
| "filter_bool L ((l, b) # z) =
     (case lit_get_bool L b of
        None \<Rightarrow> None
      | Some c \<Rightarrow> map_option (\<lambda>ls. if c then l # ls else ls) (filter_bool L z))"

text \<open>The value of an iteration over the list \<open>lits\<close> with the results \<open>vals\<close>.\<close>

definition iter_result ::
    "('f, 'l) tlit \<Rightarrow> iter_op \<Rightarrow> 'l literal list \<Rightarrow> 'l literal list \<Rightarrow> ('s, 'l, 'l expr) ev" where
  "iter_result L op lits vals =
     (case op of
        Map \<Rightarrow> ev_ok (LitExpr (ListL vals))
      | ForEach \<Rightarrow> ev_ok (expr_unit L)
      | Filter \<Rightarrow> ev_opt (map_option (\<lambda>ls. LitExpr (ListL ls)) (filter_bool L (zip lits vals)))
      | FilterMap \<Rightarrow> ev_ok (LitExpr (ListL (List.map_filter dest_some vals)))
      | All \<Rightarrow> ev_opt (map_option (\<lambda>b. LitExpr (lit_bool L b)) (all_bool L vals))
      | AnyIt \<Rightarrow> ev_opt (map_option (\<lambda>b. LitExpr (lit_bool L b)) (any_bool L vals))
      | Fold \<Rightarrow> ev_panic)"

definition finish_iter ::
    "('f, 'l) tlit \<Rightarrow> iter_op \<Rightarrow> 'l literal list \<Rightarrow> 'l expr list \<Rightarrow> 'l expr option \<Rightarrow> ('s, 'l, 'l expr) ev" where
  "finish_iter L op lits rs acc =
     (case find is_return rs of
        Some r \<Rightarrow> ev_ok r
      | None \<Rightarrow>
          (if op = Fold then
             (case acc of
                None \<Rightarrow> ev_panic
              | Some (LitExpr l) \<Rightarrow> ev_ok (LitExpr l)
              | Some _ \<Rightarrow> ev_err (Error ''arg is not a literal''))
           else ev_bind (ev_res (literal_vector rs)) (iter_result L op lits)))"

text \<open>The captures of all matches; \<open>extend\<close> lets later ones win.\<close>

definition all_captures :: "('l expr \<times> 'l captures option) list \<Rightarrow> 'l captures" where
  "all_captures rs =
     foldl (\<lambda>m (_, c). case c of Some caps \<Rightarrow> foldl (\<lambda>m (k, v). bt_insert k v m) m caps | None \<Rightarrow> m) [] rs"

fun apply_captures :: "'l captures \<Rightarrow> string list \<Rightarrow> 'l expr \<Rightarrow> 'l expr result" where
  "apply_captures m [] c = Inr c"
| "apply_captures m (v # vs) c =
     (case bt_get v m of
        Some e \<Rightarrow> bind_res (apply_expr c e) (apply_captures m vs)
      | None \<Rightarrow> Inl (Error ''eval, if-match-expression: missing bind''))"

text \<open>One \<open>(expression, pattern)\<close> of an \<open>if match\<close>.\<close>

definition ev_match ::
    "('s, 'f, 'l) env \<Rightarrow> ('l expr \<Rightarrow> ('s, 'l, 'l expr) ev) \<Rightarrow> 'l expr \<times> pattern \<Rightarrow>
       ('s, 'l, 'l expr \<times> 'l captures option) ev" where
  "ev_match X ev m =
     ev_bind (ev (fst m)) (\<lambda>r. \<lambda>s.
       (case perform_match (en_lits X) (en_lib X (mc_trace s)) (snd m) r of
          None \<Rightarrow> ev_panic s
        | Some None \<Rightarrow> ev_err (Error ''eval, if-match-expression: type error'') s
        | Some (Some x) \<Rightarrow> ev_ok x s))"

text \<open>A value of \<open>if match\<close> is a literal or a return.\<close>

definition check_value :: "string \<Rightarrow> 'l expr \<Rightarrow> ('s, 'l, 'l expr) ev" where
  "check_value msg r =
     (case r of ReturnExpr _ \<Rightarrow> ev_ok r | LitExpr _ \<Rightarrow> ev_ok r | _ \<Rightarrow> ev_err (Error msg))"

text \<open>\<open>args\<close> are values; \<open>ev\<close> evaluates the body of a user-defined function.\<close>

definition ev_call ::
    "('s, 'f, 'l) env \<Rightarrow> ('l expr \<Rightarrow> ('s, 'l, 'l expr) ev) \<Rightarrow> string \<Rightarrow> bool \<Rightarrow> 'l expr list \<Rightarrow> ('s, 'l, 'l expr) ev" where
  "ev_call X ev f async args =
     (case find is_return args of
        Some r \<Rightarrow> ev_ok r
      | None \<Rightarrow>
          (case bt_get f (en_code X) of
             Some body \<Rightarrow>
               ev_bind (ev_res (apply_all body args)) (\<lambda>e. ev_bind (ev e) (\<lambda>r. ev_ok (strip_return r)))
           | None \<Rightarrow>
               (if is_builtin (pl_builtin (en_plane X)) f then en_call X f args
                else case split_name f of
                  Some (ext, m) \<Rightarrow>
                    ev_bind (ev_res (literal_vector args)) (\<lambda>ls.
                      (if ext = ''Ingress'' \<or> ext = ''Egress'' then send_meta X (call_new ext m ls)
                       else if async then spawn_rpc X (call_new ext m ls)
                       else send_rpc X (call_new ext m ls)))
                | None \<Rightarrow> ev_err (ErrorFmt ''eval, call: {}: {:?}'' [f]))))"

section \<open>The evaluator\<close>

text \<open>The guard \<open>l.is_bool() && l.get_bool()\<close>: \<open>None\<close> where no guard of the two arms holds.\<close>

definition bool_guard :: "('f, 'l) tlit \<Rightarrow> 'l literal \<Rightarrow> bool option option" where
  "bool_guard L l = (if lit_is_bool L l then map_option Some (lit_get_bool L l) else Some None)"

text \<open>The two short-circuit operators: \<open>stop\<close> is the value that decides.\<close>

definition ev_short ::
    "('f, 'l) tlit \<Rightarrow> bool \<Rightarrow> ('l expr \<Rightarrow> ('s, 'l, 'l expr) ev) \<Rightarrow> 'l expr \<Rightarrow> 'l expr \<Rightarrow> ('s, 'l, 'l expr) ev" where
  "ev_short L stop ev e1 e2 =
     ev_bind (ev e1) (\<lambda>r1.
       case r1 of
         ReturnExpr _ \<Rightarrow> ev_ok r1
       | LitExpr l \<Rightarrow>
           ev_bind (ev_opt (bool_guard L l)) (\<lambda>g.
             case g of
               Some b \<Rightarrow>
                 (if b = stop then ev_ok (LitExpr l)
                  else ev_bind (ev e2) (\<lambda>r2.
                    case r2 of
                      ReturnExpr _ \<Rightarrow> ev_ok r2
                    | LitExpr l2 \<Rightarrow>
                        (if lit_is_bool L l2 then ev_ok r2 else ev_err (Error ''eval, infix''))
                    | _ \<Rightarrow> ev_err (Error ''eval, infix'')))
             | None \<Rightarrow> ev_err (Error ''eval, infix''))
       | _ \<Rightarrow> ev_err (Error ''eval, infix''))"

definition opt_eval ::
    "('f, 'l) tlit \<Rightarrow> ('l expr \<Rightarrow> ('s, 'l, 'l expr) ev) \<Rightarrow> 'l expr option \<Rightarrow> ('s, 'l, 'l expr) ev" where
  "opt_eval L ev alt = (case alt of Some a \<Rightarrow> ev a | None \<Rightarrow> ev_ok (expr_unit L))"

text \<open>One case per construct; \<open>ev\<close> evaluates the parts. The fuel bounds the depth of the recursion.\<close>

fun eval_step :: "('s, 'f, 'l) env \<Rightarrow> ('l expr \<Rightarrow> ('s, 'l, 'l expr) ev) \<Rightarrow> 'l expr \<Rightarrow> ('s, 'l, 'l expr) ev" where
  "eval_step X ev (Var _) = ev_err (Error ''eval variable'')"
| "eval_step X ev (BVar _ _) = ev_err (Error ''eval variable'')"
| "eval_step X ev (LitExpr l) = ev_ok (LitExpr l)"
| "eval_step X ev (Closure _ _) = ev_err (Error ''eval, closure'')"
| "eval_step X ev (ReturnExpr e1) = ev_bind (ev e1) (\<lambda>r. ev_ok (ReturnExpr r))"
| "eval_step X ev (PrefixExpr p e1) =
     ev_bind (ev e1) (\<lambda>r.
       case r of
         ReturnExpr _ \<Rightarrow> ev_ok r
       | LitExpr l \<Rightarrow> ev_res (call_result ''eval prefix: type error'' (lit_prefix (en_plane X) p l))
       | _ \<Rightarrow> ev_err (Error ''eval, prefix''))"
| "eval_step X ev (InfixExpr op e1 e2) =
     (if op = And then ev_short (en_lits X) False ev e1 e2
      else if op = Or then ev_short (en_lits X) True ev e1 e2
      else
        ev_bind (ev e1) (\<lambda>r1. ev_bind (ev e2) (\<lambda>r2.
          if is_return r1 then ev_ok r1
          else if is_return r2 then ev_ok r2
          else case (r1, r2) of
            (LitExpr l1, LitExpr l2) \<Rightarrow>
              ev_bind (ev_opt (lit_infix (en_plane X) op l1 l2)) (\<lambda>r.
                ev_res (call_result ''eval, infix: type error'' r))
          | _ \<Rightarrow> ev_err (Error ''eval, infix: failed''))))"
| "eval_step X ev (BlockExpr b es) =
     (case es of
        [] \<Rightarrow> ev_ok (LitExpr (if b = ListBlock then ListL [] else lit_unit (en_lits X)))
      | e1 # rest \<Rightarrow>
          (if b = Block then
             ev_bind (ev e1) (\<lambda>r.
               if is_return r \<or> rest = [] then ev_ok r else ev (BlockExpr b rest))
           else
             ev_bind (ev_map ev es) (\<lambda>rs.
               case find is_return rs of
                 Some r \<Rightarrow> ev_ok r
               | None \<Rightarrow>
                   ev_bind (ev_res (literal_vector rs)) (\<lambda>ls.
                     ev_ok (LitExpr (if b = ListBlock then ListL ls else TupleL ls))))))"
| "eval_step X ev (LetExpr vs e1 e2) =
     ev_bind (ev e1) (\<lambda>r.
       case r of
         ReturnExpr _ \<Rightarrow> ev_ok r
       | LitExpr l \<Rightarrow>
           (case (case l of TupleL ls \<Rightarrow> Some ls | _ \<Rightarrow> None) of
              Some ls \<Rightarrow>
                (if 1 < length ls \<and> length vs = length ls then
                   ev_bind (ev_res (apply_vars (zip vs ls) e2)) ev
                 else if length vs = 1 then
                   ev_bind (ev_res (apply_expr e2 (LitExpr (TupleL ls)))) ev
                 else ev_err (Error ''eval, let-expression (tuple length mismatch)''))
            | None \<Rightarrow>
                (if length vs = 1 then ev_bind (ev_res (apply_expr e2 r)) ev
                 else ev_err (Error ''eval, let-expression (literal not a tuple)'')))
       | _ \<Rightarrow> ev_err (Error ''eval, let-expression''))"
| "eval_step X ev (IterExpr op vs e1 e2 acc) =
     ev_bind (ev e1) (\<lambda>r.
       if is_return r then ev_ok r
       else case r of
         LitExpr (ListL lits) \<Rightarrow>
           ev_bind (case acc of
                      Some (_, a) \<Rightarrow> ev_bind (ev a) (\<lambda>v. ev_ok (Some v))
                    | None \<Rightarrow> ev_ok None) (\<lambda>a0.
           ev_bind (ev_iter ev vs e2 lits a0) (\<lambda>(rs, a1).
             finish_iter (en_lits X) op lits rs a1))
       | _ \<Rightarrow> ev_err (Error ''eval, map-expression''))"
| "eval_step X ev (IfExpr c t alt) =
     ev_bind (ev c) (\<lambda>r.
       if is_return r then ev_ok r
       else case r of
         LitExpr l \<Rightarrow>
           ev_bind (ev_opt (bool_guard (en_lits X) l)) (\<lambda>g.
             case g of
               Some b \<Rightarrow> (if b then ev t else opt_eval (en_lits X) ev alt)
             | None \<Rightarrow> ev_err (Error ''eval, if-expression''))
       | _ \<Rightarrow> ev_err (Error ''eval, if-expression''))"
| "eval_step X ev (IfSomeMatchExpr e1 t alt) =
     ev_bind (ev e1) (\<lambda>r.
       if is_return r then ev_ok r
       else case r of
         LitExpr (TupleL ts) \<Rightarrow>
           (if length ts = 1 then ev_bind (ev_res (apply_expr t (LitExpr (ts ! 0)))) ev
            else opt_eval (en_lits X) ev alt)
       | _ \<Rightarrow> ev_err (ErrorFmt ''eval, if-let-expression: {:#?}'' []))"
| "eval_step X ev (IfMatchExpr vs ms t alt) =
     ev_bind (ev_map (ev_match X ev) ms) (\<lambda>rs.
       case find (\<lambda>(r, _). is_return r) rs of
         Some (r, _) \<Rightarrow> ev_ok r
       | None \<Rightarrow>
           (if list_ex (\<lambda>(_, c). c = None) rs then
              (case alt of
                 None \<Rightarrow> ev_ok (expr_unit (en_lits X))
               | Some a \<Rightarrow> ev_bind (ev a) (check_value ''eval, if-match-expression''))
            else
              ev_bind (ev_res (apply_captures (all_captures rs) vs t)) (\<lambda>c.
              ev_bind (ev c) (check_value ''eval, if-match-expression''))))"
| "eval_step X ev (CallExpr f args async) =
     ev_bind (ev_map ev args) (ev_call X ev f async)"

fun eval :: "('s, 'f, 'l) env \<Rightarrow> nat \<Rightarrow> 'l expr \<Rightarrow> ('s, 'l, 'l expr) ev" where
  "eval X 0 e = (\<lambda>s. (NoFuel, s))"
| "eval X (Suc n) e = eval_step X (eval X n) e"

definition evaluate :: "('s, 'f, 'l) env \<Rightarrow> nat \<Rightarrow> 'l expr \<Rightarrow> ('s, 'l, 'l expr) ev" where
  "evaluate X n e = ev_bind (eval X n e) (\<lambda>r. ev_ok (strip_return r))"

end
