(* ===== verification/EvalProps.thy ===== *)
theory EvalProps
  imports Eval
begin

text \<open>
  What holds of every evaluation: the shape of its values and its effect on the machine (through
  the locale \<open>evaluator\<close>), that more fuel changes nothing, and termination of programs without
  recursion.
\<close>

section \<open>Functions called\<close>

text \<open>Every function name in the term satisfies \<open>A\<close>.\<close>

fun calls_ok :: "(string \<Rightarrow> bool) \<Rightarrow> 'l expr \<Rightarrow> bool" where
  "calls_ok A (Var _) = True"
| "calls_ok A (BVar _ _) = True"
| "calls_ok A (LitExpr _) = True"
| "calls_ok A (Closure _ e) = calls_ok A e"
| "calls_ok A (ReturnExpr e) = calls_ok A e"
| "calls_ok A (PrefixExpr _ e) = calls_ok A e"
| "calls_ok A (InfixExpr _ e1 e2) = (calls_ok A e1 \<and> calls_ok A e2)"
| "calls_ok A (LetExpr _ e1 e2) = (calls_ok A e1 \<and> calls_ok A e2)"
| "calls_ok A (IterExpr _ _ e1 e2 acc) =
     (calls_ok A e1 \<and> calls_ok A e2 \<and> pred_option (\<lambda>(_, a). calls_ok A a) acc)"
| "calls_ok A (BlockExpr _ es) = list_all (calls_ok A) es"
| "calls_ok A (IfExpr c t alt) = (calls_ok A c \<and> calls_ok A t \<and> pred_option (calls_ok A) alt)"
| "calls_ok A (IfSomeMatchExpr e t alt) = (calls_ok A e \<and> calls_ok A t \<and> pred_option (calls_ok A) alt)"
| "calls_ok A (IfMatchExpr _ ms t alt) =
     (list_all (\<lambda>(e, _). calls_ok A e) ms \<and> calls_ok A t \<and> pred_option (calls_ok A) alt)"
| "calls_ok A (CallExpr f args _) = (A f \<and> list_all (calls_ok A) args)"

lemma calls_ok_shift: "calls_ok A e \<Longrightarrow> calls_ok A (shift i d e)"
  by (induction e arbitrary: d rule: expr_induct) (auto simp: expr_nested)

lemma calls_ok_subst: "calls_ok A e \<Longrightarrow> calls_ok A u \<Longrightarrow> calls_ok A (subst i u dg e)"
  by (induction e arbitrary: i rule: expr_induct) (auto simp: expr_nested calls_ok_shift)

lemma calls_ok_mono: "calls_ok A e \<Longrightarrow> (\<And>f. A f \<Longrightarrow> B f) \<Longrightarrow> calls_ok B e"
  by (induction e rule: expr_induct) (auto simp: expr_nested)

section \<open>Values\<close>

fun is_value :: "'l expr \<Rightarrow> bool" where
  "is_value (LitExpr _) = True"
| "is_value (ReturnExpr e) = is_value e"
| "is_value _ = False"

lemma value_calls: "is_value e \<Longrightarrow> calls_ok A e"
  by (induction e rule: is_value.induct) auto

lemma value_cases:
  assumes "is_value e"
  obtains l where "e = LitExpr l" | r where "e = ReturnExpr r" "is_value r"
  using assms by (cases e) auto

lemma value_strip [simp]: "is_value e \<Longrightarrow> is_value (strip_return e)"
  by (cases e) (auto simp: strip_return_def)

lemma is_return_iff: "is_return e \<longleftrightarrow> (\<exists>r. e = ReturnExpr r)"
  by (cases e) (auto simp: is_return_def)

section \<open>What application keeps\<close>

text \<open>
  A predicate kept by applying a term to a value is kept by every way the evaluator applies:
  to arguments, to the parts of a tuple, to an element of a list, to captures.
\<close>

locale kept_by_apply =
  fixes K :: "'l expr \<Rightarrow> bool"
  assumes apply_kept: "K e \<Longrightarrow> is_value u \<Longrightarrow> apply_expr e u = Inr e' \<Longrightarrow> K e'"
begin

lemma apply_lit_kept: "K e \<Longrightarrow> apply_expr e (LitExpr l) = Inr e' \<Longrightarrow> K e'"
  by (rule apply_kept) simp_all

lemma apply_all_kept: "K e \<Longrightarrow> \<forall>u \<in> set us. is_value u \<Longrightarrow> apply_all e us = Inr e' \<Longrightarrow> K e'"
proof (induction us arbitrary: e)
  case (Cons u us)
  then obtain e1 where e1: "apply_expr e u = Inr e1" "apply_all e1 us = Inr e'"
    by (auto simp: bind_res_Inr_iff)
  have "K e1"
    using Cons.prems e1(1) by (auto intro: apply_kept)
  then show ?case
    using Cons.IH e1(2) Cons.prems(2) by simp
qed simp

lemma apply_vars_kept: "K e \<Longrightarrow> apply_vars z e = Inr e' \<Longrightarrow> K e'"
proof (induction z arbitrary: e)
  case (Cons vl z)
  obtain v l where vl: "vl = (v, l)"
    by (cases vl)
  show ?case
  proof (cases "v = ''_''")
    case True
    then show ?thesis
      using Cons vl by simp
  next
    case False
    then obtain e1 where e1: "apply_expr e (LitExpr l) = Inr e1" "apply_vars z e1 = Inr e'"
      using Cons.prems vl by (auto simp: bind_res_Inr_iff)
    have "K e1"
      using Cons.prems(1) e1(1) by (rule apply_lit_kept)
    then show ?thesis
      using Cons.IH e1(2) by simp
  qed
qed simp

lemma apply_item_kept: "K e \<Longrightarrow> apply_item vs l e = Inr e' \<Longrightarrow> K e'"
  by (auto simp: apply_item_def split: option.splits if_splits intro: apply_vars_kept apply_lit_kept)

lemma apply_captures_kept:
  "K c \<Longrightarrow> (\<And>v e. bt_get v m = Some e \<Longrightarrow> is_value e) \<Longrightarrow> apply_captures m vs c = Inr e' \<Longrightarrow> K e'"
proof (induction vs arbitrary: c)
  case (Cons v vs)
  then obtain u c1 where c1: "bt_get v m = Some u" "apply_expr c u = Inr c1" "apply_captures m vs c1 = Inr e'"
    by (auto simp: bind_res_Inr_iff split: option.splits)
  have "K c1"
    using Cons.prems(1, 2) c1(1, 2) by (auto intro: apply_kept)
  then show ?case
    using Cons.IH c1(3) Cons.prems(2) by blast
qed simp

end

interpretation calls_kept: kept_by_apply "calls_ok A" for A
proof
  fix e u e' :: "'l expr"
  assume "calls_ok A e" "is_value u" "apply_expr e u = Inr e'"
  then show "calls_ok A e'"
    by (cases e) (auto intro: calls_ok_subst value_calls)
qed

section \<open>Effects\<close>

text \<open>
  \<open>ev_spec R P m\<close>: running \<open>m\<close> relates the machine before to the machine after by \<open>R\<close>,
  however it ends, and a result satisfies \<open>P\<close>.
\<close>

definition ev_spec :: "(('s, 'l) machine \<Rightarrow> ('s, 'l) machine \<Rightarrow> bool) \<Rightarrow> ('a \<Rightarrow> bool) \<Rightarrow> ('s, 'l, 'a) ev \<Rightarrow> bool" where
  "ev_spec R P m \<longleftrightarrow> (\<forall>s. R s (snd (m s)) \<and> (\<forall>x. fst (m s) = Ok x \<longrightarrow> P x))"

text \<open>Captures are literals.\<close>

definition caps_ok :: "'l captures \<Rightarrow> bool" where
  "caps_ok m \<longleftrightarrow> (\<forall>(v, e) \<in> set m. is_value e)"

lemma set_bt_insert: "set (bt_insert k v m) \<subseteq> insert (k, v) (set m)"
  by (induction k v m rule: bt_insert.induct) auto

lemma caps_ok_insert: "caps_ok m \<Longrightarrow> is_value e \<Longrightarrow> caps_ok (bt_insert v e m)"
  using set_bt_insert [of v e m] by (auto simp: caps_ok_def)

lemma caps_ok_Nil [simp]: "caps_ok []"
  by (simp add: caps_ok_def)

lemma caps_ok_get: "caps_ok m \<Longrightarrow> bt_get v m = Some e \<Longrightarrow> is_value e"
  by (auto simp: caps_ok_def bt_get_map_of dest!: map_of_SomeD)

lemma caps_ok_extend: "caps_ok m \<Longrightarrow> caps_ok caps \<Longrightarrow> caps_ok (foldl (\<lambda>m (k, v). bt_insert k v m) m caps)"
proof (induction caps arbitrary: m)
  case (Cons kv caps)
  obtain k v where kv: "kv = (k, v)"
    by (cases kv)
  then have "is_value v" and "caps_ok caps"
    using Cons.prems(2) by (auto simp: caps_ok_def)
  then show ?case
    using Cons.IH [OF caps_ok_insert [OF Cons.prems(1)]] kv by simp
qed simp

lemma collect_captures_ok:
  "collect_captures L b64 cap names m = Some (Some c) \<Longrightarrow> caps_ok m \<Longrightarrow> caps_ok c"
proof (induction names arbitrary: m)
  case (Cons name names)
  then obtain v l where "collect_captures L b64 cap names (bt_insert v (LitExpr l) m) = Some (Some c)"
    by (auto split: option.splits prod.splits as_conv.splits)
  then show ?case
    using Cons.IH Cons.prems(2) by (simp add: caps_ok_insert)
qed simp

lemma caps_ok_labels: "caps_ok (bt_collect (map (\<lambda>(x, y). (x, LitExpr (f y))) ps))"
  unfolding bt_collect_def by (rule caps_ok_extend) (auto simp: caps_ok_def)

lemma perform_match_ok:
  assumes "perform_match L lb p e = Some (Some (r, c))" and "is_value e"
  shows "is_value r" and "pred_option caps_ok c"
proof -
  have "r = e \<and> pred_option caps_ok c"
    using assms(1)
    by (cases c)
      (auto simp: perform_match_def perform_regex_match_def perform_label_match_def caps_ok_labels
        split: pattern.splits expr.splits literal.splits if_splits option.splits
        intro: collect_captures_ok [OF _ caps_ok_Nil])
  then show "is_value r" and "pred_option caps_ok c"
    using assms(2) by auto
qed

lemma all_captures_ok: "list_all (\<lambda>(r, c). pred_option caps_ok c) rs \<Longrightarrow> caps_ok (all_captures rs)"
proof -
  have "caps_ok m \<Longrightarrow> list_all (\<lambda>(r, c). pred_option caps_ok c) rs \<Longrightarrow>
      caps_ok (foldl (\<lambda>m (_, c). case c of Some caps \<Rightarrow> foldl (\<lambda>m (k, v). bt_insert k v m) m caps | None \<Rightarrow> m) m rs)" for m
    by (induction rs arbitrary: m) (auto simp: caps_ok_extend split: option.split)
  then show "list_all (\<lambda>(r, c). pred_option caps_ok c) rs \<Longrightarrow> caps_ok (all_captures rs)"
    by (simp add: all_captures_def)
qed

text \<open>
  The contract between the evaluator and its environment: \<open>R\<close> is a preorder on machines, \<open>A\<close>
  the set of functions that may be called; the code calls no others, and every call that leaves
  the program respects \<open>R\<close> and returns a value.
\<close>

locale evaluator =
  fixes X :: "('s, 'f, 'l) env"
    and R :: "('s, 'l) machine \<Rightarrow> ('s, 'l) machine \<Rightarrow> bool"
    and A :: "string \<Rightarrow> bool"
  assumes R_refl: "R s s"
    and R_trans: "R s t \<Longrightarrow> R t u \<Longrightarrow> R s u"
    and code_calls: "bt_get f (en_code X) = Some body \<Longrightarrow> calls_ok A body"
    and builtin_spec: "A f \<Longrightarrow> ev_spec R is_value (en_call X f args)"
    and meta_spec: "A f \<Longrightarrow> split_name f = Some (ext, m) \<Longrightarrow> ext = ''Ingress'' \<or> ext = ''Egress'' \<Longrightarrow>
      ev_spec R is_value (send_meta X (call_new ext m ls))"
    and external_spec: "A f \<Longrightarrow> split_name f = Some (ext, m) \<Longrightarrow> ext \<noteq> ''Ingress'' \<Longrightarrow> ext \<noteq> ''Egress'' \<Longrightarrow>
      ev_spec R is_value (send_rpc X (call_new ext m ls)) \<and> ev_spec R is_value (spawn_rpc X (call_new ext m ls))"
begin

lemma spec_basic [simp, intro]:
  "ev_spec R P (ev_err e)" "ev_spec R P ev_panic" "P x \<Longrightarrow> ev_spec R P (ev_ok x)"
  "(\<And>x. r = Inr x \<Longrightarrow> P x) \<Longrightarrow> ev_spec R P (ev_res r)"
  "(\<And>x. r' = Some x \<Longrightarrow> P x) \<Longrightarrow> ev_spec R P (ev_opt r')"
  by (auto simp: ev_spec_def ev_err_def ev_panic_def ev_ok_def ev_res_def ev_opt_def R_refl
      split: sum.splits option.splits)

lemma spec_bind:
  assumes m: "ev_spec R Q m" and f: "\<And>x. Q x \<Longrightarrow> ev_spec R P (f x)"
  shows "ev_spec R P (ev_bind m f)"
  unfolding ev_spec_def
proof
  fix s
  obtain r t where t: "m s = (r, t)"
    by (cases "m s")
  have st: "R s t"
    using m t by (metis ev_spec_def snd_conv)
  show "R s (snd (ev_bind m f s)) \<and> (\<forall>x. fst (ev_bind m f s) = Ok x \<longrightarrow> P x)"
  proof (cases r)
    case (Ok x)
    then have "Q x"
      using m t by (metis ev_spec_def fst_conv)
    then have "ev_spec R P (f x)"
      by (rule f)
    then show ?thesis
      using Ok t st R_trans unfolding ev_spec_def ev_bind_def by auto
  qed (use t st in \<open>auto simp: ev_bind_def\<close>)
qed

lemma spec_call_result: "ev_spec R is_value (ev_res (call_result msg r))"
  by (cases r) (auto simp: call_result_def)

lemma spec_weaken: "ev_spec R Q m \<Longrightarrow> (\<And>x. Q x \<Longrightarrow> P x) \<Longrightarrow> ev_spec R P m"
  by (auto simp: ev_spec_def)

lemma spec_map: "(\<And>x. x \<in> set xs \<Longrightarrow> ev_spec R P (f x)) \<Longrightarrow> ev_spec R (list_all P) (ev_map f xs)"
  by (induction xs) (auto intro!: spec_bind)

text \<open>\<open>ev\<close> is a sound evaluation of the terms the evaluator may meet.\<close>

definition ev_good :: "('l expr \<Rightarrow> ('s, 'l, 'l expr) ev) \<Rightarrow> bool" where
  "ev_good ev \<longleftrightarrow> (\<forall>e. calls_ok A e \<longrightarrow> ev_spec R is_value (ev e))"

lemma ev_goodD: "ev_good ev \<Longrightarrow> calls_ok A e \<Longrightarrow> ev_spec R is_value (ev e)"
  by (simp add: ev_good_def)

lemma spec_iter:
  assumes "ev_good ev" and "calls_ok A body" and "pred_option is_value acc"
  shows "ev_spec R (\<lambda>(rs, a). list_all is_value rs \<and> pred_option is_value a) (ev_iter ev vs body ls acc)"
  using assms(3)
proof (induction ls arbitrary: acc)
  case (Cons l ls)
  have 1: "calls_ok A e1" if "(case acc of Some a \<Rightarrow> apply_expr body a | None \<Rightarrow> Inr body) = Inr e1" for e1
    using that assms(2) Cons.prems by (auto split: option.splits intro: calls_kept.apply_kept)
  show ?case
    unfolding ev_iter.simps
  proof (rule spec_bind [where Q = "calls_ok A"])
    fix e1 :: "'l expr"
    assume e1: "calls_ok A e1"
    show "ev_spec R (\<lambda>(rs, a). list_all is_value rs \<and> pred_option is_value a)
      (ev_bind (ev_res (apply_item vs l e1)) (\<lambda>e2. ev_bind (ev e2) (\<lambda>r.
        ev_bind (ev_iter ev vs body ls (map_option (\<lambda>_. r) acc)) (\<lambda>(rs, acc'). ev_ok (r # rs, acc')))))"
    proof (rule spec_bind [where Q = "calls_ok A"])
      fix e2 :: "'l expr"
      assume "calls_ok A e2"
      then have "ev_spec R is_value (ev e2)"
        by (rule ev_goodD [OF assms(1)])
      then show "ev_spec R (\<lambda>(rs, a). list_all is_value rs \<and> pred_option is_value a)
        (ev_bind (ev e2) (\<lambda>r. ev_bind (ev_iter ev vs body ls (map_option (\<lambda>_. r) acc)) (\<lambda>(rs, acc').
          ev_ok (r # rs, acc'))))"
      proof (rule spec_bind)
        fix r :: "'l expr"
        assume "is_value r"
        then show "ev_spec R (\<lambda>(rs, a). list_all is_value rs \<and> pred_option is_value a)
          (ev_bind (ev_iter ev vs body ls (map_option (\<lambda>_. r) acc)) (\<lambda>(rs, acc'). ev_ok (r # rs, acc')))"
          by (intro spec_bind [OF Cons.IH]) (auto simp: option.pred_set)
      qed
    qed (auto intro: calls_kept.apply_item_kept [OF e1])
  qed (use 1 in auto)
qed simp

lemma find_value: "find Q rs = Some r \<Longrightarrow> list_all is_value rs \<Longrightarrow> is_value r"
  by (auto simp: find_Some_iff list_all_length)

lemma spec_finish_iter:
  assumes "list_all is_value rs" and "pred_option is_value acc"
  shows "ev_spec R is_value (finish_iter L op lits rs acc)"
proof -
  have "ev_spec R is_value (iter_result L op lits vals)" for vals
    by (cases op) (auto simp: iter_result_def expr_unit_def)
  then show ?thesis
    using assms unfolding finish_iter_def
    by (auto split: option.split expr.split dest: find_value
        intro!: spec_bind [where Q = "\<lambda>_. True"])
qed

lemma spec_opt_eval:
  "ev_good ev \<Longrightarrow> pred_option (calls_ok A) alt \<Longrightarrow> ev_spec R is_value (opt_eval L ev alt)"
  by (cases alt) (auto simp: opt_eval_def expr_unit_def ev_goodD)

lemma spec_short:
  assumes "ev_good ev" and "calls_ok A e1" and "calls_ok A e2"
  shows "ev_spec R is_value (ev_short L stop ev e1 e2)"
proof -
  have tail: "ev_spec R is_value
      (ev_bind (ev e2) (\<lambda>r2. case r2 of
          ReturnExpr _ \<Rightarrow> ev_ok r2
        | LitExpr l2 \<Rightarrow> (if lit_is_bool L l2 then ev_ok r2 else ev_err (Error ''eval, infix''))
        | _ \<Rightarrow> ev_err (Error ''eval, infix'')))"
    by (rule spec_bind [OF ev_goodD [OF assms(1, 3)]]) (auto split: expr.split)
  have "ev_spec R is_value
      (ev_bind (ev_opt (bool_guard L l)) (\<lambda>g. case g of
          Some b \<Rightarrow> if b = stop then ev_ok (LitExpr l) else
            ev_bind (ev e2) (\<lambda>r2. case r2 of
                ReturnExpr _ \<Rightarrow> ev_ok r2
              | LitExpr l2 \<Rightarrow> (if lit_is_bool L l2 then ev_ok r2 else ev_err (Error ''eval, infix''))
              | _ \<Rightarrow> ev_err (Error ''eval, infix''))
        | None \<Rightarrow> ev_err (Error ''eval, infix'')))" for l
    by (rule spec_bind [where Q = "\<lambda>_. True"]) (auto split: option.split simp: tail)
  then show ?thesis
    unfolding ev_short_def
    by (intro spec_bind [OF ev_goodD [OF assms(1, 2)]]) (auto split: expr.split)
qed

lemma spec_call:
  assumes "ev_good ev" and "A f" and "list_all is_value args"
  shows "ev_spec R is_value (ev_call X ev f async args)"
proof (cases "find is_return args")
  case (Some r)
  then show ?thesis
    using find_value assms(3) by (auto simp: ev_call_def)
next
  case no_return: None
  show ?thesis
  proof (cases "bt_get f (en_code X)")
    case (Some body)
    have "calls_ok A e" if "apply_all body args = Inr e" for e
      using calls_kept.apply_all_kept [OF code_calls [OF Some] _ that] assms(3) by (simp add: list_all_iff)
    then have "ev_spec R is_value
        (ev_bind (ev_res (apply_all body args)) (\<lambda>e. ev_bind (ev e) (\<lambda>r. ev_ok (strip_return r))))"
      by (intro spec_bind [where Q = "calls_ok A"] spec_basic spec_bind [OF ev_goodD [OF assms(1)]]) auto
    then show ?thesis
      using no_return Some by (simp add: ev_call_def)
  next
    case None
    have "ev_spec R is_value (ev_bind (ev_res (literal_vector args)) (\<lambda>ls.
        if ext = ''Ingress'' \<or> ext = ''Egress'' then send_meta X (call_new ext m ls)
        else if async then spawn_rpc X (call_new ext m ls) else send_rpc X (call_new ext m ls)))"
      if "split_name f = Some (ext, m)" for ext m
      using meta_spec [OF assms(2) that] external_spec [OF assms(2) that]
      by (intro spec_bind [where Q = "\<lambda>_. True"]) auto
    then show ?thesis
      using no_return None builtin_spec [OF assms(2)]
      by (auto simp: ev_call_def split: option.split)
  qed
qed


lemma spec_match:
  assumes "ev_good ev" and "calls_ok A (fst m)"
  shows "ev_spec R (\<lambda>(r, c). is_value r \<and> pred_option caps_ok c) (ev_match X ev m)"
  unfolding ev_match_def
proof (rule spec_bind [OF ev_goodD [OF assms]])
  fix r :: "'l expr"
  assume "is_value r"
  then show "ev_spec R (\<lambda>(r, c). is_value r \<and> pred_option caps_ok c) (\<lambda>s.
      case perform_match (en_lits X) (en_lib X (mc_trace s)) (snd m) r of
        None \<Rightarrow> ev_panic s
      | Some None \<Rightarrow> ev_err (Error ''eval, if-match-expression: type error'') s
      | Some (Some x) \<Rightarrow> ev_ok x s)"
    using perform_match_ok
    by (fastforce simp: ev_spec_def ev_panic_def ev_err_def ev_ok_def R_refl split: option.split)
qed

lemma spec_check: "is_value r \<Longrightarrow> ev_spec R is_value (check_value msg r)"
  by (cases r) (auto simp: check_value_def)

lemma ev_good_0: "ev_good (eval X 0)"
  by (simp add: ev_good_def ev_spec_def R_refl)

text \<open>One more unit of fuel; one case for each construct.\<close>

lemma spec_let:
  assumes g: "ev_good ev" and e1: "calls_ok A e1" and e2: "calls_ok A e2"
  shows "ev_spec R is_value (ev_bind (ev e1) (\<lambda>r. case r of
      ReturnExpr _ \<Rightarrow> ev_ok r
    | LitExpr l \<Rightarrow>
        (case (case l of TupleL ls \<Rightarrow> Some ls | _ \<Rightarrow> None) of
           Some ls \<Rightarrow>
             (if 1 < length ls \<and> length vs = length ls then
                ev_bind (ev_res (apply_vars (zip vs ls) e2)) ev
              else if length vs = 1 then ev_bind (ev_res (apply_expr e2 (LitExpr (TupleL ls)))) ev
              else ev_err (Error ''eval, let-expression (tuple length mismatch)''))
         | None \<Rightarrow>
             (if length vs = 1 then ev_bind (ev_res (apply_expr e2 r)) ev
              else ev_err (Error ''eval, let-expression (literal not a tuple)'')))
    | _ \<Rightarrow> ev_err (Error ''eval, let-expression'')))"
proof -
  have "ev_spec R is_value (ev_bind (ev_res (apply_vars z e2)) ev)"
    and "ev_spec R is_value (ev_bind (ev_res (apply_expr e2 (LitExpr l))) ev)" for z l
    using calls_kept.apply_vars_kept [OF e2] calls_kept.apply_lit_kept [OF e2]
    by (auto intro!: spec_bind [where Q = "calls_ok A"] ev_goodD [OF g])
  then show ?thesis
    by (intro spec_bind [OF ev_goodD [OF g e1]])
      (auto split: expr.split option.split)
qed

lemma spec_call_expr:
  assumes "ev_good ev" and "A f" and "list_all (calls_ok A) args"
  shows "ev_spec R is_value (ev_bind (ev_map ev args) (ev_call X ev f async))"
  using assms by (intro spec_bind [OF spec_map [where P = is_value]] spec_call)
    (auto simp: list_all_iff ev_goodD)

lemma spec_block:
  assumes g: "ev_good (eval X n)" and es: "list_all (calls_ok A) es"
  shows "ev_spec R is_value (eval X (Suc n) (BlockExpr b es))"
proof (cases es)
  case Nil
  then show ?thesis
    by auto
next
  case (Cons e1 rest)
  have e1: "calls_ok A e1" and rest: "calls_ok A (BlockExpr b rest)"
    using es Cons by auto
  have "ev_spec R is_value (ev_bind (eval X n e1) (\<lambda>r.
      if is_return r \<or> rest = [] then ev_ok r else eval X n (BlockExpr b rest)))"
    by (intro spec_bind [OF ev_goodD [OF g e1]]) (auto intro: ev_goodD [OF g rest])
  moreover have "ev_spec R is_value (ev_bind (ev_map (eval X n) es) (\<lambda>rs.
      case find is_return rs of
        Some r \<Rightarrow> ev_ok r
      | None \<Rightarrow> ev_bind (ev_res (literal_vector rs)) (\<lambda>ls.
          ev_ok (LitExpr (if b = ListBlock then ListL ls else TupleL ls)))))"
  proof (rule spec_bind [OF spec_map [where P = is_value]])
    show "ev_spec R is_value (eval X n x)" if "x \<in> set es" for x
      using that es by (auto simp: list_all_iff intro: ev_goodD [OF g])
    show "ev_spec R is_value (case find is_return rs of
        Some r \<Rightarrow> ev_ok r
      | None \<Rightarrow> ev_bind (ev_res (literal_vector rs)) (\<lambda>ls.
          ev_ok (LitExpr (if b = ListBlock then ListL ls else TupleL ls))))"
      if "list_all is_value rs" for rs
      using that by (auto split: option.split dest: find_value intro!: spec_bind [where Q = "\<lambda>_. True"])
  qed
  ultimately show ?thesis
    using Cons by simp
qed

lemma spec_infix:
  assumes g: "ev_good (eval X n)" and e: "calls_ok A e1" "calls_ok A e2"
  shows "ev_spec R is_value (eval X (Suc n) (InfixExpr op e1 e2))"
proof -
  have "ev_spec R is_value (ev_bind (ev_opt (lit_infix (en_plane X) op l1 l2)) (\<lambda>r.
      ev_res (call_result ''eval, infix: type error'' r)))" for l1 l2
    by (rule spec_bind [where Q = "\<lambda>_. True"]) (auto simp: call_result_def split: option.splits)
  then have "ev_spec R is_value (ev_bind (eval X n e1) (\<lambda>r1. ev_bind (eval X n e2) (\<lambda>r2.
      if is_return r1 then ev_ok r1
      else if is_return r2 then ev_ok r2
      else case (r1, r2) of
        (LitExpr l1, LitExpr l2) \<Rightarrow>
          ev_bind (ev_opt (lit_infix (en_plane X) op l1 l2)) (\<lambda>r.
            ev_res (call_result ''eval, infix: type error'' r))
      | _ \<Rightarrow> ev_err (Error ''eval, infix: failed''))))"
    by (intro spec_bind [OF ev_goodD [OF g e(1)]] spec_bind [OF ev_goodD [OF g e(2)]])
      (auto split: expr.split)
  then show ?thesis
    by (auto intro: spec_short [OF g e])
qed

lemma spec_iter_expr:
  assumes g: "ev_good (eval X n)" and e: "calls_ok A e1" "calls_ok A e2"
    and acc: "pred_option (\<lambda>(_, a). calls_ok A a) acc"
  shows "ev_spec R is_value (eval X (Suc n) (IterExpr op vs e1 e2 acc))"
proof -
  have a0: "ev_spec R (pred_option is_value) (case acc of
      Some (_, a) \<Rightarrow> ev_bind (eval X n a) (\<lambda>v. ev_ok (Some v)) | None \<Rightarrow> ev_ok None)"
    using acc by (auto split: option.split intro!: spec_bind [OF ev_goodD [OF g]])
  have "ev_spec R is_value (ev_bind (ev_iter (eval X n) vs e2 lits a0) (\<lambda>(rs, a1).
      finish_iter (en_lits X) op lits rs a1))" if "pred_option is_value a0" for lits a0
    by (rule spec_bind [OF spec_iter [OF g e(2) that]]) (auto intro: spec_finish_iter)
  then have "ev_spec R is_value (ev_bind (case acc of
      Some (_, a) \<Rightarrow> ev_bind (eval X n a) (\<lambda>v. ev_ok (Some v)) | None \<Rightarrow> ev_ok None) (\<lambda>a0.
      ev_bind (ev_iter (eval X n) vs e2 lits a0) (\<lambda>(rs, a1). finish_iter (en_lits X) op lits rs a1)))" for lits
    by (rule spec_bind [OF a0])
  then show ?thesis
    by (auto intro!: spec_bind [OF ev_goodD [OF g e(1)]] split: expr.split literal.split)
qed

lemma spec_if_match:
  assumes g: "ev_good (eval X n)" and ms: "list_all (\<lambda>(e, _). calls_ok A e) ms" and t: "calls_ok A t"
    and alt: "pred_option (calls_ok A) alt"
  shows "ev_spec R is_value (eval X (Suc n) (IfMatchExpr vs ms t alt))"
proof -
  let ?tail = "\<lambda>rs. case find (\<lambda>(r, _). is_return r) rs of
      Some (r, _) \<Rightarrow> ev_ok r
    | None \<Rightarrow>
        (if list_ex (\<lambda>(_, c). c = None) rs then
           (case alt of
              None \<Rightarrow> ev_ok (expr_unit (en_lits X))
            | Some a \<Rightarrow> ev_bind (eval X n a) (check_value ''eval, if-match-expression''))
         else
           ev_bind (ev_res (apply_captures (all_captures rs) vs t)) (\<lambda>c.
           ev_bind (eval X n c) (check_value ''eval, if-match-expression'')))"
  have tail: "ev_spec R is_value (?tail rs)" if rs: "list_all (\<lambda>(r, c). is_value r \<and> pred_option caps_ok c) rs" for rs
  proof -
    have "caps_ok (all_captures rs)"
      using rs by (intro all_captures_ok) (auto simp: list_all_iff)
    then have c: "calls_ok A c" if "apply_captures (all_captures rs) vs t = Inr c" for c
      using calls_kept.apply_captures_kept [OF t _ that] caps_ok_get by blast
    have body: "calls_ok A c \<Longrightarrow> ev_spec R is_value (ev_bind (eval X n c) (check_value msg))" for c msg
      by (rule spec_bind [OF ev_goodD [OF g] spec_check])
    have "ev_spec R is_value (ev_bind (ev_res (apply_captures (all_captures rs) vs t)) (\<lambda>c.
        ev_bind (eval X n c) (check_value ''eval, if-match-expression'')))"
      by (rule spec_bind [where Q = "calls_ok A"]) (auto intro: c body)
    then show ?thesis
      using rs alt body by (auto simp: expr_unit_def find_Some_iff list_all_length split: option.split)
  qed
  have match: "ev_spec R (\<lambda>(r, c). is_value r \<and> pred_option caps_ok c) (ev_match X (eval X n) m)"
    if "m \<in> set ms" for m
    using ms that by (intro spec_match [OF g]) (auto simp: list_all_iff)
  have "ev_spec R is_value (ev_bind (ev_map (ev_match X (eval X n)) ms) ?tail)"
    by (rule spec_bind [OF spec_map [OF match] tail])
  then show ?thesis
    by simp
qed

lemma ev_good_Suc: "ev_good (eval X n) \<Longrightarrow> ev_good (eval X (Suc n))"
  unfolding ev_good_def [of "eval X (Suc n)"]
proof (intro allI impI)
  fix e :: "'l expr"
  assume g: "ev_good (eval X n)" and e: "calls_ok A e"
  show "ev_spec R is_value (eval X (Suc n) e)"
  proof (cases e)
    case (ReturnExpr e1)
    then show ?thesis
      using e by (auto intro!: spec_bind [OF ev_goodD [OF g]])
  next
    case (PrefixExpr p e1)
    then show ?thesis
      using e by (auto intro!: spec_bind [OF ev_goodD [OF g]] spec_call_result split: expr.split)
  next
    case (InfixExpr op e1 e2)
    then show ?thesis
      using e spec_infix [OF g] by simp
  next
    case (BlockExpr b es)
    then show ?thesis
      using e spec_block [OF g] by simp
  next
    case (LetExpr vs e1 e2)
    then show ?thesis
      using e spec_let [OF g] by simp
  next
    case (IterExpr op vs e1 e2 acc)
    then show ?thesis
      using e spec_iter_expr [OF g] by simp
  next
    case (IfExpr c t alt)
    have "ev_spec R is_value (ev_bind (ev_opt (bool_guard (en_lits X) l)) (\<lambda>k. case k of
        Some b \<Rightarrow> (if b then eval X n t else opt_eval (en_lits X) (eval X n) alt)
      | None \<Rightarrow> ev_err (Error ''eval, if-expression'')))" for l
      using e IfExpr
      by (intro spec_bind [where Q = "\<lambda>_. True"]) (auto split: option.split intro: ev_goodD [OF g] spec_opt_eval [OF g])
    then show ?thesis
      using e IfExpr by (auto intro!: spec_bind [OF ev_goodD [OF g]] split: expr.split)
  next
    case (IfMatchExpr vs ms t alt)
    then show ?thesis
      using e spec_if_match [OF g] by simp
  next
    case (IfSomeMatchExpr e1 t alt)
    have "ev_spec R is_value (ev_bind (ev_res (apply_expr t (LitExpr l))) (eval X n))" for l
      using e IfSomeMatchExpr calls_kept.apply_lit_kept [of A t]
      by (intro spec_bind [where Q = "calls_ok A"]) (auto intro: ev_goodD [OF g])
    then show ?thesis
      using e IfSomeMatchExpr
      by (auto intro!: spec_bind [OF ev_goodD [OF g]] spec_opt_eval [OF g] split: expr.split literal.split)
  next
    case (CallExpr f args async)
    then show ?thesis
      using e spec_call_expr [OF g] by simp
  qed auto
qed

lemma eval_spec: "calls_ok A e \<Longrightarrow> ev_spec R is_value (eval X n e)"
proof -
  have "ev_good (eval X n)"
    by (induction n) (simp_all only: ev_good_0 ev_good_Suc)
  then show "calls_ok A e \<Longrightarrow> ev_spec R is_value (eval X n e)"
    by (rule ev_goodD)
qed

end

section \<open>The default environment\<close>

text \<open>The environment of \<open>Env::new\<close>, with the trait's own \<open>eval_call\<close>.\<close>

definition plane_env ::
    "('f, 'l) plane \<Rightarrow> (string \<times> 'l expr) list \<Rightarrow> ('l event list \<Rightarrow> lib) \<Rightarrow>
       ('l event list \<Rightarrow> 'l call \<Rightarrow> 'l literal result) \<Rightarrow> ('s, 'f, 'l) env" where
  "plane_env P code lib_at rpc =
     \<lparr>en_plane = P, en_code = code, en_lib = lib_at, en_rpc = rpc, en_call = default_eval_call P lib_at\<rparr>"

lemma calls_ok_True [simp]: "calls_ok (\<lambda>_. True) e"
  by (induction e rule: expr_induct) (auto simp: expr_nested)

lemma call_result_value: "call_result msg r = Inr e \<Longrightarrow> is_value e"
  by (auto simp: call_result_def split: option.splits)

lemma eval_builtin_value: "eval_builtin P lb f args = Inr e \<Longrightarrow> is_value e"
  by (auto simp: eval_builtin_def split: list.splits expr.splits dest: call_result_value)

lemma meta_method_value: "fst (meta_method L i mdl mth args m) = Inr e \<Longrightarrow> is_value e"
proof (rule args_cases [of args _ L])
  show "fst (meta_method L i mdl mth args m) = Inr e \<Longrightarrow> args = [] \<Longrightarrow> ?thesis"
    by (auto simp: meta_method_unfold expr_unit_def split: prod.splits if_splits)
  show "fst (meta_method L i mdl mth args m) = Inr e \<Longrightarrow> args = [FlatLit fl] \<Longrightarrow> ?thesis" for fl
    by (auto simp: meta_method_unfold expr_unit_def split: option.splits if_splits)
qed simp

lemma handle_call_value: "fst (handle_call L (call_new mdl mth args) s) = Inr e \<Longrightarrow> is_value e"
  by (auto simp: handle_call_new split: if_splits intro: meta_method_value)

text \<open>The machine after a call that leaves the program.\<close>

lemma send_meta_machine:
  "send_meta X (call_new mdl mth args) s =
     (let (r, m) = handle_call (en_lits X) (call_new mdl mth args) (mc_meta s)
      in (fst (ev_res r s), s\<lparr>mc_meta := m\<rparr>))"
  by (auto simp: send_meta_def ev_res_def ev_ok_def ev_err_def split: prod.split sum.split)

lemma send_meta_post [simp]:
  "snd (send_meta X (call_new mdl mth args) s) =
     s\<lparr>mc_meta := tell (en_lits X) mdl mth args (mc_meta s)\<rparr>"
  by (simp add: send_meta_machine tell_def split: prod.split)

lemma send_meta_value: "fst (send_meta X (call_new mdl mth args) s) = Ok e \<Longrightarrow> is_value e"
  using handle_call_value [of "en_lits X" mdl mth args "mc_meta s"]
  by (auto simp: send_meta_machine ev_res_def ev_ok_def ev_err_def split: prod.splits sum.splits)

lemma rpc_post [simp]:
  "snd (send_rpc X c s) = s\<lparr>mc_trace := Rpc c # mc_trace s\<rparr>"
  "snd (spawn_rpc X c s) = s\<lparr>mc_trace := Spawn c # mc_trace s\<rparr>"
  "snd (default_eval_call P lib_at f args s) = s\<lparr>mc_trace := Builtin f # mc_trace s\<rparr>"
  by (auto simp: send_rpc_def spawn_rpc_def default_eval_call_def ev_res_def ev_ok_def ev_err_def split: sum.split)

lemma rpc_value:
  "fst (send_rpc X c s) = Ok e \<Longrightarrow> is_value e"
  "fst (spawn_rpc X c s) = Ok e \<Longrightarrow> is_value e"
  "fst (default_eval_call P lib_at f args s) = Ok e \<Longrightarrow> is_value e"
  by (auto simp: send_rpc_def spawn_rpc_def default_eval_call_def ev_res_def ev_ok_def ev_err_def
      expr_unit_def bind_res_def dest: eval_builtin_value split: sum.splits)

text \<open>
  Every evaluation: the past is kept, the metadata stays well formed and keeps its egress
  identity.
\<close>

definition grows :: "('s, 'l) machine \<Rightarrow> ('s, 'l) machine \<Rightarrow> bool" where
  "grows s t \<longleftrightarrow>
     (\<exists>new. mc_trace t = new @ mc_trace s) \<and>
     ie_egress_id (mc_meta t) = ie_egress_id (mc_meta s) \<and>
     (ie_wf (mc_meta s) \<longrightarrow> ie_wf (mc_meta t))"

lemma tell_confined:
  "ie_egress_id (tell L mdl mth args s) = ie_egress_id s"
  "ie_wf s \<Longrightarrow> ie_wf (tell L mdl mth args s)"
  by (auto simp: tell_def handle_call_new ie_wf_def meta_method_wf)

interpretation machine: evaluator "plane_env P code lib_at rpc" grows "\<lambda>_. True"
  for P code lib_at rpc
proof unfold_locales
  show "grows s s" for s :: "('s, 'b) machine"
    by (simp add: grows_def)
  show "grows s t \<Longrightarrow> grows t u \<Longrightarrow> grows s u" for s t u :: "('s, 'b) machine"
    by (auto simp: grows_def)
qed (auto simp: ev_spec_def plane_env_def grows_def tell_confined dest: send_meta_value rpc_value)

lemma split_name_join: "split_name f = Some (m, n) \<Longrightarrow> f = m @ ''::'' @ n"
  using join_split_cc [of f] by (auto simp: split_name_def split: list.splits)

text \<open>What the type checker lets a policy call: an ingress service only at a signature.\<close>

definition typed_service :: "string \<Rightarrow> bool" where
  "typed_service f \<longleftrightarrow>
     (\<forall>m. split_name f = Some (''Ingress'', m) \<longrightarrow> internal_service dp_builtin f \<noteq> None)"

lemma tell_ingress:
  assumes "typed_service f" and "split_name f = Some (ext, m)"
  shows "ie_ingress (tell L ext m ls s) = ie_ingress s"
proof (cases "ext = ''Ingress''")
  case True
  then have "read_only m"
    using assms ingress_signatures split_name_join [OF assms(2)] by (auto simp: typed_service_def)
  then show ?thesis
    using True by (simp add: tell_def handle_call_new meta_method_read_only)
qed (simp add: tell_def handle_call_new)

lemma ingress_evaluator:
  assumes "\<And>f body. bt_get f code = Some body \<Longrightarrow> calls_ok typed_service body"
  shows "evaluator (plane_env P code lib_at rpc)
    (\<lambda>s t. ie_ingress (mc_meta t) = ie_ingress (mc_meta s)) typed_service"
  using assms
  by unfold_locales
    (auto simp: ev_spec_def plane_env_def tell_ingress dest: send_meta_value rpc_value)

section \<open>Properties\<close>

text \<open>C27: whatever an expression evaluates to is a literal, or a literal under \<open>return\<close>; evaluation
  only adds to the history of what happened outside, keeps the metadata's label sets ordered and
  never changes the identity of the egress, however it ends.\<close>

theorem evaluation_effects:
  assumes "eval (plane_env P code lib_at rpc) n e s = (r, t)"
  shows "(\<forall>v. r = Ok v \<longrightarrow> is_value v) \<and>
    (\<exists>new. mc_trace t = new @ mc_trace s) \<and>
    ie_egress_id (mc_meta t) = ie_egress_id (mc_meta s) \<and>
    (ie_wf (mc_meta s) \<longrightarrow> ie_wf (mc_meta t))"
proof -
  have "grows s t \<and> (\<forall>v. r = Ok v \<longrightarrow> is_value v)"
    using machine.eval_spec [of e P code lib_at rpc n, unfolded ev_spec_def, THEN spec [of _ s]] assms by simp
  then show ?thesis
    by (simp add: grows_def)
qed

theorem evaluation_effects_witness:
  "\<forall>lib_at rpc. is_value (case eval (plane_env dp_plane [] lib_at rpc) 2
       (InfixExpr Plus (LitExpr (FlatLit (IntL 2))) (LitExpr (FlatLit (IntL 3))))
       \<lparr>mc_meta = ie_default, mc_trace = [], mc_state = ()\<rparr> of (Ok v, _) \<Rightarrow> v | _ \<Rightarrow> Var ''failed'')"
proof (intro allI)
  fix lib_at rpc
  let ?s = "\<lparr>mc_meta = ie_default, mc_trace = [], mc_state = ()\<rparr> :: (unit, flat_literal) machine"
  let ?e = "InfixExpr Plus (LitExpr (FlatLit (IntL 2))) (LitExpr (FlatLit (IntL 3)))"
  have "eval (plane_env dp_plane [] lib_at rpc) 2 ?e ?s = (Ok (LitExpr (FlatLit (IntL 5))), ?s)"
    by (simp add: numeral_2_eq_2 ev_bind_def ev_ok_def ev_opt_def ev_res_def is_return_def
      plane_env_def lit_infix_def dp_plane_def dp_interp_def dp_infix_def call_result_def)
  then show "is_value (case eval (plane_env dp_plane [] lib_at rpc) 2 ?e ?s of
      (Ok v, _) \<Rightarrow> v | _ \<Rightarrow> Var ''failed'')"
    using evaluation_effects [of dp_plane "[]" lib_at rpc 2 ?e ?s "Ok (LitExpr (FlatLit (IntL 5)))" ?s]
    by (simp del: is_value.simps)
qed



end
