(* ===== verification/EvalFuel.thy ===== *)
theory EvalFuel
  imports EvalProps
begin

text \<open>
  Fuel: an evaluation that ends gives the same result with any larger amount, and a program
  whose functions do not call each other in a circle ends, so that enough fuel always exists.
  This does not depend on the plane: it is enough that the builtin functions end.
\<close>

section \<open>More fuel\<close>

text \<open>\<open>ev_le m m'\<close>: wherever \<open>m\<close> does not run out of fuel, \<open>m'\<close> does the same.\<close>

definition ev_le :: "('s, 'l, 'a) ev \<Rightarrow> ('s, 'l, 'a) ev \<Rightarrow> bool" where
  "ev_le m m' \<longleftrightarrow> (\<forall>s. fst (m s) = NoFuel \<or> m s = m' s)"

named_theorems ev_mono "monotonicity in the fuel"

lemma ev_le_refl [simp, ev_mono]: "ev_le m m"
  by (simp add: ev_le_def)

lemma ev_le_bind [ev_mono]:
  assumes "ev_le m m'" and "\<And>x. ev_le (f x) (f' x)"
  shows "ev_le (ev_bind m f) (ev_bind m' f')"
  unfolding ev_le_def
proof
  fix s
  obtain r t where t: "m s = (r, t)"
    by (cases "m s")
  show "fst (ev_bind m f s) = NoFuel \<or> ev_bind m f s = ev_bind m' f' s"
  proof (cases "r = NoFuel")
    case False
    then have "m' s = (r, t)"
      using assms(1) t by (metis ev_le_def fst_conv)
    then show ?thesis
      using t assms(2) unfolding ev_le_def ev_bind_def by (cases r) auto
  qed (simp add: ev_bind_def t)
qed

lemma ev_le_map [ev_mono]: "(\<And>x. ev_le (f x) (g x)) \<Longrightarrow> ev_le (ev_map f xs) (ev_map g xs)"
  by (induction xs) (auto intro!: ev_mono)

lemma ev_le_iter [ev_mono]:
  "(\<And>e. ev_le (ev e) (ev' e)) \<Longrightarrow> ev_le (ev_iter ev vs body ls acc) (ev_iter ev' vs body ls acc)"
  by (induction ls arbitrary: acc) (auto intro!: ev_mono split: prod.split)

lemma ev_le_match [ev_mono]: "(\<And>e. ev_le (ev e) (ev' e)) \<Longrightarrow> ev_le (ev_match X ev m) (ev_match X ev' m)"
  by (auto simp: ev_match_def intro!: ev_mono)

lemma ev_le_opt_eval [ev_mono]: "(\<And>e. ev_le (ev e) (ev' e)) \<Longrightarrow> ev_le (opt_eval L ev alt) (opt_eval L ev' alt)"
  by (auto simp: opt_eval_def split: option.split)

lemma ev_le_short [ev_mono]:
  "(\<And>e. ev_le (ev e) (ev' e)) \<Longrightarrow> ev_le (ev_short L stop ev e1 e2) (ev_short L stop ev' e1 e2)"
  unfolding ev_short_def by (auto intro!: ev_mono split: expr.split option.split)

lemma ev_le_call [ev_mono]:
  "(\<And>e. ev_le (ev e) (ev' e)) \<Longrightarrow> ev_le (ev_call X ev f async args) (ev_call X ev' f async args)"
  unfolding ev_call_def by (auto intro!: ev_mono split: option.split)

lemma ev_le_step: "(\<And>e. ev_le (ev e) (ev' e)) \<Longrightarrow> ev_le (eval_step X ev e) (eval_step X ev' e)"
  by (cases e) (auto intro!: ev_mono split: expr.split option.split list.split literal.split prod.split)

lemma ev_le_Suc: "ev_le (eval X n e) (eval X (Suc n) e)"
proof (induction n arbitrary: e)
  case 0
  then show ?case
    by (simp add: ev_le_def)
next
  case (Suc n)
  then show ?case
    by (simp only: eval.simps) (intro ev_le_step, simp)
qed

lemma ev_le_trans: "ev_le a b \<Longrightarrow> ev_le b c \<Longrightarrow> ev_le a c"
  unfolding ev_le_def by metis

lemma eval_mono: "n \<le> m \<Longrightarrow> ev_le (eval X n e) (eval X m e)"
  by (induction rule: dec_induct) (auto intro: ev_le_trans ev_le_Suc simp del: eval.simps)

lemma eval_more_fuel:
  "fst (eval X n e s) \<noteq> NoFuel \<Longrightarrow> n \<le> m \<Longrightarrow> eval X m e s = eval X n e s"
  using eval_mono [of n m X e] unfolding ev_le_def by metis

section \<open>Enough fuel\<close>

text \<open>
  \<open>halting P F\<close>: the evaluation \<open>F\<close>, given more and more fuel, agrees with itself, ends from
  every machine, and its results satisfy \<open>P\<close>.
\<close>

definition halting :: "('a \<Rightarrow> bool) \<Rightarrow> (nat \<Rightarrow> ('s, 'l, 'a) ev) \<Rightarrow> bool" where
  "halting P F \<longleftrightarrow>
     (\<forall>n. ev_le (F n) (F (Suc n))) \<and>
     (\<forall>s. \<exists>n. fst (F n s) \<noteq> NoFuel) \<and>
     (\<forall>n s x. fst (F n s) = Ok x \<longrightarrow> P x)"

named_theorems halts "halting of the parts of the evaluator"

lemma halting_mono:
  assumes "halting P F" and "n \<le> m"
  shows "ev_le (F n) (F m)"
  using assms(2)
proof (induction rule: dec_induct)
  case (step k)
  then show ?case
    using assms(1) ev_le_trans unfolding halting_def by blast
qed simp

lemma halting_const: "(\<And>s. fst (m s) \<noteq> NoFuel) \<Longrightarrow> (\<And>s x. fst (m s) = Ok x \<Longrightarrow> P x) \<Longrightarrow> halting P (\<lambda>_. m)"
  by (auto simp: halting_def)

lemma halting_basic [halts]:
  "P x \<Longrightarrow> halting P (\<lambda>_. ev_ok x)"
  "halting P (\<lambda>_. ev_err e)"
  "halting P (\<lambda>_. ev_panic)"
  "(\<And>x. r = Inr x \<Longrightarrow> P x) \<Longrightarrow> halting P (\<lambda>_. ev_res r)"
  "(\<And>x. r' = Some x \<Longrightarrow> P x) \<Longrightarrow> halting P (\<lambda>_. ev_opt r')"
  by (rule halting_const; auto simp: ev_ok_def ev_err_def ev_panic_def ev_res_def ev_opt_def
      split: sum.splits option.splits)+

lemma halting_weaken: "halting Q F \<Longrightarrow> (\<And>x. Q x \<Longrightarrow> P x) \<Longrightarrow> halting P F"
  by (auto simp: halting_def)

lemma bind_Ok: "m s = (Ok x, t) \<Longrightarrow> ev_bind m f s = f x t"
  by (simp add: ev_bind_def)

lemma halting_bind:
  assumes F: "halting Q F" and G: "\<And>x. Q x \<Longrightarrow> halting P (\<lambda>n. G n x)"
  shows "halting P (\<lambda>n. ev_bind (F n) (G n))"
proof -
  have post: "Q x" if "F n s = (Ok x, t)" for n s x t
    using F that unfolding halting_def by (metis fst_conv)
  have "fst (ev_bind (F n) (G n) s) = NoFuel \<or> ev_bind (F n) (G n) s = ev_bind (F (Suc n)) (G (Suc n)) s" for n s
  proof -
    obtain r t where r: "F n s = (r, t)"
      by (cases "F n s")
    show ?thesis
    proof (cases "r = NoFuel")
      case True
      then show ?thesis
        using r by (simp add: ev_bind_def)
    next
      case False
      then have r': "F (Suc n) s = (r, t)"
        using F r unfolding halting_def ev_le_def by (metis fst_conv)
      show ?thesis
      proof (cases "\<exists>x. r = Ok x")
        case True
        then obtain x where x: "r = Ok x"
          by blast
        then have "ev_le (G n x) (G (Suc n) x)"
          using G post r unfolding halting_def by blast
        then show ?thesis
          using r r' x by (simp add: bind_Ok ev_le_def)
      next
        case no: False
        then show ?thesis
          using r r' by (cases r) (auto simp: ev_bind_def)
      qed
    qed
  qed
  moreover have "\<exists>n. fst (ev_bind (F n) (G n) s) \<noteq> NoFuel" for s
  proof -
    obtain n where n: "fst (F n s) \<noteq> NoFuel"
      using F unfolding halting_def by blast
    obtain r t where r: "F n s = (r, t)"
      by (cases "F n s")
    show ?thesis
    proof (cases "\<exists>x. r = Ok x")
      case True
      then obtain x where x: "r = Ok x"
        by blast
      then have Gx: "halting P (\<lambda>n. G n x)"
        using G post r by blast
      then obtain k where k: "fst (G k x t) \<noteq> NoFuel"
        unfolding halting_def by blast
      have "F (max n k) s = (Ok x, t)"
        using halting_mono [OF F, of n "max n k"] n r x unfolding ev_le_def by (metis max.cobounded1)
      moreover have "G (max n k) x t = G k x t"
        using halting_mono [OF Gx, of k "max n k"] k unfolding ev_le_def by (metis max.cobounded2)
      ultimately show ?thesis
        using k by (intro exI [of _ "max n k"]) (simp add: bind_Ok)
    next
      case False
      then show ?thesis
        using n r by (intro exI [of _ n]) (cases r; auto simp: ev_bind_def)
    qed
  qed
  moreover have "P y" if y: "fst (ev_bind (F n) (G n) s) = Ok y" for n s y
  proof -
    obtain r t where r: "F n s = (r, t)"
      by (cases "F n s")
    then obtain x where "r = Ok x"
      using y by (cases r) (auto simp: ev_bind_def)
    then show ?thesis
      using y r G post unfolding halting_def by (metis bind_Ok)
  qed
  ultimately show ?thesis
    unfolding halting_def ev_le_def by blast
qed

lemma halting_map:
  "(\<And>x. x \<in> set xs \<Longrightarrow> halting P (\<lambda>n. F n x)) \<Longrightarrow> halting (list_all P) (\<lambda>n. ev_map (F n) xs)"
  by (induction xs) (auto intro!: halts halting_bind)

lemma halting_step:
  assumes "halting P (\<lambda>n. eval_step X (eval X n) e)"
  shows "halting P (\<lambda>n. eval X n e)"
  unfolding halting_def
proof (intro conjI allI impI)
  show "ev_le (eval X n e) (eval X (Suc n) e)" for n
    by (rule ev_le_Suc)
  show "\<exists>n. fst (eval X n e s) \<noteq> NoFuel" for s
    using assms unfolding halting_def by (metis eval.simps(2))
  show "P x" if "fst (eval X n e s) = Ok x" for n s x
    using that assms unfolding halting_def by (cases n) auto
qed

section \<open>Termination\<close>

text \<open>The height of a term; a value counts for nothing, wherever it is substituted.\<close>

fun hgt :: "'l expr \<Rightarrow> nat" where
  "hgt (Var _) = 0"
| "hgt (BVar _ _) = 0"
| "hgt (LitExpr _) = 0"
| "hgt (Closure _ e) = hgt e"
| "hgt (ReturnExpr e) = (if is_value e then 0 else Suc (hgt e))"
| "hgt (PrefixExpr _ e) = Suc (hgt e)"
| "hgt (InfixExpr _ e1 e2) = Suc (hgt e1 + hgt e2)"
| "hgt (LetExpr _ e1 e2) = Suc (hgt e1 + hgt e2)"
| "hgt (IterExpr _ _ e1 e2 acc) = Suc (hgt e1 + hgt e2 + (case acc of None \<Rightarrow> 0 | Some (_, a) \<Rightarrow> hgt a))"
| "hgt (BlockExpr _ es) = Suc (length es + sum_list (map hgt es))"
| "hgt (IfExpr c t alt) = Suc (hgt c + hgt t + (case alt of None \<Rightarrow> 0 | Some a \<Rightarrow> hgt a))"
| "hgt (IfSomeMatchExpr e t alt) = Suc (hgt e + hgt t + (case alt of None \<Rightarrow> 0 | Some a \<Rightarrow> hgt a))"
| "hgt (IfMatchExpr _ ms t alt) =
     Suc (sum_list (map (\<lambda>(e, _). hgt e) ms) + hgt t + (case alt of None \<Rightarrow> 0 | Some a \<Rightarrow> hgt a))"
| "hgt (CallExpr _ args _) = Suc (sum_list (map hgt args))"

lemma value_subst [simp]: "is_value e \<Longrightarrow> subst i u dg e = e"
  by (induction e rule: is_value.induct) auto

lemma value_shift [simp]: "is_value e \<Longrightarrow> shift i d e = e"
  by (induction e rule: is_value.induct) auto

lemma hgt_value [simp]: "is_value e \<Longrightarrow> hgt e = 0"
  by (cases e) auto

lemma sum_le: "(\<And>x. x \<in> set xs \<Longrightarrow> f x \<le> (g x :: nat)) \<Longrightarrow> sum_list (map f xs) \<le> sum_list (map g xs)"
  by (rule sum_list_mono)

lemma hgt_subst: "is_value u \<Longrightarrow> hgt (subst i u dg e) \<le> hgt e"
proof (induction e arbitrary: i rule: expr_induct)
  case (Block b es)
  then show ?case
    by (auto simp: o_def intro: sum_le)
next
  case (Call f args as)
  then show ?case
    by (auto simp: o_def intro: sum_le)
next
  case (Iter op l e1 e2 acc)
  then have "hgt (subst i u dg e1) \<le> hgt e1" "hgt (subst i u dg e2) \<le> hgt e2"
    by auto
  moreover have "(case map_option (\<lambda>(n, a). (n, subst i u dg a)) acc of None \<Rightarrow> 0 | Some (_, a) \<Rightarrow> hgt a)
      \<le> (case acc of None \<Rightarrow> 0 | Some (_, a) \<Rightarrow> hgt a)"
    using Iter by (auto split: option.split)
  ultimately show ?case
    by simp
next
  case (If c t alt)
  then have "hgt (subst i u dg c) \<le> hgt c" "hgt (subst i u dg t) \<le> hgt t"
    by auto
  then show ?case
    using If.IH(3) If.prems by (cases alt) (auto intro: add_mono)
next
  case (IfSome c t alt)
  then have "hgt (subst i u dg c) \<le> hgt c" "hgt (subst i u dg t) \<le> hgt t"
    by auto
  then show ?case
    using IfSome.IH(3) IfSome.prems by (cases alt) (auto intro: add_mono)
next
  case (IfMatch vs ms t alt)
  have "sum_list (map (\<lambda>(e, _). hgt e) (map (\<lambda>(e, p). (subst i u dg e, p)) ms)) \<le>
      sum_list (map (\<lambda>(e, _). hgt e) ms)"
    unfolding map_map o_def using IfMatch by (intro sum_le) auto
  moreover have "hgt (subst i u dg t) \<le> hgt t"
    using IfMatch by simp
  moreover have "(case map_option (subst i u dg) alt of None \<Rightarrow> 0 | Some a \<Rightarrow> hgt a)
      \<le> (case alt of None \<Rightarrow> 0 | Some a \<Rightarrow> hgt a)"
    using IfMatch by (auto split: option.split)
  ultimately show ?case
    unfolding subst.simps hgt.simps by linarith
qed (auto intro: add_mono le_SucI)

interpretation hgt_kept: kept_by_apply "\<lambda>e. hgt e \<le> h" for h
proof
  fix e u e' :: "'a expr"
  assume "hgt e \<le> h" "is_value u" "apply_expr e u = Inr e'"
  then show "hgt e' \<le> h"
    using hgt_subst [of u 0 True] by (cases e) (auto intro: le_trans)
qed

lemma halting_value: "is_value v \<Longrightarrow> halting is_value (\<lambda>n. eval X n v)"
proof (induction v rule: is_value.induct)
  case (1 l)
  then show ?case
    by (intro halting_step) (auto intro: halts)
next
  case (2 e)
  then have "halting is_value (\<lambda>n. ev_bind (eval X n e) (\<lambda>r. ev_ok (ReturnExpr r)))"
    by (intro halting_bind [where Q = is_value] halts) auto
  then show ?case
    by (intro halting_step) auto
qed auto

text \<open>Terms of bounded height that call only \<open>A\<close>: what the evaluator meets below a term.\<close>

abbreviation below :: "(string \<Rightarrow> bool) \<Rightarrow> nat \<Rightarrow> 'l expr \<Rightarrow> bool" where
  "below A h e \<equiv> calls_ok A e \<and> hgt e \<le> h"

interpretation below_kept: kept_by_apply "below A h" for A h
proof
  fix e u e' :: "'a expr"
  assume "below A h e" "is_value u" "apply_expr e u = Inr e'"
  then show "below A h e'"
    using calls_kept.apply_kept [of A e u e'] hgt_kept.apply_kept [of e h u e'] by simp
qed

text \<open>The helpers of \<open>eval\<close>, when \<open>ev\<close> halts on every term below a bound.\<close>

lemma halting_find: "list_all is_value rs \<Longrightarrow> find Q rs = Some r \<Longrightarrow> is_value r"
  by (auto simp: find_Some_iff list_all_length)

lemma halting_iter:
  assumes ev: "\<And>e. below A h e \<Longrightarrow> halting is_value (\<lambda>n. ev n e)" and body: "below A h body"
  shows "pred_option is_value acc \<Longrightarrow>
    halting (\<lambda>(rs, a). list_all is_value rs \<and> pred_option is_value a) (\<lambda>n. ev_iter (ev n) vs body ls acc)"
proof (induction ls arbitrary: acc)
  case Nil
  then show ?case
    by (auto intro!: halts)
next
  case (Cons l ls)
  have 1: "below A h e1" if "(case acc of Some a \<Rightarrow> apply_expr body a | None \<Rightarrow> Inr body) = Inr e1" for e1
    using that body Cons.prems below_kept.apply_kept [where A = A and h = h and e = body and e' = e1] by (auto split: option.splits)
  have 4: "halting (\<lambda>(rs, a). list_all is_value rs \<and> pred_option is_value a)
      (\<lambda>n. ev_bind (ev_iter (ev n) vs body ls (map_option (\<lambda>_. r) acc)) (\<lambda>(rs, acc'). ev_ok (r # rs, acc')))"
    if "is_value r" for r
    using that by (intro halting_bind [OF Cons.IH]) (auto simp: option.pred_set intro!: halts)
  have 3: "halting (\<lambda>(rs, a). list_all is_value rs \<and> pred_option is_value a)
      (\<lambda>n. ev_bind (ev n e2) (\<lambda>r. ev_bind (ev_iter (ev n) vs body ls (map_option (\<lambda>_. r) acc))
        (\<lambda>(rs, acc'). ev_ok (r # rs, acc'))))" if "below A h e2" for e2
    by (rule halting_bind [OF ev [OF that] 4])
  have 2: "halting (\<lambda>(rs, a). list_all is_value rs \<and> pred_option is_value a)
      (\<lambda>n. ev_bind (ev_res (apply_item vs l e1)) (\<lambda>e2. ev_bind (ev n e2) (\<lambda>r.
        ev_bind (ev_iter (ev n) vs body ls (map_option (\<lambda>_. r) acc)) (\<lambda>(rs, acc'). ev_ok (r # rs, acc')))))"
    if "below A h e1" for e1
    by (rule halting_bind [where Q = "below A h", OF _ 3])
      (auto intro!: halts dest: below_kept.apply_item_kept [OF that])
  show ?case
    unfolding ev_iter.simps
    by (rule halting_bind [where Q = "below A h", OF _ 2]) (use 1 in \<open>auto intro!: halts\<close>)
qed

lemma halting_finish:
  assumes "list_all is_value rs" and "pred_option is_value acc"
  shows "halting is_value (\<lambda>_. finish_iter L op lits rs acc)"
proof -
  have "halting is_value (\<lambda>_. iter_result L op lits vals)" for vals
    by (cases op) (auto simp: iter_result_def expr_unit_def intro!: halts)
  then show ?thesis
    using assms unfolding finish_iter_def
    by (auto split: option.split expr.split dest: halting_find
        intro!: halts halting_bind [where Q = "\<lambda>_. True"])
qed

lemma halting_match:
  fixes ev :: "nat \<Rightarrow> 'a expr \<Rightarrow> ('s, 'a, 'a expr) ev"
  assumes "halting is_value (\<lambda>n. ev n (fst m))"
  shows "halting (\<lambda>(r, c). is_value r \<and> pred_option caps_ok c) (\<lambda>n. ev_match X (ev n) m)"
  unfolding ev_match_def
proof (rule halting_bind [OF assms])
  fix r :: "'a expr"
  assume r: "is_value r"
  show "halting (\<lambda>(r, c). is_value r \<and> pred_option caps_ok c) (\<lambda>n. \<lambda>s.
      case perform_match (en_lits X) (en_lib X (mc_trace s)) (snd m) r of
        None \<Rightarrow> ev_panic s
      | Some None \<Rightarrow> ev_err (Error ''eval, if-match-expression: type error'') s
      | Some (Some x) \<Rightarrow> ev_ok x s)"
    using perform_match_ok [OF _ r]
    by (intro halting_const) (fastforce simp: ev_panic_def ev_err_def ev_ok_def split: option.splits)+
qed

lemma halting_opt_eval:
  "(\<And>a. alt = Some a \<Longrightarrow> halting is_value (\<lambda>n. ev n a)) \<Longrightarrow> halting is_value (\<lambda>n. opt_eval L (ev n) alt)"
  by (cases alt) (auto simp: opt_eval_def expr_unit_def intro: halts)

lemma halting_guard:
  "halting is_value F \<Longrightarrow> (\<And>r. is_value r \<Longrightarrow> is_value (f r)) \<Longrightarrow> halting is_value (\<lambda>n. ev_bind (F n) (\<lambda>r. ev_ok (f r)))"
  by (rule halting_bind [where Q = is_value]) (auto intro: halts)

text \<open>Case distinctions that do not depend on the fuel.\<close>

lemma halting_option:
  "(x = None \<Longrightarrow> halting P F) \<Longrightarrow> (\<And>y. x = Some y \<Longrightarrow> halting P (\<lambda>n. G n y)) \<Longrightarrow>
     halting P (\<lambda>n. case x of None \<Rightarrow> F n | Some y \<Rightarrow> G n y)"
  by (cases x) auto

lemma halting_if:
  "(b \<Longrightarrow> halting P F) \<Longrightarrow> (\<not> b \<Longrightarrow> halting P G) \<Longrightarrow> halting P (\<lambda>n. if b then F n else G n)"
  by (cases b) auto

lemma halting_short:
  fixes ev :: "nat \<Rightarrow> 'a expr \<Rightarrow> ('s, 'a, 'a expr) ev"
  assumes "halting is_value (\<lambda>n. ev n e1)" and "halting is_value (\<lambda>n. ev n e2)"
  shows "halting is_value (\<lambda>n. ev_short L stop (ev n) e1 e2)"
proof -
  have 3: "halting is_value (\<lambda>n. ev_bind (ev n e2) (\<lambda>r2. case r2 of
          ReturnExpr _ \<Rightarrow> ev_ok r2
        | LitExpr l2 \<Rightarrow> (if lit_is_bool L l2 then ev_ok r2 else ev_err (Error ''eval, infix''))
        | _ \<Rightarrow> ev_err (Error ''eval, infix'')))"
    by (rule halting_bind [OF assms(2)]) (auto split: expr.split intro!: halts)
  have 2: "halting is_value (\<lambda>n. ev_bind (ev_opt (bool_guard L l)) (\<lambda>g. case g of
          Some b \<Rightarrow> if b = stop then ev_ok (LitExpr l) else
            ev_bind (ev n e2) (\<lambda>r2. case r2 of
                ReturnExpr _ \<Rightarrow> ev_ok r2
              | LitExpr l2 \<Rightarrow> (if lit_is_bool L l2 then ev_ok r2 else ev_err (Error ''eval, infix''))
              | _ \<Rightarrow> ev_err (Error ''eval, infix''))
        | None \<Rightarrow> ev_err (Error ''eval, infix'')))" for l
    by (rule halting_bind [where Q = "\<lambda>_. True"])
      (auto intro!: halting_basic(4, 5) halting_option halting_if halting_basic(1, 2) 3)
  show ?thesis
    unfolding ev_short_def
  proof (rule halting_bind [OF assms(1)])
    fix r :: "'a expr"
    assume "is_value r"
    then show "halting is_value (\<lambda>n. case r of
        ReturnExpr _ \<Rightarrow> ev_ok r
      | LitExpr l \<Rightarrow> ev_bind (ev_opt (bool_guard L l)) (\<lambda>g. case g of
          Some b \<Rightarrow> if b = stop then ev_ok (LitExpr l) else
            ev_bind (ev n e2) (\<lambda>r2. case r2 of
                ReturnExpr _ \<Rightarrow> ev_ok r2
              | LitExpr l2 \<Rightarrow> (if lit_is_bool L l2 then ev_ok r2 else ev_err (Error ''eval, infix''))
              | _ \<Rightarrow> ev_err (Error ''eval, infix''))
        | None \<Rightarrow> ev_err (Error ''eval, infix''))
      | _ \<Rightarrow> ev_err (Error ''eval, infix''))"
      by (cases r) (auto intro!: halting_basic(1) 2)
  qed
qed

lemma plane_env_sel [simp]:
  "en_plane (plane_env P code lib_at rpc) = P"
  "en_code (plane_env P code lib_at rpc) = code"
  "en_lib (plane_env P code lib_at rpc) = lib_at"
  "en_rpc (plane_env P code lib_at rpc) = rpc"
  "en_call (plane_env P code lib_at rpc) = default_eval_call P lib_at"
  by (simp_all add: plane_env_def)

lemma ev_res_fuel [simp]: "fst (ev_res r s) \<noteq> NoFuel"
  by (auto simp: ev_res_def ev_ok_def ev_err_def split: sum.split)

lemma outside_fuel [simp]:
  "fst (send_meta X (call_new ext m ls) s) \<noteq> NoFuel"
  "fst (send_rpc X c s) \<noteq> NoFuel"
  "fst (spawn_rpc X c s) \<noteq> NoFuel"
  "fst (default_eval_call P lib_at f args s) \<noteq> NoFuel"
  by (simp_all add: send_meta_machine send_rpc_def spawn_rpc_def default_eval_call_def split: prod.split)

lemma halting_outside:
  "halting is_value (\<lambda>_. send_meta X (call_new ext m ls))"
  "halting is_value (\<lambda>_. send_rpc X c)"
  "halting is_value (\<lambda>_. spawn_rpc X c)"
  "halting is_value (\<lambda>_. default_eval_call P lib_at f args)"
  by (rule halting_const, simp, erule send_meta_value rpc_value)+

lemma halting_call:
  assumes "list_all is_value args" and "halting is_value (\<lambda>_. en_call X f args)"
    and "\<And>body e. bt_get f (en_code X) = Some body \<Longrightarrow> apply_all body args = Inr e \<Longrightarrow> halting is_value (\<lambda>n. ev n e)"
  shows "halting is_value (\<lambda>n. ev_call X (ev n) f async args)"
proof (cases "find is_return args")
  case (Some r)
  then show ?thesis
    using halting_find assms(1) by (auto simp: ev_call_def intro: halts)
next
  case no_return: None
  show ?thesis
  proof (cases "bt_get f (en_code X)")
    case (Some body)
    have "halting is_value (\<lambda>n. ev_bind (ev_res (apply_all body args)) (\<lambda>e. ev_bind (ev n e) (\<lambda>r. ev_ok (strip_return r))))"
      by (rule halting_bind [where Q = "\<lambda>e. apply_all body args = Inr e"])
        (auto intro!: halting_basic(4) halting_guard assms(3) [OF Some])
    then show ?thesis
      using no_return Some by (simp add: ev_call_def)
  next
    case None
    have "halting is_value (\<lambda>_. ev_bind (ev_res (literal_vector args)) (\<lambda>ls.
        if ext = ''Ingress'' \<or> ext = ''Egress'' then send_meta X (call_new ext m ls)
        else if async then spawn_rpc X (call_new ext m ls) else send_rpc X (call_new ext m ls)))" for ext m
      by (rule halting_bind [where Q = "\<lambda>_. True"]) (auto intro!: halting_basic(4) halting_outside)
    then show ?thesis
      using no_return None assms(2)
      by (auto simp: ev_call_def intro: halts split: option.split)
  qed
qed

text \<open>One lemma per construct: it halts when its parts do.\<close>

lemma halting_prefix:
  assumes "halting is_value (\<lambda>n. eval X n e1)"
  shows "halting is_value (\<lambda>n. eval X n (PrefixExpr p e1))"
proof (rule halting_step)
  show "halting is_value (\<lambda>n. eval_step X (eval X n) (PrefixExpr p e1))"
    unfolding eval_step.simps
    by (rule halting_bind [OF assms]) (auto split: expr.split intro!: halts dest: call_result_value)
qed

lemma halting_infix:
  assumes s: "halting is_value (\<lambda>n. eval X n e1)" "halting is_value (\<lambda>n. eval X n e2)"
  shows "halting is_value (\<lambda>n. eval X n (InfixExpr op e1 e2))"
proof (rule halting_step)
  have t: "halting is_value (\<lambda>n. ev_bind (ev_opt (lit_infix (en_plane X) op l1 l2)) (\<lambda>r.
      ev_res (call_result ''eval, infix: type error'' r)))" for l1 l2
    by (rule halting_bind [where Q = "\<lambda>_. True"]) (auto intro!: halts dest: call_result_value)
  have "halting is_value (\<lambda>n. ev_bind (eval X n e1) (\<lambda>r1. ev_bind (eval X n e2) (\<lambda>r2.
          if is_return r1 then ev_ok r1
          else if is_return r2 then ev_ok r2
          else case (r1, r2) of
            (LitExpr l1, LitExpr l2) \<Rightarrow>
              ev_bind (ev_opt (lit_infix (en_plane X) op l1 l2)) (\<lambda>r.
                ev_res (call_result ''eval, infix: type error'' r))
          | _ \<Rightarrow> ev_err (Error ''eval, infix: failed''))))"
    by (rule halting_bind [OF s(1)], rule halting_bind [OF s(2)])
      (auto split: expr.split intro!: halting_basic(1, 2) t)
  then show "halting is_value (\<lambda>n. eval_step X (eval X n) (InfixExpr op e1 e2))"
    unfolding eval_step.simps by (intro halting_if halting_short s)
qed

lemma halting_if_expr:
  fixes t :: "'l expr"
  assumes c: "halting is_value (\<lambda>n. eval X n c)" and t: "halting is_value (\<lambda>n. eval X n t)"
    and alt: "\<And>a. alt = Some a \<Longrightarrow> halting is_value (\<lambda>n. eval X n a)"
  shows "halting is_value (\<lambda>n. eval X n (IfExpr c t alt))"
proof (intro halting_step)
  have a: "halting is_value (\<lambda>n. opt_eval (en_lits X) (eval X n) alt)"
    by (rule halting_opt_eval) (rule alt)
  have g: "halting is_value (\<lambda>n. ev_bind (ev_opt (bool_guard (en_lits X) l)) (\<lambda>g.
             case g of
               Some b \<Rightarrow> (if b then eval X n t else opt_eval (en_lits X) (eval X n) alt)
             | None \<Rightarrow> ev_err (Error ''eval, if-expression'')))" for l
    by (rule halting_bind [where Q = "\<lambda>_. True"])
      (auto intro!: halting_basic(5) halting_option halting_if halting_basic(2) t a)
  show "halting is_value (\<lambda>n. eval_step X (eval X n) (IfExpr c t alt))"
    unfolding eval_step.simps
  proof (rule halting_bind [OF c])
    fix r :: "'l expr"
    assume "is_value r"
    then show "halting is_value (\<lambda>n. if is_return r then ev_ok r
       else case r of
         LitExpr l \<Rightarrow>
           ev_bind (ev_opt (bool_guard (en_lits X) l)) (\<lambda>g.
             case g of
               Some b \<Rightarrow> (if b then eval X n t else opt_eval (en_lits X) (eval X n) alt)
             | None \<Rightarrow> ev_err (Error ''eval, if-expression''))
       | _ \<Rightarrow> ev_err (Error ''eval, if-expression''))"
      by (cases r) (auto simp: is_return_def intro!: halting_basic(1) g)
  qed
qed

lemma halting_apply:
  assumes "\<And>e'. r = Inr e' \<Longrightarrow> halting is_value (\<lambda>n. eval X n e')"
  shows "halting is_value (\<lambda>n. ev_bind (ev_res r) (eval X n))"
  by (rule halting_bind [where Q = "\<lambda>e'. r = Inr e'"]) (auto intro!: halting_basic(4) assms)

lemma halting_let:
  fixes e2 :: "'l expr"
  assumes e1: "halting is_value (\<lambda>n. eval X n e1)"
    and e2: "\<And>z e'. apply_vars z e2 = Inr e' \<Longrightarrow> halting is_value (\<lambda>n. eval X n e')"
      "\<And>l e'. apply_expr e2 (LitExpr l) = Inr e' \<Longrightarrow> halting is_value (\<lambda>n. eval X n e')"
  shows "halting is_value (\<lambda>n. eval X n (LetExpr vs e1 e2))"
proof (rule halting_step)
  show "halting is_value (\<lambda>n. eval_step X (eval X n) (LetExpr vs e1 e2))"
    unfolding eval_step.simps
  proof (rule halting_bind [OF e1])
    fix r :: "'l expr"
    assume "is_value r"
    then show "halting is_value (\<lambda>n. case r of
         ReturnExpr _ \<Rightarrow> ev_ok r
       | LitExpr l \<Rightarrow>
           (case (case l of TupleL ls \<Rightarrow> Some ls | _ \<Rightarrow> None) of
              Some ls \<Rightarrow>
                (if 1 < length ls \<and> length vs = length ls then
                   ev_bind (ev_res (apply_vars (zip vs ls) e2)) (eval X n)
                 else if length vs = 1 then
                   ev_bind (ev_res (apply_expr e2 (LitExpr (TupleL ls)))) (eval X n)
                 else ev_err (Error ''eval, let-expression (tuple length mismatch)''))
            | None \<Rightarrow>
                (if length vs = 1 then ev_bind (ev_res (apply_expr e2 r)) (eval X n)
                 else ev_err (Error ''eval, let-expression (literal not a tuple)'')))
       | _ \<Rightarrow> ev_err (Error ''eval, let-expression''))"
      by (cases r)
        (auto intro!: halting_basic(1, 2) halting_option halting_if halting_apply intro: e2)
  qed
qed

lemma halting_some_match:
  fixes t :: "'l expr"
  assumes e1: "halting is_value (\<lambda>n. eval X n e1)"
    and t: "\<And>l e'. apply_expr t (LitExpr l) = Inr e' \<Longrightarrow> halting is_value (\<lambda>n. eval X n e')"
    and alt: "\<And>a. alt = Some a \<Longrightarrow> halting is_value (\<lambda>n. eval X n a)"
  shows "halting is_value (\<lambda>n. eval X n (IfSomeMatchExpr e1 t alt))"
proof (intro halting_step)
  have a: "halting is_value (\<lambda>n. opt_eval (en_lits X) (eval X n) alt)"
    by (rule halting_opt_eval) (rule alt)
  show "halting is_value (\<lambda>n. eval_step X (eval X n) (IfSomeMatchExpr e1 t alt))"
    unfolding eval_step.simps
  proof (rule halting_bind [OF e1])
    fix r :: "'l expr"
    assume r: "is_value r"
    show "halting is_value (\<lambda>n. if is_return r then ev_ok r
       else case r of
         LitExpr (TupleL ts) \<Rightarrow>
           (if length ts = 1 then ev_bind (ev_res (apply_expr t (LitExpr (ts ! 0)))) (eval X n)
            else opt_eval (en_lits X) (eval X n) alt)
       | _ \<Rightarrow> ev_err (ErrorFmt ''eval, if-let-expression: {:#?}'' []))"
    proof (cases r)
      case (LitExpr l)
      then show ?thesis
        by (cases l) (auto simp: is_return_def intro!: halting_basic(2) halting_if halting_apply a intro: t)
    qed (use r in \<open>auto simp: is_return_def intro!: halting_basic(1)\<close>)
  qed
qed

lemma halting_block:
  fixes es :: "'l expr list"
  assumes es: "\<And>e. e \<in> set es \<Longrightarrow> halting is_value (\<lambda>n. eval X n e)"
    and rest: "es \<noteq> [] \<Longrightarrow> halting is_value (\<lambda>n. eval X n (BlockExpr b (tl es)))"
  shows "halting is_value (\<lambda>n. eval X n (BlockExpr b es))"
proof (rule halting_step)
  show "halting is_value (\<lambda>n. eval_step X (eval X n) (BlockExpr b es))"
  proof (cases es)
    case Nil
    then show ?thesis
      by (auto intro: halts)
  next
    case (Cons e1 r1)
    have e1: "halting is_value (\<lambda>n. eval X n e1)"
      and r1: "halting is_value (\<lambda>n. eval X n (BlockExpr b r1))"
      using es rest Cons by auto
    have 1: "halting is_value (\<lambda>n. ev_bind (eval X n e1) (\<lambda>r.
        if is_return r \<or> r1 = [] then ev_ok r else eval X n (BlockExpr b r1)))"
      by (rule halting_bind [OF e1]) (auto intro!: halting_if halting_basic(1) r1)
    have tail: "halting is_value (\<lambda>_. case find is_return rs of
          Some r \<Rightarrow> ev_ok r
        | None \<Rightarrow> ev_bind (ev_res (literal_vector rs)) (\<lambda>ls.
            ev_ok (LitExpr (if b = ListBlock then ListL ls else TupleL ls))))"
      if "list_all is_value rs" for rs :: "'l expr list"
      using that halting_find
      by (auto intro!: halting_option halting_basic(1) halting_bind [where Q = "\<lambda>_. True"] halting_basic(4))
    have 2: "halting is_value (\<lambda>n. ev_bind (ev_map (eval X n) es) (\<lambda>rs.
        case find is_return rs of
          Some r \<Rightarrow> ev_ok r
        | None \<Rightarrow> ev_bind (ev_res (literal_vector rs)) (\<lambda>ls.
            ev_ok (LitExpr (if b = ListBlock then ListL ls else TupleL ls)))))"
      by (rule halting_bind [OF halting_map [OF es] tail])
    show ?thesis
      unfolding eval_step.simps Cons list.case using 1 2 Cons by (intro halting_if) simp_all
  qed
qed

lemma halting_iter_expr:
  fixes e2 :: "'l expr"
  assumes e1: "halting is_value (\<lambda>n. eval X n e1)"
    and e2: "below A h e2" "\<And>e. below A h e \<Longrightarrow> halting is_value (\<lambda>n. eval X n e)"
    and acc: "\<And>m a. acc = Some (m, a) \<Longrightarrow> halting is_value (\<lambda>n. eval X n a)"
  shows "halting is_value (\<lambda>n. eval X n (IterExpr op vs e1 e2 acc))"
proof (rule halting_step)
  have a: "halting (pred_option is_value) (\<lambda>n. case acc of
      Some (_, a) \<Rightarrow> ev_bind (eval X n a) (\<lambda>v. ev_ok (Some v)) | None \<Rightarrow> ev_ok None)"
  proof (cases acc)
    case (Some p)
    then show ?thesis
      using acc by (cases p) (auto intro!: halting_bind [where Q = is_value] halting_basic(1))
  qed (auto intro: halts)
  have loop: "halting is_value (\<lambda>n. ev_bind (ev_iter (eval X n) vs e2 lits a0) (\<lambda>(rs, a1).
      finish_iter (en_lits X) op lits rs a1))" if "pred_option is_value a0" for lits a0
    by (rule halting_bind [OF halting_iter [OF e2(2, 1) that]]) (auto intro: halting_finish)
  have body: "halting is_value (\<lambda>n. ev_bind (case acc of
      Some (_, a) \<Rightarrow> ev_bind (eval X n a) (\<lambda>v. ev_ok (Some v)) | None \<Rightarrow> ev_ok None) (\<lambda>a0.
      ev_bind (ev_iter (eval X n) vs e2 lits a0) (\<lambda>(rs, a1). finish_iter (en_lits X) op lits rs a1)))" for lits
    by (rule halting_bind [OF a loop])
  show "halting is_value (\<lambda>n. eval_step X (eval X n) (IterExpr op vs e1 e2 acc))"
    unfolding eval_step.simps
  proof (rule halting_bind [OF e1])
    fix r :: "'l expr"
    assume r: "is_value r"
    show "halting is_value (\<lambda>n. if is_return r then ev_ok r
       else case r of
         LitExpr (ListL lits) \<Rightarrow> ev_bind (case acc of
             Some (_, a) \<Rightarrow> ev_bind (eval X n a) (\<lambda>v. ev_ok (Some v)) | None \<Rightarrow> ev_ok None) (\<lambda>a0.
             ev_bind (ev_iter (eval X n) vs e2 lits a0) (\<lambda>(rs, a1). finish_iter (en_lits X) op lits rs a1))
       | _ \<Rightarrow> ev_err (Error ''eval, map-expression''))"
    proof (cases r)
      case (LitExpr l)
      then show ?thesis
        by (cases l) (auto simp: is_return_def intro!: halting_basic(2) body)
    qed (use r in \<open>auto simp: is_return_def intro!: halting_basic(1)\<close>)
  qed
qed

lemma halting_if_match:
  fixes t :: "'l expr"
  assumes ms: "\<And>e p. (e, p) \<in> set ms \<Longrightarrow> halting is_value (\<lambda>n. eval X n e)"
    and t: "\<And>m e'. caps_ok m \<Longrightarrow> apply_captures m vs t = Inr e' \<Longrightarrow> halting is_value (\<lambda>n. eval X n e')"
    and alt: "\<And>a. alt = Some a \<Longrightarrow> halting is_value (\<lambda>n. eval X n a)"
  shows "halting is_value (\<lambda>n. eval X n (IfMatchExpr vs ms t alt))"
proof (rule halting_step)
  have chk: "halting is_value (\<lambda>n. ev_bind (eval X n e) (check_value msg))"
    if "halting is_value (\<lambda>n. eval X n e)" for e :: "'l expr" and msg
    by (rule halting_bind [OF that]) (auto simp: check_value_def split: expr.split intro!: halts)
  have app: "halting is_value (\<lambda>n. ev_bind (ev_res (apply_captures m vs t)) (\<lambda>c.
      ev_bind (eval X n c) (check_value msg)))" if "caps_ok m" for m msg
    by (rule halting_bind [where Q = "\<lambda>e'. apply_captures m vs t = Inr e'"])
      (auto intro!: halting_basic(4) chk t [OF that])
  have tail: "halting is_value (\<lambda>n. case find (\<lambda>(r, _). is_return r) rs of
         Some (r, _) \<Rightarrow> ev_ok r
       | None \<Rightarrow>
           (if list_ex (\<lambda>(_, c). c = None) rs then
              (case alt of
                 None \<Rightarrow> ev_ok (expr_unit (en_lits X))
               | Some a \<Rightarrow> ev_bind (eval X n a) (check_value ''eval, if-match-expression''))
            else
              ev_bind (ev_res (apply_captures (all_captures rs) vs t)) (\<lambda>c.
              ev_bind (eval X n c) (check_value ''eval, if-match-expression''))))"
    if rs: "list_all (\<lambda>(r, c). is_value r \<and> pred_option caps_ok c) rs" for rs
  proof (rule halting_option)
    have "caps_ok (all_captures rs)"
      using rs by (intro all_captures_ok) (auto simp: list_all_iff)
    then show "halting is_value (\<lambda>n. if list_ex (\<lambda>(_, c). c = None) rs then
              (case alt of
                 None \<Rightarrow> ev_ok (expr_unit (en_lits X))
               | Some a \<Rightarrow> ev_bind (eval X n a) (check_value ''eval, if-match-expression''))
            else
              ev_bind (ev_res (apply_captures (all_captures rs) vs t)) (\<lambda>c.
              ev_bind (eval X n c) (check_value ''eval, if-match-expression'')))"
      by (auto simp: expr_unit_def intro!: halting_if halting_option halting_basic(1) chk alt app)
    show "halting is_value (\<lambda>n. case y of (r, _) \<Rightarrow> ev_ok r)"
      if "find (\<lambda>(r, _). is_return r) rs = Some y" for y
      using that rs by (cases y) (auto simp: find_Some_iff list_all_length intro!: halting_basic(1))
  qed
  have match: "halting (\<lambda>(r, c). is_value r \<and> pred_option caps_ok c) (\<lambda>n. ev_match X (eval X n) m)"
    if "m \<in> set ms" for m
    using that by (intro halting_match ms [of "fst m" "snd m"]) simp
  show "halting is_value (\<lambda>n. eval_step X (eval X n) (IfMatchExpr vs ms t alt))"
    unfolding eval_step.simps by (rule halting_bind [OF halting_map [OF match] tail])
qed

text \<open>\<open>ranked rank code\<close>: a function calls only functions of smaller rank; there is no recursion.\<close>

definition callable :: "(string \<Rightarrow> nat) \<Rightarrow> (string \<times> 'l expr) list \<Rightarrow> nat \<Rightarrow> string \<Rightarrow> bool" where
  "callable rank code k g \<longleftrightarrow> (bt_get g code \<noteq> None \<longrightarrow> rank g < k)"

definition ranked :: "(string \<Rightarrow> nat) \<Rightarrow> (string \<times> 'l expr) list \<Rightarrow> bool" where
  "ranked rank code \<longleftrightarrow>
     (\<forall>f body. bt_get f code = Some body \<longrightarrow> calls_ok (callable rank code (rank f)) body)"

lemma sum_list_member: "x \<in> set xs \<Longrightarrow> f x \<le> sum_list (map (f :: _ \<Rightarrow> nat) xs)"
  by (induction xs) auto

lemma halting_call_expr:
  assumes args: "\<And>a. a \<in> set args \<Longrightarrow> halting is_value (\<lambda>n. eval X n a)"
    and call: "\<And>vs. halting is_value (\<lambda>_. en_call X f vs)"
    and body: "\<And>body vs e'. bt_get f (en_code X) = Some body \<Longrightarrow> \<forall>v \<in> set vs. is_value v \<Longrightarrow>
      apply_all body vs = Inr e' \<Longrightarrow> halting is_value (\<lambda>n. eval X n e')"
  shows "halting is_value (\<lambda>n. eval X n (CallExpr f args async))"
proof (rule halting_step)
  show "halting is_value (\<lambda>n. eval_step X
      (eval X n) (CallExpr f args async))"
    unfolding eval_step.simps
    by (rule halting_bind [OF halting_map [OF args] halting_call [OF _ call]])
      (auto intro: body simp: list_all_iff)
qed

lemma halting_expr_step:
  fixes e :: "'l expr"
  assumes sub: "\<And>e' :: 'l expr. calls_ok A e' \<Longrightarrow> hgt e' < hgt e \<Longrightarrow>
      halting is_value (\<lambda>n. eval X n e')"
    and call: "\<And>f vs. A f \<Longrightarrow> halting is_value (\<lambda>_. en_call X f vs)"
    and body: "\<And>f body vs e'. A f \<Longrightarrow> bt_get f (en_code X) = Some body \<Longrightarrow> \<forall>v \<in> set vs. is_value v \<Longrightarrow>
      apply_all body vs = Inr e' \<Longrightarrow> halting is_value (\<lambda>n. eval X n e')"
    and e: "calls_ok A e" "\<not> is_value e"
  shows "halting is_value (\<lambda>n. eval X n e)"
proof (cases e)
  case (ReturnExpr e1)
  show ?thesis
    unfolding ReturnExpr by (rule halting_step) (use e ReturnExpr in \<open>auto intro!: halting_guard sub\<close>)
next
  case (CallExpr f args async)
  show ?thesis
    unfolding CallExpr
  proof (rule halting_call_expr)
    show "halting is_value (\<lambda>n. eval X n a)" if "a \<in> set args" for a
      using that e CallExpr sum_list_member [OF that, of hgt] by (intro sub) (auto simp: list_all_iff)
  qed (use e CallExpr call body in auto)
next
  case (BlockExpr b es)
  show ?thesis
    unfolding BlockExpr
  proof (rule halting_block)
    show "halting is_value (\<lambda>n. eval X n a)" if "a \<in> set es" for a
      using that e BlockExpr sum_list_member [OF that, of hgt] by (intro sub) (auto simp: list_all_iff)
    show "halting is_value (\<lambda>n. eval X n (BlockExpr b (tl es)))" if "es \<noteq> []"
      using that e BlockExpr by (cases es) (auto intro: sub)
  qed
next
  case (LetExpr vs e1 e2)
  have "below A (hgt e2) e2"
    using e LetExpr by simp
  note kept = below_kept.apply_vars_kept [OF this] below_kept.apply_lit_kept [OF this]
  show ?thesis
    unfolding LetExpr by (rule halting_let) (use e LetExpr in \<open>auto intro!: sub dest!: kept\<close>)
next
  case (IterExpr op vs e1 e2 acc)
  show ?thesis
    unfolding IterExpr
    by (rule halting_iter_expr [where A = A and h = "hgt e2"])
      (use e IterExpr in \<open>auto intro!: sub\<close>)
next
  case (IfExpr c t alt)
  show ?thesis
    unfolding IfExpr by (rule halting_if_expr) (use e IfExpr in \<open>auto intro!: sub\<close>)
next
  case (IfSomeMatchExpr e1 t alt)
  have "below A (hgt t) t"
    using e IfSomeMatchExpr by simp
  note kept = below_kept.apply_lit_kept [OF this]
  show ?thesis
    unfolding IfSomeMatchExpr
    by (rule halting_some_match) (use e IfSomeMatchExpr in \<open>auto intro!: sub dest!: kept\<close>)
next
  case (IfMatchExpr vs ms t alt)
  have t: "below A (hgt t) t"
    using e IfMatchExpr by simp
  show ?thesis
    unfolding IfMatchExpr
  proof (rule halting_if_match)
    show "halting is_value (\<lambda>n. eval X n x)" if "(x, p) \<in> set ms" for x p
      using that e IfMatchExpr sum_list_member [OF that, of "\<lambda>(e, _). hgt e"]
      by (intro sub) (auto simp: list_all_iff)
    show "halting is_value (\<lambda>n. eval X n e')"
      if "caps_ok m" "apply_captures m vs t = Inr e'" for m e'
    proof (rule sub)
      have get: "is_value u" if "bt_get v m = Some u" for v u
        using caps_ok_get [OF \<open>caps_ok m\<close> that] .
      have "below A (hgt t) e'"
        by (rule below_kept.apply_captures_kept [OF t get that(2)])
      then show "calls_ok A e'" "hgt e' < hgt e"
        by (simp_all add: IfMatchExpr)
    qed
  qed (use e IfMatchExpr in \<open>auto intro!: sub\<close>)
next
  case (PrefixExpr p e1)
  show ?thesis
    unfolding PrefixExpr by (rule halting_prefix) (use e PrefixExpr in \<open>auto intro!: sub\<close>)
next
  case (InfixExpr op e1 e2)
  show ?thesis
    unfolding InfixExpr by (rule halting_infix) (use e InfixExpr in \<open>auto intro!: sub\<close>)
qed (use e in \<open>auto intro!: halting_step halts\<close>)

lemma calls_ok_conj: "calls_ok A e \<Longrightarrow> calls_ok B e \<Longrightarrow> calls_ok (\<lambda>f. A f \<and> B f) e"
proof (induction e rule: expr_induct)
  case (IfMatch vs ms t alt)
  then show ?case
    by (fastforce simp: expr_nested)
qed (auto simp: expr_nested)

text \<open>
  By induction on the rank of the functions called, then on the height. \<open>B\<close> are the functions whose calls
  end wherever they are builtin functions.
\<close>

lemma halting_ranked:
  fixes X :: "('s, 'f, 'l) env"
  assumes "ranked rank (en_code X)" and call: "\<And>f vs. B f \<Longrightarrow> halting is_value (\<lambda>_. en_call X f vs)"
    and B: "\<And>f body. bt_get f (en_code X) = Some body \<Longrightarrow> calls_ok B body"
  shows "calls_ok (callable rank (en_code X) k) e \<Longrightarrow> calls_ok B e \<Longrightarrow> halting is_value (\<lambda>n. eval X n e)"
proof (induction k arbitrary: e rule: less_induct)
  case (less k)
  let ?A = "\<lambda>f. callable rank (en_code X) k f \<and> B f"
  have body: "halting is_value (\<lambda>n. eval X n e')"
    if "?A f" "bt_get f (en_code X) = Some body" "\<forall>v \<in> set vs. is_value v"
      "apply_all body vs = Inr e'" for f body vs e'
  proof (rule less.IH)
    show "rank f < k"
      using that(1, 2) by (simp add: callable_def)
    show "calls_ok (callable rank (en_code X) (rank f)) e'"
      using assms(1) that(2) by (intro calls_kept.apply_all_kept [OF _ that(3, 4)]) (simp add: ranked_def)
    show "calls_ok B e'"
      by (rule calls_kept.apply_all_kept [OF B [OF that(2)] that(3, 4)])
  qed
  have "calls_ok ?A e"
    using less.prems by (rule calls_ok_conj)
  then show ?case
  proof (induction "hgt e" arbitrary: e rule: less_induct)
    case less_hgt: less
    show ?case
    proof (cases "is_value e")
      case False
      show ?thesis
      proof (rule halting_expr_step [OF _ _ body less_hgt.prems False])
        show "halting is_value (\<lambda>n. eval X n e')" if "calls_ok ?A e'" "hgt e' < hgt e" for e'
          by (rule less_hgt.hyps [OF that(2, 1)])
      qed (use call in auto)
    qed (rule halting_value)
  qed
qed

lemma callable_all: "\<exists>k. \<forall>g. callable rank code k g"
proof (intro exI allI)
  fix g
  have "rank g \<le> sum_list (map (\<lambda>(f, _). rank f) code)" if "(g, y) \<in> set code" for y
    using sum_list_member [OF that, of "\<lambda>(f, _). rank f"] by simp
  then show "callable rank code (Suc (sum_list (map (\<lambda>(f, _). rank f) code))) g"
    by (auto simp: callable_def bt_get_map_of less_Suc_eq_le dest!: map_of_SomeD)
qed

lemma halting_everything:
  fixes X :: "('s, 'f, 'l) env"
  assumes "ranked rank (en_code X)" and "\<And>f vs. B f \<Longrightarrow> halting is_value (\<lambda>_. en_call X f vs)"
    and "\<And>f body. bt_get f (en_code X) = Some body \<Longrightarrow> calls_ok B body" and "calls_ok B e"
  shows "halting is_value (\<lambda>n. eval X n e)"
proof -
  obtain k where "\<forall>g. callable rank (en_code X) k g"
    using callable_all by blast
  then have "calls_ok (callable rank (en_code X) k) e"
    by (intro calls_ok_mono [OF calls_ok_True]) auto
  then show ?thesis
    by (intro halting_ranked [where B = B and rank = rank]) (use assms in auto)
qed

lemma enough_fuel:
  assumes "ranked rank code"
  shows "\<exists>n. fst (eval (plane_env P code lib_at rpc) n e s) \<noteq> NoFuel"
proof -
  have "halting is_value (\<lambda>n. eval (plane_env P code lib_at rpc) n e)"
    by (rule halting_everything [where B = "\<lambda>_. True" and rank = rank])
      (simp_all add: assms halting_outside(4) calls_ok_True)
  then show ?thesis
    unfolding halting_def by blast
qed

lemma ranked_terminates:
  assumes "ranked rank code"
  shows "\<exists>n r t. r \<noteq> NoFuel \<and> (\<forall>m \<ge> n. eval (plane_env P code lib_at rpc) m e s = (r, t))"
proof -
  obtain n where n: "fst (eval (plane_env P code lib_at rpc) n e s) \<noteq> NoFuel"
    using enough_fuel [OF assms] by blast
  obtain r t where rt: "eval (plane_env P code lib_at rpc) n e s = (r, t)"
    by fastforce
  have "eval (plane_env P code lib_at rpc) m e s = (r, t)" if "n \<le> m" for m
    using eval_more_fuel [OF n that] rt by simp
  then show ?thesis
    using n rt by auto
qed

section \<open>Properties\<close>

text \<open>C16: a program whose functions do not call each other in a circle terminates: there is an amount
  of fuel from which on every evaluation of an expression ends, always with the same outcome and
  the same machine.\<close>

theorem evaluation_terminates:
  assumes "ranked rank code"
  shows "\<exists>n r t. r \<noteq> NoFuel \<and> (\<forall>m \<ge> n. eval (plane_env P code lib_at rpc) m e s = (r, t))"
  using assms by (rule ranked_terminates)

theorem evaluation_terminates_witness:
  "\<forall>lib_at rpc s. \<exists>n r t. r \<noteq> NoFuel \<and>
     (\<forall>m \<ge> n. eval (plane_env dp_plane
        [(''allow'', closures [''x''] (CallExpr ''deny'' [Var ''x''] False)), (''deny'', closures [''x''] (Var ''x''))]
        lib_at rpc) m (CallExpr ''allow'' [LitExpr (FlatLit UnitL)] False) s = (r, t))"
  by (intro allI evaluation_terminates [where rank = "\<lambda>f. if f = ''allow'' then 1 else 0"])
    (auto simp: ranked_def callable_def closures_def closure_expr_def)

end
