(* ===== verification/EvalLang.thy ===== *)
theory EvalLang
  imports EvalFuel
begin

text \<open>
  What the constructs of the language compute: iterations are the list functions they are named
  after, a \<open>return\<close> ends every construct it occurs in up to the enclosing function, the boolean
  operators evaluate their right operand only where it matters, and a call of a user-defined
  function evaluates its body with the arguments substituted for the parameters.
\<close>

section \<open>Iterations\<close>

text \<open>\<open>body_computes X n s vs body g ls\<close>: on each element the body evaluates, without an effect, to
  the literal \<open>g\<close> gives.\<close>

definition body_computes ::
    "('s, 'f, 'l) env \<Rightarrow> nat \<Rightarrow> ('s, 'l) machine \<Rightarrow> string list \<Rightarrow> 'l expr \<Rightarrow> ('l literal \<Rightarrow> 'l literal) \<Rightarrow>
       'l literal list \<Rightarrow> bool" where
  "body_computes X n s vs body g ls \<longleftrightarrow>
     (\<forall>l \<in> set ls. \<exists>e. apply_item vs l body = Inr e \<and> eval X n e s = (Ok (LitExpr (g l)), s))"

text \<open>\<open>step_computes X n s vs body h a ls\<close>: from the accumulator \<open>a\<close> on, each step of a fold evaluates to
  what \<open>h\<close> gives.\<close>

fun step_computes ::
    "('s, 'f, 'l) env \<Rightarrow> nat \<Rightarrow> ('s, 'l) machine \<Rightarrow> string list \<Rightarrow> 'l expr \<Rightarrow>
       ('l literal \<Rightarrow> 'l literal \<Rightarrow> 'l literal) \<Rightarrow> 'l literal \<Rightarrow> 'l literal list \<Rightarrow> bool" where
  "step_computes X n s vs body h a [] = True"
| "step_computes X n s vs body h a (l # ls) =
     ((\<exists>e1 e2. apply_expr body (LitExpr a) = Inr e1 \<and> apply_item vs l e1 = Inr e2 \<and>
        eval X n e2 s = (Ok (LitExpr (h a l)), s)) \<and>
      step_computes X n s vs body h (h a l) ls)"

lemma ev_bind_Ok [simp]: "m s = (Ok x, t) \<Longrightarrow> ev_bind m f s = f x t"
  by (simp add: ev_bind_def)

lemma ev_ok_app [simp]: "ev_ok x s = (Ok x, s)"
  by (simp add: ev_ok_def)

lemma ev_res_Inr [simp]: "ev_res (Inr x) = ev_ok x"
  by (simp add: ev_res_def)

lemma ev_opt_Some [simp]: "ev_opt (Some x) = ev_ok x"
  by (simp add: ev_opt_def)

lemma ev_bind_ok [simp]: "ev_bind (ev_ok x) f = f x"
  by (simp add: ev_bind_def ev_ok_def)

lemma is_return_simps [simp]:
  "is_return (ReturnExpr e)" "\<not> is_return (LitExpr l)"
  by (simp_all add: is_return_def)

lemma ev_iter_computes:
  assumes "body_computes X n s vs body g ls"
  shows "ev_iter (eval X n) vs body ls None s = (Ok (map (LitExpr \<circ> g) ls, None), s)"
  using assms by (induction ls) (auto simp: body_computes_def)

lemma ev_iter_step_computes:
  assumes "step_computes X n s vs body h a ls"
  shows "\<exists>rs. ev_iter (eval X n) vs body ls (Some (LitExpr a)) s =
      (Ok (rs, Some (LitExpr (foldl h a ls))), s) \<and> find is_return rs = None"
  using assms
proof (induction ls arbitrary: a)
  case (Cons l ls)
  obtain e1 e2 where "apply_expr body (LitExpr a) = Inr e1" "apply_item vs l e1 = Inr e2"
      "eval X n e2 s = (Ok (LitExpr (h a l)), s)"
    using Cons.prems by auto
  moreover obtain rs where "ev_iter (eval X n) vs body ls (Some (LitExpr (h a l))) s =
      (Ok (rs, Some (LitExpr (foldl h (h a l) ls))), s)" "find is_return rs = None"
    using Cons.IH [of "h a l"] Cons.prems by auto
  ultimately show ?case
    by (intro exI [of _ "LitExpr (h a l) # rs"]) simp
qed simp

lemma literal_vector_map [simp]: "literal_vector (map (LitExpr \<circ> g) ls) = Inr (map g ls)"
  by (induction ls) auto

lemma find_return_map [simp]: "find is_return (map (LitExpr \<circ> g) ls) = None"
  by (induction ls) auto

lemma dest_some_opt [simp]: "dest_some (lit_opt q) = q"
  by (cases q) (auto simp: dest_some_def lit_opt_def lit_none_def lit_some_def)

context flat_lit
begin

lemma get_bool_lit [simp]: "lit_get_bool L (lit_bool L b) = Some b"
  by (simp add: lit_get_bool_iff)

lemma filter_bool_map: "filter_bool L (zip ls (map (lit_bool L \<circ> p) ls)) = Some (filter p ls)"
  by (induction ls) auto

lemma all_bool_map: "all_bool L (map (lit_bool L \<circ> p) ls) = Some (list_all p ls)"
  by (induction ls) auto

lemma any_bool_map: "any_bool L (map (lit_bool L \<circ> p) ls) = Some (list_ex p ls)"
  by (induction ls) auto

end

lemmas bool_loops = flat_lit.filter_bool_map flat_lit.all_bool_map flat_lit.any_bool_map

lemma map_filter_opt: "List.map_filter dest_some (map (lit_opt \<circ> q) ls) = List.map_filter q ls"
  by (induction ls) (auto simp: map_filter_simps split: option.split)

lemma eval_iter:
  assumes "eval X n e s0 = (Ok (LitExpr (ListL ls)), s)" and "body_computes X n s vs body g ls" and "op \<noteq> Fold"
  shows "eval X (Suc n) (IterExpr op vs e body None) s0 = iter_result (en_lits X) op ls (map g ls) s"
  using assms by (simp add: finish_iter_def ev_iter_computes)

text \<open>C3: an iteration whose body computes a function of the element without an effect is the list
  function it is named after: \<open>map\<close>, \<open>foreach\<close>, \<open>filter\<close>, \<open>all\<close>, \<open>any\<close> and \<open>filter_map\<close>.\<close>

theorem iterations_are_list_functions:
  assumes "flat_lit (en_lits X)" and "eval X n e s0 = (Ok (LitExpr (ListL ls)), s)"
  shows "(\<forall>g. body_computes X n s vs body g ls \<longrightarrow>
      eval X (Suc n) (IterExpr Map vs e body None) s0 = (Ok (LitExpr (ListL (map g ls))), s) \<and>
      eval X (Suc n) (IterExpr ForEach vs e body None) s0 = (Ok (expr_unit (en_lits X)), s)) \<and>
    (\<forall>p. body_computes X n s vs body (lit_bool (en_lits X) \<circ> p) ls \<longrightarrow>
      eval X (Suc n) (IterExpr Filter vs e body None) s0 = (Ok (LitExpr (ListL (filter p ls))), s) \<and>
      eval X (Suc n) (IterExpr All vs e body None) s0 =
        (Ok (LitExpr (lit_bool (en_lits X) (list_all p ls))), s) \<and>
      eval X (Suc n) (IterExpr AnyIt vs e body None) s0 =
        (Ok (LitExpr (lit_bool (en_lits X) (list_ex p ls))), s)) \<and>
    (\<forall>q. body_computes X n s vs body (lit_opt \<circ> q) ls \<longrightarrow>
      eval X (Suc n) (IterExpr FilterMap vs e body None) s0 =
        (Ok (LitExpr (ListL (List.map_filter q ls))), s))"
  by (auto simp: eval_iter [OF assms(2)] iter_result_def bool_loops [OF assms(1)] map_filter_opt
      simp del: eval.simps)

text \<open>The elements above 1: the predicate has to be computable on every element of the list.\<close>

definition above_one :: "flat_literal literal \<Rightarrow> bool" where
  "above_one l = (case l of FlatLit (IntL i) \<Rightarrow> i64_lt 1 i | _ \<Rightarrow> False)"

theorem iterations_are_list_functions_witness:
  "\<forall>lib_at rpc s. eval (plane_env dp_plane [] lib_at rpc) (Suc 3) (IterExpr Filter [''x''] (LitExpr (ListL (map (FlatLit \<circ> IntL) [1, 5, 2])))
     (closure_expr ''x'' (InfixExpr GreaterThan (Var ''x'') (LitExpr (FlatLit (IntL 1))))) None) s =
   (Ok (LitExpr (ListL (map (FlatLit \<circ> IntL) [5, 2]))), s)"
proof (intro allI)
  fix lib_at rpc s
  define X where "X = plane_env dp_plane [] lib_at rpc"
  have lits: "en_lits X = dp_lits"
    by (simp add: X_def plane_env_def dp_plane_def)
  let ?ls = "map (FlatLit \<circ> IntL) [1, 5, 2]"
  have "body_computes X 3 s [''x''] (closure_expr ''x'' (InfixExpr GreaterThan (Var ''x'')
      (LitExpr (FlatLit (IntL 1))))) (lit_bool (en_lits X) \<circ> above_one) ?ls"
    unfolding lits
    by (simp add: X_def body_computes_def apply_item_def closure_expr_def numeral_3_eq_3 plane_env_def
        above_one_def lit_infix_def dp_plane_def dp_interp_def dp_infix_def call_result_def lit_bool_def
        dp_lits_def is_return_def)
  then have "eval X (Suc 3) (IterExpr Filter [''x''] (LitExpr (ListL ?ls))
     (closure_expr ''x'' (InfixExpr GreaterThan (Var ''x'') (LitExpr (FlatLit (IntL 1))))) None) s =
   (Ok (LitExpr (ListL (filter above_one ?ls))), s)"
    using iterations_are_list_functions [of X 3 "LitExpr (ListL ?ls)" s ?ls s] dp_lit.flat_lit_axioms
    by (simp add: lits numeral_3_eq_3 del: list.map)
  then show "eval (plane_env dp_plane [] lib_at rpc) (Suc 3) (IterExpr Filter [''x''] (LitExpr (ListL ?ls))
     (closure_expr ''x'' (InfixExpr GreaterThan (Var ''x'') (LitExpr (FlatLit (IntL 1))))) None) s =
   (Ok (LitExpr (ListL (map (FlatLit \<circ> IntL) [5, 2]))), s)"
    by (simp add: above_one_def i64_lt_def X_def)
qed

text \<open>A \<open>fold\<close> whose body computes a function of the accumulator and the element without an
  effect is the left fold of that function over the list, from the initial accumulator.\<close>

theorem fold_is_foldl:
  assumes "eval X n e s0 = (Ok (LitExpr (ListL ls)), s1)"
    and "eval X n init s1 = (Ok (LitExpr a), s)"
    and "step_computes X n s vs body h a ls"
  shows "eval X (Suc n) (IterExpr Fold vs e body (Some (acc, init))) s0 = (Ok (LitExpr (foldl h a ls)), s)"
proof -
  obtain rs where "ev_iter (eval X n) vs body ls (Some (LitExpr a)) s =
      (Ok (rs, Some (LitExpr (foldl h a ls))), s)" "find is_return rs = None"
    using ev_iter_step_computes [OF assms(3)] by blast
  then show ?thesis
    using assms(1, 2) by (simp add: ev_bind_def finish_iter_def)
qed


text \<open>\<open>x + acc\<close> on integers.\<close>

fun add_ints :: "flat_literal literal \<Rightarrow> flat_literal literal \<Rightarrow> flat_literal literal" where
  "add_ints (FlatLit (IntL a)) (FlatLit (IntL b)) = FlatLit (IntL (a + b))"
| "add_ints a b = a"

theorem fold_is_foldl_witness:
  "\<forall>lib_at rpc s. eval (plane_env dp_plane [] lib_at rpc) (Suc 2)
     (IterExpr Fold [''x''] (LitExpr (ListL [FlatLit (IntL 4), FlatLit (IntL 5)]))
       (closures [''acc'', ''x''] (InfixExpr Plus (Var ''acc'') (Var ''x'')))
       (Some (''acc'', LitExpr (FlatLit (IntL 1))))) s =
   (Ok (LitExpr (FlatLit (IntL 10))), s)"
proof (intro allI)
  fix lib_at rpc s
  let ?X = "plane_env dp_plane [] lib_at rpc"
  let ?body = "closures [''acc'', ''x''] (InfixExpr Plus (Var ''acc'') (Var ''x''))"
  let ?ls = "[FlatLit (IntL 4), FlatLit (IntL 5)]"
  have "step_computes ?X 2 s [''x''] ?body add_ints (FlatLit (IntL 1)) ?ls"
    by (simp add: numeral_2_eq_2 closures_def closure_expr_def apply_item_def is_return_def plane_env_def
        lit_infix_def dp_plane_def dp_interp_def dp_infix_def call_result_def)
  then show "eval ?X (Suc 2) (IterExpr Fold [''x''] (LitExpr (ListL ?ls)) ?body
      (Some (''acc'', LitExpr (FlatLit (IntL 1))))) s = (Ok (LitExpr (FlatLit (IntL 10))), s)"
    using fold_is_foldl [of ?X 2 "LitExpr (ListL ?ls)" s ?ls s "LitExpr (FlatLit (IntL 1))"
        "FlatLit (IntL 1)" s "[''x'']" ?body add_ints "''acc''"]
    by (simp add: numeral_2_eq_2)
qed

section \<open>Return\<close>

text \<open>A \<open>return\<close> ends every construct whose first part evaluates to it, with the same value and
  without evaluating the other parts: blocks, bindings, conditionals, iterations and operators;
  \<open>return\<close> itself wraps it once more.\<close>

theorem return_ends_constructs:
  assumes "eval X n e s = (Ok (ReturnExpr v), t)"
  shows "eval X (Suc n) (BlockExpr Block (e # es)) s = (Ok (ReturnExpr v), t) \<and>
    eval X (Suc n) (LetExpr vs e body) s = (Ok (ReturnExpr v), t) \<and>
    eval X (Suc n) (IfExpr e e1 alt) s = (Ok (ReturnExpr v), t) \<and>
    eval X (Suc n) (IfSomeMatchExpr e e1 alt) s = (Ok (ReturnExpr v), t) \<and>
    eval X (Suc n) (IterExpr op vs e e1 acc) s = (Ok (ReturnExpr v), t) \<and>
    eval X (Suc n) (PrefixExpr p e) s = (Ok (ReturnExpr v), t) \<and>
    eval X (Suc n) (InfixExpr And e e2) s = (Ok (ReturnExpr v), t) \<and>
    eval X (Suc n) (InfixExpr Or e e2) s = (Ok (ReturnExpr v), t) \<and>
    eval X (Suc n) (ReturnExpr e) s = (Ok (ReturnExpr (ReturnExpr v)), t)"
  using assms by (simp add: ev_short_def)

theorem return_ends_constructs_witness:
  "\<forall>lib_at rpc s. eval (plane_env dp_plane [] lib_at rpc) (Suc 2)
     (BlockExpr Block [ReturnExpr (LitExpr (FlatLit UnitL)), Var ''unbound'']) s =
   (Ok (ReturnExpr (LitExpr (FlatLit UnitL))), s)"
proof (intro allI)
  fix lib_at rpc s
  show "eval (plane_env dp_plane [] lib_at rpc) (Suc 2)
     (BlockExpr Block [ReturnExpr (LitExpr (FlatLit UnitL)), Var ''unbound'']) s =
   (Ok (ReturnExpr (LitExpr (FlatLit UnitL))), s)"
    using return_ends_constructs [of "plane_env dp_plane [] lib_at rpc" 2
        "ReturnExpr (LitExpr (FlatLit UnitL))" s "LitExpr (FlatLit UnitL)" s]
    by (simp add: numeral_2_eq_2)
qed

section \<open>Boolean operators\<close>

text \<open>The right operand of \<open>&&\<close> is evaluated only where the left one is \<open>true\<close> and that of \<open>||\<close>
  only where it is \<open>false\<close>: otherwise the left value is the result, with no further effect; where
  it is evaluated, a boolean or a \<open>return\<close> of the right operand is the result.\<close>

theorem boolean_operators:
  assumes "flat_lit (en_lits X)"
    and "eval X n e1 s = (Ok (LitExpr (lit_bool (en_lits X) a)), s1)"
    and "eval X n e2 s1 = (Ok v, t)"
    and "v = LitExpr (lit_bool (en_lits X) b) \<or> is_return v"
  shows "eval X (Suc n) (InfixExpr And e1 e2) s =
      (if a then (Ok v, t) else (Ok (LitExpr (lit_bool (en_lits X) False)), s1)) \<and>
    eval X (Suc n) (InfixExpr Or e1 e2) s =
      (if a then (Ok (LitExpr (lit_bool (en_lits X) True)), s1) else (Ok v, t))"
proof -
  have "bool_guard (en_lits X) (lit_bool (en_lits X) b) = Some (Some b)" for b
    using assms(1) by (auto simp: bool_guard_def flat_lit.lit_is_bool_iff flat_lit.get_bool_lit)
  moreover have "lit_is_bool (en_lits X) (lit_bool (en_lits X) b)" for b
    using assms(1) by (auto simp: flat_lit.lit_is_bool_iff)
  ultimately show ?thesis
    using assms(2-) by (cases v) (auto simp: ev_short_def is_return_def)
qed

theorem boolean_operators_witness:
  "\<forall>lib_at rpc s. eval (plane_env dp_plane [] lib_at rpc) (Suc 2)
     (InfixExpr Or (LitExpr (lit_bool dp_lits False)) (ReturnExpr (LitExpr (FlatLit UnitL)))) s =
   (Ok (ReturnExpr (LitExpr (FlatLit UnitL))), s)"
proof (intro allI)
  fix lib_at rpc s
  have "en_lits (plane_env dp_plane [] lib_at rpc) = dp_lits"
    by (simp add: plane_env_def dp_plane_def)
  then show "eval (plane_env dp_plane [] lib_at rpc) (Suc 2)
     (InfixExpr Or (LitExpr (lit_bool dp_lits False)) (ReturnExpr (LitExpr (FlatLit UnitL)))) s =
   (Ok (ReturnExpr (LitExpr (FlatLit UnitL))), s)"
    using boolean_operators [of "plane_env dp_plane [] lib_at rpc" 2 "LitExpr (lit_bool dp_lits False)" s
        False s "ReturnExpr (LitExpr (FlatLit UnitL))" "ReturnExpr (LitExpr (FlatLit UnitL))" s]
      dp_lit.flat_lit_axioms
    by (simp add: numeral_2_eq_2 is_return_def)
qed

section \<open>Calls of user-defined functions\<close>

lemma ev_map_lits: "ev_map (eval X (Suc n)) (map LitExpr ls) s = (Ok (map LitExpr ls), s)"
  by (induction ls) auto

lemma find_return_lits [simp]: "find is_return (map LitExpr ls) = None"
  by (induction ls) auto

text \<open>C28: a call of a user-defined function on literals evaluates the body with each literal in the
  place of its parameter, in the caller's machine; a \<open>return\<close> in the body ends there.\<close>

theorem call_user_function:
  assumes "bt_get f (en_code X) = Some (closures vs body)"
    and "length vs = length ls" and "distinct vs" and "''_'' \<notin> set vs" and "lc_at 0 body"
  shows "eval X (Suc (Suc n)) (CallExpr f (map LitExpr ls) async) s =
    evaluate X (Suc n) (fold (\<lambda>(v, u). nsubst v u) (zip vs (map LitExpr ls)) body) s"
proof -
  have "apply_all (closures vs body) (map LitExpr ls) =
      Inr (fold (\<lambda>(v, u). nsubst v u) (zip vs (map LitExpr ls)) body)"
    using assms(2-) by (intro apply_all_closures) auto
  moreover have "eval X (Suc (Suc n)) (CallExpr f (map LitExpr ls) async) s =
      ev_call X (eval X (Suc n)) f async (map LitExpr ls) s"
    using ev_map_lits [of X n ls s] by (simp only: eval.simps(2) [of X "Suc n"] eval_step.simps ev_bind_Ok)
  ultimately show ?thesis
    using assms(1) by (simp add: ev_call_def evaluate_def del: eval.simps)
qed

theorem call_user_function_witness:
  "\<forall>lib_at rpc s. eval (plane_env dp_plane
       [(''pair'', closures [''x'', ''y''] (ReturnExpr (BlockExpr TupleBlock [Var ''y'', Var ''x''])))] lib_at rpc)
     5 (CallExpr ''pair'' (map LitExpr [FlatLit (IntL 1), FlatLit (IntL 2)]) False) s =
   (Ok (LitExpr (TupleL [FlatLit (IntL 2), FlatLit (IntL 1)])), s)"
proof (intro allI)
  fix lib_at rpc s
  let ?code = "[(''pair'', closures [''x'', ''y''] (ReturnExpr (BlockExpr TupleBlock [Var ''y'', Var ''x''])))]"
  show "eval (plane_env dp_plane ?code lib_at rpc)
     5 (CallExpr ''pair'' (map LitExpr [FlatLit (IntL 1), FlatLit (IntL 2)]) False) s =
   (Ok (LitExpr (TupleL [FlatLit (IntL 2), FlatLit (IntL 1)])), s)"
    using call_user_function [of "''pair''" "plane_env dp_plane ?code lib_at rpc" "[''x'', ''y'']"
        "ReturnExpr (BlockExpr TupleBlock [Var ''y'', Var ''x''])" "[FlatLit (IntL 1), FlatLit (IntL 2)]" 3 False s]
    by (simp add: plane_env_def evaluate_def strip_return_def eval_nat_numeral del: eval.simps)
       (simp add: eval_nat_numeral)
qed

end
