(* ===== verification/ParseTree.thy ===== *)
theory ParseTree
  imports Literals
begin

text \<open>
  The parse tree of \<open>armour-lang/src/parser.rs\<close>: expressions, statements and blocks with their
  locations, and the declarations of a program. A \<open>LocExpr\<close> is a pair of a location and an
  expression, a \<open>LocStmt\<close> a pair of a location and a statement.
\<close>

datatype 'l pexpr =
    IdentP ident
  | LitP "'l literal"
  | ListP "(loc \<times> 'l pexpr) list"
  | TupleP "(loc \<times> 'l pexpr) list"
  | PrefixP prefix_op "loc \<times> 'l pexpr"
  | InfixP infix_op "loc \<times> 'l pexpr" "loc \<times> 'l pexpr"
  | IterP iter_op "loc_ident list" "loc \<times> 'l pexpr" "'l pblock" "(loc_ident \<times> loc \<times> 'l pexpr) option"
  | IfP "loc \<times> 'l pexpr" "'l pblock" "'l pblock option"
  | IfMatchP "((loc \<times> 'l pexpr) \<times> pattern) list" "'l pblock" "'l pblock option"
  | IfSomeMatchP loc_ident "loc \<times> 'l pexpr" "'l pblock" "'l pblock option"
  | CallP loc string "(loc \<times> 'l pexpr) list"
and 'l pstmt =
    LetS "loc_ident list" "loc \<times> 'l pexpr"
  | ReturnS "loc \<times> 'l pexpr"
  | ExprS "'l pexpr" bool bool
and 'l pblock = PBlock "(loc \<times> 'l pstmt) list" bool

type_synonym 'l loc_expr = "loc \<times> 'l pexpr"
type_synonym 'l loc_stmt = "loc \<times> 'l pstmt"

definition let_stmt :: "loc \<Rightarrow> loc_ident list \<Rightarrow> 'l loc_expr \<Rightarrow> 'l loc_stmt" where
  "let_stmt l i e = (l, LetS i e)"

definition return_stmt :: "loc \<Rightarrow> 'l loc_expr \<Rightarrow> 'l loc_stmt" where
  "return_stmt l e = (l, ReturnS e)"

definition expr_stmt :: "'l loc_expr \<Rightarrow> bool \<Rightarrow> bool \<Rightarrow> 'l loc_stmt" where
  "expr_stmt e async semi = (fst e, ExprS (snd e) async semi)"

fun block_loc :: "loc \<Rightarrow> 'l pblock \<Rightarrow> loc" where
  "block_loc d (PBlock [] _) = d"
| "block_loc d (PBlock (s # _) _) = fst s"

definition block_of_expr :: "'l loc_expr \<Rightarrow> 'l pblock" where
  "block_of_expr e = PBlock [expr_stmt e False False] False"

text \<open>The name a path of identifiers stands for.\<close>

fun eval_call_function :: "'l pexpr \<Rightarrow> string option" where
  "eval_call_function (IdentP i) = Some i"
| "eval_call_function (InfixP Module e1 e2) =
     (case (eval_call_function (snd e1), eval_call_function (snd e2)) of
        (Some s1, Some s2) \<Rightarrow> Some (s1 @ ''::'' @ s2)
      | _ \<Rightarrow> None)"
| "eval_call_function _ = None"

section \<open>Declarations\<close>

record 'l fn_decl =
  fd_head :: fn_head
  fd_body :: "'l pblock"

abbreviation fd_name :: "'l fn_decl \<Rightarrow> string" where
  "fd_name d \<equiv> li_id (fn_id (fd_head d))"

record extern =
  ex_name :: loc_ident
  ex_url :: loc_ident
  ex_headers :: "head list"

datatype 'l decl = ExternD extern | FnD "'l fn_decl"

end
