(* ===== verification/Typecheck.thy ===== *)
theory Typecheck
  imports ParseTree Headers EvalProps
begin

text \<open>
  The type checker of \<open>armour-lang/src/expressions.rs\<close> (\<open>from_loc_expr\<close>, \<open>from_block_stmt\<close>,
  \<open>from_decl\<close>), which turns a parse tree into an expression, its type and the calls it makes. The
  type of the \<open>return\<close> statements seen so far is threaded through; a check ends with a result, an
  error or a panic. Warnings that are only printed are left out.
\<close>

section \<open>Results\<close>

datatype 'a tc_out = Done 'a | Fail error | Crash

type_synonym ('f, 'a) tc = "'f ty option \<Rightarrow> ('a \<times> 'f ty option) tc_out"

definition tc_ok :: "'a \<Rightarrow> ('f, 'a) tc" where
  "tc_ok x = (\<lambda>ret. Done (x, ret))"

definition tc_fail :: "error \<Rightarrow> ('f, 'a) tc" where
  "tc_fail e = (\<lambda>_. Fail e)"

definition tc_crash :: "('f, 'a) tc" where
  "tc_crash = (\<lambda>_. Crash)"

definition tc_bind :: "('f, 'a) tc \<Rightarrow> ('a \<Rightarrow> ('f, 'b) tc) \<Rightarrow> ('f, 'b) tc" where
  "tc_bind m f = (\<lambda>ret. case m ret of Done (x, ret') \<Rightarrow> f x ret' | Fail e \<Rightarrow> Fail e | Crash \<Rightarrow> Crash)"

definition tc_res :: "'a result \<Rightarrow> ('f, 'a) tc" where
  "tc_res r = (case r of Inr x \<Rightarrow> tc_ok x | Inl e \<Rightarrow> tc_fail e)"

definition show_loc_opt :: "loc option \<Rightarrow> string" where
  "show_loc_opt l = (case l of Some p \<Rightarrow> '' on '' @ show_loc p @ [CHR 0x0A] | None \<Rightarrow> [CHR 0x0A])"

fun show_ty_error :: "'f tflat \<Rightarrow> 'f ty_error \<Rightarrow> string" where
  "show_ty_error T (TyParse s) = ''expecting type, got '' @ s @ [CHR 0x0A]"
| "show_ty_error T (TyArgs s i j) =
     ''type error in \"'' @ s @ ''\": expecting '' @ show_nat j @ '' value(s), got '' @ show_nat i @ [CHR 0x0A]"
| "show_ty_error T (TyMismatch s lt1 lt2) =
     ''type error in \"'' @ s @ ''\".'' @ [CHR 0x0A] @ ''mismatch:'' @ [CHR 0x0A] @
     ''> '' @ show_typ T (snd lt1) @ show_loc_opt (fst lt1) @
     ''< '' @ show_typ T (snd lt2) @ show_loc_opt (fst lt2)"
| "show_ty_error T TyDest = ''expecting Option<..> type''"

definition tc_typ :: "'f tflat \<Rightarrow> 'f ty_error + 'a \<Rightarrow> ('f, 'a) tc" where
  "tc_typ T r = (case r of Inr x \<Rightarrow> tc_ok x | Inl e \<Rightarrow> tc_fail (Error (show_ty_error T e)))"

abbreviation tc_check :: "'f tflat \<Rightarrow> string \<Rightarrow> 'f loc_type list \<Rightarrow> 'f loc_type list \<Rightarrow> ('f, unit) tc" where
  "tc_check T s v1 v2 \<equiv> tc_typ T (type_check T s v1 v2)"

section \<open>What a check knows\<close>

text \<open>The sites of the calls of an expression are a \<open>HashSet\<close>.\<close>

type_synonym calls = "(loc \<times> string) set"

record ('f, 'l) em =
  em_expr :: "'l expr"
  em_calls :: calls
  em_typ :: "'f ty"

definition em_new :: "'l expr \<Rightarrow> 'f ty \<Rightarrow> calls list \<Rightarrow> ('f, 'l) em" where
  "em_new e t v = \<lparr>em_expr = e, em_calls = \<Union> (set v), em_typ = t\<rparr>"

record 'f ctx =
  cx_vars :: "string \<rightharpoonup> 'f ty"
  cx_async :: bool

definition ctx_new :: "'f ctx" where
  "ctx_new = \<lparr>cx_vars = Map.empty, cx_async = False\<rparr>"

definition add_var :: "string \<Rightarrow> 'f ty \<Rightarrow> 'f ctx \<Rightarrow> 'f ctx" where
  "add_var v t C = C\<lparr>cx_vars := (cx_vars C)(v \<mapsto> t)\<rparr>"

definition update_async_tag :: "bool \<Rightarrow> 'f ctx \<Rightarrow> 'f ctx" where
  "update_async_tag b C = C\<lparr>cx_async := cx_async C \<or> b\<rparr>"

definition add_vars :: "(string \<times> 'f ty) list \<Rightarrow> 'f ctx \<Rightarrow> 'f ctx" where
  "add_vars vts C = foldl (\<lambda>C (v, t). add_var v t C) C vts"

text \<open>
  The signatures, the literals of the plane, whether \<open>regex::Regex::new\<close> accepts the text of a
  pattern, and the order in which a \<open>HashMap\<close> lists its keys.
\<close>

record ('f, 'l) tenv =
  tn_builtin :: "'f tbuiltin"
  tn_lits :: "('f, 'l) tlit"
  tn_headers :: "'f header_table"
  tn_regex :: "pat \<Rightarrow> error option"
  tn_order :: "string list \<Rightarrow> string list"

abbreviation tn_types :: "('f, 'l) tenv \<Rightarrow> 'f tflat" where
  "tn_types X \<equiv> b_types (tn_builtin X)"

section \<open>Parts of the checks\<close>

text \<open>The variables of a pattern of \<open>if match\<close> join those found so far; none may repeat.\<close>

fun bind_vars :: "string \<Rightarrow> loc \<Rightarrow> (string \<times> as_conv) list \<Rightarrow> (string \<times> as_conv) list \<Rightarrow>
    (string \<times> as_conv) list result" where
  "bind_vars msg l [] m = Inr m"
| "bind_vars msg l ((k, a) # kas) m =
     (if k \<in> set (map fst m) then Inl (ErrorFmt msg [show_loc l, k])
      else bind_vars msg l kas (m @ [(k, a)]))"

fun pattern_vars :: "(pat \<Rightarrow> error option) \<Rightarrow> ((loc \<times> 'l pexpr) \<times> pattern) list \<Rightarrow>
    (string \<times> as_conv) list \<Rightarrow> (string \<times> as_conv) list result" where
  "pattern_vars re [] m = Inr m"
| "pattern_vars re ((e, p) # ms) m =
     bind_res
       (case p of
          RegexPat r \<Rightarrow>
            (case re r of
               Some err \<Rightarrow> Inl err
             | None \<Rightarrow> bind_vars ''{}: repeated variable \"{}\"\" in \"if match\"'' (fst e)
                 (map strip_as (capture_names r)) m)
        | LabelPat l \<Rightarrow> bind_vars ''{}: repeated variable \"{}\" in \"if match\"'' (fst e)
            (map (\<lambda>x. (x, AsStr)) (label_vars l)) m)
       (pattern_vars re ms)"

definition as_typ :: "'f tflat \<Rightarrow> as_conv \<Rightarrow> 'f ty" where
  "as_typ T a =
     (if a = AsI64 then i64_typ T else if a = AsBase64 then FlatTyp (t_data T) else str_typ T)"

text \<open>The variables of an iteration over a list of type \<open>t\<close>.\<close>

definition iter_vars :: "'f tflat \<Rightarrow> iter_op \<Rightarrow> loc \<Rightarrow> string list \<Rightarrow> 'f ty \<Rightarrow> (string \<times> 'f ty) list result" where
  "iter_vars T op l vs t =
     (let err = Inl (ErrorFmt ''{} over expression of type {} at {} '' [show_iter op, show_typ T t, show_loc l])
      in case t of
           ListT lty \<Rightarrow>
             (if length vs = 1 then Inr [(vs ! 0, lty)]
              else case lty of
                TupleT tys \<Rightarrow> (if length vs = length tys then Inr (zip vs tys) else err)
              | _ \<Rightarrow> err)
         | _ \<Rightarrow> err)"

text \<open>The type a body has to have, and the type of the iteration (\<open>None\<close>: a panic).\<close>

definition iter_body_check :: "'f tflat \<Rightarrow> iter_op \<Rightarrow> loc \<Rightarrow> 'f ty \<Rightarrow> ('f, unit) tc" where
  "iter_body_check T op l t =
     (if op = FilterMap then tc_check T ''filter_map-expression'' [(Some l, t)] [(None, any_option)]
      else if op \<noteq> Map \<and> op \<noteq> ForEach \<and> op \<noteq> Fold then
        tc_check T ''all/any/filter-expression'' [(Some l, t)] [(None, bool_typ T)]
      else tc_ok ())"

definition iter_typ :: "'f tflat \<Rightarrow> iter_op \<Rightarrow> loc \<Rightarrow> 'f ty \<Rightarrow> 'f ty \<Rightarrow> ('f, 'f ty) tc" where
  "iter_typ T op l t1 t2 =
     (case op of
        All \<Rightarrow> tc_ok (bool_typ T)
      | AnyIt \<Rightarrow> tc_ok (bool_typ T)
      | Filter \<Rightarrow> tc_ok t1
      | FilterMap \<Rightarrow> (case dest_option T t2 of Inr t \<Rightarrow> tc_ok (ListT t) | Inl _ \<Rightarrow> tc_crash)
      | ForEach \<Rightarrow> tc_ok (unit_typ T)
      | Fold \<Rightarrow> tc_fail (ErrorFmt ''{} can not be defined without an accumulator at {} '' [show_iter op, show_loc l])
      | Map \<Rightarrow> tc_ok (ListT t2))"

definition infix_check :: "'f tflat \<Rightarrow> infix_op \<Rightarrow> 'f loc_type \<Rightarrow> 'f loc_type \<Rightarrow> ('f, 'f ty) tc" where
  "infix_check T op lt1 lt2 =
     (case infix_typ T op of
        None \<Rightarrow> tc_crash
      | Some (t1, t2, t) \<Rightarrow>
          tc_bind
            (if t1 = return_typ T then
               (if t2 = return_typ T then tc_check T ''equality/inequality/concat'' [lt1] [lt2]
                else tc_check T ''in'' [(fst lt1, ListT (snd lt1))] [lt2])
             else tc_check T ''infix'' [lt1, lt2] [(None, t1), (None, t2)])
            (\<lambda>_. tc_ok t))"

text \<open>A call, once its arguments are checked.\<close>

definition call_typ :: "string \<Rightarrow> 'f ty list \<Rightarrow> 'f ty \<Rightarrow> ('f, 'f ty) tc" where
  "call_typ f ts t =
     (if f = ''list::reduce'' then
        (case ts of
           [] \<Rightarrow> tc_crash
         | u # _ \<Rightarrow> (case dest_list u of Some v \<Rightarrow> tc_ok (option_typ v) | None \<Rightarrow> tc_crash))
      else if f = ''list::difference'' \<or> f = ''list::intersection'' then
        (case ts of [] \<Rightarrow> tc_crash | u # _ \<Rightarrow> tc_ok u)
      else tc_ok t)"

definition check_call ::
    "('f, 'l) tenv \<Rightarrow> 'f ctx \<Rightarrow> loc \<Rightarrow> loc \<Rightarrow> string \<Rightarrow> loc list \<Rightarrow> ('f, 'l) em list \<Rightarrow> ('f, ('f, 'l) em) tc" where
  "check_call X C l cl f locs ems =
     (let T = tn_types X; es = map em_expr ems; cs = map em_calls ems; ts = map em_typ ems
      in case resolve_name (tn_builtin X) f ts of
           None \<Rightarrow> tc_crash
         | Some g \<Rightarrow>
             (case header_typ (tn_builtin X) (tn_headers X) g of
                Some s \<Rightarrow>
                  tc_bind
                    (case sig_args s of
                       Some args \<Rightarrow> tc_check T g (zip (map Some locs) ts) (map (Pair None) args)
                     | None \<Rightarrow> tc_ok ()) (\<lambda>_.
                  tc_bind (call_typ g ts (sig_typ s)) (\<lambda>t.
                  tc_ok (em_new (CallExpr g es (t = unit_typ T \<and> cx_async C)) t (cs @ [{(cl, g)}]))))
              | None \<Rightarrow>
                  (case parse_usize g of
                     Some i \<Rightarrow>
                       (case ts of
                          [TupleT us] \<Rightarrow>
                            (if i < length us then tc_ok (em_new (expr_call g es) (us ! i) cs)
                             else tc_fail (ErrorFmt
                               ''tuple index function \"{}\" called on tuple with just {} elements at {}''
                               [g, show_nat (length us), show_loc l]))
                        | _ \<Rightarrow> tc_fail (ErrorFmt ''tuple index function \"{}\" called on non-tuple ({}) at {}''
                            [g, join '','' (map (show_typ T) ts), show_loc l]))
                   | None \<Rightarrow> tc_fail (ErrorFmt ''undeclared function \"{}\" at {}'' [g, show_loc l]))))"

definition block_cons :: "'l expr \<Rightarrow> 'l expr \<Rightarrow> 'l expr" where
  "block_cons e1 e2 =
     (case e2 of BlockExpr Block b \<Rightarrow> BlockExpr Block (e1 # b) | _ \<Rightarrow> BlockExpr Block [e1, e2])"

section \<open>The type checker\<close>

text \<open>
  \<open>tc_expr\<close> is \<open>from_loc_expr\<close> on an expression at a location, \<open>tc_stmts\<close> is \<open>from_block_stmt\<close> on the
  statements of a block with its \<open>async\<close> tag; the others are loops over lists of expressions.
\<close>

fun tc_expr :: "('f, 'l) tenv \<Rightarrow> 'f ctx \<Rightarrow> loc \<Rightarrow> 'l pexpr \<Rightarrow> ('f, ('f, 'l) em) tc"
and tc_list :: "('f, 'l) tenv \<Rightarrow> 'f ctx \<Rightarrow> 'f ty \<Rightarrow> (loc \<times> 'l pexpr) list \<Rightarrow> ('f, ('f, 'l) em list \<times> 'f ty) tc"
and tc_exprs :: "('f, 'l) tenv \<Rightarrow> 'f ctx \<Rightarrow> (loc \<times> 'l pexpr) list \<Rightarrow> ('f, ('f, 'l) em list) tc"
and tc_matches :: "('f, 'l) tenv \<Rightarrow> 'f ctx \<Rightarrow> ((loc \<times> 'l pexpr) \<times> pattern) list \<Rightarrow> ('f, ('f, 'l) em list) tc"
and tc_stmts :: "('f, 'l) tenv \<Rightarrow> 'f ctx \<Rightarrow> bool \<Rightarrow> (loc \<times> 'l pstmt) list \<Rightarrow> ('f, ('f, 'l) em) tc"
where
  "tc_expr X C l (IdentP i) =
     (case cx_vars C i of
        Some t \<Rightarrow> tc_ok (em_new (Var i) t [])
      | None \<Rightarrow> tc_fail (ErrorFmt ''undeclared variable \"{}\" at {}'' [i, show_loc l]))"
| "tc_expr X C l (LitP v) = tc_ok (em_new (LitExpr v) (lit_typ (tn_lits X) v) [])"
| "tc_expr X C l (ListP es) =
     tc_bind (tc_list X C (return_typ (tn_types X)) es) (\<lambda>(ems, t).
     tc_ok (em_new (BlockExpr ListBlock (map em_expr ems)) (ListT t) (map em_calls ems)))"
| "tc_expr X C l (TupleP es) =
     tc_bind (tc_exprs X C es) (\<lambda>ems.
     tc_ok (em_new (BlockExpr TupleBlock (map em_expr ems)) (TupleT (map em_typ ems)) (map em_calls ems)))"
| "tc_expr X C l (PrefixP p (l1, e1)) =
     tc_bind (tc_expr X C l1 e1) (\<lambda>m.
     (case prefix_typ (tn_types X) p of (t1, t2) \<Rightarrow>
        tc_bind (tc_check (tn_types X) ''prefix'' [(Some l1, em_typ m)] [(None, t1)]) (\<lambda>_.
        tc_ok (em_new (PrefixExpr p (em_expr m)) t2 [em_calls m]))))"
| "tc_expr X C l (InfixP op (l1, e1) (l2, e2)) =
     tc_bind (tc_expr X C l1 e1) (\<lambda>m1.
     tc_bind (tc_expr X C l2 e2) (\<lambda>m2.
     tc_bind (infix_check (tn_types X) op (Some l1, em_typ m1) (Some l2, em_typ m2)) (\<lambda>t.
     tc_ok (em_new (InfixExpr op (em_expr m1) (em_expr m2)) t [em_calls m1, em_calls m2]))))"
| "tc_expr X C l (IfP (l1, c) (PBlock b a) None) =
     tc_bind (tc_expr X C l1 c) (\<lambda>m1.
     tc_bind (tc_stmts X C a b) (\<lambda>m2.
     tc_bind (tc_check (tn_types X) ''if-expression''
       [(Some l1, em_typ m1), (Some (block_loc l (PBlock b a)), em_typ m2)]
       [(None, bool_typ (tn_types X)), (None, unit_typ (tn_types X))]) (\<lambda>_.
     tc_ok (em_new (IfExpr (em_expr m1) (em_expr m2) None) (unit_typ (tn_types X))
       [em_calls m1, em_calls m2]))))"
| "tc_expr X C l (IfP (l1, c) (PBlock b a) (Some (PBlock b' a'))) =
     tc_bind (tc_expr X C l1 c) (\<lambda>m1.
     tc_bind (tc_stmts X C a b) (\<lambda>m2.
     tc_bind (tc_stmts X C a' b') (\<lambda>m3.
     tc_bind (tc_check (tn_types X) ''if-else-expression''
       [(Some l1, em_typ m1), (Some (block_loc l (PBlock b a)), em_typ m2)]
       [(None, bool_typ (tn_types X)), (Some (block_loc l (PBlock b' a')), em_typ m3)]) (\<lambda>_.
     tc_ok (em_new (IfExpr (em_expr m1) (em_expr m2) (Some (em_expr m3)))
       (unify (tn_types X) (em_typ m2) (em_typ m3)) [em_calls m1, em_calls m2, em_calls m3])))))"
| "tc_expr X C l (IfSomeMatchP v (l1, e) (PBlock b a) alt) =
     tc_bind (tc_expr X C l1 e) (\<lambda>m1.
     tc_bind (case dest_option (tn_types X) (em_typ m1) of
                Inr t \<Rightarrow> tc_ok t
              | Inl _ \<Rightarrow> tc_fail (ErrorFmt ''expecting option type in if-let at {}'' [show_loc l])) (\<lambda>t1.
     tc_bind (tc_stmts X (add_var (li_id v) t1 C) a b) (\<lambda>m2.
     (case alt of
        None \<Rightarrow>
          tc_bind (tc_check (tn_types X) ''if-let-expression''
            [(Some (block_loc l (PBlock b a)), em_typ m2)] [(None, unit_typ (tn_types X))]) (\<lambda>_.
          tc_ok (em_new (IfSomeMatchExpr (em_expr m1) (closure_expr (li_id v) (em_expr m2)) None)
            (unit_typ (tn_types X)) [em_calls m1, em_calls m2]))
      | Some (PBlock b' a') \<Rightarrow>
          tc_bind (tc_stmts X C a' b') (\<lambda>m3.
          tc_bind (tc_check (tn_types X) ''if-let-else-expression''
            [(Some (block_loc l (PBlock b a)), em_typ m2)]
            [(Some (block_loc l (PBlock b' a')), em_typ m3)]) (\<lambda>_.
          tc_ok (em_new
            (IfSomeMatchExpr (em_expr m1) (closure_expr (li_id v) (em_expr m2)) (Some (em_expr m3)))
            (unify (tn_types X) (em_typ m2) (em_typ m3)) [em_calls m1, em_calls m2, em_calls m3])))))))"
| "tc_expr X C l (IfMatchP ms (PBlock b a) alt) =
     tc_bind (tc_matches X C ms) (\<lambda>ems.
     tc_bind (tc_check (tn_types X) ''if-match-expression''
       (zip (map (\<lambda>(e, _). Some (fst e)) ms) (map em_typ ems))
       (map (\<lambda>(_, p). (None, pattern_typ (tn_types X) p)) ms)) (\<lambda>_.
     tc_bind (tc_res (pattern_vars (tn_regex X) ms [])) (\<lambda>vars.
     tc_bind (tc_stmts X (add_vars (map (\<lambda>(v, c). (v, as_typ (tn_types X) c)) vars) C) a b) (\<lambda>m1.
     (let vs = tn_order X (map fst vars);
          match = IfMatchExpr vs (zip (map em_expr ems) (map snd ms)) (closures vs (em_expr m1))
      in case alt of
           None \<Rightarrow>
             tc_bind (tc_check (tn_types X) ''if-match-expression''
               [(Some (block_loc l (PBlock b a)), em_typ m1)] [(None, unit_typ (tn_types X))]) (\<lambda>_.
             tc_ok (em_new (match None) (unit_typ (tn_types X)) (map em_calls ems @ [em_calls m1])))
         | Some (PBlock b' a') \<Rightarrow>
             tc_bind (tc_stmts X C a' b') (\<lambda>m2.
             tc_bind (tc_check (tn_types X) ''if-match-else-expression''
               [(Some (block_loc l (PBlock b a)), em_typ m1)]
               [(Some (block_loc l (PBlock b' a')), em_typ m2)]) (\<lambda>_.
             tc_ok (em_new (match (Some (em_expr m2))) (unify (tn_types X) (em_typ m1) (em_typ m2))
               (map em_calls ems @ [em_calls m1, em_calls m2])))))))))"
| "tc_expr X C l (IterP op ids (l1, e) (PBlock b a) acc) =
     tc_bind (tc_expr X C l1 e) (\<lambda>m1.
     tc_bind (tc_res (iter_vars (tn_types X) op l (map li_id ids) (em_typ m1))) (\<lambda>vts.
     tc_bind (case acc of
                Some (n, l0, e0) \<Rightarrow>
                  (if op = Fold then
                     tc_bind (tc_expr X C l0 e0) (\<lambda>m0. tc_ok (add_var (li_id n) (em_typ m0) (add_vars vts C)))
                   else tc_ok (add_vars vts C))
              | None \<Rightarrow> tc_ok (add_vars vts C)) (\<lambda>C'.
     tc_bind (tc_stmts X C' a b) (\<lambda>m2.
     tc_bind (iter_body_check (tn_types X) op (block_loc l (PBlock b a)) (em_typ m2)) (\<lambda>_.
     (case acc of
        None \<Rightarrow>
          tc_bind (iter_typ (tn_types X) op l (em_typ m1) (em_typ m2)) (\<lambda>t.
          tc_ok (em_new (iter_expr (em_expr m2) op (map fst vts) (em_expr m1) None) t
            [em_calls m1, em_calls m2]))
      | Some (n, l0, e0) \<Rightarrow>
          (if op = Fold then
             tc_bind (tc_expr X C l0 e0) (\<lambda>m0.
             tc_bind (tc_check (tn_types X) ''fold-expression''
               [(Some (block_loc l (PBlock b a)), em_typ m2)] [(None, em_typ m0)]) (\<lambda>_.
             tc_ok (em_new
               (iter_expr (em_expr m2) op (map fst vts) (em_expr m1) (Some (li_id n, em_expr m0)))
               (em_typ m0) [em_calls m1, em_calls m2, em_calls m0])))
           else tc_fail (ErrorFmt ''{} can have an accumulator at {} '' [show_iter op, show_loc l]))))))))"
| "tc_expr X C l (CallP cl f args) =
     tc_bind (tc_exprs X C args) (\<lambda>ems.
     (if f = ''option::Some'' \<and> length args = 1 then
        tc_ok (em_new (expr_call f (map em_expr ems)) (TupleT (map em_typ ems)) (map em_calls ems))
      else check_call X C l cl f (map fst args) ems))"
| "tc_list X C t [] = tc_ok ([], t)"
| "tc_list X C t ((l, e) # es) =
     tc_bind (tc_expr X C l e) (\<lambda>m.
     tc_bind (tc_check (tn_types X) ''list'' [(Some l, em_typ m)] [(None, t)]) (\<lambda>_.
     tc_bind (tc_list X C (unify (tn_types X) t (em_typ m)) es) (\<lambda>(ems, t').
     tc_ok (m # ems, t'))))"
| "tc_exprs X C [] = tc_ok []"
| "tc_exprs X C ((l, e) # es) =
     tc_bind (tc_expr X C l e) (\<lambda>m. tc_bind (tc_exprs X C es) (\<lambda>ems. tc_ok (m # ems)))"
| "tc_matches X C [] = tc_ok []"
| "tc_matches X C (((l, e), p) # ms) =
     tc_bind (tc_expr X C l e) (\<lambda>m. tc_bind (tc_matches X C ms) (\<lambda>ems. tc_ok (m # ems)))"
| "tc_stmts X C a [] = tc_ok (em_new (BlockExpr Block []) (unit_typ (tn_types X)) [])"
| "tc_stmts X C a ((l, ReturnS (l1, e)) # rest) =
     (if rest = [] then
        tc_bind (tc_expr X (update_async_tag a C) l1 e) (\<lambda>m. \<lambda>ret.
          tc_bind (\<lambda>ret. case ret of
                     Some r \<Rightarrow> tc_check (tn_types X) ''return'' [(Some l1, em_typ m)] [(None, r)] ret
                   | None \<Rightarrow> Done ((), Some (em_typ m))) (\<lambda>_.
          tc_ok (em_new (BlockExpr Block [ReturnExpr (em_expr m)]) (return_typ (tn_types X)) [em_calls m])) ret)
      else tc_fail (ErrorFmt ''unreachable code after return at {}'' [show_loc l]))"
| "tc_stmts X C a ((l, ExprS e async semi) # rest) =
     tc_bind (tc_expr X (update_async_tag async (update_async_tag a C)) l e) (\<lambda>m1.
     (if rest = [] then
        tc_ok (em_new (em_expr m1) (if semi then unit_typ (tn_types X) else em_typ m1) [em_calls m1])
      else if \<not> semi then
        tc_fail (ErrorFmt ''missing semi-colon after expression at {}'' [show_loc l])
      else
        tc_bind (tc_stmts X (update_async_tag a C) a rest) (\<lambda>m2.
        tc_ok (em_new (block_cons (em_expr m1) (em_expr m2)) (em_typ m2) [em_calls m1, em_calls m2]))))"
| "tc_stmts X C a ((l, LetS ids (l1, e)) # rest) =
     tc_bind (tc_expr X (update_async_tag a C) l1 e) (\<lambda>m1.
     tc_bind
       (if length ids = 1 then tc_ok [(li_id (ids ! 0), em_typ m1)]
        else case em_typ m1 of
          TupleT tys \<Rightarrow>
            (if length ids = length tys then tc_ok (zip (map li_id ids) tys)
             else tc_fail (ErrorFmt ''{} variables in let expression of type {} at {} ''
               [show_nat (length ids), show_typ (tn_types X) (em_typ m1), show_loc l]))
        | _ \<Rightarrow> tc_fail (ErrorFmt ''{} variables in let expression of type {} at {} ''
            [show_nat (length ids), show_typ (tn_types X) (em_typ m1), show_loc l])) (\<lambda>vts.
     tc_bind (tc_stmts X (add_vars vts (update_async_tag a C)) a rest) (\<lambda>m2.
     tc_ok (em_new (let_expr (em_expr m2) (map fst vts) (em_expr m1)) (em_typ m2)
       [em_calls m1, em_calls m2]))))"

definition tc_run :: "('f, 'a) tc \<Rightarrow> ('a \<times> 'f ty option) tc_out" where
  "tc_run m = m None"

definition check_from_loc_expr :: "('f, 'l) tenv \<Rightarrow> 'f ctx \<Rightarrow> loc \<Rightarrow> 'l pexpr \<Rightarrow> ('f, ('f, 'l) em) tc" where
  "check_from_loc_expr X C l e =
     tc_bind (tc_expr X C l e) (\<lambda>m. \<lambda>ret.
       tc_bind (case ret of
                  Some r \<Rightarrow> tc_check (tn_types X) ''REPL'' [(None, em_typ m)] [(None, r)]
                | None \<Rightarrow> tc_ok ()) (\<lambda>_. tc_ok m) ret)"

definition check_from_block_stmt ::
    "('f, 'l) tenv \<Rightarrow> 'f ctx \<Rightarrow> string option \<Rightarrow> 'l pblock \<Rightarrow> ('f, ('f, 'l) em) tc" where
  "check_from_block_stmt X C name b =
     (case b of PBlock ss a \<Rightarrow>
        tc_bind (tc_stmts X C a ss) (\<lambda>m. \<lambda>ret.
          tc_bind (case ret of
                     Some r \<Rightarrow> tc_check (tn_types X) (case name of Some n \<Rightarrow> n | None \<Rightarrow> ''REPL'')
                       [(None, em_typ m)] [(None, r)]
                   | None \<Rightarrow> tc_ok ()) (\<lambda>_.
          tc_bind (case name of
                     Some n \<Rightarrow>
                       tc_bind (tc_res (return_typ_of (tn_builtin X) (tn_headers X) n)) (\<lambda>t.
                         tc_check (tn_types X) n [(None, em_typ m)] [(None, t)])
                   | None \<Rightarrow> tc_ok ()) (\<lambda>_. tc_ok m)) ret))"

text \<open>The parameters are added from the last to the first: of two with one name the first counts.\<close>

definition from_decl :: "('f, 'l) tenv \<Rightarrow> 'l fn_decl \<Rightarrow> (string \<times> 'l expr \<times> calls) tc_out" where
  "from_decl X d =
     (case tc_run
        (tc_bind (tc_typ (tn_types X)
            (map_res (\<lambda>p. case from_parse (tn_types X) (param_typ p) of
                Inr t \<Rightarrow> Inr (li_id (param_name p), t) | Inl e \<Rightarrow> Inl e) (rev (fn_params (fd_head d))))) (\<lambda>vts.
         check_from_block_stmt X (add_vars vts ctx_new) (Some (fd_name d)) (fd_body d))) of
        Done (m, _) \<Rightarrow>
          Done (fd_name d,
            closures (map (\<lambda>p. li_id (param_name p)) (fn_params (fd_head d))) (em_expr m), em_calls m)
      | Fail e \<Rightarrow> Fail e
      | Crash \<Rightarrow> Crash)"

end
