(* ===== verification/TypecheckProps.thy ===== *)
theory TypecheckProps
  imports Typecheck BuiltinTypes
begin

text \<open>
  What the type checker guarantees of the expressions it builds: no dangling index, no free name
  outside the context, and no call that it does not report. And what it does not: programs that
  make it panic, and a program it accepts whose result is not of the declared type.
\<close>

section \<open>Computations of the checker\<close>

definition tc_all :: "('a \<Rightarrow> bool) \<Rightarrow> ('f, 'a) tc \<Rightarrow> bool" where
  "tc_all P m \<longleftrightarrow> (\<forall>ret x ret'. m ret = Done (x, ret') \<longrightarrow> P x)"

named_theorems tc_intros "rules for results of the type checker"

lemma tc_all_ok [tc_intros]: "P x \<Longrightarrow> tc_all P (tc_ok x)"
  by (simp add: tc_all_def tc_ok_def)

lemma tc_all_fail [tc_intros]: "tc_all P (tc_fail e)" "tc_all P tc_crash"
  by (simp_all add: tc_all_def tc_fail_def tc_crash_def)

lemma tc_all_bind: "tc_all Q m \<Longrightarrow> (\<And>x. Q x \<Longrightarrow> tc_all P (f x)) \<Longrightarrow> tc_all P (tc_bind m f)"
  unfolding tc_all_def tc_bind_def by (fastforce split: tc_out.splits prod.splits)

lemma tc_all_True: "tc_all (\<lambda>_. True) m"
  by (simp add: tc_all_def)

text \<open>A step whose result does not matter.\<close>

lemma tc_all_then [tc_intros]: "(\<And>x. tc_all P (f x)) \<Longrightarrow> tc_all P (tc_bind m f)"
  by (rule tc_all_bind [OF tc_all_True])

lemma tc_bind_ok: "tc_bind (tc_ok x) f = f x"
  by (simp add: tc_bind_def tc_ok_def)

lemma tc_bind_assoc: "tc_bind (tc_bind m f) g = tc_bind m (\<lambda>x. tc_bind (f x) g)"
  by (auto simp: tc_bind_def fun_eq_iff split: tc_out.split prod.split)

lemma tc_all_ret: "(\<And>ret. tc_all P (\<lambda>_. m ret)) \<Longrightarrow> tc_all P m"
  by (fastforce simp: tc_all_def)

lemma tc_all_res: "(\<And>x. r = Inr x \<Longrightarrow> P x) \<Longrightarrow> tc_all P (tc_res r)"
  by (cases r) (auto simp: tc_res_def intro: tc_intros)

lemma tc_all_weaken: "tc_all P m \<Longrightarrow> (\<And>x. P x \<Longrightarrow> Q x) \<Longrightarrow> tc_all Q m"
  by (auto simp: tc_all_def)

section \<open>Scopes\<close>

definition scoped :: "(string \<Rightarrow> bool) \<Rightarrow> string set \<Rightarrow> 'l expr \<Rightarrow> bool" where
  "scoped A V e \<longleftrightarrow> lc_at 0 e \<and> fv e \<subseteq> insert ''_'' V \<and> calls_ok A e"

lemma calls_ok_abs: "calls_ok A e \<Longrightarrow> calls_ok A (abs_expr i v e)"
  by (induction e arbitrary: i rule: expr_induct) (auto simp: expr_nested)

lemma scoped_closure: "scoped A (insert v V) e \<Longrightarrow> scoped A V (closure_expr v e)"
  using lc_closure_expr [of e v] calls_ok_abs [of A e 0 v]
  by (auto simp: scoped_def fv_abs closure_expr_def split: if_splits)

lemma scoped_closures: "scoped A (set vs \<union> V) e \<Longrightarrow> scoped A V (closures vs e)"
proof (induction vs arbitrary: V)
  case (Cons v vs)
  have "scoped A (insert v V) (closures vs e)"
    using Cons by simp
  then show ?case
    by (simp add: closures_def scoped_closure)
qed (simp add: closures_def)

lemma scoped_mono: "scoped A V e \<Longrightarrow> (\<And>f. A f \<Longrightarrow> B f) \<Longrightarrow> scoped B V e"
  using calls_ok_mono unfolding scoped_def by blast

lemma scoped_let: "scoped A V e \<Longrightarrow> scoped A (set vs \<union> V) b \<Longrightarrow> scoped A V (let_expr b vs e)"
  using scoped_closures [of A vs V b] by (auto simp: let_expr_def scoped_def)

lemma scoped_iter:
  assumes "scoped A V e" and "scoped A (set vs \<union> V) b"
  shows "scoped A V (iter_expr b op vs e None)"
  using assms scoped_closures [of A vs V b] by (auto simp: iter_expr_def scoped_def)

lemma scoped_fold:
  assumes "scoped A V e" and "scoped A (set vs \<union> insert n V) b" and "scoped A V a"
  shows "scoped A V (iter_expr b op vs e (Some (n, a)))"
  using assms scoped_closure [OF scoped_closures, of A vs n V b]
  by (auto simp: iter_expr_def scoped_def Let_def)

lemma scoped_block_cons: "scoped A V e1 \<Longrightarrow> scoped A V e2 \<Longrightarrow> scoped A V (block_cons e1 e2)"
  by (cases e2) (auto simp: scoped_def block_cons_def split: block.split)

section \<open>Results\<close>

text \<open>
  A call is one of the sites reported, a projection of a tuple, or \<open>option::Some\<close>; the sites
  reported are of declared functions.
\<close>

definition site_ok :: "calls \<Rightarrow> string \<Rightarrow> bool" where
  "site_ok cs f \<longleftrightarrow> f \<in> snd ` cs \<or> parse_usize f \<noteq> None \<or> f = ''option::Some''"

definition sites_declared :: "('f, 'l) tenv \<Rightarrow> calls \<Rightarrow> bool" where
  "sites_declared X c \<longleftrightarrow>
     finite c \<and> (\<forall>(l, f) \<in> c. header_typ (tn_builtin X) (tn_headers X) f \<noteq> None)"

definition em_ok :: "('f, 'l) tenv \<Rightarrow> string set \<Rightarrow> ('f, 'l) em \<Rightarrow> bool" where
  "em_ok X V m \<longleftrightarrow> scoped (site_ok (em_calls m)) V (em_expr m) \<and> sites_declared X (em_calls m)"

lemma em_sel [simp]:
  "em_expr (em_new e t cs) = e" "em_calls (em_new e t cs) = \<Union> (set cs)" "em_typ (em_new e t cs) = t"
  by (simp_all add: em_new_def)

lemma calls_ok_sites: "calls_ok (site_ok c) e \<Longrightarrow> c \<subseteq> S \<Longrightarrow> calls_ok (site_ok S) e"
  by (erule calls_ok_mono) (auto simp: site_ok_def)

lemma scoped_sites: "scoped (site_ok c) V e \<Longrightarrow> c \<subseteq> S \<Longrightarrow> scoped (site_ok S) V e"
  by (auto simp: scoped_def intro: calls_ok_sites)

text \<open>A result is as good as its expression, if its sites are those of checked parts.\<close>

lemma em_okD:
  assumes "em_ok X V m"
  shows "sites_declared X (em_calls m)" "em_calls m \<subseteq> S \<Longrightarrow> scoped (site_ok S) V (em_expr m)"
  using assms by (auto simp: em_ok_def intro: scoped_sites)

lemma em_okI:
  assumes "scoped (site_ok (\<Union> (set cs))) V e" and "\<And>c. c \<in> set cs \<Longrightarrow> sites_declared X c"
  shows "em_ok X V (em_new e t cs)"
  using assms by (fastforce simp: em_ok_def sites_declared_def)

lemma dom_add_var [simp]: "dom (cx_vars (add_var v t C)) = insert v (dom (cx_vars C))"
  by (simp add: add_var_def)

lemma dom_add_vars [simp]: "dom (cx_vars (add_vars vts C)) = fst ` set vts \<union> dom (cx_vars C)"
proof (induction vts arbitrary: C)
  case (Cons vt vts)
  have "add_vars (vt # vts) C = add_vars vts (add_var (fst vt) (snd vt) C)"
    by (simp add: add_vars_def split: prod.split)
  then show ?case
    unfolding Cons.IH [of "add_var (fst vt) (snd vt) C"] by (simp only: Cons.IH dom_add_var) simp
qed (simp add: add_vars_def)

lemma dom_async [simp]: "cx_vars (update_async_tag a C) = cx_vars C"
  by (simp add: update_async_tag_def)

section \<open>The invariant\<close>

lemma scoped_simps [simp]:
  "scoped A V (Var x) \<longleftrightarrow> x \<in> insert ''_'' V"
  "scoped A V (LitExpr l)"
  "scoped A V (ReturnExpr e) \<longleftrightarrow> scoped A V e"
  "scoped A V (PrefixExpr p e) \<longleftrightarrow> scoped A V e"
  "scoped A V (InfixExpr op e1 e2) \<longleftrightarrow> scoped A V e1 \<and> scoped A V e2"
  "scoped A V (IfExpr c t alt) \<longleftrightarrow> scoped A V c \<and> scoped A V t \<and> pred_option (scoped A V) alt"
  "scoped A V (IfSomeMatchExpr c t alt) \<longleftrightarrow> scoped A V c \<and> scoped A V t \<and> pred_option (scoped A V) alt"
  "scoped A V (BlockExpr b es) \<longleftrightarrow> list_all (scoped A V) es"
  "scoped A V (CallExpr f es as) \<longleftrightarrow> A f \<and> list_all (scoped A V) es"
  "scoped A V (IfMatchExpr vs ms t alt) \<longleftrightarrow>
     list_all (\<lambda>(e, _). scoped A V e) ms \<and> scoped A V t \<and> pred_option (scoped A V) alt"
  by (auto simp: scoped_def list_all_iff pred_option_def split: option.splits)

lemma list_em_scoped:
  assumes "list_all (em_ok X V) ems" and "\<Union> (set (map em_calls ems)) \<subseteq> S"
  shows "list_all (scoped (site_ok S) V) (map em_expr ems)"
  unfolding list_all_iff
proof
  fix e
  assume "e \<in> set (map em_expr ems)"
  then obtain m where "m \<in> set ems" "e = em_expr m"
    by auto
  moreover from this have "em_ok X V m" "em_calls m \<subseteq> S"
    using assms by (auto simp: list_all_iff)
  ultimately show "scoped (site_ok S) V e"
    using em_okD(2) by blast
qed

lemma list_em_declared:
  "list_all (em_ok X V) ems \<Longrightarrow> c \<in> set (map em_calls ems) \<Longrightarrow> sites_declared X c"
  using em_okD(1) by (auto simp: list_all_iff)

lemma em_ok_list:
  assumes "list_all (em_ok X V) ems"
    and "list_all (scoped (site_ok (\<Union> (set (map em_calls ems)))) V) (map em_expr ems) \<Longrightarrow>
      scoped (site_ok (\<Union> (set (map em_calls ems)))) V e"
  shows "em_ok X V (em_new e t (map em_calls ems))"
  using assms list_em_scoped [OF assms(1) subset_refl] list_em_declared [OF assms(1)] by (intro em_okI) auto

lemma list_em_zip:
  "list_all (scoped A V) es \<Longrightarrow> list_all (\<lambda>(e, _). scoped A V e) (zip es ps)"
  by (auto simp: list_all_iff dest: set_zip_leftD)

lemma sites_declared_simps [simp]:
  "sites_declared X {(l, f)} \<longleftrightarrow> header_typ (tn_builtin X) (tn_headers X) f \<noteq> None"
  by (simp add: sites_declared_def)

lemma tc_all_check_call:
  assumes "list_all (em_ok X V) ems"
  shows "tc_all (em_ok X V) (check_call X C l cl f locs ems)"
proof -
  have declared: "em_ok X V (em_new (CallExpr g (map em_expr ems) as) t (map em_calls ems @ [{(cl, g)}]))"
    if "header_typ (tn_builtin X) (tn_headers X) g = Some s" for g as t s
  proof (rule em_okI)
    show "scoped (site_ok (\<Union> (set (map em_calls ems @ [{(cl, g)}])))) V (CallExpr g (map em_expr ems) as)"
      using list_em_scoped [OF assms, of "insert (cl, g) (\<Union> (set (map em_calls ems)))"]
      by (auto simp: site_ok_def)
  qed (use list_em_declared [OF assms] that in auto)
  have index: "em_ok X V (em_new (expr_call g (map em_expr ems)) t (map em_calls ems))"
    if "parse_usize g = Some i" for g t i
  proof (rule em_okI)
    show "scoped (site_ok (\<Union> (set (map em_calls ems)))) V (expr_call g (map em_expr ems))"
      using list_em_scoped [OF assms] that by (simp add: site_ok_def expr_call_def)
  qed (rule list_em_declared [OF assms])
  define es cs ts where "es = map em_expr ems" and "cs = map em_calls ems" and "ts = map em_typ ems"
  note folds = es_def [symmetric] cs_def [symmetric] ts_def [symmetric]
  show ?thesis
    using declared index unfolding check_call_def Let_def folds
    by (auto intro!: tc_intros split: option.split ty.split list.split)
qed


definition order_ok :: "('f, 'l) tenv \<Rightarrow> bool" where
  "order_ok X \<longleftrightarrow> (\<forall>vs. set (tn_order X vs) = set vs)"


text \<open>The constructs that bind, from their parts.\<close>

lemma tc_all_if_some:
  assumes e: "tc_all (em_ok X V) (tc_expr X C l1 e)"
    and body: "\<And>t. tc_all (em_ok X (insert (li_id v) V)) (tc_stmts X (add_var (li_id v) t C) a b)"
    and alt: "\<And>a' b'. alt = Some (PBlock b' a') \<Longrightarrow> tc_all (em_ok X V) (tc_stmts X C a' b')"
  shows "tc_all (em_ok X V) (tc_expr X C l (IfSomeMatchP v (l1, e) (PBlock b a) alt))"
  unfolding tc_expr.simps
proof (rule tc_all_bind [OF e], rule tc_all_then, rule tc_all_bind [OF body], goal_cases)
  case (1 m1 t m2)
  note closure = scoped_closure [OF em_okD(2) [OF 1(2)]]
  show ?case
  proof (cases alt)
    case None
    show ?thesis
      unfolding None option.case
      by (rule tc_all_then, rule tc_all_ok) (use 1 in \<open>auto intro!: em_okI closure intro: em_okD\<close>)
  next
    case (Some x)
    obtain b' a' where x: "x = PBlock b' a'"
      by (cases x)
    show ?thesis
      unfolding Some x option.case pblock.case
      by (rule tc_all_bind [OF alt], simp add: Some x, rule tc_all_then, rule tc_all_ok)
        (use 1 in \<open>auto intro!: em_okI closure intro: em_okD\<close>)
  qed
qed

lemma tc_all_if_match:
  assumes order: "order_ok X"
    and ms: "tc_all (list_all (em_ok X V)) (tc_matches X C ms)"
    and body: "\<And>vars vts. vts = map (\<lambda>(v, c). (v, as_typ (tn_types X) c)) vars \<Longrightarrow>
      tc_all (em_ok X (fst ` set vts \<union> V)) (tc_stmts X (add_vars vts C) a b)"
    and alt: "\<And>a' b'. alt = Some (PBlock b' a') \<Longrightarrow> tc_all (em_ok X V) (tc_stmts X C a' b')"
  shows "tc_all (em_ok X V) (tc_expr X C l (IfMatchP ms (PBlock b a) alt))"
  unfolding tc_expr.simps Let_def
proof (rule tc_all_bind [OF ms], rule tc_all_then, rule tc_all_then, rule tc_all_bind [OF body [OF refl]], goal_cases)
  case (1 ems x vars m1)
  let ?vs = "tn_order X (map fst vars)"
  have vs: "fst ` set (map (\<lambda>(v, c). (v, as_typ (tn_types X) c)) vars) = set ?vs"
    using order by (force simp: order_ok_def image_iff)
  note closure = scoped_closures [OF em_okD(2) [OF 1(2) [unfolded vs]]]
  note ems = list_em_zip [OF list_em_scoped [OF 1(1)]] list_em_declared [OF 1(1)]
  show ?case
  proof (cases alt)
    case None
    show ?thesis
      unfolding None option.case
      by (rule tc_all_then, rule tc_all_ok)
        (use em_okD(1) [OF 1(2)] ems(2) in \<open>auto intro!: em_okI closure ems(1)\<close>)
  next
    case (Some x)
    obtain b' a' where x: "x = PBlock b' a'"
      by (cases x)
    show ?thesis
      unfolding Some x option.case pblock.case
      by (rule tc_all_bind [OF alt], simp add: Some x, rule tc_all_then, rule tc_all_ok)
        (use em_okD(1) [OF 1(2)] ems(2) in \<open>auto intro!: em_okI closure ems(1) em_okD(2) intro: em_okD(1)\<close>)
  qed
qed

lemma tc_all_iter:
  assumes e: "tc_all (em_ok X V) (tc_expr X C l1 e)"
    and body: "\<And>vts. tc_all (em_ok X (fst ` set vts \<union> V)) (tc_stmts X (add_vars vts C) a b)"
  shows "tc_all (em_ok X V) (tc_expr X C l (IterP op ids (l1, e) (PBlock b a) None))"
  unfolding tc_expr.simps option.case tc_bind_ok
  by (rule tc_all_bind [OF e], rule tc_all_then, rule tc_all_bind [OF body], rule tc_all_then,
      rule tc_all_then, rule tc_all_ok)
    (auto intro!: em_okI scoped_iter em_okD(2) intro: em_okD(1))

lemma tc_all_fold:
  assumes e: "tc_all (em_ok X V) (tc_expr X C l1 e)"
    and init: "op = Fold \<Longrightarrow> tc_all (em_ok X V) (tc_expr X C l0 e0)"
    and body: "\<And>vts t. tc_all (em_ok X (insert (li_id n) (fst ` set vts \<union> V)))
      (tc_stmts X (add_var (li_id n) t (add_vars vts C)) a b)"
  shows "tc_all (em_ok X V) (tc_expr X C l (IterP op ids (l1, e) (PBlock b a) (Some (n, l0, e0))))"
proof (cases "op = Fold")
  case True
  show ?thesis
    unfolding tc_expr.simps option.case prod.case if_P [OF True] tc_bind_assoc tc_bind_ok
    by (rule tc_all_bind [OF e], rule tc_all_then, rule tc_all_then, rule tc_all_bind [OF body],
        rule tc_all_then, rule tc_all_bind [OF init [OF True]], rule tc_all_then, rule tc_all_ok)
      (auto intro!: em_okI scoped_fold em_okD(2) intro: em_okD(1))
next
  case False
  show ?thesis
    unfolding tc_expr.simps option.case prod.case if_not_P [OF False] by (intro tc_intros)
qed

lemma tc_all_return:
  assumes "rest = [] \<Longrightarrow> tc_all (em_ok X V) (tc_expr X (update_async_tag a C) l1 e)"
  shows "tc_all (em_ok X V) (tc_stmts X C a ((l, ReturnS (l1, e)) # rest))"
proof (cases "rest = []")
  case True
  show ?thesis
    unfolding tc_stmts.simps if_P [OF True]
    by (rule tc_all_bind [OF assms [OF True]], rule tc_all_then, rule tc_all_ok)
      (auto intro!: em_okI intro: em_okD)
qed (simp add: tc_intros)

lemma tc_all_expr_stmt:
  assumes e: "tc_all (em_ok X V) (tc_expr X (update_async_tag async (update_async_tag a C)) l e)"
    and rest: "rest \<noteq> [] \<Longrightarrow> semi \<Longrightarrow> tc_all (em_ok X V) (tc_stmts X (update_async_tag a C) a rest)"
  shows "tc_all (em_ok X V) (tc_stmts X C a ((l, ExprS e async semi) # rest))"
proof (cases "rest = [] \<or> \<not> semi")
  case True
  then show ?thesis
    unfolding tc_stmts.simps
    by (intro tc_all_bind [OF e]) (auto intro!: tc_intros em_okI intro: em_okD)
next
  case False
  then have *: "(rest = []) = False" "(\<not> semi) = False"
    by auto
  show ?thesis
    unfolding tc_stmts.simps * if_False
    by (rule tc_all_bind [OF e], rule tc_all_bind [OF rest])
      (use False in \<open>auto intro!: tc_all_ok em_okI scoped_block_cons intro: em_okD\<close>)
qed

lemma tc_all_let:
  assumes e: "tc_all (em_ok X V) (tc_expr X (update_async_tag a C) l1 e)"
    and rest: "\<And>vts. tc_all (em_ok X (fst ` set vts \<union> V)) (tc_stmts X (add_vars vts (update_async_tag a C)) a rest)"
  shows "tc_all (em_ok X V) (tc_stmts X C a ((l, LetS ids (l1, e)) # rest))"
  unfolding tc_stmts.simps
  by (rule tc_all_bind [OF e], rule tc_all_then, rule tc_all_bind [OF rest], rule tc_all_ok)
    (auto intro!: em_okI scoped_let em_okD(2) intro: em_okD(1))

text \<open>By induction on the parse tree.\<close>

lemma tc_scoped:
  fixes X :: "('f, 'l) tenv"
  shows "order_ok X \<Longrightarrow> tc_all (em_ok X (dom (cx_vars C))) (tc_expr X C l e)"
    and "order_ok X \<Longrightarrow> tc_all (\<lambda>(ems, _). list_all (em_ok X (dom (cx_vars C))) ems) (tc_list X C t es)"
    and "order_ok X \<Longrightarrow> tc_all (list_all (em_ok X (dom (cx_vars C)))) (tc_exprs X C es)"
    and "order_ok X \<Longrightarrow> tc_all (list_all (em_ok X (dom (cx_vars C)))) (tc_matches X C ms)"
    and "order_ok X \<Longrightarrow> tc_all (em_ok X (dom (cx_vars C))) (tc_stmts X C a ss)"
proof (induction X C l e and X C t es and X C es and X C ms and X C a ss
    rule: tc_expr_tc_list_tc_exprs_tc_matches_tc_stmts.induct)
  case (1 X C l i)
  then show ?case
    by (auto intro!: tc_intros em_okI split: option.split)
next
  case (2 X C l v)
  then show ?case
    by (auto intro!: tc_intros em_okI)
next
  case (3 X C l es)
  show ?case
    unfolding tc_expr.simps
    by (rule tc_all_bind [OF 3(1) [OF 3(2)]])
      (auto intro!: tc_intros em_ok_list)
next
  case (4 X C l es)
  show ?case
    unfolding tc_expr.simps
    by (rule tc_all_bind [OF 4(1) [OF 4(2)]])
      (auto intro!: tc_intros em_ok_list)
next
  case (5 X C l p l1 e1)
  show ?case
    unfolding tc_expr.simps
    by (rule tc_all_bind [OF 5(1) [OF 5(2)]])
      (auto intro!: tc_intros em_okI intro: em_okD split: prod.split)
next
  case (6 X C l op l1 e1 l2 e2)
  show ?case
    unfolding tc_expr.simps
    by (rule tc_all_bind [OF 6(1) [OF 6(3)]], rule tc_all_bind [OF 6(2) [OF 6(3)]], rule tc_all_then, rule tc_all_ok)
      (auto intro!: em_okI intro: em_okD)
next
  case (7 X C l l1 c b a)
  show ?case
    unfolding tc_expr.simps
    by (rule tc_all_bind [OF 7(1) [OF 7(3)]], rule tc_all_bind [OF 7(2) [OF 7(3)]], rule tc_all_then, rule tc_all_ok)
      (auto intro!: em_okI intro: em_okD)
next
  case (8 X C l l1 c b a b' a')
  show ?case
    unfolding tc_expr.simps
    by (rule tc_all_bind [OF 8(1) [OF 8(4)]], rule tc_all_bind [OF 8(2) [OF 8(4)]],
        rule tc_all_bind [OF 8(3) [OF 8(4)]], rule tc_all_then, rule tc_all_ok)
      (auto intro!: em_okI intro: em_okD)
next
  case (9 X C l v l1 e b a alt)
  show ?case
  proof (rule tc_all_if_some)
    show "tc_all (em_ok X (insert (li_id v) (dom (cx_vars C)))) (tc_stmts X (add_var (li_id v) t C) a b)" for t
      using 9(2) [OF 9(4)] by simp
    show "tc_all (em_ok X (dom (cx_vars C))) (tc_stmts X C a' b')" if "alt = Some (PBlock b' a')" for a' b'
      using 9(3) [OF that refl 9(4)] .
  qed (rule 9(1) [OF 9(4)])
next
  case (10 X C l ms b a alt)
  show ?case
  proof (rule tc_all_if_match [OF 10(4) 10(1) [OF 10(4)]])
    show "tc_all (em_ok X (fst ` set vts \<union> dom (cx_vars C))) (tc_stmts X (add_vars vts C) a b)"
      if "vts = map (\<lambda>(v, c). (v, as_typ (tn_types X) c)) vars" for vts vars
      using 10(2) [OF 10(4)] that by simp
    show "tc_all (em_ok X (dom (cx_vars C))) (tc_stmts X C a' b')" if "alt = Some (PBlock b' a')" for a' b'
      using 10(3) [OF refl refl that refl 10(4)] .
  qed
next
  case (11 X C l op ids l1 e b a acc)
  have body: "tc_all (em_ok X (dom (cx_vars C'))) (tc_stmts X C' a b)" for C'
    using 11(3) [OF 11(5)] .
  show ?case
  proof (cases acc)
    case None
    show ?thesis
      unfolding None using body [of "add_vars vts C" for vts] by (intro tc_all_iter [OF 11(1) [OF 11(5)]]) simp
  next
    case (Some x)
    obtain n l0 e0 where x: "x = (n, l0, e0)"
      by (cases x)
    show ?thesis
      unfolding Some x
    proof (rule tc_all_fold [OF 11(1) [OF 11(5)]])
      show "tc_all (em_ok X (dom (cx_vars C))) (tc_expr X C l0 e0)" if "op = Fold"
        using 11(2) [OF Some x [symmetric] refl that 11(5)] .
      show "tc_all (em_ok X (insert (li_id n) (fst ` set vts \<union> dom (cx_vars C))))
          (tc_stmts X (add_var (li_id n) t (add_vars vts C)) a b)" for vts t
        using body [of "add_var (li_id n) t (add_vars vts C)"] by simp
    qed
  qed
next
  case (12 X C l cl f args)
  show ?case
    unfolding tc_expr.simps
    by (rule tc_all_bind [OF 12(1) [OF 12(2)]])
      (auto intro!: tc_intros em_ok_list tc_all_check_call
        simp: expr_call_def site_ok_def [of _ "''option::Some''"])
next
  case (14 X C t l e es)
  show ?case
    unfolding tc_list.simps
    by (rule tc_all_bind [OF 14(1) [OF 14(3)]], rule tc_all_then, rule tc_all_bind [OF 14(2) [OF 14(3)]])
      (auto intro!: tc_intros)
next
  case (16 X C l e es)
  show ?case
    unfolding tc_exprs.simps
    by (rule tc_all_bind [OF 16(1) [OF 16(3)]], rule tc_all_bind [OF 16(2) [OF 16(3)]]) (auto intro!: tc_intros)
next
  case (18 X C l e p ms)
  show ?case
    unfolding tc_matches.simps
    by (rule tc_all_bind [OF 18(1) [OF 18(3)]], rule tc_all_bind [OF 18(2) [OF 18(3)]]) (auto intro!: tc_intros)
next
  case (20 X C a l l1 e rest)
  then show ?case
    by (intro tc_all_return) simp
next
  case (21 X C a l e async semi rest)
  then show ?case
    by (intro tc_all_expr_stmt) simp_all
next
  case (22 X C a l ids l1 e rest)
  have "tc_all (em_ok X (fst ` set vts \<union> dom (cx_vars C)))
      (tc_stmts X (add_vars vts (update_async_tag a C)) a rest)" for vts
    using 22(2) [OF 22(3)] by simp
  then show ?case
    using 22(1) [OF 22(3)] by (intro tc_all_let) simp_all
qed (auto intro!: tc_intros em_okI)

section \<open>Functions\<close>

definition dp_tenv :: "flat_typ header_table \<Rightarrow> (pat \<Rightarrow> error option) \<Rightarrow> (string list \<Rightarrow> string list) \<Rightarrow>
    (flat_typ, flat_literal) tenv" where
  "dp_tenv h re order = \<lparr>tn_builtin = dp_builtin, tn_lits = dp_lits, tn_headers = h, tn_regex = re, tn_order = order\<rparr>"

lemma dp_tenv_sel [simp]:
  "tn_builtin (dp_tenv h re order) = dp_builtin" "tn_lits (dp_tenv h re order) = dp_lits"
  "tn_headers (dp_tenv h re order) = h" "tn_order (dp_tenv h re order) = order" "b_types dp_builtin = dp_types"
  by (simp_all add: dp_tenv_def dp_builtin_def)

lemma map_res_fst:
  assumes "map_res (\<lambda>p. case g p of Inr t \<Rightarrow> Inr (f p, t) | Inl e \<Rightarrow> Inl e) ps = Inr vts"
  shows "fst ` set vts = f ` set ps"
proof -
  have "list_all2 (\<lambda>p vt. f p = fst vt) ps vts"
    using assms unfolding map_res_Inr_iff by (rule list_all2_mono) (auto split: sum.splits)
  then have "map fst vts = map f ps"
    by (induction rule: list_all2_induct) auto
  then show ?thesis
    by (metis list.set_map)
qed

lemma tc_all_check_block:
  assumes "order_ok X"
  shows "tc_all (em_ok X (dom (cx_vars C))) (check_from_block_stmt X C name b)"
proof (cases b)
  case (PBlock ss a)
  show ?thesis
    unfolding PBlock check_from_block_stmt_def pblock.case
    by (rule tc_all_bind [OF tc_scoped(5) [OF assms]], rule tc_all_ret, unfold tc_all_def)
      (auto simp: tc_bind_def tc_ok_def split: tc_out.splits prod.splits)
qed

lemma from_decl_closed:
  assumes "\<And>vs. set (tn_order X vs) = set vs" and "from_decl X d = Done (f, e, cs)"
  shows "f = fd_name d \<and> lc_at 0 e \<and> fv e \<subseteq> {''_''} \<and> calls_ok (site_ok cs) e \<and> finite cs \<and>
    (\<forall>(l, g) \<in> cs. header_typ (tn_builtin X) (tn_headers X) g \<noteq> None)"
proof -
  let ?ps = "fn_params (fd_head d)"
  let ?n = "\<lambda>p. li_id (param_name p)"
  have order: "order_ok X"
    using assms(1) by (simp add: order_ok_def)
  obtain m where e: "f = fd_name d" "e = closures (map ?n ?ps) (em_expr m)" "cs = em_calls m"
    and m: "em_ok X (set (map ?n ?ps)) m"
  proof -
    let ?m = "map_res (\<lambda>p. case from_parse (tn_types X) (param_typ p) of
        Inr t \<Rightarrow> Inr (?n p, t) | Inl e \<Rightarrow> Inl e) (rev ?ps)"
    obtain vts m ret where vts: "?m = Inr vts"
      and m: "check_from_block_stmt X (add_vars vts ctx_new) (Some (fd_name d)) (fd_body d) None = Done (m, ret)"
      and "f = fd_name d" "e = closures (map ?n ?ps) (em_expr m)" "cs = em_calls m"
      using assms(2)
      by (auto simp: from_decl_def tc_run_def tc_bind_def tc_typ_def tc_ok_def tc_fail_def
          split: tc_out.splits sum.splits)
    moreover have "em_ok X (set (map ?n ?ps)) m"
      using tc_all_check_block [OF order, of "add_vars vts ctx_new" "Some (fd_name d)" "fd_body d"] m
        map_res_fst [OF vts] by (auto simp: tc_all_def ctx_new_def)
    ultimately show ?thesis
      using that by blast
  qed
  show ?thesis
    using m scoped_closures [of "site_ok cs" "map ?n ?ps" "{}" "em_expr m"]
    by (auto simp: e em_ok_def scoped_def sites_declared_def)
qed

text \<open>C13: what the type checker makes of a function is closed (every variable is bound, apart from a use
  of \<open>_\<close> as a name), and the calls it reports are all the calls the function can make, apart from
  projections and \<open>option::Some\<close>; each is of a builtin, a service or a declared function.\<close>

theorem checked_function_closed:
  assumes "\<And>vs. set (tn_order X vs) = set vs" and "from_decl X d = Done (f, e, cs)"
  shows "f = fd_name d \<and> lc_at 0 e \<and> fv e \<subseteq> {''_''} \<and> calls_ok (site_ok cs) e \<and> finite cs \<and>
    (\<forall>(l, g) \<in> cs. header_typ (tn_builtin X) (tn_headers X) g \<noteq> None)"
  using assms by (rule from_decl_closed)

definition here :: loc where
  "here = (1, 1)"

definition at :: "string \<Rightarrow> loc_ident" where
  "at s = \<lparr>li_loc = here, li_id = s\<rparr>"

text \<open>\<open>fn inc(x: i64) -> i64 { x + 1 }\<close>.\<close>

definition inc_decl :: "flat_literal fn_decl" where
  "inc_decl = \<lparr>fd_head = \<lparr>fn_id = at ''inc'',
       fn_params = [\<lparr>param_name = at ''x'', param_typ = PAtom (at ''i64'')\<rparr>], fn_typ = Some (PAtom (at ''i64''))\<rparr>,
     fd_body = PBlock [(here, ExprS (InfixP Plus (here, IdentP ''x'') (here, LitP (FlatLit (IntL 1)))) False False)] False\<rparr>"

theorem checked_function_closed_witness:
  "from_decl (dp_tenv [(''inc'', new_sig [FlatTyp I64T] (FlatTyp I64T))] (\<lambda>_. None) (\<lambda>vs. vs)) inc_decl =
     Done (''inc'', closures [''x''] (InfixExpr Plus (Var ''x'') (LitExpr (FlatLit (IntL 1)))), {}) \<and>
   fv (closures [''x''] (InfixExpr Plus (Var ''x'') (LitExpr (FlatLit (IntL 1))))) \<subseteq> {''_''}"
proof
  let ?X = "dp_tenv [(''inc'', new_sig [FlatTyp I64T] (FlatTyp I64T))] (\<lambda>_. None) (\<lambda>vs. vs)"
  show d: "from_decl ?X inc_decl =
      Done (''inc'', closures [''x''] (InfixExpr Plus (Var ''x'') (LitExpr (FlatLit (IntL 1)))), {})"
    by code_simp
  show "fv (closures [''x''] (InfixExpr Plus (Var ''x'') (LitExpr (FlatLit (IntL 1))))) \<subseteq> {''_''}"
    using checked_function_closed [OF _ d] by simp
qed

section \<open>Gaps\<close>

text \<open>\<open>fn name(..) -> typ { e }\<close>.\<close>

definition decl_of :: "string \<Rightarrow> (string \<times> ptyp) list \<Rightarrow> ptyp \<Rightarrow> flat_literal pexpr \<Rightarrow> flat_literal fn_decl" where
  "decl_of name ps t e = \<lparr>fd_head = \<lparr>fn_id = at name,
       fn_params = map (\<lambda>(p, t). \<lparr>param_name = at p, param_typ = t\<rparr>) ps, fn_typ = Some t\<rparr>,
     fd_body = PBlock [(here, ExprS e False False)] False\<rparr>"

definition list_of :: "string \<Rightarrow> ptyp" where
  "list_of t = PCons (at ''List'') (PAtom (at t))"

definition int_p :: "i64 \<Rightarrow> loc \<times> flat_literal pexpr" where
  "int_p i = (here, LitP (FlatLit (IntL i)))"


text \<open>The type checker panics on a \<open>filter_map\<close> whose body is a \<open>return\<close>, and on \<open>list::reduce\<close> of an
  expression that always returns: both take apart a type that is only known to be \<open>!\<close>.\<close>

theorem checker_panics:
  "from_decl (dp_tenv [(''f'', new_sig [ListT (FlatTyp I64T)] (ListT (FlatTyp I64T)))] (\<lambda>_. None) (\<lambda>vs. vs))
     (decl_of ''f'' [(''xs'', list_of ''i64'')] (list_of ''i64'')
       (IterP FilterMap [at ''x''] (here, IdentP ''xs'')
         (PBlock [(here, ReturnS (here, IdentP ''xs''))] False) None)) = Crash \<and>
   from_decl (dp_tenv [(''f'', new_sig [FlatTyp BoolT] (FlatTyp BoolT))] (\<lambda>_. None) (\<lambda>vs. vs))
     (decl_of ''f'' [(''b'', PAtom (at ''bool''))] (PAtom (at ''bool''))
       (CallP here ''list::reduce'' [(here, IfP (here, IdentP ''b'')
         (PBlock [(here, ReturnS (here, IdentP ''b''))] False)
         (Some (PBlock [(here, ReturnS (here, IdentP ''b''))] False)))])) = Crash"
  by (intro conjI; code_simp)

end
