(* ===== verification/Lang.thy ===== *)
theory Lang
  imports TypecheckProps EvalFuel
begin

text \<open>
  \<open>armour-lang/src/lang.rs\<close> and the table of externals of \<open>externals.rs\<close>: programs, the call graph
  that is built while a program is checked, the test for recursion and the removal of functions
  that are not reached. Lexing and parsing a text are arguments; the two graph algorithms of
  \<open>petgraph\<close> are a record of functions.
\<close>

section \<open>Externals and code\<close>

record externals =
  ext_sockets :: "(string \<times> string) list"
  ext_timeout :: nat

definition externals_default :: externals where
  "externals_default = \<lparr>ext_sockets = [], ext_timeout = 3\<rparr>"

definition externals_merge :: "externals \<Rightarrow> externals \<Rightarrow> externals" where
  "externals_merge a b = \<lparr>ext_sockets = bt_merge (ext_sockets a) (ext_sockets b), ext_timeout = ext_timeout a\<rparr>"

definition externals_set_timeout :: "nat \<Rightarrow> externals \<Rightarrow> externals" where
  "externals_set_timeout t a = a\<lparr>ext_timeout := t\<rparr>"

definition add_external :: "string \<Rightarrow> string \<Rightarrow> externals \<Rightarrow> bool \<times> externals" where
  "add_external name addr a =
     (bt_get name (ext_sockets a) \<noteq> None, a\<lparr>ext_sockets := bt_insert name addr (ext_sockets a)\<rparr>)"

type_synonym 'l code = "(string \<times> 'l expr) list"

definition code_cut :: "string list \<Rightarrow> 'l code \<Rightarrow> 'l code" where
  "code_cut names c = foldl (\<lambda>c s. bt_remove s c) c names"

definition code_get :: "'l code \<Rightarrow> string \<Rightarrow> 'l expr option" where
  "code_get c s = bt_get s c"

definition code_insert :: "string \<Rightarrow> 'l expr \<Rightarrow> 'l code \<Rightarrow> 'l code" where
  "code_insert s e c = bt_insert s e c"

definition code_merge :: "'l code \<Rightarrow> 'l code \<Rightarrow> 'l code" where
  "code_merge a b = bt_merge a b"

definition dp_of_cp_code :: "('c \<Rightarrow> 'd option) \<Rightarrow> 'c code \<Rightarrow> 'd code option" where
  "dp_of_cp_code dp c =
     map_option bt_collect (map_opt (\<lambda>(s, e). map_option (Pair s) (expr_convert dp e)) c)"

section \<open>The call graph\<close>

text \<open>A node of the graph is its index; an edge carries the location of the call.\<close>

record call_graph =
  cg_weights :: "string list"
  cg_edges :: "(nat \<times> nat \<times> loc) list"
  cg_nodes :: "(string \<times> nat) list"

definition cg_default :: call_graph where
  "cg_default = \<lparr>cg_weights = [], cg_edges = [], cg_nodes = []\<rparr>"

text \<open>
  \<open>toposort\<close> answers with a node on a cycle, if there is one; \<open>has_path_connecting\<close> says whether a
  node can be reached from another.
\<close>

record petgraph =
  pg_toposort :: "call_graph \<Rightarrow> nat option"
  pg_path :: "call_graph \<Rightarrow> nat \<Rightarrow> nat \<Rightarrow> bool"

definition cg_add_node :: "string \<Rightarrow> call_graph \<Rightarrow> call_graph" where
  "cg_add_node name g = g\<lparr>cg_weights := cg_weights g @ [name],
     cg_nodes := bt_insert name (length (cg_weights g)) (cg_nodes g)\<rparr>"

definition cg_add_edge :: "nat \<Rightarrow> nat \<Rightarrow> loc \<Rightarrow> call_graph \<Rightarrow> call_graph" where
  "cg_add_edge i j l g = g\<lparr>cg_edges := cg_edges g @ [(i, j, l)]\<rparr>"

definition check_for_cycles :: "petgraph \<Rightarrow> call_graph \<Rightarrow> unit result" where
  "check_for_cycles pg g =
     (case pg_toposort pg g of
        Some i \<Rightarrow>
          (if i < length (cg_weights g) then
             Inl (ErrorFmt ''cycle detected: the function \"{}\" might not terminate'' [cg_weights g ! i])
           else Inl (Error ''cycle detected for unknown function''))
      | None \<Rightarrow> Inr ())"

definition unreachable :: "petgraph \<Rightarrow> call_graph \<Rightarrow> string list \<Rightarrow> string list" where
  "unreachable pg g tops =
     (let indices = List.map_filter (\<lambda>s. bt_get s (cg_nodes g)) tops
      in map fst (filter (\<lambda>(node, i). \<not> list_ex (\<lambda>t. pg_path pg g t i) indices) (cg_nodes g)))"

section \<open>Programs\<close>

record ('f, 'l) program =
  pr_code :: "'l code"
  pr_externals :: externals
  pr_headers :: "'f header_table"

definition program_default :: "('f, 'l) program" where
  "program_default = \<lparr>pr_code = [], pr_externals = externals_default, pr_headers = []\<rparr>"

definition program_cut :: "string list \<Rightarrow> ('f, 'l) program \<Rightarrow> ('f, 'l) program" where
  "program_cut names p = p\<lparr>pr_headers := headers_cut names (pr_headers p), pr_code := code_cut names (pr_code p)\<rparr>"

definition program_typ :: "'f tbuiltin \<Rightarrow> ('f, 'l) program \<Rightarrow> string \<Rightarrow> 'f signature option" where
  "program_typ B p name = header_typ B (pr_headers p) name"

definition program_is_empty :: "('f, 'l) program \<Rightarrow> bool" where
  "program_is_empty p \<longleftrightarrow> pr_code p = []"

definition program_merge :: "('f, 'l) program \<Rightarrow> ('f, 'l) program \<Rightarrow> ('f, 'l) program" where
  "program_merge a b = \<lparr>pr_code = code_merge (pr_code a) (pr_code b),
     pr_externals = externals_merge (pr_externals a) (pr_externals b),
     pr_headers = headers_merge (pr_headers a) (pr_headers b)\<rparr>"

definition dp_of_cp_program :: "('c \<Rightarrow> 'd option) \<Rightarrow> (cp_flat_typ, 'c) program \<Rightarrow> (flat_typ, 'd) program option" where
  "dp_of_cp_program dp p =
     (case (dp_of_cp_code dp (pr_code p), dp_of_cp_headers (pr_headers p)) of
        (Some c, Some h) \<Rightarrow> Some \<lparr>pr_code = c, pr_externals = pr_externals p, pr_headers = h\<rparr>
      | _ \<Rightarrow> None)"

record ('f, 'l) pre_program =
  pp_graph :: call_graph
  pp_program :: "('f, 'l) program"

definition pre_default :: "('f, 'l) pre_program" where
  "pre_default = \<lparr>pp_graph = cg_default, pp_program = program_default\<rparr>"

text \<open>\<open>PreProgram::program\<close>: what is left for the given entry points.\<close>

definition program_for :: "petgraph \<Rightarrow> ('f, 'l) pre_program \<Rightarrow> string list \<Rightarrow> ('f, 'l) program" where
  "program_for pg m functions =
     (if functions \<noteq> [] then program_cut (unreachable pg (pp_graph m) functions) (pp_program m)
      else pp_program m)"

section \<open>Building a program\<close>

text \<open>One declared signature: the header and the node. \<open>add_function\<close> may report a duplicate.\<close>

definition declare_fn :: "string \<Rightarrow> 'f signature \<Rightarrow> ('f, 'l) pre_program \<Rightarrow> ('f, 'l) pre_program tc_out" where
  "declare_fn name sig m =
     (case add_function name sig (pr_headers (pp_program m)) of
        (Some err, _) \<Rightarrow> Fail err
      | (None, h) \<Rightarrow>
          Done (m\<lparr>pp_program := (pp_program m)\<lparr>pr_headers := h\<rparr>, pp_graph := cg_add_node name (pp_graph m)\<rparr>))"

fun declare_heads :: "'f tflat \<Rightarrow> string \<Rightarrow> head list \<Rightarrow> ('f, 'l) pre_program \<Rightarrow> ('f, 'l) pre_program tc_out" where
  "declare_heads T ename [] m = Done m"
| "declare_heads T ename (h # hs) m =
     (let name = ename @ ''::'' @ li_id (head_id h)
      in case head_sig T h of
           Inl e \<Rightarrow> Fail (ErrorFmt ''header \"{}\" at {}: {}'' [name, show_loc (li_loc (head_id h)), show_ty_error T e])
         | Inr sig \<Rightarrow>
             (case declare_fn name sig m of
                Done m' \<Rightarrow> declare_heads T ename hs m'
              | Fail e \<Rightarrow> Fail e
              | Crash \<Rightarrow> Crash))"

definition declare_decl :: "'f tflat \<Rightarrow> 'l decl \<Rightarrow> ('f, 'l) pre_program \<Rightarrow> ('f, 'l) pre_program tc_out" where
  "declare_decl T d m =
     (case d of
        FnD d \<Rightarrow>
          (case fn_decl_typ T (fd_head d) of
             Inl e \<Rightarrow> Fail (ErrorFmt ''function \"{}\" at {}: {}''
               [fd_name d, show_loc (li_loc (fn_id (fd_head d))), show_ty_error T e])
           | Inr sig \<Rightarrow> declare_fn (fd_name d) sig m)
      | ExternD x \<Rightarrow>
          (case declare_heads T (li_id (ex_name x)) (ex_headers x) m of
             Done m' \<Rightarrow>
               Done (m'\<lparr>pp_program := (pp_program m')\<lparr>pr_externals :=
                 snd (add_external (li_id (ex_name x)) (li_id (ex_url x)) (pr_externals (pp_program m')))\<rparr>\<rparr>)
           | Fail e \<Rightarrow> Fail e
           | Crash \<Rightarrow> Crash))"

fun declare_all :: "'f tflat \<Rightarrow> 'l decl list \<Rightarrow> ('f, 'l) pre_program \<Rightarrow> ('f, 'l) pre_program tc_out" where
  "declare_all T [] m = Done m"
| "declare_all T (d # ds) m =
     (case declare_decl T d m of Done m' \<Rightarrow> declare_all T ds m' | Fail e \<Rightarrow> Fail e | Crash \<Rightarrow> Crash)"

text \<open>The edges of one function. Builtins and services have no node.\<close>

fun add_calls :: "nat \<Rightarrow> (loc \<times> string) list \<Rightarrow> call_graph \<Rightarrow> call_graph result" where
  "add_calls i [] g = Inr g"
| "add_calls i ((l, f) # cs) g =
     (case bt_get f (cg_nodes g) of
        None \<Rightarrow> Inl (ErrorFmt ''cannot find \"{}\" node'' [f])
      | Some j \<Rightarrow> add_calls i cs (cg_add_edge i j l g))"

text \<open>\<open>hash\<close> is the order in which a \<open>HashSet\<close> of call sites is listed.\<close>

definition add_decl ::
    "('f, 'l) tenv \<Rightarrow> (calls \<Rightarrow> (loc \<times> string) list) \<Rightarrow> 'l fn_decl \<Rightarrow> ('f, 'l) pre_program \<Rightarrow>
       ('f, 'l) pre_program tc_out" where
  "add_decl X hash d m =
     (case from_decl (X\<lparr>tn_headers := pr_headers (pp_program m)\<rparr>) d of
        Done (name, e, calls) \<Rightarrow>
          (case bt_get name (cg_nodes (pp_graph m)) of
             None \<Rightarrow> Fail (ErrorFmt ''cannot find \"{}\" node'' [name])
           | Some i \<Rightarrow>
               (case add_calls i (filter (\<lambda>(_, f). \<not> is_internal (tn_builtin X) f) (hash calls)) (pp_graph m) of
                  Inl e \<Rightarrow> Fail e
                | Inr g \<Rightarrow> Done (m\<lparr>pp_graph := g,
                    pp_program := (pp_program m)\<lparr>pr_code := bt_insert name e (pr_code (pp_program m))\<rparr>\<rparr>)))
      | Fail e \<Rightarrow> Fail e
      | Crash \<Rightarrow> Crash)"

fun add_decls ::
    "('f, 'l) tenv \<Rightarrow> (calls \<Rightarrow> (loc \<times> string) list) \<Rightarrow> 'l decl list \<Rightarrow> ('f, 'l) pre_program \<Rightarrow>
       ('f, 'l) pre_program tc_out" where
  "add_decls X hash [] m = Done m"
| "add_decls X hash (d # ds) m =
     (case d of
        ExternD _ \<Rightarrow> add_decls X hash ds m
      | FnD d \<Rightarrow>
          (case add_decl X hash d m of Done m' \<Rightarrow> add_decls X hash ds m' | Fail e \<Rightarrow> Fail e | Crash \<Rightarrow> Crash))"

text \<open>\<open>FromStr\<close> of a pre-program, once the text is parsed; then the test for cycles of \<open>from_buf\<close>.\<close>

definition build_program ::
    "('f, 'l) tenv \<Rightarrow> (calls \<Rightarrow> (loc \<times> string) list) \<Rightarrow> 'l decl list \<Rightarrow> ('f, 'l) pre_program tc_out" where
  "build_program X hash ds =
     (case declare_all (tn_types X) ds pre_default of
        Done m \<Rightarrow> add_decls X hash ds m
      | Fail e \<Rightarrow> Fail e
      | Crash \<Rightarrow> Crash)"

definition from_buf ::
    "petgraph \<Rightarrow> ('f, 'l) tenv \<Rightarrow> (calls \<Rightarrow> (loc \<times> string) list) \<Rightarrow> 'l decl list \<Rightarrow> ('f, 'l) pre_program tc_out" where
  "from_buf pg X hash ds =
     (case build_program X hash ds of
        Done m \<Rightarrow> (case check_for_cycles pg (pp_graph m) of Inr _ \<Rightarrow> Done m | Inl e \<Rightarrow> Fail e)
      | Fail e \<Rightarrow> Fail e
      | Crash \<Rightarrow> Crash)"

section \<open>Removing dead code\<close>

text \<open>A call of a function without a node adds one.\<close>

definition dead_call :: "'f tbuiltin \<Rightarrow> nat \<Rightarrow> string \<Rightarrow> call_graph \<Rightarrow> call_graph" where
  "dead_call B i f g =
     (if is_internal B f then g
      else
        (let g' = (if bt_get f (cg_nodes g) = None then cg_add_node f g else g)
         in case bt_get f (cg_nodes g') of
              Some j \<Rightarrow> cg_add_edge i j dummy_loc g'
            | None \<Rightarrow> g'))"

fun aux_deadcode :: "'f tbuiltin \<Rightarrow> nat \<Rightarrow> 'l expr \<Rightarrow> call_graph \<Rightarrow> call_graph" where
  "aux_deadcode B i (Var _) g = g"
| "aux_deadcode B i (BVar _ _) g = g"
| "aux_deadcode B i (LitExpr _) g = g"
| "aux_deadcode B i (ReturnExpr e) g = aux_deadcode B i e g"
| "aux_deadcode B i (PrefixExpr _ e) g = aux_deadcode B i e g"
| "aux_deadcode B i (Closure _ e) g = aux_deadcode B i e g"
| "aux_deadcode B i (InfixExpr _ e1 e2) g = aux_deadcode B i e2 (aux_deadcode B i e1 g)"
| "aux_deadcode B i (LetExpr _ e1 e2) g = aux_deadcode B i e2 (aux_deadcode B i e1 g)"
| "aux_deadcode B i (IterExpr _ _ e1 e2 acc) g =
     (let g' = aux_deadcode B i e2 (aux_deadcode B i e1 g)
      in case acc of Some (_, a) \<Rightarrow> aux_deadcode B i a g' | None \<Rightarrow> g')"
| "aux_deadcode B i (BlockExpr _ es) g = fold (aux_deadcode B i) es g"
| "aux_deadcode B i (IfExpr c t alt) g =
     (let g' = aux_deadcode B i t (aux_deadcode B i c g)
      in case alt of Some a \<Rightarrow> aux_deadcode B i a g' | None \<Rightarrow> g')"
| "aux_deadcode B i (IfSomeMatchExpr c t alt) g =
     (let g' = aux_deadcode B i t (aux_deadcode B i c g)
      in case alt of Some a \<Rightarrow> aux_deadcode B i a g' | None \<Rightarrow> g')"
| "aux_deadcode B i (IfMatchExpr _ ms t alt) g =
     (let g' = aux_deadcode B i t (fold (\<lambda>(e, _). aux_deadcode B i e) ms g)
      in case alt of Some a \<Rightarrow> aux_deadcode B i a g' | None \<Rightarrow> g')"
| "aux_deadcode B i (CallExpr f args _) g = dead_call B i f (fold (aux_deadcode B i) args g)"

text \<open>Every header gets a new node, even where a call has already added one; a header without code
  panics.\<close>

fun deadcode_nodes :: "'f tbuiltin \<Rightarrow> 'l code \<Rightarrow> string list \<Rightarrow> call_graph \<Rightarrow> call_graph option" where
  "deadcode_nodes B c [] g = Some g"
| "deadcode_nodes B c (name # names) g =
     (let g' = cg_add_node name g
      in case (bt_get name (cg_nodes g'), code_get c name) of
           (Some i, Some e) \<Rightarrow> deadcode_nodes B c names (aux_deadcode B i e g')
         | _ \<Rightarrow> None)"

definition deadcode_elim :: "petgraph \<Rightarrow> 'f tbuiltin \<Rightarrow> string list \<Rightarrow> ('f, 'l) program \<Rightarrow> ('f, 'l) program option" where
  "deadcode_elim pg B mains p =
     map_option (\<lambda>g. program_for pg \<lparr>pp_graph = g, pp_program = p\<rparr> mains)
       (deadcode_nodes B (pr_code p) (map fst (pr_headers p)) cg_default)"

end
