(* ===== verification/EvalCode.thy ===== *)
theory EvalCode
  imports EvalFuel
begin

text \<open>
  Two environments whose code agrees on the functions an expression can reach evaluate it in the same
  way: the same outcome, the same machine, with the same fuel.
\<close>

section \<open>Congruence of the parts\<close>

lemma bind_cong_val:
  assumes "m = m'" and "ev_spec R P m" and "\<And>x. P x \<Longrightarrow> f x = f' x"
  shows "ev_bind m f = ev_bind m' f'"
proof
  fix s
  obtain r t where rt: "m s = (r, t)"
    by fastforce
  show "ev_bind m f s = ev_bind m' f' s"
    using assms rt by (cases r) (auto simp: ev_bind_def ev_spec_def dest!: spec [of _ s])
qed

lemma bind_cong: "m = m' \<Longrightarrow> (\<And>x. f x = f' x) \<Longrightarrow> ev_bind m f = ev_bind m' f'"
  by presburger

lemma ev_res_cong: "(\<And>x. r = Inr x \<Longrightarrow> f x = f' x) \<Longrightarrow> ev_bind (ev_res r) f = ev_bind (ev_res r) f'"
  by (cases r) (auto simp: ev_bind_def ev_res_def ev_err_def ev_ok_def)

lemma ev_map_cong: "(\<And>x. x \<in> set xs \<Longrightarrow> f x = g x) \<Longrightarrow> ev_map f xs = ev_map g xs"
  by (induction xs) simp_all

text \<open>
  The evaluations \<open>ev\<close> and \<open>ev'\<close> agree on terms that call only \<open>A\<close>, and give values there.
\<close>

locale agreeing =
  fixes A :: "string \<Rightarrow> bool"
    and ev ev' :: "'l expr \<Rightarrow> ('s, 'l, 'l expr) ev"
  assumes same: "calls_ok A e \<Longrightarrow> ev e = ev' e"
    and value_of: "calls_ok A e \<Longrightarrow> ev_spec grows is_value (ev e)"
begin

lemma iter_same:
  "calls_ok A body \<Longrightarrow> pred_option is_value acc \<Longrightarrow> ev_iter ev vs body ls acc = ev_iter ev' vs body ls acc"
proof (induction ls arbitrary: acc)
  case (Cons l ls)
  have e1: "calls_ok A e1" if "(case acc of Some a \<Rightarrow> apply_expr body a | None \<Rightarrow> Inr body) = Inr e1" for e1
    using that Cons.prems by (auto split: option.splits intro: calls_kept.apply_kept)
  have item: "ev_bind (ev e2) (\<lambda>r. ev_bind (ev_iter ev vs body ls (map_option (\<lambda>_. r) acc)) (\<lambda>(rs, acc').
        ev_ok (r # rs, acc'))) =
      ev_bind (ev' e2) (\<lambda>r. ev_bind (ev_iter ev' vs body ls (map_option (\<lambda>_. r) acc)) (\<lambda>(rs, acc').
        ev_ok (r # rs, acc')))" if "calls_ok A e2" for e2
  proof (rule bind_cong_val [OF same [OF that] value_of [OF that]])
    fix r :: "'l expr"
    assume "is_value r"
    then have "pred_option is_value (map_option (\<lambda>_. r) acc)"
      by (cases acc) simp_all
    from Cons.IH [OF Cons.prems(1) this]
    show "ev_bind (ev_iter ev vs body ls (map_option (\<lambda>_. r) acc)) (\<lambda>(rs, acc'). ev_ok (r # rs, acc')) =
        ev_bind (ev_iter ev' vs body ls (map_option (\<lambda>_. r) acc)) (\<lambda>(rs, acc'). ev_ok (r # rs, acc'))"
      by simp
  qed
  show ?case
    unfolding ev_iter.simps
  proof (intro ev_res_cong)
    fix e1' e2'
    assume "(case acc of Some a \<Rightarrow> apply_expr body a | None \<Rightarrow> Inr body) = Inr e1'" "apply_item vs l e1' = Inr e2'"
    then show "ev_bind (ev e2') (\<lambda>r. ev_bind (ev_iter ev vs body ls (map_option (\<lambda>_. r) acc)) (\<lambda>(rs, acc').
        ev_ok (r # rs, acc'))) =
      ev_bind (ev' e2') (\<lambda>r. ev_bind (ev_iter ev' vs body ls (map_option (\<lambda>_. r) acc)) (\<lambda>(rs, acc').
        ev_ok (r # rs, acc')))"
      by (intro item calls_kept.apply_item_kept [OF e1])
  qed
qed simp

lemma short_same:
  "calls_ok A e1 \<Longrightarrow> calls_ok A e2 \<Longrightarrow> ev_short L stop ev e1 e2 = ev_short L stop ev' e1 e2"
  unfolding ev_short_def by (simp only: same [of e1] same [of e2])

lemma opt_same: "pred_option (calls_ok A) alt \<Longrightarrow> opt_eval L ev alt = opt_eval L ev' alt"
  by (cases alt) (simp_all add: opt_eval_def same)

lemma apply_same: "(\<And>e'. r = Inr e' \<Longrightarrow> calls_ok A e') \<Longrightarrow> ev_bind (ev_res r) ev = ev_bind (ev_res r) ev'"
  by (rule ev_res_cong) (simp add: same)

lemma match_same:
  assumes "calls_ok A (fst m)"
  shows "ev_match (plane_env P code lib_at rpc) ev m = ev_match (plane_env P code' lib_at rpc) ev' m"
  by (simp add: ev_match_def same [OF assms])

lemma matches_value:
  assumes "list_all (\<lambda>(e, _). calls_ok A e) ms"
  shows "ev_spec grows (list_all (\<lambda>(r, c). is_value r \<and> pred_option caps_ok c))
    (ev_map (ev_match (plane_env P code lib_at rpc) ev) ms)"
proof (rule machine.spec_map)
  fix m
  assume "m \<in> set ms"
  then have "calls_ok A (fst m)"
    using assms by (auto simp: list_all_iff)
  then show "ev_spec grows (\<lambda>(r, c). is_value r \<and> pred_option caps_ok c)
      (ev_match (plane_env P code lib_at rpc) ev m)"
    using machine.spec_match [of "\<lambda>e. if calls_ok A e then ev e else ev_panic" m P code lib_at rpc] value_of
    by (simp add: machine.ev_good_def ev_match_def)
qed

lemma call_same:
  assumes f: "A f" and args: "list_all is_value args"
    and code: "\<And>f. A f \<Longrightarrow> bt_get f code = bt_get f code'"
      "\<And>f b. A f \<Longrightarrow> bt_get f code = Some b \<Longrightarrow> calls_ok A b"
  shows "ev_call (plane_env P code lib_at rpc) ev f async args = ev_call (plane_env P code' lib_at rpc) ev' f async args"
proof (cases "bt_get f code")
  case (Some b)
  have "ev_bind (ev_res (apply_all b args)) (\<lambda>e. ev_bind (ev e) (\<lambda>r. ev_ok (strip_return r))) =
      ev_bind (ev_res (apply_all b args)) (\<lambda>e. ev_bind (ev' e) (\<lambda>r. ev_ok (strip_return r)))"
  proof (rule ev_res_cong)
    fix e
    assume "apply_all b args = Inr e"
    then have "calls_ok A e"
      using calls_kept.apply_all_kept [OF code(2) [OF f Some]] args by (simp add: list_all_iff)
    then show "ev_bind (ev e) (\<lambda>r. ev_ok (strip_return r)) = ev_bind (ev' e) (\<lambda>r. ev_ok (strip_return r))"
      by (simp only: same)
  qed
  then show ?thesis
    using Some code(1) [OF f] by (simp add: ev_call_def split: option.split)
next
  case None
  then show ?thesis
    using code(1) [OF f] by (simp add: ev_call_def send_meta_def [abs_def] send_rpc_def [abs_def] spawn_rpc_def [abs_def] split: option.split cong: if_cong)
qed

lemma block_same:
  assumes "list_all (calls_ok A) es"
  shows "eval_step (plane_env P code lib_at rpc) ev (BlockExpr b es) =
    eval_step (plane_env P code' lib_at rpc) ev' (BlockExpr b es)"
proof (cases es)
  case (Cons e1 rest)
  have "calls_ok A e1" "calls_ok A (BlockExpr b rest)"
    using assms Cons by simp_all
  moreover have "ev_map ev es = ev_map ev' es"
    by (rule ev_map_cong) (use assms in \<open>auto simp: list_all_iff intro: same\<close>)
  ultimately show ?thesis
    unfolding eval_step.simps using Cons by (simp only: same list.case plane_env_sel)
qed simp

lemma iter_expr_same:
  assumes e: "calls_ok A (IterExpr op vs e1 e2 acc)"
  shows "eval_step (plane_env P code lib_at rpc) ev (IterExpr op vs e1 e2 acc) =
    eval_step (plane_env P code' lib_at rpc) ev' (IterExpr op vs e1 e2 acc)"
proof -
  have acc: "(case acc of Some (_, a) \<Rightarrow> ev_bind (ev a) (\<lambda>v. ev_ok (Some v)) | None \<Rightarrow> ev_ok None) =
      (case acc of Some (_, a) \<Rightarrow> ev_bind (ev' a) (\<lambda>v. ev_ok (Some v)) | None \<Rightarrow> ev_ok None)"
    "ev_spec grows (pred_option is_value)
      (case acc of Some (_, a) \<Rightarrow> ev_bind (ev a) (\<lambda>v. ev_ok (Some v)) | None \<Rightarrow> ev_ok None)"
    using e same value_of by (auto split: option.split intro!: machine.spec_bind [where Q = is_value])
  have "ev_bind (case acc of Some (_, a) \<Rightarrow> ev_bind (ev a) (\<lambda>v. ev_ok (Some v)) | None \<Rightarrow> ev_ok None) (\<lambda>a0.
      ev_bind (ev_iter ev vs e2 lits a0) (\<lambda>(rs, a1). finish_iter L op lits rs a1)) =
    ev_bind (case acc of Some (_, a) \<Rightarrow> ev_bind (ev' a) (\<lambda>v. ev_ok (Some v)) | None \<Rightarrow> ev_ok None) (\<lambda>a0.
      ev_bind (ev_iter ev' vs e2 lits a0) (\<lambda>(rs, a1). finish_iter L op lits rs a1))" for lits L
    by (rule bind_cong_val [OF acc]) (use e iter_same [of e2] in simp)
  moreover have "ev e1 = ev' e1"
    using e same by simp
  ultimately show ?thesis
    unfolding eval_step.simps plane_env_sel by (intro bind_cong) (auto split: expr.split literal.split)
qed

lemma if_match_same:
  assumes e: "calls_ok A (IfMatchExpr vs ms t alt)"
  shows "eval_step (plane_env P code lib_at rpc) ev (IfMatchExpr vs ms t alt) =
    eval_step (plane_env P code' lib_at rpc) ev' (IfMatchExpr vs ms t alt)"
  unfolding eval_step.simps
proof (rule bind_cong_val)
  show "ev_map (ev_match (plane_env P code lib_at rpc) ev) ms = ev_map (ev_match (plane_env P code' lib_at rpc) ev') ms"
    by (rule ev_map_cong) (use e in \<open>auto simp: list_all_iff intro!: match_same\<close>)
  show "ev_spec grows (list_all (\<lambda>(r, c). is_value r \<and> pred_option caps_ok c))
      (ev_map (ev_match (plane_env P code lib_at rpc) ev) ms)"
    by (rule matches_value) (use e in simp)
  fix rs :: "('l expr \<times> 'l captures option) list"
  assume rs: "list_all (\<lambda>(r, c). is_value r \<and> pred_option caps_ok c) rs"
  have "caps_ok (all_captures rs)"
    using rs by (intro all_captures_ok) (auto simp: list_all_iff)
  then have "calls_ok A c" if "apply_captures (all_captures rs) vs t = Inr c" for c
    using calls_kept.apply_captures_kept [OF _ _ that, of A] caps_ok_get e by auto
  then have "ev_bind (ev_res (apply_captures (all_captures rs) vs t)) (\<lambda>c. ev_bind (ev c) (check_value msg)) =
      ev_bind (ev_res (apply_captures (all_captures rs) vs t)) (\<lambda>c. ev_bind (ev' c) (check_value msg))" for msg
    by (intro ev_res_cong) (simp add: same)
  moreover have "(case alt of None \<Rightarrow> u | Some a \<Rightarrow> ev_bind (ev a) f) =
      (case alt of None \<Rightarrow> u | Some a \<Rightarrow> ev_bind (ev' a) f)" for u and f :: "'l expr \<Rightarrow> ('s, 'l, 'l expr) ev"
    using e same by (auto split: option.split)
  ultimately show "(case find (\<lambda>(r, _). is_return r) rs of
         Some (r, _) \<Rightarrow> ev_ok r
       | None \<Rightarrow>
           (if list_ex (\<lambda>(_, c). c = None) rs then
              (case alt of
                 None \<Rightarrow> ev_ok (expr_unit (en_lits (plane_env P code lib_at rpc)))
               | Some a \<Rightarrow> ev_bind (ev a) (check_value ''eval, if-match-expression''))
            else
              ev_bind (ev_res (apply_captures (all_captures rs) vs t)) (\<lambda>c.
              ev_bind (ev c) (check_value ''eval, if-match-expression'')))) =
      (case find (\<lambda>(r, _). is_return r) rs of
         Some (r, _) \<Rightarrow> ev_ok r
       | None \<Rightarrow>
           (if list_ex (\<lambda>(_, c). c = None) rs then
              (case alt of
                 None \<Rightarrow> ev_ok (expr_unit (en_lits (plane_env P code' lib_at rpc)))
               | Some a \<Rightarrow> ev_bind (ev' a) (check_value ''eval, if-match-expression''))
            else
              ev_bind (ev_res (apply_captures (all_captures rs) vs t)) (\<lambda>c.
              ev_bind (ev' c) (check_value ''eval, if-match-expression''))))"
    by (simp only: plane_env_sel)
qed

lemma let_same:
  assumes "calls_ok A e1" "calls_ok A e2"
  shows "eval_step (plane_env P code lib_at rpc) ev (LetExpr vs e1 e2) =
    eval_step (plane_env P code' lib_at rpc) ev' (LetExpr vs e1 e2)"
proof -
  have "ev_bind (ev_res (apply_vars z e2)) ev = ev_bind (ev_res (apply_vars z e2)) ev'" for z
    by (rule apply_same) (rule calls_kept.apply_vars_kept [OF assms(2)])
  moreover have "ev_bind (ev_res (apply_expr e2 (LitExpr l))) ev = ev_bind (ev_res (apply_expr e2 (LitExpr l))) ev'" for l
    by (rule apply_same) (rule calls_kept.apply_lit_kept [OF assms(2)])
  ultimately show ?thesis
    unfolding eval_step.simps same [OF assms(1)]
    by (intro bind_cong refl) (auto split: expr.split option.split)
qed

lemma some_match_same:
  assumes e: "calls_ok A (IfSomeMatchExpr e1 t alt)"
  shows "eval_step (plane_env P code lib_at rpc) ev (IfSomeMatchExpr e1 t alt) =
    eval_step (plane_env P code' lib_at rpc) ev' (IfSomeMatchExpr e1 t alt)"
proof -
  have t: "ev_bind (ev_res (apply_expr t (LitExpr l))) ev = ev_bind (ev_res (apply_expr t (LitExpr l))) ev'" for l
    by (rule apply_same) (rule calls_kept.apply_lit_kept [of A t l], use e in simp_all)
  have alt: "opt_eval L ev alt = opt_eval L ev' alt" for L
    using e by (intro opt_same) simp
  have "ev e1 = ev' e1"
    using e same by simp
  then show ?thesis
    unfolding eval_step.simps by (simp only: plane_env_sel t alt)
qed

lemma step_same:
  assumes e: "calls_ok A e"
    and code: "\<And>f. A f \<Longrightarrow> bt_get f code = bt_get f code'"
      "\<And>f b. A f \<Longrightarrow> bt_get f code = Some b \<Longrightarrow> calls_ok A b"
  shows "eval_step (plane_env P code lib_at rpc) ev e = eval_step (plane_env P code' lib_at rpc) ev' e"
proof (cases e)
  case (CallExpr f args async)
  have "ev_spec grows (list_all is_value) (ev_map ev args)" and "ev_map ev args = ev_map ev' args"
    using e CallExpr by (auto simp: list_all_iff intro!: machine.spec_map value_of ev_map_cong same)
  then show ?thesis
    unfolding CallExpr eval_step.simps
    by (elim bind_cong_val [rotated]) (use e CallExpr in \<open>auto intro: call_same code\<close>)
next
  case (IfExpr c t alt)
  have "opt_eval (pl_lits P) ev alt = opt_eval (pl_lits P) ev' alt" "ev c = ev' c" "ev t = ev' t"
    using e IfExpr by (auto intro!: opt_same same)
  then show ?thesis
    unfolding IfExpr eval_step.simps by (simp only: plane_env_sel)
next
  case (InfixExpr op e1 e2)
  have "ev e1 = ev' e1" "ev e2 = ev' e2" "ev_short (pl_lits P) stop ev e1 e2 = ev_short (pl_lits P) stop ev' e1 e2" for stop
    using e InfixExpr by (auto intro!: short_same same)
  then show ?thesis
    unfolding InfixExpr eval_step.simps by (simp only: plane_env_sel)
qed (use e in \<open>simp_all only: calls_ok.simps block_same iter_expr_same let_same some_match_same if_match_same\<close>,
    simp_all only: eval_step.simps same plane_env_sel)

end

section \<open>Functions that can be reached\<close>

fun fns :: "'l expr \<Rightarrow> string set" where
  "fns (Closure _ e) = fns e"
| "fns (ReturnExpr e) = fns e"
| "fns (PrefixExpr _ e) = fns e"
| "fns (InfixExpr _ e1 e2) = fns e1 \<union> fns e2"
| "fns (LetExpr _ e1 e2) = fns e1 \<union> fns e2"
| "fns (IterExpr _ _ e1 e2 acc) = fns e1 \<union> fns e2 \<union> (\<Union>(_, a) \<in> set_option acc. fns a)"
| "fns (BlockExpr _ es) = (\<Union>e \<in> set es. fns e)"
| "fns (IfExpr c t alt) = fns c \<union> fns t \<union> (\<Union>a \<in> set_option alt. fns a)"
| "fns (IfSomeMatchExpr e t alt) = fns e \<union> fns t \<union> (\<Union>a \<in> set_option alt. fns a)"
| "fns (IfMatchExpr _ ms t alt) = (\<Union>(e, _) \<in> set ms. fns e) \<union> fns t \<union> (\<Union>a \<in> set_option alt. fns a)"
| "fns (CallExpr f args _) = insert f (\<Union>e \<in> set args. fns e)"
| "fns _ = {}"

lemma calls_ok_iff: "calls_ok A e \<longleftrightarrow> (\<forall>f \<in> fns e. A f)"
  by (induction e rule: expr_induct) (fastforce simp: list_all_iff option.pred_set)+

inductive fn_reach :: "(string \<times> 'l expr) list \<Rightarrow> string \<Rightarrow> string \<Rightarrow> bool" for code where
  reach_self: "fn_reach code f f"
| reach_call: "fn_reach code f g \<Longrightarrow> bt_get g code = Some b \<Longrightarrow> h \<in> fns b \<Longrightarrow> fn_reach code f h"

lemma reach_first: "bt_get f code = Some b \<Longrightarrow> g \<in> fns b \<Longrightarrow> fn_reach code g h \<Longrightarrow> fn_reach code f h"
  by (rotate_tac 2, induction rule: fn_reach.induct) (blast intro: fn_reach.intros)+

text \<open>The two codes agree on \<open>f\<close> and on all it can reach.\<close>

definition agree_on :: "(string \<times> 'l expr) list \<Rightarrow> (string \<times> 'l expr) list \<Rightarrow> string \<Rightarrow> bool" where
  "agree_on code code' f \<longleftrightarrow> (\<forall>g. fn_reach code f g \<longrightarrow> bt_get g code = bt_get g code')"

lemma agree_get: "agree_on code code' f \<Longrightarrow> bt_get f code = bt_get f code'"
  by (auto simp: agree_on_def intro: reach_self)

lemma agree_calls: "agree_on code code' f \<Longrightarrow> bt_get f code = Some b \<Longrightarrow> calls_ok (agree_on code code') b"
  unfolding calls_ok_iff by (auto simp: agree_on_def intro: reach_first)

interpretation codes: agreeing "agree_on code code'"
  "eval (plane_env P code lib_at rpc :: ('s, 'f, 'l) env) n" "eval (plane_env P code' lib_at rpc :: ('s, 'f, 'l) env) n"
  for P code code' lib_at rpc n
proof
  show val: "ev_spec grows is_value (eval (plane_env P code lib_at rpc :: ('s, 'f, 'l) env) n e)" for e n
    by (rule machine.eval_spec) simp
  show "calls_ok (agree_on code code') e \<Longrightarrow>
      eval (plane_env P code lib_at rpc :: ('s, 'f, 'l) env) n e = eval (plane_env P code' lib_at rpc :: ('s, 'f, 'l) env) n e" for e
  proof (induction n arbitrary: e)
    case (Suc n)
    have "agreeing (agree_on code code') (eval (plane_env P code lib_at rpc :: ('s, 'f, 'l) env) n) (eval (plane_env P code' lib_at rpc :: ('s, 'f, 'l) env) n)"
      using Suc.IH val by unfold_locales
    from agreeing.step_same [OF this Suc.prems agree_get agree_calls]
    show ?case
      by simp
  qed simp
qed

end
