(* ===== verification/LangProps.thy ===== *)
theory LangProps
  imports Lang EvalCode "HOL-Library.Product_Lexorder"
begin

text \<open>
  The call graph of a program has an edge for every call, so that a program accepted by the test
  for cycles has no recursion and every evaluation ends; what is removed as unreachable is never
  called. \<open>deadcode_elim\<close> builds the graph in another way, and removes functions that are called.
\<close>

section \<open>Graphs\<close>

definition edge_rel :: "call_graph \<Rightarrow> (nat \<times> nat) set" where
  "edge_rel g = (\<lambda>(i, j, _). (i, j)) ` set (cg_edges g)"

text \<open>What the code relies on of \<open>petgraph\<close>.\<close>

locale graph_algorithms =
  fixes pg :: petgraph
  assumes toposort: "pg_toposort pg g = None \<longleftrightarrow> acyclic (edge_rel g)"
    and path: "pg_path pg g i j \<longleftrightarrow> (i, j) \<in> (edge_rel g)\<^sup>*"
begin

lemma no_cycle: "check_for_cycles pg g = Inr u \<Longrightarrow> acyclic (edge_rel g)"
  using toposort by (auto simp: check_for_cycles_def split: option.splits if_splits)

lemma unreachable_iff:
  "f \<in> set (unreachable pg g tops) \<longleftrightarrow>
     (\<exists>i. (f, i) \<in> set (cg_nodes g) \<and>
       \<not> (\<exists>t j. t \<in> set tops \<and> bt_get t (cg_nodes g) = Some j \<and> (j, i) \<in> (edge_rel g)\<^sup>*))"
  unfolding unreachable_def Let_def
  by (force simp: path list_ex_iff List.map_filter_def image_iff)

end

text \<open>The two algorithms by the transitive closure of the edges.\<close>

definition closure_graph :: petgraph where
  "closure_graph = \<lparr>pg_toposort = (\<lambda>g. find (\<lambda>i. (i, i) \<in> (edge_rel g)\<^sup>+) (map fst (cg_edges g))),
     pg_path = (\<lambda>g i j. i = j \<or> (i, j) \<in> (edge_rel g)\<^sup>+)\<rparr>"

lemma trancl_source: "(i, j) \<in> (edge_rel g)\<^sup>+ \<Longrightarrow> i \<in> fst ` set (cg_edges g)"
  by (induction rule: converse_trancl_induct) (force simp: edge_rel_def)+

interpretation closure: graph_algorithms closure_graph
proof
  show "pg_toposort closure_graph g = None \<longleftrightarrow> acyclic (edge_rel g)" for g
    using trancl_source [of _ _ g] by (auto simp: closure_graph_def find_None_iff acyclic_def)
  show "pg_path closure_graph g i j \<longleftrightarrow> (i, j) \<in> (edge_rel g)\<^sup>*" for g i j
    by (auto simp: closure_graph_def rtrancl_eq_or_trancl)
qed

text \<open>A finite graph without cycles has a ranking: the number of nodes that can be reached.\<close>

definition cg_rank :: "call_graph \<Rightarrow> nat \<Rightarrow> nat" where
  "cg_rank g i = card ((edge_rel g)\<^sup>+ `` {i})"

lemma cg_rank_edge:
  assumes "acyclic (edge_rel g)" and "(i, j) \<in> edge_rel g"
  shows "cg_rank g j < cg_rank g i"
  unfolding cg_rank_def
proof (rule psubset_card_mono)
  have "finite (edge_rel g)"
    by (simp add: edge_rel_def)
  then show "finite ((edge_rel g)\<^sup>+ `` {i})"
    by (intro finite_Image) simp
  show "(edge_rel g)\<^sup>+ `` {j} \<subset> (edge_rel g)\<^sup>+ `` {i}"
    using assms by (auto simp: acyclic_def)
qed

section \<open>The graph of a program\<close>

definition nodes_ok :: "call_graph \<Rightarrow> bool" where
  "nodes_ok g \<longleftrightarrow> bt_wf (cg_nodes g) \<and>
     (\<forall>f i. bt_get f (cg_nodes g) = Some i \<longrightarrow> i < length (cg_weights g) \<and> cg_weights g ! i = f)"

text \<open>\<open>calls_to B g i\<close>: what the function at node \<open>i\<close> may call.\<close>

definition calls_to :: "'f tbuiltin \<Rightarrow> call_graph \<Rightarrow> nat \<Rightarrow> string \<Rightarrow> bool" where
  "calls_to B g i f \<longleftrightarrow>
     is_internal B f \<or> (\<exists>j. bt_get f (cg_nodes g) = Some j \<and> (i, j) \<in> edge_rel g)"

definition pre_ok :: "'f tbuiltin \<Rightarrow> ('f, 'l) pre_program \<Rightarrow> bool" where
  "pre_ok B m \<longleftrightarrow> nodes_ok (pp_graph m) \<and> bt_wf (pr_code (pp_program m)) \<and>
     (\<forall>f e. bt_get f (pr_code (pp_program m)) = Some e \<longrightarrow>
        (\<exists>i. bt_get f (cg_nodes (pp_graph m)) = Some i \<and> calls_ok (calls_to B (pp_graph m) i) e))"

lemma nodes_ok_default [simp]: "nodes_ok cg_default"
  by (simp add: nodes_ok_def cg_default_def)

lemma nodes_ok_add_node: "nodes_ok g \<Longrightarrow> nodes_ok (cg_add_node f g)"
  by (fastforce simp: nodes_ok_def cg_add_node_def nth_append less_SucI)

lemma declare_fn_ok:
  "declare_fn f s m = Done m' \<Longrightarrow> pr_code (pp_program m) = [] \<Longrightarrow> nodes_ok (pp_graph m) \<Longrightarrow>
     pr_code (pp_program m') = [] \<and> nodes_ok (pp_graph m')"
  by (auto simp: declare_fn_def nodes_ok_add_node split: prod.splits option.splits)

lemma declare_heads_ok:
  "declare_heads T x hs m = Done m' \<Longrightarrow> pr_code (pp_program m) = [] \<Longrightarrow> nodes_ok (pp_graph m) \<Longrightarrow>
     pr_code (pp_program m') = [] \<and> nodes_ok (pp_graph m')"
  by (induction hs arbitrary: m) (auto simp: Let_def split: sum.splits tc_out.splits dest!: declare_fn_ok)

lemma declare_all_ok:
  "declare_all T ds m = Done m' \<Longrightarrow> pr_code (pp_program m) = [] \<Longrightarrow> nodes_ok (pp_graph m) \<Longrightarrow>
     pr_code (pp_program m') = [] \<and> nodes_ok (pp_graph m')"
proof (induction ds arbitrary: m)
  case (Cons d ds)
  obtain m1 where m1: "declare_decl T d m = Done m1" "declare_all T ds m1 = Done m'"
    using Cons.prems(1) by (auto split: tc_out.splits)
  have "pr_code (pp_program m1) = [] \<and> nodes_ok (pp_graph m1)"
    using m1(1) Cons.prems(2, 3)
    by (auto simp: declare_decl_def split: decl.splits sum.splits tc_out.splits dest!: declare_fn_ok declare_heads_ok)
  then show ?case
    using Cons.IH m1(2) by blast
qed simp

lemma add_calls_nodes: "add_calls i cs g = Inr g' \<Longrightarrow> cg_nodes g' = cg_nodes g \<and> cg_weights g' = cg_weights g"
  by (induction i cs g rule: add_calls.induct) (auto simp: cg_add_edge_def split: option.splits)

lemma add_calls_edges:
  "add_calls i cs g = Inr g' \<Longrightarrow> edge_rel g \<subseteq> edge_rel g' \<and>
     (\<forall>(l, f) \<in> set cs. \<exists>j. bt_get f (cg_nodes g) = Some j \<and> (i, j) \<in> edge_rel g')"
proof (induction i cs g rule: add_calls.induct)
  case (2 i l f cs g)
  then obtain j where j: "bt_get f (cg_nodes g) = Some j" "add_calls i cs (cg_add_edge i j l g) = Inr g'"
    by (auto split: option.splits)
  have "edge_rel (cg_add_edge i j l g) = insert (i, j) (edge_rel g)"
    by (auto simp: edge_rel_def cg_add_edge_def)
  then show ?case
    using "2.IH" [OF j] j(1) by (auto simp: cg_add_edge_def)
qed simp

lemma option_some_internal: "is_internal dp_builtin ''option::Some''"
  by (simp add: is_internal_def is_builtin_def builtins_def lookup_typ_def typ_builtin_table_def dp_builtin_def
      dp_flat_builtins_def lookup_flat_def flat_builtin_table_def)

lemma edges_mono:
  assumes "edge_rel g \<subseteq> edge_rel g'" and "cg_nodes g' = cg_nodes g" and "calls_ok (calls_to B g i) e"
  shows "calls_ok (calls_to B g' i) e"
  using assms(3) by (rule calls_ok_mono) (use assms(1, 2) in \<open>auto simp: calls_to_def\<close>)

lemma add_decl_ok:
  fixes X :: "(flat_typ, 'l) tenv"
  assumes X: "tn_builtin X = dp_builtin" "order_ok X" and hash: "\<And>c. finite c \<Longrightarrow> set (hash c) = c"
    and m: "pre_ok dp_builtin m" and m': "add_decl X hash d m = Done m'"
  shows "pre_ok dp_builtin m' \<and>
    (\<exists>e. pr_code (pp_program m') = bt_insert (fd_name d) e (pr_code (pp_program m)))"
proof -
  let ?X = "X\<lparr>tn_headers := pr_headers (pp_program m)\<rparr>"
  obtain f e cs i g where d: "from_decl ?X d = Done (f, e, cs)"
    and i: "bt_get f (cg_nodes (pp_graph m)) = Some i"
    and g: "add_calls i (filter (\<lambda>(_, f). \<not> is_internal (tn_builtin X) f) (hash cs)) (pp_graph m) = Inr g"
    and eq: "m' = m\<lparr>pp_graph := g,
      pp_program := (pp_program m)\<lparr>pr_code := bt_insert f e (pr_code (pp_program m))\<rparr>\<rparr>"
    using m' by (auto simp: add_decl_def split: tc_out.splits prod.splits option.splits sum.splits)
  have f: "f = fd_name d" and sites: "calls_ok (site_ok cs) e" "finite cs"
    using from_decl_closed [OF _ d] X(2) by (auto simp: order_ok_def)
  note edges = add_calls_edges [OF g] add_calls_nodes [OF g]
  have "calls_ok (calls_to dp_builtin g i) e"
    using sites(1)
  proof (rule calls_ok_mono)
    fix h
    assume "site_ok cs h"
    then consider l where "(l, h) \<in> cs" | "is_internal dp_builtin h"
      using option_some_internal by (auto simp: site_ok_def is_internal_def is_builtin_def)
    then show "calls_to dp_builtin g i h"
    proof cases
      case (1 l)
      show ?thesis
      proof (cases "is_internal dp_builtin h")
        case False
        then have "(l, h) \<in> set (filter (\<lambda>(_, f). \<not> is_internal (tn_builtin X) f) (hash cs))"
          using 1 by (simp add: X(1) hash [OF sites(2)])
        then obtain j where "bt_get h (cg_nodes (pp_graph m)) = Some j" "(i, j) \<in> edge_rel g"
          using edges(1) by blast
        then show ?thesis
          using edges(2) by (simp add: calls_to_def)
      qed (simp add: calls_to_def)
    qed (simp add: calls_to_def)
  qed
  moreover have "calls_ok (calls_to dp_builtin g j) e'" if "calls_ok (calls_to dp_builtin (pp_graph m) j) e'" for j e'
    using edges that by (intro edges_mono [of "pp_graph m" g]) auto
  ultimately show ?thesis
    using m i edges(2) by (auto simp: pre_ok_def nodes_ok_def eq f) blast
qed

lemma add_decls_ok:
  fixes X :: "(flat_typ, 'l) tenv"
  assumes X: "tn_builtin X = dp_builtin" "order_ok X" and hash: "\<And>c. finite c \<Longrightarrow> set (hash c) = c"
  shows "pre_ok dp_builtin m \<Longrightarrow> add_decls X hash ds m = Done m' \<Longrightarrow> pre_ok dp_builtin m' \<and>
    (\<forall>f. bt_get f (pr_code (pp_program m')) \<noteq> None \<longrightarrow>
       bt_get f (pr_code (pp_program m)) \<noteq> None \<or> (\<exists>d. FnD d \<in> set ds \<and> f = fd_name d))"
proof (induction ds arbitrary: m)
  case (Cons d ds)
  show ?case
  proof (cases d)
    case (FnD fd)
    obtain m1 where m1: "add_decl X hash fd m = Done m1" "add_decls X hash ds m1 = Done m'"
      using Cons.prems(2) FnD by (auto split: tc_out.splits)
    note ok = add_decl_ok [OF X hash Cons.prems(1) m1(1)]
    show ?thesis
      using Cons.IH [OF conjunct1 [OF ok] m1(2)] ok FnD by fastforce
  qed (use Cons in auto)
qed simp

lemma build_program_ok:
  fixes X :: "(flat_typ, 'l) tenv"
  assumes X: "tn_builtin X = dp_builtin" "order_ok X" and hash: "\<And>c. finite c \<Longrightarrow> set (hash c) = c"
    and m: "build_program X hash ds = Done m"
  shows "pre_ok dp_builtin m"
    "bt_get f (pr_code (pp_program m)) \<noteq> None \<Longrightarrow> \<exists>d. FnD d \<in> set ds \<and> f = fd_name d"
proof -
  obtain m0 where m0: "declare_all (tn_types X) ds pre_default = Done m0" "add_decls X hash ds m0 = Done m"
    using m by (auto simp: build_program_def split: tc_out.splits)
  have "pr_code (pp_program m0) = [] \<and> nodes_ok (pp_graph m0)"
    using declare_all_ok [OF m0(1)] by (simp add: pre_default_def program_default_def)
  then have "pre_ok dp_builtin m0" "pr_code (pp_program m0) = []"
    by (simp_all add: pre_ok_def)
  then show "pre_ok dp_builtin m"
    "bt_get f (pr_code (pp_program m)) \<noteq> None \<Longrightarrow> \<exists>d. FnD d \<in> set ds \<and> f = fd_name d"
    using add_decls_ok [OF X hash _ m0(2)] by auto
qed

section \<open>Termination\<close>

lemma ranked_program:
  assumes "pre_ok B m" and "acyclic (edge_rel (pp_graph m))"
    and "\<And>f. bt_get f (pr_code (pp_program m)) \<noteq> None \<Longrightarrow> \<not> is_internal B f"
  shows "ranked (\<lambda>f. case bt_get f (cg_nodes (pp_graph m)) of Some i \<Rightarrow> cg_rank (pp_graph m) i | None \<Rightarrow> 0)
    (pr_code (pp_program m))"
  unfolding ranked_def
proof (intro allI impI)
  fix f e
  assume "bt_get f (pr_code (pp_program m)) = Some e"
  then obtain i where i: "bt_get f (cg_nodes (pp_graph m)) = Some i" "calls_ok (calls_to B (pp_graph m) i) e"
    using assms(1) by (auto simp: pre_ok_def)
  show "calls_ok (callable (\<lambda>f. case bt_get f (cg_nodes (pp_graph m)) of
      Some i \<Rightarrow> cg_rank (pp_graph m) i | None \<Rightarrow> 0) (pr_code (pp_program m))
      (case bt_get f (cg_nodes (pp_graph m)) of Some i \<Rightarrow> cg_rank (pp_graph m) i | None \<Rightarrow> 0)) e"
    using i(2) by (rule calls_ok_mono)
      (use assms(3) i(1) cg_rank_edge [OF assms(2)] in \<open>auto simp: callable_def calls_to_def\<close>)
qed

lemma program_terminates:
  fixes X :: "(flat_typ, flat_literal) tenv"
  assumes "graph_algorithms pg" and "tn_builtin X = dp_builtin"
    and "\<And>vs. set (tn_order X vs) = set vs" and "\<And>c. finite c \<Longrightarrow> set (hash c) = c"
    and "\<And>d. FnD d \<in> set ds \<Longrightarrow> \<not> is_internal dp_builtin (fd_name d)"
    and "from_buf pg X hash ds = Done m"
  shows "\<exists>n r t. r \<noteq> NoFuel \<and>
    (\<forall>k \<ge> n. eval (plane_env P (pr_code (pp_program m)) lib_at rpc) k e s = (r, t))"
proof -
  have build: "build_program X hash ds = Done m" and acyclic: "acyclic (edge_rel (pp_graph m))"
    using assms(6) graph_algorithms.no_cycle [OF assms(1)]
    by (auto simp: from_buf_def split: tc_out.splits sum.splits)
  have ok: "pre_ok dp_builtin m" "bt_get f (pr_code (pp_program m)) \<noteq> None \<Longrightarrow> \<not> is_internal dp_builtin f" for f
    using build_program_ok [OF assms(2) _ assms(4) build] assms(3, 5) by (auto simp: order_ok_def)
  show ?thesis
    by (rule ranked_terminates [OF ranked_program [OF ok(1) acyclic ok(2)]])
qed

text \<open>C1: a program that passes the type checker and the test for cycles terminates: whatever it calls,
  with enough fuel every evaluation ends, always in the same way. The names of its functions are
  identifiers, which no builtin is.\<close>

theorem accepted_program_terminates:
  fixes X :: "(flat_typ, flat_literal) tenv"
  assumes "graph_algorithms pg" and "tn_builtin X = dp_builtin"
    and "\<And>vs. set (tn_order X vs) = set vs" and "\<And>c. finite c \<Longrightarrow> set (hash c) = c"
    and "\<And>d. FnD d \<in> set ds \<Longrightarrow> \<not> is_internal dp_builtin (fd_name d)"
    and "from_buf pg X hash ds = Done m"
  shows "\<exists>n r t. r \<noteq> NoFuel \<and>
    (\<forall>k \<ge> n. eval (plane_env P (pr_code (pp_program m)) lib_at rpc) k e s = (r, t))"
  using assms by (rule program_terminates)

text \<open>\<open>fn inc(x: i64) -> i64 { x + 1 }\<close> and \<open>fn two() -> i64 { inc(1) }\<close>.\<close>

definition two_decls :: "flat_literal decl list" where
  "two_decls = [FnD inc_decl,
     FnD (decl_of ''two'' [] (PAtom (at ''i64'')) (CallP here ''inc'' [int_p 1]))]"

definition plain_tenv :: "(flat_typ, flat_literal) tenv" where
  "plain_tenv = dp_tenv [] (\<lambda>_. None) (\<lambda>vs. vs)"

theorem accepted_program_terminates_witness:
  "\<exists>m. from_buf closure_graph plain_tenv sorted_list_of_set two_decls = Done m \<and>
     (\<forall>lib_at rpc s. \<exists>n r t. r \<noteq> NoFuel \<and> (\<forall>k \<ge> n.
        eval (plane_env dp_plane (pr_code (pp_program m)) lib_at rpc) k (CallExpr ''two'' [] False) s = (r, t)))"
proof -
  have "(case from_buf closure_graph plain_tenv sorted_list_of_set two_decls of Done m \<Rightarrow> True | _ \<Rightarrow> False)"
    by code_simp
  then obtain m where m: "from_buf closure_graph plain_tenv sorted_list_of_set two_decls = Done m"
    by (cases "from_buf closure_graph plain_tenv sorted_list_of_set two_decls") auto
  have "\<forall>lib_at rpc s. \<exists>n r t. r \<noteq> NoFuel \<and> (\<forall>k \<ge> n.
      eval (plane_env dp_plane (pr_code (pp_program m)) lib_at rpc) k (CallExpr ''two'' [] False) s = (r, t))"
  proof (intro allI, rule accepted_program_terminates [OF closure.graph_algorithms_axioms _ _ _ _ m])
    show "tn_builtin plain_tenv = dp_builtin" "set (tn_order plain_tenv vs) = set vs" for vs
      by (simp_all add: plain_tenv_def)
    have "\<not> is_internal dp_builtin ''inc''" "\<not> is_internal dp_builtin ''two''"
      by code_simp+
    then show "\<not> is_internal dp_builtin (fd_name d)" if "FnD d \<in> set two_decls" for d
      using that by (auto simp: two_decls_def inc_decl_def decl_of_def at_def)
  qed simp
  then show ?thesis
    using m by blast
qed

section \<open>Unreachable functions\<close>

lemma code_cut_get: "bt_wf c \<Longrightarrow> bt_get f (code_cut names c) = (if f \<in> set names then None else bt_get f c)"
  unfolding code_cut_def using bt.cut_spec by blast

lemma reached_nodes:
  assumes ok: "pre_ok B m" and free: "\<And>f. bt_get f (pr_code (pp_program m)) \<noteq> None \<Longrightarrow> \<not> is_internal B f"
  shows "fn_reach (pr_code (pp_program m)) f g \<Longrightarrow> bt_get f (cg_nodes (pp_graph m)) = Some j \<Longrightarrow>
    bt_get g (pr_code (pp_program m)) = None \<or>
    (\<exists>i. bt_get g (cg_nodes (pp_graph m)) = Some i \<and> (j, i) \<in> (edge_rel (pp_graph m))\<^sup>*)"
proof (induction rule: fn_reach.induct)
  case (reach_call f g b h)
  obtain i where i: "bt_get g (cg_nodes (pp_graph m)) = Some i" "(j, i) \<in> (edge_rel (pp_graph m))\<^sup>*"
    using reach_call by auto
  have "calls_to B (pp_graph m) i h"
    using ok reach_call.hyps(2, 3) i(1) by (fastforce simp: pre_ok_def calls_ok_iff)
  then show ?case
    using i(2) free [of h] by (auto simp: calls_to_def intro: rtrancl_into_rtrancl)
qed auto

lemma reach_declared: "fn_reach code f g \<Longrightarrow> bt_get g code \<noteq> None \<Longrightarrow> bt_get f code \<noteq> None"
  by (induction rule: fn_reach.induct) auto

lemma cut_agrees:
  assumes pg: "graph_algorithms pg" and ok: "pre_ok B m" and f: "f \<in> set tops"
    and free: "\<And>f. bt_get f (pr_code (pp_program m)) \<noteq> None \<Longrightarrow> \<not> is_internal B f"
  shows "agree_on (pr_code (pp_program m)) (pr_code (program_for pg m tops)) f"
  unfolding agree_on_def
proof (intro allI impI)
  fix g
  assume g: "fn_reach (pr_code (pp_program m)) f g"
  let ?code = "pr_code (pp_program m)"
  have wf: "bt_wf ?code" "bt_wf (cg_nodes (pp_graph m))"
    using ok by (simp_all add: pre_ok_def nodes_ok_def)
  have cut: "bt_get g (pr_code (program_for pg m tops)) =
      (if g \<in> set (unreachable pg (pp_graph m) tops) then None else bt_get g ?code)"
    using f by (auto simp: program_for_def program_cut_def code_cut_get [OF wf(1)])
  show "bt_get g ?code = bt_get g (pr_code (program_for pg m tops))"
  proof (cases "bt_get g ?code")
    case (Some b)
    have "bt_get f ?code \<noteq> None"
      using Some by (intro reach_declared [OF g]) simp
    then obtain j where j: "bt_get f (cg_nodes (pp_graph m)) = Some j"
      using ok by (auto simp: pre_ok_def)
    then obtain i where "bt_get g (cg_nodes (pp_graph m)) = Some i" "(j, i) \<in> (edge_rel (pp_graph m))\<^sup>*"
      using reached_nodes [OF ok free g j] Some by auto
    then have "g \<notin> set (unreachable pg (pp_graph m) tops)"
      using f j by (auto simp: graph_algorithms.unreachable_iff [OF pg] simp flip: bt_get_in_set [OF wf(2)])
    then show ?thesis
      using cut by simp
  qed (use cut in auto)
qed

lemma entry_same:
  fixes X :: "(flat_typ, flat_literal) tenv"
  assumes "graph_algorithms pg" and "tn_builtin X = dp_builtin"
    and "\<And>vs. set (tn_order X vs) = set vs" and "\<And>c. finite c \<Longrightarrow> set (hash c) = c"
    and "\<And>d. FnD d \<in> set ds \<Longrightarrow> \<not> is_internal dp_builtin (fd_name d)"
    and "build_program X hash ds = Done m" and "f \<in> set tops"
  shows "eval (plane_env P (pr_code (program_for pg m tops)) lib_at rpc) k (CallExpr f (map LitExpr ls) async) s =
    eval (plane_env P (pr_code (pp_program m)) lib_at rpc) k (CallExpr f (map LitExpr ls) async) s"
proof -
  have ok: "pre_ok dp_builtin m" "bt_get f (pr_code (pp_program m)) \<noteq> None \<Longrightarrow> \<not> is_internal dp_builtin f" for f
    using build_program_ok [OF assms(2) _ assms(4, 6)] assms(3, 5) by (auto simp: order_ok_def)
  have "calls_ok (agree_on (pr_code (pp_program m)) (pr_code (program_for pg m tops)))
      (CallExpr f (map LitExpr ls) async)"
    using cut_agrees [OF assms(1) ok(1) assms(7) ok(2)] by (simp add: list_all_iff)
  then show ?thesis
    by (simp add: codes.same)
qed

text \<open>C7: cutting a program down to its entry points does not change them: a call of an entry point gives
  the same outcome and the same machine in the program that \<open>program\<close> returns, from which every
  function that no entry point reaches is removed, as in the whole program, with the same fuel.\<close>

theorem entry_points_unchanged:
  fixes X :: "(flat_typ, flat_literal) tenv"
  assumes "graph_algorithms pg" and "tn_builtin X = dp_builtin"
    and "\<And>vs. set (tn_order X vs) = set vs" and "\<And>c. finite c \<Longrightarrow> set (hash c) = c"
    and "\<And>d. FnD d \<in> set ds \<Longrightarrow> \<not> is_internal dp_builtin (fd_name d)"
    and "build_program X hash ds = Done m" and "f \<in> set tops"
  shows "eval (plane_env P (pr_code (program_for pg m tops)) lib_at rpc) k (CallExpr f (map LitExpr ls) async) s =
    eval (plane_env P (pr_code (pp_program m)) lib_at rpc) k (CallExpr f (map LitExpr ls) async) s"
  using assms by (rule entry_same)

text \<open>Of \<open>two\<close> and a function \<open>one\<close> that \<open>two\<close> does not call.\<close>

definition three_decls :: "flat_literal decl list" where
  "three_decls = two_decls @ [FnD (decl_of ''one'' [] (PAtom (at ''i64'')) (snd (int_p 1)))]"

theorem entry_points_unchanged_witness:
  "\<exists>m. build_program plain_tenv sorted_list_of_set three_decls = Done m \<and>
     map fst (pr_code (pp_program m)) = [''inc'', ''one'', ''two''] \<and>
     (\<forall>P lib_at rpc k s.
        eval (plane_env P (pr_code (program_for closure_graph m [''two''])) lib_at rpc) k (CallExpr ''two'' [] False) s =
        eval (plane_env P (pr_code (pp_program m)) lib_at rpc) k (CallExpr ''two'' [] False) s)"
proof -
  have "(case build_program plain_tenv sorted_list_of_set three_decls of
      Done m \<Rightarrow> map fst (pr_code (pp_program m)) = [''inc'', ''one'', ''two''] | _ \<Rightarrow> False)"
    by code_simp
  then obtain m where m: "build_program plain_tenv sorted_list_of_set three_decls = Done m"
      "map fst (pr_code (pp_program m)) = [''inc'', ''one'', ''two'']"
    by (cases "build_program plain_tenv sorted_list_of_set three_decls") auto
  have "eval (plane_env P (pr_code (program_for closure_graph m [''two''])) lib_at rpc) k (CallExpr ''two'' (map LitExpr []) False) s =
      eval (plane_env P (pr_code (pp_program m)) lib_at rpc) k (CallExpr ''two'' (map LitExpr []) False) s" for P lib_at rpc k s
  proof (rule entry_points_unchanged [OF closure.graph_algorithms_axioms _ _ _ _ m(1)])
    show "tn_builtin plain_tenv = dp_builtin" "set (tn_order plain_tenv vs) = set vs" for vs
      by (simp_all add: plain_tenv_def)
    have "\<not> is_internal dp_builtin ''inc''" "\<not> is_internal dp_builtin ''two''" "\<not> is_internal dp_builtin ''one''"
      by code_simp+
    then show "\<not> is_internal dp_builtin (fd_name d)" if "FnD d \<in> set three_decls" for d
      using that by (auto simp: three_decls_def two_decls_def inc_decl_def decl_of_def at_def)
  qed simp_all
  then show ?thesis
    using m by auto
qed

section \<open>Dead code in a stored program\<close>

lemma edge_rel_single: "(0, 2) \<notin> (edge_rel \<lparr>cg_weights = ws, cg_edges = [(0, 1, l)], cg_nodes = ns\<rparr>)\<^sup>*"
proof
  assume "(0, 2) \<in> (edge_rel \<lparr>cg_weights = ws, cg_edges = [(0, 1, l)], cg_nodes = ns\<rparr>)\<^sup>*"
  then have "(2 :: nat) \<in> {0, 1}"
    by (induction rule: rtrancl_induct) (auto simp: edge_rel_def)
  then show False
    by simp
qed

text \<open>C38: \<open>deadcode_elim\<close> removes a function that is called. The function \<open>a\<close> is kept and calls \<open>b\<close>; since
  the header of \<open>a\<close> comes before that of \<open>b\<close>, the call makes a node for \<open>b\<close>, the header a second one, and
  the edge leads to the first. And a header without code, which every external has, is a panic.\<close>

theorem deadcode_elim_flaws:
  assumes "graph_algorithms pg" and "a < b" and "\<not> is_internal B b"
  shows "(\<exists>p'. deadcode_elim pg B [a]
      \<lparr>pr_code = [(a, CallExpr b [] False), (b, LitExpr l)], pr_externals = x, pr_headers = [(a, sa), (b, sb)]\<rparr> = Some p' \<and>
      pr_code p' = [(a, CallExpr b [] False)]) \<and>
    deadcode_elim pg B mains \<lparr>pr_code = [], pr_externals = x, pr_headers = [(a, sa)]\<rparr> = None"
  (is "?removed \<and> ?panics")
proof
  let ?g = "\<lparr>cg_weights = [a, b, b], cg_edges = [(0, 1, dummy_loc)], cg_nodes = [(a, 0), (b, 2)]\<rparr>"
  have "a \<noteq> b" "\<not> b < a"
    using assms(2) by auto
  then have g: "deadcode_nodes B [(a, CallExpr b [] False), (b, LitExpr l)] [a, b] cg_default = Some ?g"
    using assms by (simp add: cg_default_def cg_add_node_def cg_add_edge_def dead_call_def code_get_def)
  have "unreachable pg ?g [a] = [b]"
    using \<open>a \<noteq> b\<close> edge_rel_single
    by (simp add: unreachable_def List.map_filter_def graph_algorithms.path [OF assms(1)])
  then show ?removed
    using g \<open>a \<noteq> b\<close> by (simp add: deadcode_elim_def program_for_def program_cut_def code_cut_def)
  show ?panics
    by (simp add: deadcode_elim_def cg_add_node_def cg_default_def code_get_def)
qed

theorem deadcode_elim_flaws_witness:
  "(\<exists>p'. deadcode_elim closure_graph dp_builtin [''allow'']
      \<lparr>pr_code = [(''allow'', CallExpr ''check'' [] False), (''check'', LitExpr (FlatLit (BoolL True)))],
       pr_externals = externals_default,
       pr_headers = [(''allow'', default_sig dp_types), (''check'', default_sig dp_types)]\<rparr> = Some p' \<and>
      pr_code p' = [(''allow'', CallExpr ''check'' [] False)]) \<and>
   deadcode_elim closure_graph dp_builtin []
     (\<lparr>pr_code = [], pr_externals = externals_default, pr_headers = [(''allow'', default_sig dp_types)]\<rparr> ::
       (flat_typ, flat_literal) program) = None"
proof -
  have "\<not> is_internal dp_builtin ''check''"
    by code_simp
  moreover have "''allow'' < ''check''"
    by code_simp
  ultimately show ?thesis
    using deadcode_elim_flaws [OF closure.graph_algorithms_axioms, of "''allow''" "''check''" dp_builtin] by blast
qed

end
