(* ===== verification/Policies.thy ===== *)
theory Policies
  imports LangProps
begin

text \<open>
  \<open>armour-lang/src/policies.rs\<close>: what a policy says about each function of a protocol, the protocols
  and the types their functions may have, policies as programs with such a table, and the policies
  of a service. Hashing, the encoding of a policy and the printing of its program are arguments.
\<close>

section \<open>Policies of functions\<close>

datatype fn_policy = FnAllow | FnDeny | FnArgs u8

type_synonym fn_policies = "(string \<times> fn_policy) list"

definition ALLOW_REST_REQUEST :: string where "ALLOW_REST_REQUEST = ''allow_rest_request''"
definition ALLOW_REST_RESPONSE :: string where "ALLOW_REST_RESPONSE = ''allow_rest_response''"
definition ALLOW_TCP_CONNECTION :: string where "ALLOW_TCP_CONNECTION = ''allow_tcp_connection''"
definition ON_TCP_DISCONNECT :: string where "ON_TCP_DISCONNECT = ''on_tcp_disconnect''"

lemmas entry_names = ALLOW_REST_REQUEST_def ALLOW_REST_RESPONSE_def ALLOW_TCP_CONNECTION_def ON_TCP_DISCONNECT_def

definition is_ingress :: "string \<Rightarrow> bool" where
  "is_ingress f \<longleftrightarrow> ALLOW_REST_REQUEST = f \<or> ALLOW_TCP_CONNECTION = f"

definition is_egress :: "string \<Rightarrow> bool" where
  "is_egress f \<longleftrightarrow> ALLOW_REST_RESPONSE = f"

definition fns_allow_all :: "string list \<Rightarrow> fn_policies" where
  "fns_allow_all names = bt_collect (map (\<lambda>n. (n, FnAllow)) names)"

definition fns_allow_egress :: "string list \<Rightarrow> fn_policies" where
  "fns_allow_egress names = bt_collect (map (\<lambda>n. (n, FnAllow)) (filter is_egress names))"

definition fns_allow_ingress :: "string list \<Rightarrow> fn_policies" where
  "fns_allow_ingress names = bt_collect (map (\<lambda>n. (n, FnAllow)) (filter is_ingress names))"

definition fns_deny_all :: "string list \<Rightarrow> fn_policies" where
  "fns_deny_all names = bt_collect (map (\<lambda>n. (n, FnDeny)) names)"

definition fns_deny_egress :: "string list \<Rightarrow> fn_policies" where
  "fns_deny_egress names = bt_collect (map (\<lambda>n. (n, FnDeny)) (filter is_egress names))"

definition fns_deny_ingress :: "string list \<Rightarrow> fn_policies" where
  "fns_deny_ingress names = bt_collect (map (\<lambda>n. (n, FnDeny)) (filter is_ingress names))"

definition fns_is_allow_all :: "fn_policies \<Rightarrow> bool" where
  "fns_is_allow_all m \<longleftrightarrow> m \<noteq> [] \<and> list_all (\<lambda>(_, p). p = FnAllow) m"

definition fns_is_allow_egress :: "fn_policies \<Rightarrow> bool" where
  "fns_is_allow_egress m \<longleftrightarrow> m \<noteq> [] \<and> list_all (\<lambda>(k, p). \<not> is_egress k \<or> p = FnAllow) m"

definition fns_is_allow_ingress :: "fn_policies \<Rightarrow> bool" where
  "fns_is_allow_ingress m \<longleftrightarrow> m \<noteq> [] \<and> list_all (\<lambda>(k, p). \<not> is_ingress k \<or> p = FnAllow) m"

definition fns_is_deny_all :: "fn_policies \<Rightarrow> bool" where
  "fns_is_deny_all m \<longleftrightarrow> m \<noteq> [] \<and> list_all (\<lambda>(_, p). p = FnDeny) m"

definition fns_is_deny_egress :: "fn_policies \<Rightarrow> bool" where
  "fns_is_deny_egress m \<longleftrightarrow> m \<noteq> [] \<and> list_all (\<lambda>(k, p). \<not> is_egress k \<or> p = FnDeny) m"

definition fns_is_deny_ingress :: "fn_policies \<Rightarrow> bool" where
  "fns_is_deny_ingress m \<longleftrightarrow> m \<noteq> [] \<and> list_all (\<lambda>(k, p). \<not> is_ingress k \<or> p = FnDeny) m"

definition fns_merge :: "fn_policies \<Rightarrow> fn_policies \<Rightarrow> fn_policies" where
  "fns_merge a b = bt_merge a b"

definition set_args :: "string \<Rightarrow> u8 \<Rightarrow> fn_policies \<Rightarrow> fn_policies" where
  "set_args k u m = bt_insert k (FnArgs u) m"

section \<open>Protocols\<close>

text \<open>The types a function of a protocol may have.\<close>

type_synonym 'f protocol_policy = "(string \<times> 'f signature list) list"

definition pp_insert_bool :: "'f tflat \<Rightarrow> string \<Rightarrow> 'f ty list list \<Rightarrow> 'f protocol_policy \<Rightarrow> 'f protocol_policy" where
  "pp_insert_bool T name args p = bt_insert name (map (\<lambda>v. new_sig v (bool_typ T)) args) p"

definition pp_insert_unit :: "'f tflat \<Rightarrow> string \<Rightarrow> 'f ty list list \<Rightarrow> 'f protocol_policy \<Rightarrow> 'f protocol_policy" where
  "pp_insert_unit T name args p = bt_insert name (map (\<lambda>v. new_sig v (unit_typ T)) args) p"

definition pp_functions :: "'f protocol_policy \<Rightarrow> string list" where
  "pp_functions p = map fst p"

definition http_policy :: "'f tflat \<Rightarrow> 'f protocol_policy" where
  "http_policy T =
     (let id = FlatTyp (t_id T); req = FlatTyp (t_http_request T); res = FlatTyp (t_http_response T);
          data = FlatTyp (t_data T)
      in pp_insert_bool T ALLOW_REST_RESPONSE [[id, id, res, data], [res, data], [res], []]
           (pp_insert_bool T ALLOW_REST_REQUEST [[id, id, req, data], [req, data], [req], []] []))"

definition tcp_policy :: "'f tflat \<Rightarrow> 'f protocol_policy" where
  "tcp_policy T =
     (let id = FlatTyp (t_id T); conn = FlatTyp (t_connection T); i = i64_typ T
      in pp_insert_unit T ON_TCP_DISCONNECT [[id, id, conn, i, i], [conn, i, i], [conn], []]
           (pp_insert_bool T ALLOW_TCP_CONNECTION [[id, id, conn], [conn], []] []))"

text \<open>The \<open>Phantom\<close> of the Rust type carries no policy; what is asked of it is \<open>unreachable!\<close>.\<close>

datatype protocol = PhantomProtocol | HTTP | TCP

datatype ordering = OrdLess | OrdEqual | OrdGreater

fun protocol_cmp :: "protocol \<Rightarrow> protocol \<Rightarrow> ordering" where
  "protocol_cmp HTTP TCP = OrdLess"
| "protocol_cmp TCP TCP = OrdEqual"
| "protocol_cmp HTTP HTTP = OrdEqual"
| "protocol_cmp TCP HTTP = OrdGreater"
| "protocol_cmp PhantomProtocol _ = OrdLess"
| "protocol_cmp _ PhantomProtocol = OrdGreater"

instantiation protocol :: linorder
begin

fun less_eq_protocol :: "protocol \<Rightarrow> protocol \<Rightarrow> bool" where
  "less_eq_protocol PhantomProtocol _ \<longleftrightarrow> True"
| "less_eq_protocol HTTP q \<longleftrightarrow> q \<noteq> PhantomProtocol"
| "less_eq_protocol TCP q \<longleftrightarrow> q = TCP"

definition less_protocol :: "protocol \<Rightarrow> protocol \<Rightarrow> bool" where
  "less_protocol p q \<longleftrightarrow> p \<le> q \<and> p \<noteq> q"

instance
proof
  fix p q r :: protocol
  show "p < q \<longleftrightarrow> p \<le> q \<and> \<not> q \<le> p"
    by (cases p; cases q) (simp_all add: less_protocol_def)
  show "p \<le> p"
    by (cases p) simp_all
  show "p \<le> q \<Longrightarrow> q \<le> r \<Longrightarrow> p \<le> r"
    by (cases p; cases q; cases r) simp_all
  show "p \<le> q \<Longrightarrow> q \<le> p \<Longrightarrow> p = q"
    by (cases p; cases q) simp_all
  show "p \<le> q \<or> q \<le> p"
    by (cases p; cases q) simp_all
qed

end

text \<open>The code's comparison is this order, but for \<open>Phantom\<close>, which it finds less than itself.\<close>

lemma protocol_cmp_order:
  "p \<noteq> PhantomProtocol \<or> q \<noteq> PhantomProtocol \<Longrightarrow>
     protocol_cmp p q = (if p < q then OrdLess else if p = q then OrdEqual else OrdGreater)"
  by (cases p; cases q) (simp_all add: less_protocol_def)

definition protocol_policy_of :: "'f tflat \<Rightarrow> protocol \<Rightarrow> 'f protocol_policy option" where
  "protocol_policy_of T p =
     (case p of HTTP \<Rightarrow> Some (http_policy T) | TCP \<Rightarrow> Some (tcp_policy T) | PhantomProtocol \<Rightarrow> None)"

definition protocol_functions :: "'f tflat \<Rightarrow> protocol \<Rightarrow> string list option" where
  "protocol_functions T p = map_option pp_functions (protocol_policy_of T p)"

fun show_protocol :: "protocol \<Rightarrow> string option" where
  "show_protocol HTTP = Some ''http''"
| "show_protocol TCP = Some ''tcp''"
| "show_protocol PhantomProtocol = None"

text \<open>\<open>to_lowercase\<close> on the letters that occur in the names of protocols.\<close>

definition lower_char :: "char \<Rightarrow> char" where
  "lower_char c = (if 65 \<le> (of_char c :: nat) \<and> (of_char c :: nat) \<le> 90 then char_of ((of_char c :: nat) + 32) else c)"

definition parse_protocol :: "string \<Rightarrow> protocol result" where
  "parse_protocol s =
     (let t = map lower_char s
      in if t = ''tcp'' then Inr TCP
         else if t = ''http'' then Inr HTTP
         else Inl (ErrorFmt ''failed to parse protocol: {}'' [s]))"

section \<open>Policies\<close>

record ('f, 'l) policy =
  pol_program :: "('f, 'l) program"
  pol_fns :: fn_policies

definition policy_default :: "('f, 'l) policy" where
  "policy_default = \<lparr>pol_program = program_default, pol_fns = []\<rparr>"

text \<open>A constant policy; \<open>None\<close> for \<open>Phantom\<close>.\<close>

definition const_policy :: "'f tflat \<Rightarrow> (string list \<Rightarrow> fn_policies) \<Rightarrow> protocol \<Rightarrow> ('f, 'l) policy option" where
  "const_policy T f p =
     map_option (\<lambda>pp. \<lparr>pol_program = program_default, pol_fns = f (pp_functions pp)\<rparr>) (protocol_policy_of T p)"

definition policy_allow_all :: "'f tflat \<Rightarrow> protocol \<Rightarrow> ('f, 'l) policy option" where
  "policy_allow_all T = const_policy T fns_allow_all"

definition policy_allow_egress :: "'f tflat \<Rightarrow> protocol \<Rightarrow> ('f, 'l) policy option" where
  "policy_allow_egress T = const_policy T fns_allow_egress"

definition policy_allow_ingress :: "'f tflat \<Rightarrow> protocol \<Rightarrow> ('f, 'l) policy option" where
  "policy_allow_ingress T = const_policy T fns_allow_ingress"

definition policy_deny_all :: "'f tflat \<Rightarrow> protocol \<Rightarrow> ('f, 'l) policy option" where
  "policy_deny_all T = const_policy T fns_deny_all"

definition policy_deny_egress :: "'f tflat \<Rightarrow> protocol \<Rightarrow> ('f, 'l) policy option" where
  "policy_deny_egress T = const_policy T fns_deny_egress"

definition policy_deny_ingress :: "'f tflat \<Rightarrow> protocol \<Rightarrow> ('f, 'l) policy option" where
  "policy_deny_ingress T = const_policy T fns_deny_ingress"

definition policy_merge :: "('f, 'l) policy \<Rightarrow> ('f, 'l) policy \<Rightarrow> ('f, 'l) policy" where
  "policy_merge a b =
     \<lparr>pol_program = program_merge (pol_program a) (pol_program b), pol_fns = fns_merge (pol_fns a) (pol_fns b)\<rparr>"

definition policy_get :: "('f, 'l) policy \<Rightarrow> string \<Rightarrow> fn_policy option" where
  "policy_get p name = bt_get name (pol_fns p)"

definition dp_of_cp_policy :: "('c \<Rightarrow> 'd option) \<Rightarrow> (cp_flat_typ, 'c) policy \<Rightarrow> (flat_typ, 'd) policy option" where
  "dp_of_cp_policy dp p =
     map_option (\<lambda>prog. \<lparr>pol_program = prog, pol_fns = pol_fns p\<rparr>) (dp_of_cp_program dp (pol_program p))"

text \<open>\<open>Policy::type_check\<close>: the return types unify, and the arguments where both are given.\<close>

definition sig_check :: "'f tflat \<Rightarrow> string \<Rightarrow> 'f signature \<Rightarrow> 'f signature \<Rightarrow> bool" where
  "sig_check T f s1 s2 \<longleftrightarrow>
     type_check T f [(None, sig_typ s1)] [(None, sig_typ s2)] = Inr () \<and>
     (case (sig_args s1, sig_args s2) of
        (Some a1, Some a2) \<Rightarrow> type_check T f (map (Pair None) a1) (map (Pair None) a2) = Inr ()
      | (Some _, None) \<Rightarrow> False
      | _ \<Rightarrow> True)"

text \<open>\<open>u8::try_from\<close> on a length.\<close>

definition u8_try_from :: "nat \<Rightarrow> u8 option" where
  "u8_try_from n = (if n < 256 then Some (word_of_nat n) else None)"

fun fn_policies_of ::
    "'f tbuiltin \<Rightarrow> ('f, 'l) program \<Rightarrow> 'f protocol_policy \<Rightarrow> fn_policies \<Rightarrow> fn_policies result" where
  "fn_policies_of B prog [] m = Inr m"
| "fn_policies_of B prog ((f, sigs) # pp) m =
     (case header_typ B (pr_headers prog) f of
        Some sig \<Rightarrow>
          (if \<not> list_ex (sig_check (b_types B) f sig) sigs then
             Inl (ErrorFmt ''possible types for function \"{}\" are: {}'' [f, join ''; '' (map (show_sig (b_types B)) sigs)])
           else
             (case Option.bind (sig_args sig) (\<lambda>v. u8_try_from (length v)) of
                Some n \<Rightarrow> fn_policies_of B prog pp (bt_insert f (FnArgs n) m)
              | None \<Rightarrow> fn_policies_of B prog pp m))
      | None \<Rightarrow> fn_policies_of B prog pp (bt_insert f FnAllow m))"

definition from_program ::
    "'f tbuiltin \<Rightarrow> ('f, 'l) program \<Rightarrow> 'f protocol_policy \<Rightarrow> ('f, 'l) policy result" where
  "from_program B prog pp =
     bind_res (fn_policies_of B prog pp []) (\<lambda>m. Inr \<lparr>pol_program = prog, pol_fns = m\<rparr>)"

text \<open>\<open>Display\<close>: \<open>hash\<close> is \<open>blake3\<close>, \<open>prog\<close> the printer of programs.\<close>

definition show_policy ::
    "(('f, 'l) policy \<Rightarrow> string) \<Rightarrow> (('f, 'l) program \<Rightarrow> string) \<Rightarrow> ('f, 'l) policy \<Rightarrow> string" where
  "show_policy hash prog p =
     (let m = pol_fns p
      in if fns_is_allow_all m then ''allow all''
         else if fns_is_deny_all m then ''deny all''
         else
           (if fns_is_allow_egress m then ''allow egress'' else []) @
           (if fns_is_allow_ingress m then ''allow ingress'' else []) @
           (if fns_is_deny_ingress m then ''deny ingress'' else []) @
           (if fns_is_deny_ingress m then ''deny ingress'' else []) @
           ''['' @ hash p @ '']'' @ [CHR 0x0A] @ prog (pol_program p))"

section \<open>The policies of a service\<close>

type_synonym ('f, 'l) policies = "(protocol \<times> ('f, 'l) policy) list"

definition policies_merge :: "('f, 'l) policies \<Rightarrow> ('f, 'l) policies \<Rightarrow> ('f, 'l) policies" where
  "policies_merge a b =
     foldl (\<lambda>m (k, v). bt_insert k (case bt_get k a of Some x \<Rightarrow> policy_merge v x | None \<Rightarrow> v) m) a b"

text \<open>The constant policies of both protocols, TCP inserted first; a panic is \<open>None\<close>.\<close>

definition const_policies :: "(protocol \<Rightarrow> ('f, 'l) policy option) \<Rightarrow> ('f, 'l) policies option" where
  "const_policies f =
     (case (f TCP, f HTTP) of
        (Some tcp, Some http) \<Rightarrow> Some (bt_insert HTTP http (bt_insert TCP tcp []))
      | _ \<Rightarrow> None)"

definition policies_allow_all :: "'f tflat \<Rightarrow> ('f, 'l) policies option" where
  "policies_allow_all T = const_policies (policy_allow_all T)"

definition policies_allow_egress :: "'f tflat \<Rightarrow> ('f, 'l) policies option" where
  "policies_allow_egress T = const_policies (policy_allow_egress T)"

definition policies_allow_ingress :: "'f tflat \<Rightarrow> ('f, 'l) policies option" where
  "policies_allow_ingress T = const_policies (policy_allow_ingress T)"

definition policies_deny_all :: "'f tflat \<Rightarrow> ('f, 'l) policies option" where
  "policies_deny_all T = const_policies (policy_deny_all T)"

definition policies_deny_egress :: "'f tflat \<Rightarrow> ('f, 'l) policies option" where
  "policies_deny_egress T = const_policies (policy_deny_egress T)"

definition policies_deny_ingress :: "'f tflat \<Rightarrow> ('f, 'l) policies option" where
  "policies_deny_ingress T = const_policies (policy_deny_ingress T)"

definition policies_all :: "(fn_policies \<Rightarrow> bool) \<Rightarrow> ('f, 'l) policies \<Rightarrow> bool" where
  "policies_all Q ps \<longleftrightarrow> list_all (\<lambda>(_, p). Q (pol_fns p)) ps"

definition policies_is_allow_all :: "('f, 'l) policies \<Rightarrow> bool" where
  "policies_is_allow_all = policies_all fns_is_allow_all"

definition policies_is_allow_egress :: "('f, 'l) policies \<Rightarrow> bool" where
  "policies_is_allow_egress = policies_all fns_is_allow_egress"

definition policies_is_allow_ingress :: "('f, 'l) policies \<Rightarrow> bool" where
  "policies_is_allow_ingress = policies_all fns_is_allow_ingress"

definition policies_is_deny_all :: "('f, 'l) policies \<Rightarrow> bool" where
  "policies_is_deny_all = policies_all fns_is_deny_all"

definition policies_is_deny_egress :: "('f, 'l) policies \<Rightarrow> bool" where
  "policies_is_deny_egress = policies_all fns_is_deny_egress"

definition policies_is_deny_ingress :: "('f, 'l) policies \<Rightarrow> bool" where
  "policies_is_deny_ingress = policies_all fns_is_deny_ingress"

definition policies_policy :: "('f, 'l) policies \<Rightarrow> protocol \<Rightarrow> ('f, 'l) policy option" where
  "policies_policy ps p = bt_get p ps"

definition dp_of_cp_policies ::
    "('c \<Rightarrow> 'd option) \<Rightarrow> (cp_flat_typ, 'c) policies \<Rightarrow> (flat_typ, 'd) policies option" where
  "dp_of_cp_policies dp ps =
     map_option bt_collect (map_opt (\<lambda>(p, pol). map_option (Pair p) (dp_of_cp_policy dp pol)) ps)"

text \<open>One protocol of \<open>inner_from\<close>: a program without code adds no policy.\<close>

definition insert_protocol ::
    "petgraph \<Rightarrow> 'f tbuiltin \<Rightarrow> ('f, 'l) pre_program \<Rightarrow> protocol \<Rightarrow> 'f protocol_policy \<Rightarrow> ('f, 'l) policies \<Rightarrow>
       ('f, 'l) policies result" where
  "insert_protocol pg B m p pp ps =
     (let prog = program_for pg m (pp_functions pp)
      in if program_is_empty prog then Inr ps
         else bind_res (from_program B prog pp) (\<lambda>pol. Inr (bt_insert p pol ps)))"

definition inner_from :: "petgraph \<Rightarrow> 'f tbuiltin \<Rightarrow> ('f, 'l) pre_program \<Rightarrow> ('f, 'l) policies result" where
  "inner_from pg B m =
     bind_res (insert_protocol pg B m HTTP (http_policy (b_types B)) []) (\<lambda>ps.
     insert_protocol pg B m TCP (tcp_policy (b_types B)) ps)"

definition policies_from_buf ::
    "petgraph \<Rightarrow> ('f, 'l) tenv \<Rightarrow> (calls \<Rightarrow> (loc \<times> string) list) \<Rightarrow> 'l decl list \<Rightarrow> ('f, 'l) policies tc_out" where
  "policies_from_buf pg X hash ds =
     (case from_buf pg X hash ds of
        Done m \<Rightarrow> (case inner_from pg (tn_builtin X) m of Inr ps \<Rightarrow> Done ps | Inl e \<Rightarrow> Fail e)
      | Fail e \<Rightarrow> Fail e
      | Crash \<Rightarrow> Crash)"

definition show_policies ::
    "(('f, 'l) policy \<Rightarrow> string) \<Rightarrow> (('f, 'l) program \<Rightarrow> string) \<Rightarrow> ('f, 'l) policies \<Rightarrow> string" where
  "show_policies hash prog ps =
     (let line = (\<lambda>p. (case policies_policy ps p of Some pol \<Rightarrow> show_policy hash prog pol | None \<Rightarrow> ''-'') @ [CHR 0x0A])
      in ''TCP: '' @ line TCP @ ''HTTP: '' @ line HTTP @ ''Phantom: '' @ line PhantomProtocol)"

text \<open>The serialised form: each policy encoded on its own. \<open>enc\<close> and \<open>dec\<close> are \<open>to_bincode\<close> and
  \<open>from_bincode\<close>.\<close>

definition policies_serialize ::
    "(('f, 'l) policy \<Rightarrow> string option) \<Rightarrow> ('f, 'l) policies \<Rightarrow> (protocol \<times> string) list result" where
  "policies_serialize enc ps =
     map_res (\<lambda>(p, pol). case enc pol of
         Some s \<Rightarrow> Inr (p, s)
       | None \<Rightarrow> Inl (Error ''failed to convert policy to bincode'')) ps"

fun visit_map ::
    "(string \<Rightarrow> ('f, 'l) policy option) \<Rightarrow> (protocol \<times> string) list \<Rightarrow> ('f, 'l) policies \<Rightarrow> ('f, 'l) policies result" where
  "visit_map dec [] ps = Inr ps"
| "visit_map dec ((p, s) # rest) ps =
     (case dec s of
        Some pol \<Rightarrow> visit_map dec rest (bt_insert p pol ps)
      | None \<Rightarrow> Inl (Error ''failed to read policy from bincode''))"

definition policies_deserialize ::
    "(string \<Rightarrow> ('f, 'l) policy option) \<Rightarrow> (protocol \<times> string) list \<Rightarrow> ('f, 'l) policies result" where
  "policies_deserialize dec xs = visit_map dec xs []"

section \<open>Onboarding\<close>

definition ONBOARDING_SERVICES :: string where "ONBOARDING_SERVICES = ''onboarding_policy''"

definition onboarding_sig :: "cp_flat_typ signature" where
  "onboarding_sig = new_sig [FlatTyp OnboardingDataT] (FlatTyp OnboardingResultT)"

definition onboarding_check_header :: "(cp_flat_typ, 'l) program \<Rightarrow> unit result" where
  "onboarding_check_header prog =
     (case bt_get ONBOARDING_SERVICES (pr_headers prog) of
        None \<Rightarrow> Inl (Error ''onboarding_policy has no signature'')
      | Some sig \<Rightarrow>
          (if sig_check cp_types ONBOARDING_SERVICES sig onboarding_sig then Inr ()
           else Inl (ErrorFmt (''onboarding_policy has a wrong signature'' @ [CHR 0x0A] @ ''{}'' @ [CHR 0x0A] @ ''expected'' @ [CHR 0x0A] @ ''{}'')
             [show_sig cp_types sig, show_sig cp_types onboarding_sig])))"

definition onboard_from :: "(cp_flat_typ, 'l) program \<Rightarrow> (cp_flat_typ, 'l) policy result" where
  "onboard_from prog =
     bind_res (onboarding_check_header prog) (\<lambda>_. Inr \<lparr>pol_program = prog, pol_fns = []\<rparr>)"

definition onboarding_inner_from ::
    "petgraph \<Rightarrow> (cp_flat_typ, 'l) pre_program \<Rightarrow> (cp_flat_typ, 'l) policy result" where
  "onboarding_inner_from pg m =
     (let prog = program_for pg m [ONBOARDING_SERVICES]
      in bind_res (onboarding_check_header prog) (\<lambda>_. Inr \<lparr>pol_program = prog, pol_fns = []\<rparr>))"

end
