(* ===== verification/PolicyProps.thy ===== *)
theory PolicyProps
  imports Policies
begin

text \<open>
  Properties of policies: what the table of a policy says about the entry points of a protocol, that
  the evaluation of an accepted policy ends, how policies are merged, stored and recognised.
\<close>

section \<open>Programs as policies\<close>

lemma pp_ordered: "protocol_policy_of T p = Some pp \<Longrightarrow> bt_wf pp"
  unfolding protocol_policy_of_def http_policy_def tcp_policy_def pp_insert_bool_def pp_insert_unit_def Let_def
  by (auto split: protocol.splits simp del: bt_insert.simps)

lemma fn_policies_of_get:
  "fn_policies_of B prog pp m = Inr m' \<Longrightarrow> distinct (map fst pp) \<Longrightarrow>
     bt_get f m' =
       (if f \<notin> fst ` set pp then bt_get f m
        else case header_typ B (pr_headers prog) f of
          None \<Rightarrow> Some FnAllow
        | Some sig \<Rightarrow>
            (case Option.bind (sig_args sig) (\<lambda>v. u8_try_from (length v)) of
               Some n \<Rightarrow> Some (FnArgs n) | None \<Rightarrow> bt_get f m))"
proof (induction B prog pp m rule: fn_policies_of.induct)
  case (2 B prog g sigs pp m)
  then show ?case
    by (cases "f \<in> fst ` set pp") (auto split: option.splits if_splits)
qed simp

lemma fn_policies_of_accepts:
  "(\<exists>m'. fn_policies_of B prog pp m = Inr m') \<longleftrightarrow>
     (\<forall>(f, sigs) \<in> set pp. \<forall>sig. header_typ B (pr_headers prog) f = Some sig \<longrightarrow>
        (\<exists>s \<in> set sigs. sig_check (b_types B) f sig s))"
  by (induction B prog pp m rule: fn_policies_of.induct)
    (auto simp: list_ex_iff split: option.splits)

lemma sig_check_args:
  "sig_check T f s1 s2 \<Longrightarrow> sig_args s1 = Some a1 \<Longrightarrow> sig_args s2 = Some a2 \<Longrightarrow> length a1 = length a2"
  by (auto simp: sig_check_def type_check_Inr_iff dest!: list_all2_lengthD)

text \<open>The functions of a protocol take at most five arguments.\<close>

lemma permitted_args:
  assumes "protocol_policy_of T p = Some pp" and "(f, sigs) \<in> set pp" and "s \<in> set sigs"
  shows "\<exists>a. sig_args s = Some a \<and> length a \<le> 5"
  using assms
  by (auto simp: protocol_policy_of_def http_policy_def tcp_policy_def pp_insert_bool_def pp_insert_unit_def Let_def
      new_sig_def entry_names split: protocol.splits)

lemma entry_policy:
  assumes pp: "protocol_policy_of (b_types B) p = Some pp" and pol: "from_program B prog pp = Inr pol"
    and f: "f \<in> set (pp_functions pp)"
  shows "case header_typ B (pr_headers prog) f of
      None \<Rightarrow> policy_get pol f = Some FnAllow
    | Some sig \<Rightarrow>
        (case sig_args sig of
           None \<Rightarrow> policy_get pol f = None
         | Some args \<Rightarrow> \<exists>n. policy_get pol f = Some (FnArgs n) \<and> unat n = length args \<and> length args \<le> 5)"
proof -
  obtain m where m: "fn_policies_of B prog pp [] = Inr m" "pol = \<lparr>pol_program = prog, pol_fns = m\<rparr>"
    using pol by (auto simp: from_program_def bind_res_Inr_iff)
  have get: "policy_get pol f = (case header_typ B (pr_headers prog) f of
      None \<Rightarrow> Some FnAllow
    | Some sig \<Rightarrow> (case Option.bind (sig_args sig) (\<lambda>v. u8_try_from (length v)) of
        Some n \<Rightarrow> Some (FnArgs n) | None \<Rightarrow> None))"
    using fn_policies_of_get [OF m(1), of f] bt_wf_distinct [OF pp_ordered [OF pp]] f
    by (auto simp: policy_get_def m(2) pp_functions_def split: option.splits)
  have le5: "length args \<le> 5" if sig: "header_typ B (pr_headers prog) f = Some sig" "sig_args sig = Some args" for sig args
  proof -
    obtain sigs where sigs: "(f, sigs) \<in> set pp"
      using f by (auto simp: pp_functions_def)
    then obtain s where s: "s \<in> set sigs" "sig_check (b_types B) f sig s"
      using fn_policies_of_accepts [of B prog pp "[]"] m(1) sig(1) by fastforce
    then show ?thesis
      using permitted_args [OF pp sigs s(1)] sig_check_args [OF s(2) sig(2)] by auto
  qed
  show ?thesis
  proof (cases "header_typ B (pr_headers prog) f")
    case (Some sig)
    then show ?thesis
      using le5 [OF Some] by (cases "sig_args sig") (auto simp: get u8_try_from_def unat_of_nat)
  qed (simp add: get)
qed

section \<open>Properties\<close>

text \<open>C32: the table of a policy made from a program. An entry point of the protocol that the program does
  not declare is allowed; one that it declares is listed with its number of arguments, which are at
  most five, so that the conversion to \<open>u8\<close> loses nothing. A policy is made exactly when every
  declared entry point has one of the types its protocol permits.\<close>

theorem policy_of_program:
  assumes "protocol_policy_of (b_types B) p = Some pp"
  shows "((\<exists>pol. from_program B prog pp = Inr pol) \<longleftrightarrow>
      (\<forall>(f, sigs) \<in> set pp. \<forall>sig. header_typ B (pr_headers prog) f = Some sig \<longrightarrow>
        (\<exists>s \<in> set sigs. sig_check (b_types B) f sig s))) \<and>
    (\<forall>pol f. from_program B prog pp = Inr pol \<longrightarrow> f \<in> set (pp_functions pp) \<longrightarrow>
      (case header_typ B (pr_headers prog) f of
         None \<Rightarrow> policy_get pol f = Some FnAllow
       | Some sig \<Rightarrow>
           (case sig_args sig of
              None \<Rightarrow> policy_get pol f = None
            | Some args \<Rightarrow> \<exists>n. policy_get pol f = Some (FnArgs n) \<and> unat n = length args \<and> length args \<le> 5)))"
proof (intro conjI allI impI)
  show "(\<exists>pol. from_program B prog pp = Inr pol) \<longleftrightarrow>
      (\<forall>(f, sigs) \<in> set pp. \<forall>sig. header_typ B (pr_headers prog) f = Some sig \<longrightarrow>
        (\<exists>s \<in> set sigs. sig_check (b_types B) f sig s))"
    unfolding fn_policies_of_accepts [of B prog pp "[]", symmetric]
    by (auto simp: from_program_def bind_res_Inr_iff)
qed (rule entry_policy [OF assms])

theorem policy_of_program_witness:
  "protocol_policy_of (b_types dp_builtin) HTTP = Some (http_policy dp_types) \<and>
   (let prog = \<lparr>pr_code = [(''allow_rest_request'', LitExpr (FlatLit (BoolL True)))],
                pr_externals = externals_default,
                pr_headers = [(''allow_rest_request'', new_sig [FlatTyp HttpRequestT] (FlatTyp BoolT))]\<rparr>
    in \<exists>pol. from_program dp_builtin prog (http_policy dp_types) = Inr pol \<and>
         (\<exists>n. policy_get pol ''allow_rest_request'' = Some (FnArgs n) \<and> unat n = 1) \<and>
         policy_get pol ''allow_rest_response'' = Some FnAllow)"
proof -
  let ?prog = "\<lparr>pr_code = [(''allow_rest_request'', LitExpr (FlatLit (BoolL True)))],
      pr_externals = externals_default,
      pr_headers = [(''allow_rest_request'', new_sig [FlatTyp HttpRequestT] (FlatTyp BoolT))]\<rparr>"
  have pp: "protocol_policy_of (b_types dp_builtin) HTTP = Some (http_policy dp_types)"
    by (simp add: protocol_policy_of_def dp_builtin_def)
  have heads: "header_typ dp_builtin (pr_headers ?prog) ''allow_rest_request'' =
      Some (new_sig [FlatTyp HttpRequestT] (FlatTyp BoolT))"
    "header_typ dp_builtin (pr_headers ?prog) ''allow_rest_response'' = None"
    by code_simp+
  have "(case from_program dp_builtin ?prog (http_policy dp_types) of Inr _ \<Rightarrow> True | Inl _ \<Rightarrow> False)"
    by code_simp
  then obtain pol where pol: "from_program dp_builtin ?prog (http_policy dp_types) = Inr pol"
    by (cases "from_program dp_builtin ?prog (http_policy dp_types)") auto
  have fns: "''allow_rest_request'' \<in> set (pp_functions (http_policy dp_types))"
    "''allow_rest_response'' \<in> set (pp_functions (http_policy dp_types))"
    by code_simp+
  note table = policy_of_program [OF pp, of ?prog, THEN conjunct2, rule_format, OF pol]
  have "\<exists>n. policy_get pol ''allow_rest_request'' = Some (FnArgs n) \<and> unat n = 1"
    using table [OF fns(1)] unfolding heads(1) by (auto simp: new_sig_def)
  moreover have "policy_get pol ''allow_rest_response'' = Some FnAllow"
    using table [OF fns(2)] unfolding heads(2) by simp
  ultimately show ?thesis
    unfolding Let_def using pp pol by blast
qed

section \<open>Accepted policies\<close>

lemma insert_protocol_get:
  "insert_protocol pg B m p pp ps = Inr ps' \<Longrightarrow> policies_policy ps' q = Some pol \<Longrightarrow>
     policies_policy ps q = Some pol \<or> q = p \<and> pol_program pol = program_for pg m (pp_functions pp)"
  by (auto simp: insert_protocol_def Let_def policies_policy_def from_program_def bind_res_Inr_iff split: if_splits)

lemma inner_from_program:
  assumes "inner_from pg B m = Inr ps" and "policies_policy ps p = Some pol"
    and "protocol_policy_of (b_types B) p = Some pp"
  shows "pol_program pol = program_for pg m (pp_functions pp)"
proof -
  obtain ps1 where ps: "insert_protocol pg B m HTTP (http_policy (b_types B)) [] = Inr ps1"
    "insert_protocol pg B m TCP (tcp_policy (b_types B)) ps1 = Inr ps"
    using assms(1) by (auto simp: inner_from_def bind_res_Inr_iff)
  show ?thesis
    using insert_protocol_get [OF ps(2) assms(2)] insert_protocol_get [OF ps(1), of p pol] assms(3)
    by (auto simp: policies_policy_def protocol_policy_of_def)
qed

text \<open>C9: an accepted policy always decides: whatever the arguments and the machine, the evaluation of an entry
  point of its protocol in the program of the policy, which has been cut down to the entry points, ends
  with enough fuel, always in the same way.\<close>

theorem accepted_policy_decides:
  fixes X :: "(flat_typ, flat_literal) tenv"
  assumes "graph_algorithms pg" and "tn_builtin X = dp_builtin"
    and "\<And>vs. set (tn_order X vs) = set vs" and "\<And>c. finite c \<Longrightarrow> set (hash c) = c"
    and "\<And>d. FnD d \<in> set ds \<Longrightarrow> \<not> is_internal dp_builtin (fd_name d)"
    and "policies_from_buf pg X hash ds = Done ps" and "policies_policy ps p = Some pol"
    and "protocol_policy_of dp_types p = Some pp" and "f \<in> set (pp_functions pp)"
  shows "\<exists>n r t. r \<noteq> NoFuel \<and> (\<forall>k \<ge> n.
    eval (plane_env P (pr_code (pol_program pol)) lib_at rpc) k (CallExpr f (map LitExpr ls) async) s = (r, t))"
proof -
  obtain m where m: "from_buf pg X hash ds = Done m" "inner_from pg dp_builtin m = Inr ps"
    using assms(2, 6) by (auto simp: policies_from_buf_def split: tc_out.splits sum.splits)
  then have build: "build_program X hash ds = Done m"
    by (auto simp: from_buf_def split: tc_out.splits sum.splits)
  have prog: "pol_program pol = program_for pg m (pp_functions pp)"
    by (rule inner_from_program [OF m(2) assms(7)]) (use assms(8) in \<open>simp add: dp_builtin_def\<close>)
  obtain n r t where "r \<noteq> NoFuel" "\<forall>k \<ge> n.
      eval (plane_env P (pr_code (pp_program m)) lib_at rpc) k (CallExpr f (map LitExpr ls) async) s = (r, t)"
    using program_terminates [OF assms(1-5) m(1), of P lib_at rpc "CallExpr f (map LitExpr ls) async" s] by blast
  then show ?thesis
    using entry_same [OF assms(1-5) build assms(9), of P lib_at rpc _ ls async s] unfolding prog by auto
qed

text \<open>\<open>fn allow_tcp_connection(c: Connection) -> bool { true }\<close>.\<close>

definition tcp_decls :: "flat_literal decl list" where
  "tcp_decls = [FnD (decl_of ''allow_tcp_connection'' [(''c'', PAtom (at ''Connection''))] (PAtom (at ''bool''))
     (LitP (FlatLit (BoolL True))))]"

theorem accepted_policy_decides_witness:
  "\<exists>ps pol. policies_from_buf closure_graph plain_tenv sorted_list_of_set tcp_decls = Done ps \<and>
     policies_policy ps TCP = Some pol \<and> policies_policy ps HTTP = None \<and>
     policy_get pol ''allow_tcp_connection'' = Some (FnArgs 1) \<and>
     (\<forall>c lib_at rpc s. \<exists>n r t. r \<noteq> NoFuel \<and> (\<forall>k \<ge> n.
        eval (plane_env dp_plane (pr_code (pol_program pol)) lib_at rpc) k
          (CallExpr ''allow_tcp_connection'' [LitExpr c] False) s = (r, t)))"
proof -
  let ?ps = "policies_from_buf closure_graph plain_tenv sorted_list_of_set tcp_decls"
  have "(case ?ps of Done ps \<Rightarrow> policies_policy ps HTTP = None \<and> (case policies_policy ps TCP of
      Some pol \<Rightarrow> policy_get pol ''allow_tcp_connection'' = Some (FnArgs 1) | None \<Rightarrow> False) | _ \<Rightarrow> False)"
    by code_simp
  then obtain ps pol where ps: "?ps = Done ps" "policies_policy ps HTTP = None" "policies_policy ps TCP = Some pol"
    "policy_get pol ''allow_tcp_connection'' = Some (FnArgs 1)"
    by (auto split: tc_out.splits option.splits)
  have "\<exists>n r t. r \<noteq> NoFuel \<and> (\<forall>k \<ge> n. eval (plane_env dp_plane (pr_code (pol_program pol)) lib_at rpc) k
      (CallExpr ''allow_tcp_connection'' (map LitExpr [c]) False) s = (r, t))" for c lib_at rpc s
  proof (rule accepted_policy_decides [OF closure.graph_algorithms_axioms _ _ _ _ ps(1, 3)])
    show "protocol_policy_of dp_types TCP = Some (tcp_policy dp_types)"
      by (simp add: protocol_policy_of_def)
    show "''allow_tcp_connection'' \<in> set (pp_functions (tcp_policy dp_types))"
      by code_simp
    show "tn_builtin plain_tenv = dp_builtin" "set (tn_order plain_tenv vs) = set vs" for vs
      by (simp_all add: plain_tenv_def)
    have "\<not> is_internal dp_builtin ''allow_tcp_connection''"
      by code_simp
    then show "\<not> is_internal dp_builtin (fd_name d)" if "FnD d \<in> set tcp_decls" for d
      using that by (auto simp: tcp_decls_def decl_of_def at_def)
  qed simp
  then show ?thesis
    using ps by auto
qed

section \<open>Merging, storing and recognising policies\<close>

lemma policy_get_merge:
  "bt_wf (pol_fns a) \<Longrightarrow> bt_wf (pol_fns b) \<Longrightarrow>
     policy_get (policy_merge a b) f = (case policy_get b f of Some q \<Rightarrow> Some q | None \<Rightarrow> policy_get a f)"
  unfolding policy_get_def policy_merge_def fns_merge_def by (simp add: bt_get_merge)

lemma policies_merge_foldl:
  "distinct (map fst b) \<Longrightarrow>
     bt_get p (foldl (\<lambda>m (k, v). bt_insert k (case bt_get k a of Some x \<Rightarrow> policy_merge v x | None \<Rightarrow> v) m) m b) =
       (case bt_get p b of
          None \<Rightarrow> bt_get p m
        | Some v \<Rightarrow> Some (case bt_get p a of Some x \<Rightarrow> policy_merge v x | None \<Rightarrow> v))"
proof (induction b arbitrary: m)
  case (Cons kv b)
  obtain k v where kv: "kv = (k, v)"
    by (cases kv)
  have "bt_get k b = None"
    using Cons.prems kv by (intro bt_get_None) simp
  then show ?case
    using Cons kv by (cases "p = k") (auto split: option.split)
qed simp

text \<open>Merging policies. A protocol that only one side has keeps its policy. Where both have one, the
  receiver's table and code override those of the argument, although the merge of two single
  policies lets the argument override the receiver.\<close>

theorem policies_merge_precedence:
  assumes "bt_wf b" and "\<And>p x. policies_policy a p = Some x \<Longrightarrow> bt_wf (pol_fns x) \<and> bt_wf (pr_code (pol_program x))"
    and "\<And>p x. policies_policy b p = Some x \<Longrightarrow> bt_wf (pol_fns x) \<and> bt_wf (pr_code (pol_program x))"
  shows "case (policies_policy a p, policies_policy b p, policies_policy (policies_merge a b) p) of
      (Some x, Some v, Some y) \<Rightarrow>
        (\<forall>f. policy_get y f = (case policy_get x f of Some q \<Rightarrow> Some q | None \<Rightarrow> policy_get v f)) \<and>
        (\<forall>f. policy_get (policy_merge x v) f = (case policy_get v f of Some q \<Rightarrow> Some q | None \<Rightarrow> policy_get x f)) \<and>
        (\<forall>f. bt_get f (pr_code (pol_program y)) =
          (case bt_get f (pr_code (pol_program x)) of Some e \<Rightarrow> Some e | None \<Rightarrow> bt_get f (pr_code (pol_program v))))
    | (Some x, None, y) \<Rightarrow> y = Some x
    | (None, v, y) \<Rightarrow> y = v
    | _ \<Rightarrow> False"
proof -
  have get: "policies_policy (policies_merge a b) p = (case policies_policy b p of
      None \<Rightarrow> policies_policy a p
    | Some v \<Rightarrow> Some (case policies_policy a p of Some x \<Rightarrow> policy_merge v x | None \<Rightarrow> v))"
    using policies_merge_foldl [of b p a a] bt_wf_distinct [OF assms(1)]
    unfolding policies_merge_def policies_policy_def by simp
  show ?thesis
    using assms(2, 3) [of p]
    by (auto simp: get policy_get_merge split: option.splits)
      (auto simp: policy_merge_def program_merge_def code_merge_def bt_get_merge)
qed

theorem policies_merge_precedence_witness:
  "(let a = [(HTTP, \<lparr>pol_program = program_default, pol_fns = [(''allow_rest_request'', FnAllow)]\<rparr>)];
        b = [(HTTP, \<lparr>pol_program = program_default, pol_fns = [(''allow_rest_request'', FnDeny)]\<rparr>)]
    in \<exists>y. policies_policy (policies_merge a b) HTTP = Some (y :: (flat_typ, flat_literal) policy) \<and>
         policy_get y ''allow_rest_request'' = Some FnAllow)"
proof -
  let ?a = "[(HTTP, \<lparr>pol_program = program_default, pol_fns = [(''allow_rest_request'', FnAllow)]\<rparr>)]
    :: (flat_typ, flat_literal) policies"
  let ?b = "[(HTTP, \<lparr>pol_program = program_default, pol_fns = [(''allow_rest_request'', FnDeny)]\<rparr>)]
    :: (flat_typ, flat_literal) policies"
  have wf: "bt_wf ?b"
    "policies_policy ?a p = Some x \<Longrightarrow> bt_wf (pol_fns x) \<and> bt_wf (pr_code (pol_program x))"
    "policies_policy ?b p = Some x \<Longrightarrow> bt_wf (pol_fns x) \<and> bt_wf (pr_code (pol_program x))" for p x
    by (auto simp: policies_policy_def bt_wf_def program_default_def split: if_splits)
  have ab: "policies_policy ?a HTTP = Some (snd (hd ?a))" "policies_policy ?b HTTP = Some (snd (hd ?b))"
    by (simp_all add: policies_policy_def)
  show ?thesis
    unfolding Let_def using policies_merge_precedence [where a = ?a and p = HTTP, OF wf] unfolding ab
    by (cases "policies_policy (policies_merge ?a ?b) HTTP")
      (auto simp: policy_get_def dest!: spec [of _ "''allow_rest_request''"])
qed

lemma bt_collect_self: "bt_wf m \<Longrightarrow> bt_collect m = m"
  by (rule bt_eqI) (simp_all add: bt_get_collect map_of_rev_wf, simp add: bt_get_map_of)

lemma visit_map_decoded:
  "list_all2 (\<lambda>(p, s) (q, pol). p = q \<and> dec s = Some pol) xs ps \<Longrightarrow>
     visit_map dec xs m = Inr (foldl (\<lambda>m (k, v). bt_insert k v m) m ps)"
  by (induction xs ps arbitrary: m rule: list_all2_induct) auto



lemmas const_policy_defs = policies_allow_all_def policies_deny_all_def policies_allow_ingress_def
  policies_deny_ingress_def policies_allow_egress_def policies_deny_egress_def const_policies_def policy_allow_all_def
  policy_deny_all_def policy_allow_ingress_def policy_deny_ingress_def policy_allow_egress_def policy_deny_egress_def
  const_policy_def protocol_policy_of_def http_policy_def tcp_policy_def pp_insert_bool_def pp_insert_unit_def
  pp_functions_def entry_names less_protocol_def

lemmas const_fns_defs = fns_allow_all_def fns_deny_all_def fns_allow_ingress_def fns_deny_ingress_def
  fns_allow_egress_def fns_deny_egress_def is_ingress_def is_egress_def bt_collect_def

lemmas recognise_defs = policies_all_def policies_is_allow_all_def policies_is_deny_all_def policies_is_allow_ingress_def
  policies_is_deny_ingress_def policies_is_allow_egress_def policies_is_deny_egress_def fns_is_allow_all_def
  fns_is_deny_all_def fns_is_allow_ingress_def fns_is_deny_ingress_def fns_is_allow_egress_def fns_is_deny_egress_def

text \<open>The constant policies of a service are recognised as what they are, except for those of egress: TCP has
  no egress function, so its table is empty, and an empty table is no policy at all.\<close>

theorem constant_policies:
  "pred_option policies_is_allow_all (policies_allow_all T) \<and> pred_option policies_is_deny_all (policies_deny_all T) \<and>
   pred_option policies_is_allow_ingress (policies_allow_ingress T) \<and>
   pred_option policies_is_deny_ingress (policies_deny_ingress T) \<and>
   pred_option (\<lambda>ps. \<not> policies_is_allow_egress ps) (policies_allow_egress T) \<and>
   pred_option (\<lambda>ps. \<not> policies_is_deny_egress ps) (policies_deny_egress T)"
  by (simp add: Let_def const_policy_defs const_fns_defs recognise_defs)

end
