(* ===== verification/CPLiterals.thy ===== *)
theory CPLiterals
  imports Policies
begin

text \<open>
  The literals of the control plane (\<open>armour-lang/src/literals.rs\<close>) and their builtin functions
  (\<open>TInterpret for CPFlatLiteral\<close> of \<open>interpret.rs\<close>). A policy is itself a literal, so that equality of
  literals reaches through programs.
\<close>

section \<open>Equality of terms and policies\<close>

fun pattern_eq :: "pattern \<Rightarrow> pattern \<Rightarrow> bool" where
  "pattern_eq (RegexPat p) (RegexPat q) = (p = q)"
| "pattern_eq (LabelPat l) (LabelPat m) = label_eq l m"
| "pattern_eq _ _ = False"

text \<open>The derived \<open>PartialEq\<close> of expressions, given the one of flat literals.\<close>

fun expr_eq :: "('l \<Rightarrow> 'l \<Rightarrow> bool) \<Rightarrow> 'l expr \<Rightarrow> 'l expr \<Rightarrow> bool" where
  "expr_eq q (Var i) e = (case e of Var j \<Rightarrow> i = j | _ \<Rightarrow> False)"
| "expr_eq q (BVar i m) e = (case e of BVar j n \<Rightarrow> i = j \<and> m = n | _ \<Rightarrow> False)"
| "expr_eq q (LitExpr a) e = (case e of LitExpr b \<Rightarrow> lit_eq q a b | _ \<Rightarrow> False)"
| "expr_eq q (ReturnExpr a) e = (case e of ReturnExpr b \<Rightarrow> expr_eq q a b | _ \<Rightarrow> False)"
| "expr_eq q (PrefixExpr p a) e = (case e of PrefixExpr p' b \<Rightarrow> p = p' \<and> expr_eq q a b | _ \<Rightarrow> False)"
| "expr_eq q (InfixExpr op a1 a2) e =
     (case e of InfixExpr op' b1 b2 \<Rightarrow> op = op' \<and> expr_eq q a1 b1 \<and> expr_eq q a2 b2 | _ \<Rightarrow> False)"
| "expr_eq q (BlockExpr k as) e =
     (case e of BlockExpr k' bs \<Rightarrow> k = k' \<and> list_all2 (expr_eq q) as bs | _ \<Rightarrow> False)"
| "expr_eq q (LetExpr vs a1 a2) e =
     (case e of LetExpr vs' b1 b2 \<Rightarrow> vs = vs' \<and> expr_eq q a1 b1 \<and> expr_eq q a2 b2 | _ \<Rightarrow> False)"
| "expr_eq q (IterExpr op vs a1 a2 acc) e =
     (case e of
        IterExpr op' vs' b1 b2 acc' \<Rightarrow>
          op = op' \<and> vs = vs' \<and> expr_eq q a1 b1 \<and> expr_eq q a2 b2 \<and>
          (case (acc, acc') of
             (None, None) \<Rightarrow> True
           | (Some (n, a), Some (m, b)) \<Rightarrow> n = m \<and> expr_eq q a b
           | _ \<Rightarrow> False)
      | _ \<Rightarrow> False)"
| "expr_eq q (Closure i a) e = (case e of Closure j b \<Rightarrow> i = j \<and> expr_eq q a b | _ \<Rightarrow> False)"
| "expr_eq q (IfExpr a1 a2 a3) e =
     (case e of
        IfExpr b1 b2 b3 \<Rightarrow> expr_eq q a1 b1 \<and> expr_eq q a2 b2 \<and> rel_option (expr_eq q) a3 b3
      | _ \<Rightarrow> False)"
| "expr_eq q (IfMatchExpr vs ms a alt) e =
     (case e of
        IfMatchExpr vs' ms' b alt' \<Rightarrow>
          vs = vs' \<and> list_all2 (\<lambda>(x, p) (y, r). expr_eq q x y \<and> pattern_eq p r) ms ms' \<and> expr_eq q a b \<and>
          rel_option (expr_eq q) alt alt'
      | _ \<Rightarrow> False)"
| "expr_eq q (IfSomeMatchExpr a1 a2 a3) e =
     (case e of
        IfSomeMatchExpr b1 b2 b3 \<Rightarrow> expr_eq q a1 b1 \<and> expr_eq q a2 b2 \<and> rel_option (expr_eq q) a3 b3
      | _ \<Rightarrow> False)"
| "expr_eq q (CallExpr f as x) e =
     (case e of CallExpr g bs y \<Rightarrow> f = g \<and> list_all2 (expr_eq q) as bs \<and> x = y | _ \<Rightarrow> False)"

definition program_eq :: "('l \<Rightarrow> 'l \<Rightarrow> bool) \<Rightarrow> ('f, 'l) program \<Rightarrow> ('f, 'l) program \<Rightarrow> bool" where
  "program_eq q a b \<longleftrightarrow>
     list_all2 (rel_prod (=) (expr_eq q)) (pr_code a) (pr_code b) \<and> pr_externals a = pr_externals b \<and>
     pr_headers a = pr_headers b"

definition policy_eq :: "('l \<Rightarrow> 'l \<Rightarrow> bool) \<Rightarrow> ('f, 'l) policy \<Rightarrow> ('f, 'l) policy \<Rightarrow> bool" where
  "policy_eq q a b \<longleftrightarrow> program_eq q (pol_program a) (pol_program b) \<and> pol_fns a = pol_fns b"

definition policies_eq :: "('l \<Rightarrow> 'l \<Rightarrow> bool) \<Rightarrow> ('f, 'l) policies \<Rightarrow> ('f, 'l) policies \<Rightarrow> bool" where
  "policies_eq q = list_all2 (rel_prod (=) (policy_eq q))"

section \<open>Literals of the control plane\<close>

type_synonym dp_policies = "(flat_typ, flat_literal) policies"

record onboarding_data =
  obd_host :: label
  obd_service :: label
  obd_credentials :: string
  obd_port :: "u16 option"
  obd_proposed_labels :: "label list"
  obd_ips :: "ip_addr list"

datatype onboarding_result =
    OnboardOk ID dp_policies dp_policies
  | OnboardErr string "ID option" "(dp_policies \<times> dp_policies) option"

datatype cp_flat_literal =
    CredentialsL string
  | DPFlatL flat_literal
  | OnboardingDataL onboarding_data
  | OnboardingResultL onboarding_result
  | PolicyL dp_policies
  | PrimitiveL string

abbreviation dp_policies_eq :: "dp_policies \<Rightarrow> dp_policies \<Rightarrow> bool" where
  "dp_policies_eq \<equiv> policies_eq flat_eq"

definition onboarding_data_eq :: "onboarding_data \<Rightarrow> onboarding_data \<Rightarrow> bool" where
  "onboarding_data_eq a b \<longleftrightarrow>
     label_eq (obd_host a) (obd_host b) \<and> label_eq (obd_service a) (obd_service b) \<and>
     obd_credentials a = obd_credentials b \<and> obd_port a = obd_port b \<and>
     list_all2 label_eq (obd_proposed_labels a) (obd_proposed_labels b) \<and> obd_ips a = obd_ips b"

fun onboarding_result_eq :: "onboarding_result \<Rightarrow> onboarding_result \<Rightarrow> bool" where
  "onboarding_result_eq (OnboardOk i p q) (OnboardOk j r s) =
     (id_eq i j \<and> dp_policies_eq p r \<and> dp_policies_eq q s)"
| "onboarding_result_eq (OnboardErr e i p) (OnboardErr f j q) =
     (e = f \<and> rel_option id_eq i j \<and> rel_option (rel_prod dp_policies_eq dp_policies_eq) p q)"
| "onboarding_result_eq _ _ = False"

fun cp_flat_eq :: "cp_flat_literal \<Rightarrow> cp_flat_literal \<Rightarrow> bool" where
  "cp_flat_eq (CredentialsL a) l = (case l of CredentialsL b \<Rightarrow> a = b | _ \<Rightarrow> False)"
| "cp_flat_eq (DPFlatL a) l = (case l of DPFlatL b \<Rightarrow> flat_eq a b | _ \<Rightarrow> False)"
| "cp_flat_eq (OnboardingDataL a) l = (case l of OnboardingDataL b \<Rightarrow> onboarding_data_eq a b | _ \<Rightarrow> False)"
| "cp_flat_eq (OnboardingResultL a) l = (case l of OnboardingResultL b \<Rightarrow> onboarding_result_eq a b | _ \<Rightarrow> False)"
| "cp_flat_eq (PolicyL a) l = (case l of PolicyL b \<Rightarrow> dp_policies_eq a b | _ \<Rightarrow> False)"
| "cp_flat_eq (PrimitiveL a) l = (case l of PrimitiveL b \<Rightarrow> a = b | _ \<Rightarrow> False)"

text \<open>\<open>TFlatLiteral::typ\<close>: a result of onboarding has the type of onboarding data.\<close>

fun cp_flat_typ_of :: "cp_flat_literal \<Rightarrow> cp_flat_typ" where
  "cp_flat_typ_of (CredentialsL _) = CredentialsT"
| "cp_flat_typ_of (DPFlatL l) = DPFlatTyp (flat_typ_of l)"
| "cp_flat_typ_of (OnboardingDataL _) = OnboardingDataT"
| "cp_flat_typ_of (OnboardingResultL _) = OnboardingDataT"
| "cp_flat_typ_of (PolicyL _) = PolicyT"
| "cp_flat_typ_of (PrimitiveL _) = PrimitiveT"

fun dp_of_cp_lit :: "cp_flat_literal \<Rightarrow> flat_literal option" where
  "dp_of_cp_lit (DPFlatL l) = Some l"
| "dp_of_cp_lit _ = None"

fun cp_of_dp_literal :: "flat_literal literal \<Rightarrow> cp_flat_literal literal" where
  "cp_of_dp_literal (FlatLit l) = FlatLit (DPFlatL l)"
| "cp_of_dp_literal (ListL ls) = ListL (map cp_of_dp_literal ls)"
| "cp_of_dp_literal (TupleL ls) = TupleL (map cp_of_dp_literal ls)"

definition cp_lits :: "(cp_flat_typ, cp_flat_literal) tlit" where
  "cp_lits = \<lparr>l_types = cp_types, l_typ = cp_flat_typ_of, l_eq = cp_flat_eq,
     l_bool = DPFlatL \<circ> BoolL,
     l_is_bool = (\<lambda>l. case l of DPFlatL (BoolL _) \<Rightarrow> True | _ \<Rightarrow> False),
     l_get_bool = (\<lambda>l. case l of DPFlatL (BoolL b) \<Rightarrow> Some b | _ \<Rightarrow> None),
     l_connection = DPFlatL \<circ> ConnectionL,
     l_data = DPFlatL \<circ> DataL,
     l_is_data = (\<lambda>l. case l of DPFlatL (DataL _) \<Rightarrow> True | _ \<Rightarrow> False),
     l_get_data = (\<lambda>l. case l of DPFlatL (DataL d) \<Rightarrow> Some d | _ \<Rightarrow> None),
     l_float = DPFlatL \<circ> FloatL, l_http_request = DPFlatL \<circ> HttpRequestL, l_http_response = DPFlatL \<circ> HttpResponseL,
     l_id = DPFlatL \<circ> IDL, l_int = DPFlatL \<circ> IntL, l_ip_addr = DPFlatL \<circ> IpAddrL, l_label = DPFlatL \<circ> LabelL,
     l_is_label = (\<lambda>l. case l of DPFlatL (LabelL _) \<Rightarrow> True | _ \<Rightarrow> False),
     l_get_label = (\<lambda>l. case l of DPFlatL (LabelL d) \<Rightarrow> Some d | _ \<Rightarrow> None),
     l_regex = DPFlatL \<circ> RegexL, l_str = DPFlatL \<circ> StrL,
     l_is_str = (\<lambda>l. case l of DPFlatL (StrL _) \<Rightarrow> True | _ \<Rightarrow> False),
     l_get_str = (\<lambda>l. case l of DPFlatL (StrL d) \<Rightarrow> Some d | _ \<Rightarrow> None),
     l_unit = DPFlatL UnitL, l_is_unit = (\<lambda>l. cp_flat_eq l (DPFlatL UnitL))\<rparr>"

lemma flat_eq_unit: "flat_eq l UnitL \<longleftrightarrow> l = UnitL"
  by (cases l) simp_all

interpretation cp_lit: flat_lit cp_lits
proof unfold_locales
  show "l_is_unit cp_lits x \<longleftrightarrow> x = l_unit cp_lits" for x
    by (cases x) (auto simp: cp_lits_def flat_eq_unit)
  have "flat_typ_of y = UnitT \<longleftrightarrow> y = UnitL" "flat_typ_of y \<noteq> ReturnT" for y
    by (cases y; simp)+
  then show "l_typ cp_lits x = t_unit (l_types cp_lits) \<longleftrightarrow> x = l_unit cp_lits"
    "l_typ cp_lits x \<noteq> t_return (l_types cp_lits)" for x
    by (cases x; simp add: cp_lits_def cp_types_def)+
qed (auto simp: cp_lits_def cp_types_def split: cp_flat_literal.splits flat_literal.splits)

section \<open>Onboarding\<close>

definition obd_proposed_labels_lit :: "onboarding_data \<Rightarrow> cp_flat_literal literal" where
  "obd_proposed_labels_lit d = ListL (map (lit_label cp_lits) (obd_proposed_labels d))"

definition obd_has_proposed_label :: "label \<Rightarrow> onboarding_data \<Rightarrow> bool" where
  "obd_has_proposed_label l d \<longleftrightarrow> list_ex (matches_with l) (obd_proposed_labels d)"

definition obd_find_proposed_label :: "label \<Rightarrow> onboarding_data \<Rightarrow> label option" where
  "obd_find_proposed_label l d = find (matches_with l) (obd_proposed_labels d)"

definition obd_has_ip :: "ip_addr \<Rightarrow> onboarding_data \<Rightarrow> bool" where
  "obd_has_ip i d \<longleftrightarrow> list_ex (\<lambda>x. x = i) (obd_ips d)"

definition obd_service_lit :: "onboarding_data \<Rightarrow> cp_flat_literal literal" where
  "obd_service_lit d = lit_label cp_lits (obd_service d)"

definition obd_host_lit :: "onboarding_data \<Rightarrow> cp_flat_literal literal" where
  "obd_host_lit d = lit_label cp_lits (obd_host d)"

definition onboard_ok_lit :: "ID \<Rightarrow> dp_policies \<times> dp_policies \<Rightarrow> cp_flat_literal literal" where
  "onboard_ok_lit i p = FlatLit (OnboardingResultL (OnboardOk i (fst p) (snd p)))"

definition onboard_err_lit :: "string \<Rightarrow> ID \<Rightarrow> dp_policies \<times> dp_policies \<Rightarrow> cp_flat_literal literal" where
  "onboard_err_lit e i p = FlatLit (OnboardingResultL (OnboardErr e (Some i) (Some p)))"

definition onboard_err_str_lit :: "string \<Rightarrow> cp_flat_literal literal" where
  "onboard_err_str_lit e = FlatLit (OnboardingResultL (OnboardErr e None None))"

definition onboard_err_id_lit :: "string \<Rightarrow> ID \<Rightarrow> cp_flat_literal literal" where
  "onboard_err_id_lit e i = FlatLit (OnboardingResultL (OnboardErr e (Some i) None))"

section \<open>Builtin functions\<close>

definition cp_prefix :: "prefix_op \<Rightarrow> cp_flat_literal \<Rightarrow> cp_flat_literal literal option" where
  "cp_prefix p l = (case l of DPFlatL d \<Rightarrow> map_option cp_of_dp_literal (dp_prefix p d) | _ \<Rightarrow> None)"

definition cp_infix ::
    "infix_op \<Rightarrow> cp_flat_literal \<Rightarrow> cp_flat_literal \<Rightarrow> cp_flat_literal literal option option" where
  "cp_infix op a b =
     (if op = Equal then Some (Some (lit_bool cp_lits (cp_flat_eq a b)))
      else if op = NotEqual then Some (Some (lit_bool cp_lits (\<not> cp_flat_eq a b)))
      else case (a, b) of
        (DPFlatL x, DPFlatL y) \<Rightarrow> map_option (map_option cp_of_dp_literal) (dp_infix op x y)
      | _ \<Rightarrow> Some None)"

definition cp_call0 :: "lib \<Rightarrow> string \<Rightarrow> cp_flat_literal literal option" where
  "cp_call0 lb f = map_option cp_of_dp_literal (dp_call0 lb f)"

definition cp_call1 :: "lib \<Rightarrow> string \<Rightarrow> cp_flat_literal \<Rightarrow> cp_flat_literal literal option" where
  "cp_call1 lb f l =
     (case l of
        DPFlatL d \<Rightarrow>
          (case (f = ''Label::new'', f = ''Label::login_time'', f = ''OnboardingResult::ErrStr'', d) of
             (True, _, _, StrL s) \<Rightarrow> (case parse_label s of Inr l \<Rightarrow> Some (lit_label cp_lits l) | Inl _ \<Rightarrow> None)
           | (_, True, _, IntL i) \<Rightarrow> Some (lit_label cp_lits (login_time i))
           | (_, _, True, StrL s) \<Rightarrow> Some (onboard_err_str_lit s)
           | _ \<Rightarrow> map_option cp_of_dp_literal (dp_call1 lb f d))
      | OnboardingDataL obd \<Rightarrow>
          (if f = ''OnboardingData::host'' then Some (obd_host_lit obd)
           else if f = ''OnboardingData::proposed_labels'' then Some (obd_proposed_labels_lit obd)
           else if f = ''OnboardingData::service'' then Some (obd_service_lit obd)
           else None)
      | _ \<Rightarrow> None)"

definition cp_call2 :: "lib \<Rightarrow> string \<Rightarrow> cp_flat_literal \<Rightarrow> cp_flat_literal \<Rightarrow> cp_flat_literal literal option" where
  "cp_call2 lb f a b =
     (case (a, b) of
        (OnboardingDataL obd, DPFlatL (LabelL l)) \<Rightarrow>
          (if f = ''OnboardingData::has_proposed_label'' then Some (lit_bool cp_lits (obd_has_proposed_label l obd))
           else None)
      | (OnboardingDataL obd, DPFlatL (IpAddrL i)) \<Rightarrow>
          (if f = ''OnboardingData::has_ip'' then Some (lit_bool cp_lits (obd_has_ip i obd)) else None)
      | (DPFlatL x, DPFlatL y) \<Rightarrow>
          (case (f = ''OnboardingResult::ErrID'', x, y) of
             (True, StrL e, IDL i) \<Rightarrow> Some (onboard_err_id_lit e i)
           | _ \<Rightarrow> map_option cp_of_dp_literal (dp_call2 lb f x y))
      | _ \<Rightarrow> None)"

definition cp_call3 ::
    "string \<Rightarrow> cp_flat_literal \<Rightarrow> cp_flat_literal \<Rightarrow> cp_flat_literal \<Rightarrow> cp_flat_literal literal option" where
  "cp_call3 f a b c =
     (case (a, b, c) of
        (DPFlatL (IDL i), PolicyL p, PolicyL q) \<Rightarrow>
          (if f = ''OnboardingResult::Ok'' then Some (onboard_ok_lit i (p, q)) else None)
      | (DPFlatL x, DPFlatL y, DPFlatL z) \<Rightarrow> map_option cp_of_dp_literal (dp_call3 f x y z)
      | _ \<Rightarrow> None)"

definition cp_call4 ::
    "string \<Rightarrow> cp_flat_literal \<Rightarrow> cp_flat_literal \<Rightarrow> cp_flat_literal \<Rightarrow> cp_flat_literal \<Rightarrow> cp_flat_literal literal option" where
  "cp_call4 f a b c d =
     (case (a, b, c, d) of
        (DPFlatL (StrL e), DPFlatL (IDL i), PolicyL p, PolicyL q) \<Rightarrow>
          (if f = ''OnboardingResult::Err'' then Some (onboard_err_lit e i (p, q)) else None)
      | (DPFlatL w, DPFlatL x, DPFlatL y, DPFlatL z) \<Rightarrow> map_option cp_of_dp_literal (dp_call4 f w x y z)
      | _ \<Rightarrow> None)"

definition cp_interp :: "cp_flat_literal tinterp" where
  "cp_interp = \<lparr>i_prefix = cp_prefix, i_infix = cp_infix, i_call0 = cp_call0, i_call1 = cp_call1,
     i_call2 = cp_call2, i_call3 = cp_call3, i_call4 = cp_call4\<rparr>"

definition cp_plane :: "(cp_flat_typ, cp_flat_literal) plane" where
  "cp_plane = \<lparr>pl_builtin = cp_builtin, pl_lits = cp_lits, pl_interp = cp_interp\<rparr>"

end
