(* ===== verification/Specialize.thy ===== *)
theory Specialize
  imports CPLiterals
begin

text \<open>
  \<open>armour-control/src/specialize.rs\<close>: the control plane evaluates a global policy as far as it can for one
  service. \<open>peval\<close> gives a flag with its result: \<open>True\<close> when the result is final, \<open>False\<close> when it is a
  residual expression left to the data plane. As in the evaluator, fuel bounds the recursion.
\<close>

type_synonym cp_expr = "cp_flat_literal expr"
type_synonym 's cp_env = "('s, cp_flat_typ, cp_flat_literal) env"
type_synonym ('s, 'a) cp_ev = "('s, cp_flat_literal, 'a) ev"

abbreviation cp_bool :: "bool \<Rightarrow> cp_flat_literal literal" where
  "cp_bool b \<equiv> FlatLit (DPFlatL (BoolL b))"

abbreviation cp_int :: "i64 \<Rightarrow> cp_flat_literal literal" where
  "cp_int i \<equiv> FlatLit (DPFlatL (IntL i))"

abbreviation cp_float :: "f64 \<Rightarrow> cp_flat_literal literal" where
  "cp_float f \<equiv> FlatLit (DPFlatL (FloatL f))"

abbreviation cp_unit :: "cp_flat_literal literal" where
  "cp_unit \<equiv> FlatLit (DPFlatL UnitL)"

section \<open>Simplification\<close>

definition is_lit :: "cp_flat_literal literal \<Rightarrow> cp_expr \<Rightarrow> bool" where
  "is_lit l e = (case e of LitExpr x \<Rightarrow> lit_eq cp_flat_eq x l | _ \<Rightarrow> False)"

type_synonym simplification = "infix_op \<Rightarrow> bool \<Rightarrow> cp_expr \<Rightarrow> bool \<Rightarrow> cp_expr \<Rightarrow> bool \<times> bool \<times> cp_expr"

text \<open>The macro \<open>ring_simplification!\<close>: the first component says whether something was simplified.\<close>

definition ring_simplification ::
    "infix_op \<Rightarrow> infix_op \<Rightarrow> infix_op \<Rightarrow> infix_op \<Rightarrow> cp_flat_literal literal \<Rightarrow> cp_flat_literal literal \<Rightarrow> simplification" where
  "ring_simplification plus1 multiply1 plus2 multiply2 zero one op b1 e1 b2 e2 =
     (if op = plus1 \<or> op = plus2 then
        (if is_return e1 then (True, b1, e1)
         else if is_lit zero e1 then (True, b2, e2)
         else if is_return e2 then (True, b2, e2)
         else if is_lit zero e2 then (True, b1, e1)
         else (False, b1 \<and> b2, InfixExpr op e1 e2))
      else if op = multiply1 \<or> op = multiply2 then
        (if is_return e1 then (True, b1, e1)
         else if is_lit zero e1 then (True, b1, e1)
         else if is_lit one e1 then (True, b2, e2)
         else if is_return e2 then (True, b2, e2)
         else if is_lit zero e2 then (True, b2, e2)
         else if is_lit one e2 then (True, b1, e1)
         else (False, b1 \<and> b2, InfixExpr op e1 e2))
      else (False, b1 \<and> b2, InfixExpr op e1 e2))"

definition combine_simplification :: "simplification \<Rightarrow> simplification \<Rightarrow> simplification" where
  "combine_simplification s1 s2 op b1 e1 b2 e2 =
     (case s1 op b1 e1 b2 e2 of (False, _, _) \<Rightarrow> s2 op b1 e1 b2 e2 | r \<Rightarrow> r)"

definition simplify :: "infix_op \<Rightarrow> bool \<Rightarrow> cp_expr \<Rightarrow> bool \<Rightarrow> cp_expr \<Rightarrow> (bool \<times> cp_expr) result" where
  "simplify op b1 e1 b2 e2 =
     (if op = Divide \<and> (e2 = LitExpr (cp_int 0) \<or> is_lit (cp_float 0) e2) then
        Inl (Error ''peval, can not divide by zero'')
      else if op = Equal \<and> expr_eq cp_flat_eq e1 e2 then Inr (b1 \<and> b2, LitExpr (cp_bool True))
      else if op = NotEqual \<and> \<not> expr_eq cp_flat_eq e1 e2 then Inr (b1 \<and> b2, LitExpr (cp_bool True))
      else
        Inr (snd (combine_simplification (ring_simplification Or And Or And (cp_bool False) (cp_bool True))
          (combine_simplification (ring_simplification And Or And Or (cp_bool True) (cp_bool False))
          (combine_simplification (ring_simplification Plus Multiply Minus Divide (cp_int 0) (cp_int 1))
            (ring_simplification Plus Multiply Minus Divide (cp_float 0) (cp_float 0x3FF0000000000000))))
          op b1 e1 b2 e2)))"

section \<open>Partial evaluation\<close>

text \<open>What one element of the list is applied to in a static iteration, and the captures that a
  consequence is applied to.\<close>

definition pe_item :: "string list \<Rightarrow> cp_flat_literal literal \<Rightarrow> cp_expr \<Rightarrow> cp_expr result" where
  "pe_item vs l e =
     (case (if length vs \<noteq> 1 then (case l of TupleL ts \<Rightarrow> Some ts | _ \<Rightarrow> None) else None) of
        Some ts \<Rightarrow>
          (if length vs = length ts then apply_vars (zip vs ts) e
           else Inl (Error ''peval, iter-expression (tuple length mismatch)''))
      | None \<Rightarrow>
          (if length vs = 1 then
             (if vs ! 0 \<noteq> ''_'' then apply_expr e (LitExpr l) else Inr e)
           else Inl (Error ''peval, iter-expression (not a tuple list)'')))"

fun pe_captures :: "cp_flat_literal captures \<Rightarrow> string list \<Rightarrow> cp_expr \<Rightarrow> cp_expr result" where
  "pe_captures m [] c = Inr c"
| "pe_captures m (v # vs) c =
     (case bt_get v m of
        Some e \<Rightarrow> bind_res (apply_expr c e) (pe_captures m vs)
      | None \<Rightarrow> Inl (Error ''peval, if-match-expression: missing bind''))"

text \<open>The loop of a static iteration; the accumulator carries its own flag.\<close>

fun pe_iter ::
    "(cp_expr \<Rightarrow> ('s, bool \<times> cp_expr) cp_ev) \<Rightarrow> string list \<Rightarrow> cp_expr \<Rightarrow> cp_flat_literal literal list \<Rightarrow>
       (bool \<times> cp_expr) option \<Rightarrow> ('s, (bool \<times> cp_expr) list \<times> (bool \<times> cp_expr) option) cp_ev" where
  "pe_iter pe vs body [] acc = ev_ok ([], acc)"
| "pe_iter pe vs body (l # ls) acc =
     ev_bind (ev_res (case acc of Some (_, a) \<Rightarrow> apply_expr body a | None \<Rightarrow> Inr body)) (\<lambda>e1.
     ev_bind (ev_res (pe_item vs l e1)) (\<lambda>e2.
     ev_bind (pe e2) (\<lambda>r.
     ev_bind (pe_iter pe vs body ls (map_option (\<lambda>_. r) acc)) (\<lambda>(rs, acc').
     ev_ok (r # rs, acc')))))"

text \<open>
  The value of a static iteration. The iterator over the results is used up by the search for a
  \<open>return\<close>, so that the literals it is collected to are none.
\<close>

definition pe_iter_result ::
    "iter_op \<Rightarrow> string list \<Rightarrow> cp_flat_literal literal list \<Rightarrow> cp_expr \<Rightarrow> string option \<Rightarrow>
       (bool \<times> cp_expr) list \<Rightarrow> (bool \<times> cp_expr) option \<Rightarrow> ('s, bool \<times> cp_expr) cp_ev" where
  "pe_iter_result op vs lits body acc_name res acc =
     (let flag = list_all fst res
      in case find is_return (map snd res) of
           Some r \<Rightarrow> ev_ok (flag, r)
         | None \<Rightarrow>
             (if op = Fold then ev_opt acc
              else if flag then
                ev_bind (iter_result cp_lits op lits []) (\<lambda>r. ev_ok (True, r))
              else
                (case (acc, acc_name) of
                   (None, _) \<Rightarrow> ev_ok (False, IterExpr op vs (LitExpr (ListL lits)) body None)
                 | (Some (_, a), Some n) \<Rightarrow> ev_ok (False, IterExpr op vs (LitExpr (ListL lits)) body (Some (n, a)))
                 | (Some _, None) \<Rightarrow> ev_panic)))"

text \<open>The loop over the matches of \<open>if match\<close>: the flags, and the results of matching.\<close>

fun pe_matches ::
    "'s cp_env \<Rightarrow> (cp_expr \<Rightarrow> ('s, bool \<times> cp_expr) cp_ev) \<Rightarrow> (cp_expr \<times> pattern) list \<Rightarrow>
       ('s, bool \<times> (cp_expr \<times> cp_flat_literal captures option) list) cp_ev" where
  "pe_matches X pe [] = ev_ok (True, [])"
| "pe_matches X pe ((e, p) # ms) =
     ev_bind (pe e) (\<lambda>(f, r).
     ev_bind (\<lambda>s. case perform_match (en_lits X) (en_lib X (mc_trace s)) p r of
         None \<Rightarrow> ev_panic s
       | Some None \<Rightarrow> ev_err (Error ''peval, if-match-expression: type error'') s
       | Some (Some x) \<Rightarrow> ev_ok x s) (\<lambda>x.
     ev_bind (pe_matches X pe ms) (\<lambda>(g, xs). ev_ok (f \<and> g, x # xs))))"

definition pe_check :: "bool \<times> cp_expr \<Rightarrow> ('s, bool \<times> cp_expr) cp_ev" where
  "pe_check r =
     (case snd r of
        ReturnExpr _ \<Rightarrow> ev_ok r
      | LitExpr _ \<Rightarrow> ev_ok r
      | _ \<Rightarrow> ev_err (Error ''peval, if-match-expression''))"

definition pe_opt :: "(cp_expr \<Rightarrow> ('s, bool \<times> cp_expr) cp_ev) \<Rightarrow> cp_expr option \<Rightarrow> ('s, bool \<times> cp_expr) cp_ev" where
  "pe_opt pe alt = (case alt of Some a \<Rightarrow> pe a | None \<Rightarrow> ev_ok (True, LitExpr cp_unit))"

text \<open>\<open>pevaluate\<close>, given \<open>peval\<close>.\<close>

definition pe_strip :: "('s, bool \<times> cp_expr) cp_ev \<Rightarrow> ('s, bool \<times> cp_expr) cp_ev" where
  "pe_strip m = ev_bind m (\<lambda>(b, e). ev_ok (b, strip_return e))"

definition pe_call ::
    "'s cp_env \<Rightarrow> (cp_expr \<Rightarrow> ('s, bool \<times> cp_expr) cp_ev) \<Rightarrow> bool \<Rightarrow> string \<Rightarrow> cp_expr list \<Rightarrow> bool \<Rightarrow>
       (bool \<times> cp_expr) list \<Rightarrow> ('s, bool \<times> cp_expr) cp_ev" where
  "pe_call X pe only f arguments async args =
     (let flag = list_all fst args
      in case find (\<lambda>r. is_return (snd r)) args of
           Some r \<Rightarrow> ev_ok (flag, snd r)
         | None \<Rightarrow>
             (if flag \<and> \<not> only then
                (case bt_get f (en_code X) of
                   Some r \<Rightarrow> ev_bind (ev_res (apply_all r (map snd args))) (\<lambda>e. pe_strip (pe e))
                 | None \<Rightarrow>
                     (if is_builtin (pl_builtin (en_plane X)) f then
                        ev_bind (en_call X f (map snd args)) (\<lambda>e. ev_ok (flag, e))
                      else if split_name f \<noteq> None then ev_ok (False, CallExpr f arguments async)
                      else ev_err (ErrorFmt ''peval, call: {}: {:?}'' [f])))
              else
                (case bt_get f (en_code X) of
                   Some r \<Rightarrow>
                     ev_bind (ev_res (apply_all r (map snd args))) (\<lambda>e.
                     ev_bind (pe_strip (pe e)) (\<lambda>(_, e'). ev_ok (False, e')))
                 | None \<Rightarrow> ev_ok (False, CallExpr f (map snd args) async))))"

text \<open>One definition per construct that does more than evaluate its parts.\<close>

definition pe_block ::
    "(bool \<Rightarrow> cp_expr \<Rightarrow> ('s, bool \<times> cp_expr) cp_ev) \<Rightarrow> bool \<Rightarrow> block \<Rightarrow> cp_expr list \<Rightarrow> ('s, bool \<times> cp_expr) cp_ev" where
  "pe_block pe only b es =
     (case es of
        [] \<Rightarrow> ev_ok (True, LitExpr (if b = ListBlock then ListL [] else cp_unit))
      | e # rest \<Rightarrow>
          (if b = Block then
             ev_bind (pe only e) (\<lambda>(f, res).
               if is_return res \<or> rest = [] then ev_ok (f, res)
               else if f then pe only (BlockExpr b rest)
               else
                 ev_bind (pe True (BlockExpr b rest)) (\<lambda>(_, r).
                   case r of
                     BlockExpr _ es' \<Rightarrow> ev_ok (False, BlockExpr b (res # es'))
                   | _ \<Rightarrow> ev_ok (False, BlockExpr b [res, r])))
           else
             ev_bind (ev_map (pe only) es) (\<lambda>rs.
               (let flag = list_all fst rs
                in case find is_return (map snd rs) of
                     Some r \<Rightarrow> ev_ok (flag, r)
                   | None \<Rightarrow>
                       ev_bind (ev_res (literal_vector (map snd rs))) (\<lambda>ls.
                         ev_ok (flag, LitExpr (if b = ListBlock then ListL ls else TupleL ls)))))))"

definition pe_let ::
    "(cp_expr \<Rightarrow> ('s, bool \<times> cp_expr) cp_ev) \<Rightarrow> string list \<Rightarrow> cp_expr \<Rightarrow> cp_expr \<Rightarrow> ('s, bool \<times> cp_expr) cp_ev" where
  "pe_let pe vs e1 e2 =
     (case at_depth (length vs) e2 of
        None \<Rightarrow> ev_panic
      | Some body \<Rightarrow>
          (if list_all (\<lambda>u. is_free u body) [0..<length vs] then
             ev_bind (ev_res (apply_all e2 (replicate (length vs) (LitExpr cp_unit)))) pe
           else
             ev_bind (pe e1) (\<lambda>(flag, r).
               if is_return r then ev_ok (flag, r)
               else if flag then
                 (case r of
                    LitExpr (TupleL lits) \<Rightarrow>
                      (if 1 < length lits \<and> length vs = length lits then
                         ev_bind (ev_res (apply_vars (zip vs lits) e2)) pe
                       else if length vs = 1 then ev_bind (ev_res (apply_expr e2 r)) pe
                       else ev_err (Error ''peval, let-expression (tuple length mismatch)''))
                  | LitExpr _ \<Rightarrow>
                      (if length vs = 1 then ev_bind (ev_res (apply_expr e2 r)) pe
                       else ev_err (Error ''peval, let-expression (literal not a tuple)''))
                  | _ \<Rightarrow> ev_err (Error ''peval, let-expression''))
               else ev_bind (pe e2) (\<lambda>(_, e2'). ev_ok (False, LetExpr vs r e2')))))"

definition pe_iter_expr ::
    "(cp_expr \<Rightarrow> ('s, bool \<times> cp_expr) cp_ev) \<Rightarrow> iter_op \<Rightarrow> string list \<Rightarrow> cp_expr \<Rightarrow> cp_expr \<Rightarrow> (string \<times> cp_expr) option \<Rightarrow>
       ('s, bool \<times> cp_expr) cp_ev" where
  "pe_iter_expr pe op vs e1 e2 acc =
     ev_bind (pe e1) (\<lambda>(flag, r).
       if is_return r then ev_ok (True, r)
       else if \<not> flag then
         ev_bind (pe e2) (\<lambda>(_, e2').
         ev_bind (case acc of
                    Some (n, a) \<Rightarrow> ev_bind (pe a) (\<lambda>(_, a'). ev_ok (Some (n, a')))
                  | None \<Rightarrow> ev_ok None) (\<lambda>acc'.
         ev_ok (False, IterExpr op vs r e2' acc')))
       else case r of
         LitExpr (ListL lits) \<Rightarrow>
           (case acc of
              None \<Rightarrow>
                ev_bind (pe_iter pe vs e2 lits None) (\<lambda>(res, a). pe_iter_result op vs lits e2 None res a)
            | Some (n, a0) \<Rightarrow>
                ev_bind (pe a0) (\<lambda>(f, a).
                  if f then
                    ev_bind (pe_iter pe vs e2 lits (Some (True, a))) (\<lambda>(res, a').
                      pe_iter_result op vs lits e2 (Some n) res a')
                  else ev_ok (False, IterExpr op vs (LitExpr (ListL lits)) e2 (Some (n, a)))))
       | _ \<Rightarrow> ev_err (Error ''peval, map-expression''))"

definition pe_if ::
    "(cp_expr \<Rightarrow> ('s, bool \<times> cp_expr) cp_ev) \<Rightarrow> cp_expr \<Rightarrow> cp_expr \<Rightarrow> cp_expr option \<Rightarrow> ('s, bool \<times> cp_expr) cp_ev" where
  "pe_if pe c t alt =
     ev_bind (pe c) (\<lambda>(flag, r).
       if is_return r then ev_ok (flag, r)
       else if flag then
         (case r of
            LitExpr l \<Rightarrow>
              (case lit_get_bool cp_lits l of
                 Some b \<Rightarrow> if b then pe t else pe_opt pe alt
               | None \<Rightarrow> ev_err (Error ''peval, if-expression''))
          | _ \<Rightarrow> ev_err (Error ''peval, if-expression''))
       else
         ev_bind (pe t) (\<lambda>(bc, t').
           case alt of
             Some a \<Rightarrow>
               ev_bind (pe a) (\<lambda>(_, a').
                 if expr_eq cp_flat_eq a' t' then ev_ok (bc, t')
                 else ev_ok (False, IfExpr r t' (Some a')))
           | None \<Rightarrow> ev_ok (False, IfExpr r t' None)))"

definition pe_some_match ::
    "(cp_expr \<Rightarrow> ('s, bool \<times> cp_expr) cp_ev) \<Rightarrow> cp_expr \<Rightarrow> cp_expr \<Rightarrow> cp_expr option \<Rightarrow> ('s, bool \<times> cp_expr) cp_ev" where
  "pe_some_match pe e t alt =
     ev_bind (pe e) (\<lambda>(flag, r).
       if is_return r then ev_ok (flag, r)
       else if flag then
         (case r of
            LitExpr (TupleL ts) \<Rightarrow>
              (if length ts = 1 then ev_bind (ev_res (apply_expr t (LitExpr (ts ! 0)))) pe
               else pe_opt pe alt)
          | _ \<Rightarrow> ev_err (ErrorFmt ''peval, if-let-expression: {:#?}'' []))
       else
         (case t of
            Closure v body \<Rightarrow>
              ev_bind (pe body) (\<lambda>(_, body').
                case alt of
                  Some a \<Rightarrow>
                    ev_bind (pe a) (\<lambda>(b0, a').
                      if is_free 0 body' then
                        ev_bind (ev_res (apply_expr (Closure v body') (LitExpr cp_unit))) (\<lambda>d.
                          if expr_eq cp_flat_eq d a' then ev_ok (b0, a')
                          else ev_ok (False, IfSomeMatchExpr r (Closure v body') (Some a')))
                      else ev_ok (False, IfSomeMatchExpr r (Closure v body') (Some a')))
                | None \<Rightarrow> ev_ok (False, IfSomeMatchExpr r (Closure v body') None))
          | _ \<Rightarrow> ev_panic))"

definition pe_if_match ::
    "'s cp_env \<Rightarrow> (cp_expr \<Rightarrow> ('s, bool \<times> cp_expr) cp_ev) \<Rightarrow> string list \<Rightarrow> (cp_expr \<times> pattern) list \<Rightarrow> cp_expr \<Rightarrow>
       cp_expr option \<Rightarrow> ('s, bool \<times> cp_expr) cp_ev" where
  "pe_if_match X pe vs ms t alt =
     ev_bind (pe_matches X pe ms) (\<lambda>(flag, rs).
       if \<not> flag then ev_ok (False, IfMatchExpr vs ms t alt)
       else case find (\<lambda>(r, _). is_return r) rs of
         Some (r, _) \<Rightarrow> ev_ok (True, r)
       | None \<Rightarrow>
           (if list_ex (\<lambda>(_, c). c = None) rs then
              (case alt of
                 None \<Rightarrow> ev_ok (True, LitExpr cp_unit)
               | Some a \<Rightarrow> ev_bind (pe a) pe_check)
            else
              ev_bind (ev_res (pe_captures (all_captures rs) vs t)) (\<lambda>c. ev_bind (pe c) pe_check)))"

text \<open>\<open>only\<close> is the argument \<open>simplification_only\<close>.\<close>

fun pe_step ::
    "'s cp_env \<Rightarrow> (bool \<Rightarrow> cp_expr \<Rightarrow> ('s, bool \<times> cp_expr) cp_ev) \<Rightarrow> bool \<Rightarrow> cp_expr \<Rightarrow> ('s, bool \<times> cp_expr) cp_ev" where
  "pe_step X pe only (Var x) = ev_ok (False, Var x)"
| "pe_step X pe only (BVar x i) = ev_ok (False, BVar x i)"
| "pe_step X pe only (LitExpr l) = ev_ok (True, LitExpr l)"
| "pe_step X pe only (Closure x e) =
     ev_bind (pe only e) (\<lambda>(_, e'). if is_free 0 e' then ev_ok (True, e') else ev_ok (False, Closure x e'))"
| "pe_step X pe only (ReturnExpr e) = ev_bind (pe only e) (\<lambda>(b, r). ev_ok (b, ReturnExpr r))"
| "pe_step X pe only (PrefixExpr p e) =
     ev_bind (pe only e) (\<lambda>(b, r).
       if \<not> b then ev_ok (False, PrefixExpr p r)
       else case r of
         ReturnExpr _ \<Rightarrow> ev_ok (True, r)
       | LitExpr l \<Rightarrow>
           ev_bind (ev_res (call_result ''peval prefix: type error'' (lit_prefix (en_plane X) p l))) (\<lambda>v. ev_ok (True, v))
       | _ \<Rightarrow> ev_err (Error ''peval, prefix''))"
| "pe_step X pe only (InfixExpr op e1 e2) =
     ev_bind (pe only e1) (\<lambda>(b1, x). ev_bind (pe only e2) (\<lambda>(b2, y).
       if \<not> b1 \<or> \<not> b2 then ev_res (simplify op b1 x b2 y)
       else if is_return x then ev_ok (True, x)
       else if is_return y then ev_ok (True, y)
       else case (x, y) of
         (LitExpr l1, LitExpr l2) \<Rightarrow>
           ev_bind (ev_opt (lit_infix (en_plane X) op l1 l2)) (\<lambda>r.
           ev_bind (ev_res (call_result ''peval, infix: type error'' r)) (\<lambda>v. ev_ok (True, v)))
       | _ \<Rightarrow> ev_err (Error ''peval, infix: failed'')))"
| "pe_step X pe only (BlockExpr b es) = pe_block pe only b es"
| "pe_step X pe only (LetExpr vs e1 e2) = pe_let (pe only) vs e1 e2"
| "pe_step X pe only (IterExpr op vs e1 e2 acc) = pe_iter_expr (pe only) op vs e1 e2 acc"
| "pe_step X pe only (IfExpr c t alt) = pe_if (pe only) c t alt"
| "pe_step X pe only (IfSomeMatchExpr e t alt) = pe_some_match (pe only) e t alt"
| "pe_step X pe only (IfMatchExpr vs ms t alt) = pe_if_match X (pe only) vs ms t alt"
| "pe_step X pe only (CallExpr f args async) =
     ev_bind (ev_map (pe only) args) (pe_call X (pe only) only f args async)"

fun peval :: "'s cp_env \<Rightarrow> nat \<Rightarrow> bool \<Rightarrow> cp_expr \<Rightarrow> ('s, bool \<times> cp_expr) cp_ev" where
  "peval X 0 only e = (\<lambda>s. (NoFuel, s))"
| "peval X (Suc n) only e = pe_step X (peval X n) only e"

definition pevaluate :: "'s cp_env \<Rightarrow> nat \<Rightarrow> bool \<Rightarrow> cp_expr \<Rightarrow> ('s, bool \<times> cp_expr) cp_ev" where
  "pevaluate X n only e = pe_strip (peval X n only e)"

section \<open>Compiling a global policy for a service\<close>

type_synonym cp_policy = "(cp_flat_typ, cp_flat_literal) policy"
type_synonym cp_policies = "(cp_flat_typ, cp_flat_literal) policies"

abbreviation cp_typ :: "flat_typ \<Rightarrow> cp_flat_typ ty" where
  "cp_typ t \<equiv> FlatTyp (DPFlatTyp t)"

definition unknown_main :: "string \<Rightarrow> error" where
  "unknown_main f = ErrorFmt ''unknown main function to specialize: {}'' [f]"

text \<open>The type a function has to have in a global policy.\<close>

definition global_sig :: "string \<Rightarrow> cp_flat_typ signature option" where
  "global_sig f =
     (let id = cp_typ IDT; conn = cp_typ ConnectionT; i = cp_typ I64T; b = cp_typ BoolT
      in if f = ALLOW_REST_REQUEST then Some (new_sig [id, id, cp_typ HttpRequestT, cp_typ DataT] b)
         else if f = ALLOW_REST_RESPONSE then Some (new_sig [id, id, cp_typ HttpResponseT, cp_typ DataT] b)
         else if f = ALLOW_TCP_CONNECTION then Some (new_sig [id, id, conn] b)
         else if f = ON_TCP_DISCONNECT then Some (new_sig [id, id, conn, i, i] b)
         else None)"

definition spec_check_header :: "cp_policy \<Rightarrow> string \<Rightarrow> nat result" where
  "spec_check_header pol f =
     (case global_sig f of
        None \<Rightarrow> Inl (unknown_main f)
      | Some expected \<Rightarrow>
          (case bt_get f (pr_headers (pol_program pol)) of
             None \<Rightarrow> Inl (ErrorFmt ''specialization  checking headers, {} is undefined in global policy'' [f])
           | Some sig \<Rightarrow>
               (if sig \<noteq> expected then
                  Inl (ErrorFmt (''specialization  checking headers, {} has a wrong signature'' @ [CHR 0x0A] @ ''{}'' @
                      [CHR 0x0A] @ ''expected'' @ [CHR 0x0A] @ ''{}'')
                    [f, show_sig cp_types sig, show_sig cp_types expected])
                else Inr ((case sig_args expected of Some a \<Rightarrow> length a | None \<Rightarrow> 0)))))"

text \<open>The arguments of the function in the policy of a service.\<close>

definition local_args :: "string \<Rightarrow> cp_flat_typ ty list option" where
  "local_args f =
     (if f = ALLOW_REST_REQUEST then Some [cp_typ HttpRequestT, cp_typ DataT]
      else if f = ALLOW_REST_RESPONSE then Some [cp_typ HttpResponseT, cp_typ DataT]
      else if f = ALLOW_TCP_CONNECTION then Some [cp_typ ConnectionT]
      else if f = ON_TCP_DISCONNECT then Some [cp_typ ConnectionT, cp_typ I64T, cp_typ I64T]
      else None)"

definition compile_helper :: "petgraph \<Rightarrow> cp_policy \<Rightarrow> string \<Rightarrow> cp_policy \<Rightarrow> ('s, cp_policy) cp_ev" where
  "compile_helper pg pol f n_pol =
     (case return_typ_of cp_builtin (pr_headers (pol_program pol)) f of
        Inl _ \<Rightarrow> ev_panic
      | Inr t \<Rightarrow>
          (case local_args f of
             None \<Rightarrow> ev_err (unknown_main f)
           | Some args \<Rightarrow>
               (let prog = pol_program n_pol;
                    prog' = prog\<lparr>pr_headers := bt_insert f (new_sig args t) (pr_headers prog)\<rparr>;
                    fns = set_args f (word_of_nat (length args)) (pol_fns n_pol)
                in ev_bind (ev_opt (deadcode_elim pg cp_builtin [f] prog')) (\<lambda>p.
                     ev_ok \<lparr>pol_program = p, pol_fns = fns\<rparr>))))"

definition wrap_closures :: "string list \<Rightarrow> cp_expr \<Rightarrow> cp_expr" where
  "wrap_closures vs e = foldr Closure vs e"

text \<open>The residual of the body becomes a function of the message alone: the other end of the
  connection is read off the message.\<close>

definition rebuild :: "bool \<Rightarrow> string \<Rightarrow> cp_expr \<Rightarrow> cp_expr result" where
  "rebuild egress f e =
     (let dir = (if egress then ''to'' else ''from'')
      in if f = ALLOW_REST_REQUEST \<or> f = ALLOW_REST_RESPONSE then
           (let get = (if f = ALLOW_REST_REQUEST then ''HttpRequest::'' else ''HttpResponse::'') @ dir
            in Inr (wrap_closures [''req'', ''payload''] (subst 2 (expr_call get [BVar ''req'' 1]) False e)))
         else if f = ALLOW_TCP_CONNECTION then
           Inr (wrap_closures [''con''] (subst 1 (expr_call (''Connection::'' @ dir) [BVar ''conn'' 0]) False e))
         else if f = ON_TCP_DISCONNECT then
           Inr (wrap_closures [''conn'', ''i'', ''j'']
             (subst 3 (expr_call (''Connection::'' @ dir) [BVar ''conn'' 2]) False
               (wrap_closures [dir, ''req'', ''i'', ''j''] e)))
         else Inl (unknown_main f))"

text \<open>One policy of the table: \<open>None\<close> where it does not declare the function.\<close>

definition compile_policy ::
    "petgraph \<Rightarrow> (cp_flat_literal code \<Rightarrow> 's cp_env) \<Rightarrow> nat \<Rightarrow> bool \<Rightarrow> string \<Rightarrow> ID \<Rightarrow> cp_policy \<Rightarrow> ('s, cp_policy option) cp_ev" where
  "compile_policy pg X n egress f to pol =
     (case code_get (pr_code (pol_program pol)) f of
        None \<Rightarrow> ev_ok None
      | Some fexpr \<Rightarrow>
          ev_bind (ev_res (spec_check_header pol f)) (\<lambda>n_args.
            (let fexpr' = propagate_subst (if egress then n_args - 1 else n_args - 2) (if egress then 0 else 1)
                   (LitExpr (lit_id cp_lits to)) fexpr
             in case at_depth (n_args - 1) fexpr' of
                  None \<Rightarrow> ev_panic
                | Some body \<Rightarrow>
                    ev_bind (pevaluate (X (pr_code (pol_program pol))) n False body) (\<lambda>(_, e).
                    ev_bind (ev_res (rebuild egress f e)) (\<lambda>e'.
                    ev_bind (compile_helper pg pol f
                        (policy_default\<lparr>pol_program := program_default\<lparr>pr_code := code_insert f e' []\<rparr>\<rparr>)) (\<lambda>p.
                    ev_ok (Some p)))))))"

fun compile_policies ::
    "petgraph \<Rightarrow> (cp_flat_literal code \<Rightarrow> 's cp_env) \<Rightarrow> nat \<Rightarrow> bool \<Rightarrow> string \<Rightarrow> ID \<Rightarrow> cp_policies \<Rightarrow> cp_policies \<Rightarrow> ('s, cp_policies) cp_ev" where
  "compile_policies pg X n egress f to [] new = ev_ok new"
| "compile_policies pg X n egress f to ((proto, pol) # ps) new =
     ev_bind (compile_policy pg X n egress f to pol) (\<lambda>r.
       compile_policies pg X n egress f to ps (case r of Some p \<Rightarrow> bt_insert proto p new | None \<Rightarrow> new))"

text \<open>\<open>compile_egress\<close> and \<open>compile_ingress\<close>: the conversion to the data plane panics on a literal or a
  type it does not have.\<close>

definition compile_egress_ingress ::
    "petgraph \<Rightarrow> (cp_flat_literal code \<Rightarrow> 's cp_env) \<Rightarrow> nat \<Rightarrow> bool \<Rightarrow> cp_policies \<Rightarrow> string \<Rightarrow> ID \<Rightarrow> ('s, dp_policies) cp_ev" where
  "compile_egress_ingress pg X n egress global f to =
     ev_bind (compile_policies pg X n egress f to global []) (\<lambda>new.
       ev_opt (dp_of_cp_policies dp_of_cp_lit new))"

definition compile_egress ::
    "petgraph \<Rightarrow> (cp_flat_literal code \<Rightarrow> 's cp_env) \<Rightarrow> nat \<Rightarrow> cp_policies \<Rightarrow> string \<Rightarrow> ID \<Rightarrow> ('s, dp_policies) cp_ev" where
  "compile_egress pg X n = compile_egress_ingress pg X n True"

definition compile_ingress ::
    "petgraph \<Rightarrow> (cp_flat_literal code \<Rightarrow> 's cp_env) \<Rightarrow> nat \<Rightarrow> cp_policies \<Rightarrow> string \<Rightarrow> ID \<Rightarrow> ('s, dp_policies) cp_ev" where
  "compile_ingress pg X n = compile_egress_ingress pg X n False"

end
