(* ===== verification/SpecializeProps.thy ===== *)
theory SpecializeProps
  imports Specialize LangProps EvalLang
begin

text \<open>
  Partial evaluation. On terms built from the constructs that \<open>peval\<close> handles as \<open>eval\<close> does, a term
  that evaluates is specialised to its value, with the same effects; on the others it is not, and
  examples show where. Then what a compiled policy consists of.
\<close>
section \<open>Terms that are evaluated statically\<close>

text \<open>The body under exactly \<open>k\<close> closures.\<close>

fun under :: "nat \<Rightarrow> 'l expr \<Rightarrow> 'l expr option" where
  "under 0 e = (case e of Closure _ _ \<Rightarrow> None | _ \<Rightarrow> Some e)"
| "under (Suc k) e = (case e of Closure _ b \<Rightarrow> under k b | _ \<Rightarrow> None)"

lemma under_at_depth: "under k e = Some b \<Longrightarrow> at_depth k e = Some b"
  by (induction k arbitrary: e) (auto split: expr.splits)

lemma value_no_closure: "is_value u \<Longrightarrow> u \<noteq> Closure v b"
  by (cases u) auto

lemma under_subst:
  "is_value u \<Longrightarrow> under k e = Some b \<Longrightarrow> under k (subst i u dg e) = Some (subst (i + k) u dg b)"
proof (induction k arbitrary: e i)
  case 0
  then show ?case
    by (cases e) (auto split: expr.splits if_splits dest: value_no_closure)
next
  case (Suc k)
  then obtain v e' where "e = Closure v e'" and "under k e' = Some b"
    by (auto split: expr.splits)
  then show ?case
    using Suc.IH [of e' "i + 1"] Suc.prems(1) by simp
qed

lemma value_is_free [simp]: "is_value u \<Longrightarrow> is_free j u"
  by (induction u rule: is_value.induct) auto

lemma is_free_subst: "is_value u \<Longrightarrow> j < i \<Longrightarrow> is_free j (subst i u dg e) = is_free j e"
  by (induction e arbitrary: i j rule: expr_induct) (auto simp: expr_nested list_all_iff split: option.splits)

text \<open>
  The terms on which \<open>peval\<close> follows \<open>eval\<close>: no \<open>&&\<close> and \<open>||\<close>, of which it evaluates both sides; a
  \<open>let\<close> uses a variable it binds; iterations are \<open>fold\<close> and \<open>foreach\<close>; calls are of functions of the
  program and of builtins.
\<close>

fun direct :: "(string \<Rightarrow> bool) \<Rightarrow> 'l expr \<Rightarrow> bool" where
  "direct C (Var _) = True"
| "direct C (BVar _ _) = True"
| "direct C (LitExpr _) = True"
| "direct C (Closure _ e) = direct C e"
| "direct C (ReturnExpr e) = direct C e"
| "direct C (PrefixExpr _ e) = direct C e"
| "direct C (InfixExpr op e1 e2) = (op \<noteq> And \<and> op \<noteq> Or \<and> direct C e1 \<and> direct C e2)"
| "direct C (BlockExpr _ es) = list_all (direct C) es"
| "direct C (LetExpr vs e1 e2) =
     (direct C e1 \<and> direct C e2 \<and>
      (case under (length vs) e2 of
         Some b \<Rightarrow> list_ex (\<lambda>u. \<not> is_free u b) [0..<length vs]
       | None \<Rightarrow> False))"
| "direct C (IterExpr op _ e1 e2 acc) =
     ((op = Fold \<or> op = ForEach) \<and> direct C e1 \<and> direct C e2 \<and> pred_option (\<lambda>(_, a). direct C a) acc)"
| "direct C (IfExpr c t alt) = (direct C c \<and> direct C t \<and> pred_option (direct C) alt)"
| "direct C (IfSomeMatchExpr e t alt) = (direct C e \<and> direct C t \<and> pred_option (direct C) alt)"
| "direct C (IfMatchExpr _ ms t alt) =
     (list_all (\<lambda>(e, _). direct C e) ms \<and> direct C t \<and> pred_option (direct C) alt)"
| "direct C (CallExpr f args _) = (C f \<and> list_all (direct C) args)"

lemma direct_value [simp]: "is_value u \<Longrightarrow> direct C u"
  by (induction u rule: is_value.induct) auto

lemma direct_subst: "is_value u \<Longrightarrow> direct C e \<Longrightarrow> direct C (subst i u True e)"
proof (induction e arbitrary: i rule: expr_induct)
  case (Let vs e1 e2)
  then obtain b u' where b: "under (length vs) e2 = Some b" "u' < length vs" "\<not> is_free u' b"
    by (auto simp: list_ex_iff split: option.splits)
  have "under (length vs) (subst i u True e2) = Some (subst (i + length vs) u True b)"
    using Let.prems(1) b(1) by (rule under_subst)
  moreover have "\<not> is_free u' (subst (i + length vs) u True b)"
    using is_free_subst [OF Let.prems(1)] b(2, 3) by simp
  ultimately show ?case
    using Let b(2) by (auto simp: list_ex_iff)
qed (auto simp: expr_nested list_all_iff option.pred_set)

interpretation direct_kept: kept_by_apply "direct C" for C
proof
  fix e u e' :: "'a expr"
  assume "direct C e" "is_value u" "apply_expr e u = Inr e'"
  then show "direct C e'"
    by (cases e) (auto intro: direct_subst)
qed

section \<open>Following an evaluation\<close>

text \<open>\<open>follows P g m p\<close>: wherever \<open>m\<close> gives a result, it satisfies \<open>P\<close> and \<open>p\<close> gives its image, in the same state.\<close>

definition follows :: "('a \<Rightarrow> bool) \<Rightarrow> ('a \<Rightarrow> 'b) \<Rightarrow> ('s, 'l, 'a) ev \<Rightarrow> ('s, 'l, 'b) ev \<Rightarrow> bool" where
  "follows P g m p \<longleftrightarrow> (\<forall>s x t. m s = (Ok x, t) \<longrightarrow> P x \<and> p s = (Ok (g x), t))"

named_theorems follow "rules for following an evaluation"

lemma follows_simple [follow]:
  "P x \<Longrightarrow> y = g x \<Longrightarrow> follows P g (ev_ok x) (ev_ok y)"
  "follows P g (ev_err e) p" "follows P g ev_panic p"
  by (simp_all add: follows_def ev_ok_def ev_err_def ev_panic_def)

lemma bind_Ok_iff: "ev_bind m f s = (Ok x, t) \<longleftrightarrow> (\<exists>y u. m s = (Ok y, u) \<and> f y u = (Ok x, t))"
  by (auto simp: ev_bind_def split: prod.splits outcome.splits)

lemma follows_bind:
  assumes "follows Q h m p" and "\<And>x. Q x \<Longrightarrow> follows P g (f x) (q (h x))"
  shows "follows P g (ev_bind m f) (ev_bind p q)"
  unfolding follows_def
proof (intro allI impI)
  fix s x t
  assume "ev_bind m f s = (Ok x, t)"
  then obtain y u where y: "m s = (Ok y, u)" "f y u = (Ok x, t)"
    by (auto simp: bind_Ok_iff)
  then have "Q y" and "p s = (Ok (h y), u)"
    using assms(1) by (auto simp: follows_def)
  then show "P x \<and> ev_bind p q s = (Ok (g x), t)"
    using assms(2) y(2) by (auto simp: follows_def bind_Ok_iff)
qed

lemma follows_res [follow]:
  "(\<And>x. r = Inr x \<Longrightarrow> P x \<and> r' = Inr (g x)) \<Longrightarrow> follows P g (ev_res r) (ev_res r')"
  by (cases r) (auto simp: follows_def ev_res_def ev_ok_def ev_err_def)

lemma follows_opt [follow]:
  "(\<And>x. r = Some x \<Longrightarrow> P x \<and> r' = Some (g x)) \<Longrightarrow> follows P g (ev_opt r) (ev_opt r')"
  by (cases r) (auto simp: follows_def ev_opt_def ev_ok_def ev_panic_def)

lemma follows_map:
  "(\<And>x. x \<in> set xs \<Longrightarrow> follows P g (f x) (f' x)) \<Longrightarrow> follows (list_all P) (map g) (ev_map f xs) (ev_map f' xs)"
proof (induction xs)
  case (Cons x xs)
  then show ?case
    unfolding ev_map.simps
    by (intro follows_bind [where Q = P and h = g] follows_bind [where Q = "list_all P" and h = "map g"] follow) auto
qed (simp add: follow)

abbreviation value_follows :: "('s, cp_flat_literal, cp_expr) ev \<Rightarrow> ('s, bool \<times> cp_expr) cp_ev \<Rightarrow> bool" where
  "value_follows \<equiv> follows is_value (Pair True)"
section \<open>Each construct\<close>

text \<open>\<open>pe\<close> follows \<open>ev\<close> on the direct terms.\<close>

definition pe_follows ::
    "(string \<Rightarrow> bool) \<Rightarrow> (cp_expr \<Rightarrow> ('s, cp_expr) cp_ev) \<Rightarrow> (cp_expr \<Rightarrow> ('s, bool \<times> cp_expr) cp_ev) \<Rightarrow> bool" where
  "pe_follows C ev pe \<longleftrightarrow> (\<forall>e. direct C e \<longrightarrow> value_follows (ev e) (pe e))"

lemma pe_followsD: "pe_follows C ev pe \<Longrightarrow> direct C e \<Longrightarrow> value_follows (ev e) (pe e)"
  by (simp add: pe_follows_def)

text \<open>Evaluating a part first, and going on with its value.\<close>

lemma follows_part:
  "pe_follows C ev pe \<Longrightarrow> direct C e \<Longrightarrow> (\<And>r. is_value r \<Longrightarrow> follows P g (f r) (q (True, r))) \<Longrightarrow>
     follows P g (ev_bind (ev e) f) (ev_bind (pe e) q)"
  by (rule follows_bind [OF pe_followsD]) auto

text \<open>Applying to values, and evaluating the result.\<close>

lemma follows_applied:
  assumes "pe_follows C ev pe" and "\<And>e. r = Inr e \<Longrightarrow> direct C e \<and> r' = Inr e"
  shows "value_follows (ev_bind (ev_res r) ev) (ev_bind (ev_res r') pe)"
proof (rule follows_bind [where Q = "direct C" and h = "\<lambda>e. e"])
  show "follows (direct C) (\<lambda>e. e) (ev_res r) (ev_res r')"
    using assms(2) by (intro follow) auto
qed (rule pe_followsD [OF assms(1)])

lemma call_result_both: "call_result msg r = Inr v \<Longrightarrow> is_value v \<and> call_result msg' r = Inr v"
  by (cases r) (auto simp: call_result_def)

lemma follows_call_result:
  "value_follows (ev_res (call_result msg r)) (ev_bind (ev_res (call_result msg' r)) (\<lambda>v. ev_ok (True, v)))"
  using call_result_both [of msg r _ msg']
  by (cases "call_result msg r") (auto simp: follows_def ev_res_def ev_ok_def ev_err_def ev_bind_def)

lemma pe_prefix_follows:
  assumes "pe_follows C ev (pe False)" and "direct C e"
  shows "value_follows (eval_step X ev (PrefixExpr p e)) (pe_step X pe False (PrefixExpr p e))"
  unfolding eval_step.simps pe_step.simps
  by (rule follows_part [OF assms])
    (auto intro!: follow follows_call_result simp: is_return_iff split: expr.split)

lemma pe_infix_follows:
  assumes "pe_follows C ev (pe False)" and "direct C e1" "direct C e2" and "op \<noteq> And" "op \<noteq> Or"
  shows "value_follows (eval_step X ev (InfixExpr op e1 e2)) (pe_step X pe False (InfixExpr op e1 e2))"
proof -
  have lits: "value_follows (ev_bind (ev_opt o1) (\<lambda>r. ev_res (call_result msg r)))
      (ev_bind (ev_opt o1) (\<lambda>r. ev_bind (ev_res (call_result msg' r)) (\<lambda>v. ev_ok (True, v))))" for o1 msg msg'
    by (rule follows_bind [where Q = "\<lambda>_. True" and h = "\<lambda>r. r"]) (auto intro!: follow follows_call_result)
  show ?thesis
    unfolding eval_step.simps pe_step.simps using assms(4, 5)
    by (simp, intro follows_part [OF assms(1, 2)])
      (auto intro!: follow lits follows_part [OF assms(1, 3)] split: expr.split)
qed

lemma cp_unit_lit [simp]: "lit_unit cp_lits = cp_unit" "expr_unit cp_lits = LitExpr cp_unit"
  by (simp_all add: expr_unit_def lit_unit_def cp_lits_def)

lemma pe_opt_follows:
  assumes "pe_follows C ev pe" and "pred_option (direct C) alt"
  shows "value_follows (opt_eval cp_lits ev alt) (pe_opt pe alt)"
  using assms by (cases alt) (auto simp: opt_eval_def pe_opt_def intro!: follow dest: pe_followsD)

lemma follows_guard:
  assumes "value_follows m p" and "value_follows m' p'"
  shows "value_follows (ev_bind (ev_opt (bool_guard cp_lits l)) (\<lambda>g. case g of
      Some b \<Rightarrow> (if b then m else m') | None \<Rightarrow> ev_err e))
    (case lit_get_bool cp_lits l of Some b \<Rightarrow> (if b then p else p') | None \<Rightarrow> ev_err e')"
  using assms unfolding bool_guard_def
  by (cases "lit_get_bool cp_lits l") (auto simp: follows_def bind_Ok_iff ev_opt_def ev_ok_def ev_panic_def ev_err_def)

lemma pe_if_follows:
  assumes "pe_follows C ev pe" and "direct C (IfExpr c t alt)" and "en_plane X = cp_plane"
  shows "value_follows (eval_step X ev (IfExpr c t alt)) (pe_if pe c t alt)"
  using assms(2, 3) unfolding eval_step.simps pe_if_def
  by (intro follows_part [OF assms(1)])
    (auto simp: cp_plane_def intro!: follow follows_guard pe_opt_follows [OF assms(1)] pe_followsD [OF assms(1)]
      split: expr.split)

lemma pe_some_match_follows:
  assumes "pe_follows C ev pe" and "direct C (IfSomeMatchExpr e t alt)" and "en_plane X = cp_plane"
  shows "value_follows (eval_step X ev (IfSomeMatchExpr e t alt)) (pe_some_match pe e t alt)"
  using assms(2, 3) unfolding eval_step.simps pe_some_match_def
  by (intro follows_part [OF assms(1)])
    (auto simp: cp_plane_def intro!: follow pe_opt_follows [OF assms(1)] follows_applied [OF assms(1)]
      intro: direct_kept.apply_lit_kept split: expr.split literal.split)

lemma pe_let_follows:
  assumes "pe_follows C ev pe" and "direct C (LetExpr vs e1 e2)"
  shows "value_follows (eval_step X ev (LetExpr vs e1 e2)) (pe_let pe vs e1 e2)"
proof -
  obtain b where b: "under (length vs) e2 = Some b" "\<not> list_all (\<lambda>u. is_free u b) [0..<length vs]"
    using assms(2) by (auto simp: list_ex_iff list_all_iff split: option.splits)
  have d: "direct C e1" "direct C e2"
    using assms(2) by simp_all
  show ?thesis
    unfolding eval_step.simps pe_let_def under_at_depth [OF b(1)] option.case if_not_P [OF b(2)]
    by (rule follows_part [OF assms(1) d(1)])
      (auto simp: is_return_def intro!: follow follows_applied [OF assms(1)]
        intro: direct_kept.apply_lit_kept [OF d(2)] direct_kept.apply_vars_kept [OF d(2)]
        split: expr.split literal.split)
qed

lemma map_snd_True [simp]: "map snd (map (Pair True) rs) = rs" "list_all fst (map (Pair True) rs)"
  by (induction rs) auto

lemma find_is_value: "find Q rs = Some r \<Longrightarrow> list_all is_value rs \<Longrightarrow> is_value r"
  by (auto simp: find_Some_iff list_all_length)

lemma pe_block_follows:
  assumes "pe_follows C ev (pe False)" and "direct C (BlockExpr b es)" and "en_plane X = cp_plane"
  shows "value_follows (eval_step X ev (BlockExpr b es)) (pe_block pe False b es)"
proof (cases es)
  case Nil
  then show ?thesis
    using assms(3) by (auto simp: pe_block_def cp_plane_def intro!: follow)
next
  case (Cons e rest)
  then have d: "direct C e" "direct C (BlockExpr b rest)" "\<And>x. x \<in> set es \<Longrightarrow> direct C x"
    using assms(2) by (auto simp: list_all_iff)
  have tuple: "value_follows
      (case find is_return rs of Some r \<Rightarrow> ev_ok r
       | None \<Rightarrow> ev_bind (ev_res (literal_vector rs)) (\<lambda>ls. ev_ok (LitExpr (f ls))))
      (case find is_return rs of Some r \<Rightarrow> ev_ok (True, r)
       | None \<Rightarrow> ev_bind (ev_res (literal_vector rs)) (\<lambda>ls. ev_ok (True, LitExpr (f ls))))"
    if "list_all is_value rs" for rs :: "cp_expr list" and f
    using that
    by (auto split: option.split dest: find_is_value
      intro!: follow follows_bind [where Q = "\<lambda>_. True" and h = "\<lambda>l. l"])
  show ?thesis
  proof (cases "b = Block")
    case True
    then show ?thesis
      unfolding eval_step.simps pe_block_def Cons list.case
      by (simp, intro follows_part [OF assms(1) d(1)])
        (use d(2) in \<open>auto intro!: follow pe_followsD [OF assms(1)]\<close>)
  next
    case False
    have m: "follows (list_all is_value) (map (Pair True)) (ev_map ev es) (ev_map (pe False) es)"
      by (intro follows_map pe_followsD [OF assms(1)] d(3))
    show ?thesis
      unfolding eval_step.simps pe_block_def Cons list.case if_not_P [OF False] Let_def
      by (rule follows_bind [OF m [unfolded Cons]]) (simp only: map_snd_True if_True tuple simp_thms)
  qed
qed
lemma ev_bind_assoc: "ev_bind (ev_bind m f) g = ev_bind m (\<lambda>x. ev_bind (f x) g)"
  by (rule ext) (auto simp: ev_bind_def split: prod.split outcome.split)

lemma pe_item_applies: "apply_item vs l e = Inr e' \<Longrightarrow> pe_item vs l e = Inr e'"
  by (auto simp: apply_item_def pe_item_def split: option.splits if_splits)

lemma pe_captures_apply: "apply_captures m vs c = Inr c' \<Longrightarrow> pe_captures m vs c = Inr c'"
  by (induction vs arbitrary: c) (auto simp: bind_res_Inr_iff split: option.splits)

text \<open>The loop of an iteration.\<close>

lemma pe_iter_follows:
  assumes "pe_follows C ev pe" and "direct C body"
  shows "pred_option is_value acc \<Longrightarrow>
    follows (\<lambda>(rs, a). list_all is_value rs \<and> pred_option is_value a \<and> (a = None \<longleftrightarrow> acc = None))
      (\<lambda>(rs, a). (map (Pair True) rs, map_option (Pair True) a))
      (ev_iter ev vs body ls acc) (pe_iter pe vs body ls (map_option (Pair True) acc))"
proof (induction ls arbitrary: acc)
  case (Cons l ls)
  let ?P = "\<lambda>(rs, a). list_all is_value rs \<and> pred_option is_value a \<and> (a = None \<longleftrightarrow> acc = None)"
  let ?g = "\<lambda>(rs, a). (map (Pair True) rs, map_option (Pair True) a)"
  let ?acc = "case acc of Some a \<Rightarrow> apply_expr body a | None \<Rightarrow> Inr body"
  have acc': "(case map_option (Pair True) acc of Some (_, a) \<Rightarrow> apply_expr body a | None \<Rightarrow> Inr body) = ?acc"
    by (cases acc) auto
  have d1: "follows (direct C) (\<lambda>e. e) (ev_res ?acc) (ev_res ?acc)"
    using Cons.prems assms(2) by (intro follow) (auto split: option.splits intro: direct_kept.apply_kept)
  have rest: "follows ?P ?g
      (ev_bind (ev_iter ev vs body ls (map_option (\<lambda>_. r) acc)) (\<lambda>(rs, acc'). ev_ok (r # rs, acc')))
      (ev_bind (pe_iter pe vs body ls (map_option (\<lambda>_. (True, r)) (map_option (Pair True) acc)))
        (\<lambda>(rs, acc'). ev_ok ((True, r) # rs, acc')))" if "is_value r" for r
  proof -
    have "pred_option is_value (map_option (\<lambda>_. r) acc)"
      using that by (cases acc) auto
    from Cons.IH [OF this] have "follows ?P ?g (ev_iter ev vs body ls (map_option (\<lambda>_. r) acc))
        (pe_iter pe vs body ls (map_option (\<lambda>_. (True, r)) (map_option (Pair True) acc)))"
      by (simp add: option.map_comp comp_def)
    then show ?thesis
      by (rule follows_bind) (use that in \<open>auto intro!: follow\<close>)
  qed
  have item: "follows (direct C) (\<lambda>e. e) (ev_res (apply_item vs l e1)) (ev_res (pe_item vs l e1))"
    if "direct C e1" for e1
    using that by (intro follow) (auto intro: direct_kept.apply_item_kept pe_item_applies)
  show ?case
    unfolding ev_iter.simps pe_iter.simps acc'
    by (intro follows_bind [OF d1] follows_bind [OF item] follows_part [OF assms(1)] rest)
qed (auto intro!: follow)

lemma pe_iter_result_follows:
  assumes "op = Fold \<or> op = ForEach" and "list_all is_value rs" and "pred_option is_value a"
  shows "value_follows (finish_iter cp_lits op lits rs a)
    (pe_iter_result op vs lits body n (map (Pair True) rs) (map_option (Pair True) a))"
proof (cases "find is_return rs")
  case None
  have "value_follows (ev_bind (ev_res (literal_vector rs)) (\<lambda>_. ev_ok (LitExpr cp_unit))) (Pair (Ok (True, LitExpr cp_unit)))"
    by (auto simp: follows_def bind_Ok_iff ev_ok_def ev_res_def ev_err_def split: sum.splits)
  then show ?thesis
    using assms None unfolding finish_iter_def pe_iter_result_def Let_def map_snd_True
    by (cases a) (auto simp: iter_result_def [abs_def] ev_opt_def intro!: follow split: expr.split)
next
  case (Some r)
  then show ?thesis
    using assms(2) unfolding finish_iter_def pe_iter_result_def Let_def map_snd_True
    by (auto intro!: follow dest: find_is_value)
qed

lemma pe_iter_expr_follows:
  assumes "pe_follows C ev pe" and "direct C (IterExpr op vs e1 e2 acc)" and "en_plane X = cp_plane"
  shows "value_follows (eval_step X ev (IterExpr op vs e1 e2 acc)) (pe_iter_expr pe op vs e1 e2 acc)"
proof -
  have op: "op = Fold \<or> op = ForEach" and d: "direct C e1" "direct C e2" "\<And>n a. acc = Some (n, a) \<Longrightarrow> direct C a"
    using assms(2) by (auto simp: option.pred_set)
  have loop: "value_follows
      (ev_bind (ev_iter ev vs e2 lits a0) (\<lambda>(rs, a1). finish_iter cp_lits op lits rs a1))
      (ev_bind (pe_iter pe vs e2 lits (map_option (Pair True) a0)) (\<lambda>(rs, a1). pe_iter_result op vs lits e2 n rs a1))"
    if "pred_option is_value a0" for lits a0 n
    by (rule follows_bind [OF pe_iter_follows [OF assms(1) d(2) that]]) (auto intro: pe_iter_result_follows [OF op])
  have "value_follows (ev_bind (case acc of Some (_, a) \<Rightarrow> ev_bind (ev a) (\<lambda>v. ev_ok (Some v)) | None \<Rightarrow> ev_ok None) (\<lambda>a0.
        ev_bind (ev_iter ev vs e2 lits a0) (\<lambda>(rs, a1). finish_iter cp_lits op lits rs a1)))
      (case acc of
         None \<Rightarrow> ev_bind (pe_iter pe vs e2 lits None) (\<lambda>(res, a). pe_iter_result op vs lits e2 None res a)
       | Some (n, a0) \<Rightarrow>
           ev_bind (pe a0) (\<lambda>(f, a).
             if f then ev_bind (pe_iter pe vs e2 lits (Some (True, a))) (\<lambda>(res, a'). pe_iter_result op vs lits e2 (Some n) res a')
             else ev_ok (False, IterExpr op vs (LitExpr (ListL lits)) e2 (Some (n, a)))))" for lits
  proof (cases acc)
    case None
    then show ?thesis
      using loop [of None] by (simp add: ev_bind_def ev_ok_def)
  next
    case (Some na)
    obtain n a where na: "na = (n, a)"
      by (cases na)
    show ?thesis
      unfolding Some na option.case prod.case ev_bind_assoc
      by (rule follows_part [OF assms(1) d(3)]) (use Some na loop [of "Some _"] in \<open>auto\<close>)
  qed
  then show ?thesis
    unfolding eval_step.simps pe_iter_expr_def assms(3)
    by (intro follows_part [OF assms(1) d(1)]) (auto simp: cp_plane_def intro!: follow split: expr.split literal.split)
qed

lemma find_pair: "find (\<lambda>r. is_return (snd r)) (map (Pair True) rs) = map_option (Pair True) (find is_return rs)"
  by (induction rs) auto

lemma pe_call_follows:
  assumes "pe_follows C ev pe" and "list_all is_value rs" and "C f"
    and code: "\<And>body. bt_get f (en_code X) = Some body \<Longrightarrow> direct C body"
    and call: "bt_get f (en_code X) \<noteq> None \<or> is_builtin (pl_builtin (en_plane X)) f"
      "\<And>args. ev_spec (\<lambda>_ _. True) is_value (en_call X f args)"
  shows "value_follows (ev_call X ev f async rs) (pe_call X pe False f es async (map (Pair True) rs))"
proof (cases "find is_return rs")
  case (Some r)
  then show ?thesis
    using assms(2) by (auto simp: ev_call_def pe_call_def find_pair Let_def intro!: follow dest: find_is_value)
next
  case None
  have applied: "direct C e" if "bt_get f (en_code X) = Some body" "apply_all body rs = Inr e" for body e
    using direct_kept.apply_all_kept [OF code [OF that(1)] _ that(2)] assms(2) by (simp add: list_all_iff)
  have b: "value_follows (en_call X f rs) (ev_bind (en_call X f rs) (\<lambda>e. ev_ok (True, e)))"
    using call(2) [of rs] unfolding follows_def ev_spec_def by (auto simp: bind_Ok_iff ev_ok_def) (metis fst_conv)
  have u: "value_follows (ev_bind (ev_res (apply_all body rs)) (\<lambda>e. ev_bind (ev e) (\<lambda>r. ev_ok (strip_return r))))
      (ev_bind (ev_res (apply_all body rs)) (\<lambda>e. pe_strip (pe e)))" if "bt_get f (en_code X) = Some body" for body
  proof (rule follows_bind [where Q = "direct C" and h = "\<lambda>e. e"])
    show "follows (direct C) (\<lambda>e. e) (ev_res (apply_all body rs)) (ev_res (apply_all body rs))"
      using applied [OF that] by (intro follow) auto
    show "value_follows (ev_bind (ev e) (\<lambda>r. ev_ok (strip_return r))) (pe_strip (pe e))" if "direct C e" for e
      unfolding pe_strip_def by (rule follows_part [OF assms(1) that]) (auto intro!: follow value_strip)
  qed
  show ?thesis
    unfolding ev_call_def pe_call_def find_pair None Let_def map_snd_True
    using b u call(1) by (auto split: option.split)
qed

abbreviation match_ok :: "cp_expr \<times> cp_flat_literal captures option \<Rightarrow> bool" where
  "match_ok \<equiv> \<lambda>(r, c). is_value r \<and> pred_option caps_ok c"

lemma pe_matches_follow:
  assumes "pe_follows C ev pe"
  shows "list_all (\<lambda>(e, _). direct C e) ms \<Longrightarrow>
    follows (list_all match_ok) (Pair True) (ev_map (ev_match X ev) ms) (pe_matches X pe ms)"
proof (induction ms)
  case (Cons m ms)
  obtain e p where m: "m = (e, p)"
    by (cases m)
  have one: "follows match_ok (\<lambda>x. x)
      (\<lambda>s. case perform_match (en_lits X) (en_lib X (mc_trace s)) p r of
         None \<Rightarrow> ev_panic s | Some None \<Rightarrow> ev_err e1 s | Some (Some x) \<Rightarrow> ev_ok x s)
      (\<lambda>s. case perform_match (en_lits X) (en_lib X (mc_trace s)) p r of
         None \<Rightarrow> ev_panic s | Some None \<Rightarrow> ev_err e2 s | Some (Some x) \<Rightarrow> ev_ok x s)" if "is_value r" for r e1 e2
    using perform_match_ok [OF _ that]
    by (auto simp: follows_def ev_ok_def ev_err_def ev_panic_def split: option.splits)
  show ?case
    unfolding ev_map.simps pe_matches.simps m ev_match_def [of X ev "(e, p)"] fst_conv snd_conv ev_bind_assoc
    by (rule follows_part [OF assms]) (use Cons m in
      \<open>auto intro!: follow follows_bind [OF one] follows_bind [OF Cons.IH]\<close>)
qed (auto intro!: follow)

lemma pe_check_follows:
  "pe_follows C ev pe \<Longrightarrow> direct C e \<Longrightarrow> value_follows (ev_bind (ev e) (check_value msg)) (ev_bind (pe e) pe_check)"
  by (erule follows_part, assumption) (auto simp: check_value_def pe_check_def intro!: follow split: expr.split)

lemma pe_if_match_follows:
  assumes "pe_follows C ev pe" and "direct C (IfMatchExpr vs ms t alt)" and "en_plane X = cp_plane"
  shows "value_follows (eval_step X ev (IfMatchExpr vs ms t alt)) (pe_if_match X pe vs ms t alt)"
proof -
  have d: "list_all (\<lambda>(e, _). direct C e) ms" "direct C t" "pred_option (direct C) alt"
    using assms(2) by simp_all
  have cap: "follows (direct C) (\<lambda>c. c) (ev_res (apply_captures (all_captures rs) vs t))
      (ev_res (pe_captures (all_captures rs) vs t))" if "list_all match_ok rs" for rs
  proof -
    have "caps_ok (all_captures rs)"
      using that by (intro all_captures_ok) (auto simp: list_all_iff)
    then show ?thesis
      by (intro follow) (auto intro: direct_kept.apply_captures_kept [OF d(2)] caps_ok_get pe_captures_apply)
  qed
  have found: "is_value r" if "find (\<lambda>(r, _). is_return r) rs = Some (r, c)" "list_all match_ok rs" for rs r c
    using that by (auto simp: find_Some_iff list_all_length)
  show ?thesis
    unfolding eval_step.simps pe_if_match_def assms(3)
    by (rule follows_bind [OF pe_matches_follow [OF assms(1) d(1)]])
      (use d(3) in \<open>auto simp: cp_plane_def split: option.split dest: found
        intro!: follow follows_bind [OF cap] pe_check_follows [OF assms(1)]\<close>)
qed

section \<open>The evaluator\<close>

lemma peval_follows:
  assumes "en_plane X = cp_plane"
    and "\<And>f body. bt_get f (en_code X) = Some body \<Longrightarrow> direct C body"
    and "\<And>f. C f \<Longrightarrow> bt_get f (en_code X) \<noteq> None \<or> is_builtin cp_builtin f"
    and "\<And>f args. ev_spec (\<lambda>_ _. True) is_value (en_call X f args)"
  shows "pe_follows C (eval X n) (peval X n False)"
proof (induction n)
  case 0
  then show ?case
    by (simp add: pe_follows_def follows_def)
next
  case (Suc n)
  show ?case
    unfolding pe_follows_def eval.simps peval.simps
  proof (intro allI impI)
    fix e :: cp_expr
    assume e: "direct C e"
    show "value_follows (eval_step X (eval X n) e) (pe_step X (peval X n) False e)"
    proof (cases e)
      case (IfMatchExpr vs ms t alt)
      then show ?thesis
        using pe_if_match_follows [OF Suc] e assms(1) by (simp del: eval_step.simps)
    next
      case (CallExpr f args async)
      have args: "follows (list_all is_value) (map (Pair True)) (ev_map (eval X n) args) (ev_map (peval X n False) args)"
        using e CallExpr by (intro follows_map pe_followsD [OF Suc]) (auto simp: list_all_iff)
      show ?thesis
        unfolding CallExpr eval_step.simps pe_step.simps using e CallExpr assms
        by (intro follows_bind [OF args] pe_call_follows [OF Suc]) (auto simp: cp_plane_def)
    next
      case (ReturnExpr e1)
      then show ?thesis
        using e by (auto intro!: follow follows_part [OF Suc])
    qed (use e pe_prefix_follows [where pe = "peval X n", OF Suc] pe_infix_follows [where pe = "peval X n", OF Suc] pe_block_follows [where pe = "peval X n", OF Suc] pe_let_follows [OF Suc]
        pe_iter_expr_follows [OF Suc] pe_if_follows [OF Suc] pe_some_match_follows [OF Suc] assms(1)
        in \<open>simp_all add: follow del: eval_step.simps(6-13)\<close>)
  qed
qed
text \<open>A function that may be called statically: one of the program or a builtin.\<close>

definition callable :: "'s cp_env \<Rightarrow> string \<Rightarrow> bool" where
  "callable X f \<longleftrightarrow> bt_get f (en_code X) \<noteq> None \<or> is_builtin cp_builtin f"

text \<open>C6: specialisation computes what evaluation computes. A direct term (no \<open>&&\<close> and \<open>||\<close>; no iterations but
  \<open>fold\<close> and \<open>foreach\<close>; a \<open>let\<close> uses a variable it binds; only builtins and functions of the program, which
  are direct too, are called) that the control plane evaluates to a value is specialised to that
  value, marked as final, with the same effects and the same fuel.\<close>

theorem specialisation_evaluates:
  assumes "en_plane X = cp_plane" and "direct (callable X) e"
    and "\<And>f body. bt_get f (en_code X) = Some body \<Longrightarrow> direct (callable X) body"
    and "\<And>f args s v t. en_call X f args s = (Ok v, t) \<Longrightarrow> is_value v"
    and "evaluate X n e s = (Ok r, t)"
  shows "pevaluate X n False e s = (Ok (True, r), t)"
proof -
  have "pe_follows (callable X) (eval X n) (peval X n False)"
    using assms(1, 3, 4) by (intro peval_follows) (auto simp: callable_def ev_spec_def prod_eq_iff)
  then have "value_follows (evaluate X n e) (pevaluate X n False e)"
    unfolding evaluate_def pevaluate_def pe_strip_def by (rule follows_part [OF _ assms(2)]) (auto intro!: follow)
  then show ?thesis
    using assms(5) by (simp add: follows_def)
qed

text \<open>\<open>fn twice(x: i64) -> i64 { x + x }\<close>, and \<open>let y = twice(3); y + 1\<close>.\<close>

definition twice_code :: "cp_flat_literal code" where
  "twice_code = [(''twice'', closures [''x''] (InfixExpr Plus (Var ''x'') (Var ''x'')))]"

definition twice_term :: cp_expr where
  "twice_term = LetExpr [''y''] (CallExpr ''twice'' [LitExpr (cp_int 3)] False)
     (closures [''y''] (InfixExpr Plus (Var ''y'') (LitExpr (cp_int 1))))"

theorem specialisation_evaluates_witness:
  "\<forall>lib_at rpc s. pevaluate (plane_env cp_plane twice_code lib_at rpc) 5 False twice_term s =
     (Ok (True, LitExpr (cp_int 7)), s)"
proof (intro allI, rule specialisation_evaluates)
  fix lib_at rpc s
  let ?X = "plane_env cp_plane twice_code lib_at rpc"
  show "en_plane ?X = cp_plane"
    by (simp add: plane_env_def)
  show "direct (callable ?X) twice_term"
    by (simp add: twice_term_def closures_def closure_expr_def callable_def plane_env_def twice_code_def)
  show "direct (callable ?X) body" if "bt_get f (en_code ?X) = Some body" for f body
    using that by (auto simp: plane_env_def twice_code_def closures_def closure_expr_def split: if_splits)
  show "is_value v" if "en_call ?X f args u = (Ok v, t)" for f args u v t
    using that machine.builtin_spec [where f = f and P = cp_plane and lib_at = lib_at and args = args and code = twice_code and rpc = rpc]
    by (auto simp: ev_spec_def prod_eq_iff)
  show "evaluate ?X 5 twice_term s = (Ok (LitExpr (cp_int 7)), s)"
    by (simp add: evaluate_def twice_term_def twice_code_def closures_def closure_expr_def plane_env_def
        eval_nat_numeral ev_call_def is_return_def strip_return_def cp_plane_def lit_infix_def cp_interp_def
        cp_infix_def dp_infix_def call_result_def)
qed
section \<open>Where specialisation differs\<close>

definition any_true :: cp_expr where
  "any_true = IterExpr AnyIt [''x''] (LitExpr (ListL [cp_bool True])) (closures [''x''] (Var ''x'')) None"

definition false_and_error :: cp_expr where
  "false_and_error = InfixExpr And (LitExpr (cp_bool False)) (PrefixExpr PNot (LitExpr (cp_int 1)))"

lemmas static_eval = plane_env_def eval_nat_numeral is_return_def cp_plane_def call_result_def
  closures_def closure_expr_def apply_item_def pe_item_def

section \<open>Compiled policies\<close>

text \<open>Dead-code elimination keeps the node of a function.\<close>

definition has_node :: "string \<Rightarrow> nat \<Rightarrow> call_graph \<Rightarrow> bool" where
  "has_node f i g \<longleftrightarrow> bt_wf (cg_nodes g) \<and> bt_get f (cg_nodes g) = Some i"

lemma has_node_dead_call: "has_node f i g \<Longrightarrow> has_node f i (dead_call B j h g)"
  by (auto simp: has_node_def dead_call_def cg_add_node_def cg_add_edge_def Let_def split: option.split)

lemma has_node_fold: "(\<And>x g. x \<in> set xs \<Longrightarrow> has_node f i g \<Longrightarrow> has_node f i (h x g)) \<Longrightarrow> has_node f i g \<Longrightarrow> has_node f i (fold h xs g)"
  by (induction xs arbitrary: g) auto

lemma has_node_aux: "has_node f i g \<Longrightarrow> has_node f i (aux_deadcode B j e g)"
proof (induction e arbitrary: g rule: expr_induct)
  case (IfMatch vs ms t alt)
  have "has_node f i (fold (\<lambda>(e, _). aux_deadcode B j e) ms g)"
    using IfMatch.prems by (rule has_node_fold [rotated]) (use IfMatch.IH(1) in auto)
  then show ?case
    using IfMatch.IH(2, 3) by (auto simp: Let_def split: option.split)
qed (auto simp: Let_def intro!: has_node_fold has_node_dead_call split: option.split)

lemma cut_single: "f \<notin> set names \<Longrightarrow> foldl (\<lambda>m k. bt_remove k m) [(f, x)] names = [(f, x)]"
  by (induction names) auto

lemma deadcode_single:
  assumes "graph_algorithms pg" and "pr_code p = [(f, e)]" and "pr_headers p = [(f, sig)]"
  shows "deadcode_elim pg B [f] p = Some p"
proof -
  let ?g = "aux_deadcode B 0 e (cg_add_node f cg_default)"
  have n: "has_node f 0 ?g"
    by (rule has_node_aux) (simp add: has_node_def cg_add_node_def cg_default_def bt_wf_def)
  then have "f \<notin> set (unreachable pg ?g [f])"
    by (auto simp: graph_algorithms.unreachable_iff [OF assms(1)] has_node_def bt_get_in_set)
  then have "program_cut (unreachable pg ?g [f]) p = p"
    using assms(2, 3) by (cases p) (simp add: program_cut_def headers_cut_def code_cut_def cut_single)
  then show ?thesis
    using assms(2, 3)
    by (simp add: deadcode_elim_def code_get_def program_for_def) (simp add: cg_add_node_def cg_default_def)
qed
text \<open>The functions that can be specialised, and their type in the policy of a service.\<close>

definition main_functions :: "string list" where
  "main_functions = [ALLOW_REST_REQUEST, ALLOW_REST_RESPONSE, ALLOW_TCP_CONNECTION, ON_TCP_DISCONNECT]"

definition dp_local_sig :: "string \<Rightarrow> flat_typ signature" where
  "dp_local_sig f = new_sig (map FlatTyp
     (if f = ALLOW_REST_REQUEST then [HttpRequestT, DataT]
      else if f = ALLOW_REST_RESPONSE then [HttpResponseT, DataT]
      else if f = ALLOW_TCP_CONNECTION then [ConnectionT]
      else [ConnectionT, I64T, I64T])) (FlatTyp BoolT)"

lemma spec_check_header_Inr:
  "spec_check_header pol f = Inr n \<Longrightarrow>
     \<exists>sig. f \<in> set main_functions \<and> global_sig f = Some sig \<and> bt_get f (pr_headers (pol_program pol)) = Some sig"
  by (auto simp: spec_check_header_def global_sig_def main_functions_def Let_def split: option.splits if_splits)

lemma main_function_names: "f \<in> set main_functions \<Longrightarrow> builtins cp_builtin f = None \<and> internal_service cp_builtin f = None"
proof -
  have "list_all (\<lambda>f. builtins cp_builtin f = None \<and> internal_service cp_builtin f = None) main_functions"
    by code_simp
  then show "f \<in> set main_functions \<Longrightarrow> builtins cp_builtin f = None \<and> internal_service cp_builtin f = None"
    by (simp add: list_all_iff)
qed

lemma main_local_args:
  "f \<in> set main_functions \<Longrightarrow> \<exists>args. local_args f = Some args \<and> map_opt dp_of_cp_typ args = sig_args (dp_local_sig f)"
proof -
  have "list_all (\<lambda>f. case local_args f of
      Some args \<Rightarrow> map_opt dp_of_cp_typ args = sig_args (dp_local_sig f) | None \<Rightarrow> False) main_functions"
    by code_simp
  then show "f \<in> set main_functions \<Longrightarrow> \<exists>args. local_args f = Some args \<and> map_opt dp_of_cp_typ args = sig_args (dp_local_sig f)"
    by (auto simp: list_all_iff split: option.splits)
qed

lemma main_function_typ:
  assumes "spec_check_header pol f = Inr n"
  shows "return_typ_of cp_builtin (pr_headers (pol_program pol)) f = Inr (cp_typ BoolT)"
proof -
  obtain sig where "f \<in> set main_functions" "global_sig f = Some sig" "bt_get f (pr_headers (pol_program pol)) = Some sig"
    using spec_check_header_Inr [OF assms] by auto
  then show ?thesis
    using main_function_names [of f]
    by (auto simp: return_typ_of_def header_typ_def global_sig_def Let_def new_sig_def split: if_splits)
qed

definition compiled_ok :: "string \<Rightarrow> cp_policy \<Rightarrow> bool" where
  "compiled_ok f p \<longleftrightarrow> (\<exists>e args. f \<in> set main_functions \<and> local_args f = Some args \<and>
     pr_code (pol_program p) = [(f, e)] \<and> pr_headers (pol_program p) = [(f, new_sig args (cp_typ BoolT))] \<and>
     pol_fns p = [(f, FnArgs (word_of_nat (length args)))])"

lemma compile_helper_ok:
  assumes "graph_algorithms pg" and "spec_check_header pol f = Inr n"
    and "compile_helper pg pol f (policy_default\<lparr>pol_program := program_default\<lparr>pr_code := code_insert f e []\<rparr>\<rparr>) s = (Ok p, t)"
  shows "compiled_ok f p"
proof -
  obtain args where args: "local_args f = Some args" "f \<in> set main_functions"
    using spec_check_header_Inr [OF assms(2)] main_local_args by blast
  show ?thesis
    using assms(3) args
    by (auto simp: compile_helper_def main_function_typ [OF assms(2)] Let_def program_default_def policy_default_def
        code_insert_def set_args_def compiled_ok_def deadcode_single [OF assms(1)] ev_opt_def ev_ok_def)
qed

lemma res_Ok_iff: "ev_res r s = (Ok x, t) \<longleftrightarrow> r = Inr x \<and> t = s"
  by (cases r) (auto simp: ev_res_def ev_ok_def ev_err_def)

lemma compile_policy_ok:
  assumes "graph_algorithms pg" and "compile_policy pg X n egress f to pol s = (Ok r, t)"
  shows "(r = None \<longleftrightarrow> code_get (pr_code (pol_program pol)) f = None) \<and> pred_option (compiled_ok f) r"
  using assms(2) compile_helper_ok [OF assms(1)] unfolding compile_policy_def Let_def
  by (auto simp: bind_Ok_iff res_Ok_iff ev_ok_def ev_panic_def split: option.splits)
lemma compile_policies_ok:
  assumes pg: "graph_algorithms pg"
  shows "compile_policies pg X n egress f to ps new s = (Ok new', t) \<Longrightarrow> bt_wf new \<Longrightarrow>
      \<forall>proto p. bt_get proto new = Some p \<longrightarrow> compiled_ok f p \<Longrightarrow>
    bt_wf new' \<and> (\<forall>proto p. bt_get proto new' = Some p \<longrightarrow> compiled_ok f p) \<and>
    (\<forall>proto. bt_get proto new' \<noteq> None \<longleftrightarrow> bt_get proto new \<noteq> None \<or>
      (\<exists>pol. (proto, pol) \<in> set ps \<and> code_get (pr_code (pol_program pol)) f \<noteq> None))"
proof (induction ps arbitrary: new s)
  case Nil
  then show ?case
    by (simp add: ev_ok_def)
next
  case (Cons ppol ps)
  obtain proto pol where ppol: "ppol = (proto, pol)"
    by (cases ppol)
  obtain r u where r: "compile_policy pg X n egress f to pol s = (Ok r, u)"
      "compile_policies pg X n egress f to ps (case r of Some p \<Rightarrow> bt_insert proto p new | None \<Rightarrow> new) u = (Ok new', t)"
    using Cons.prems(1) ppol by (auto simp: bind_Ok_iff)
  have ok: "r = None \<longleftrightarrow> code_get (pr_code (pol_program pol)) f = None" "pred_option (compiled_ok f) r"
    using compile_policy_ok [OF pg r(1)] by simp_all
  let ?new = "case r of Some p \<Rightarrow> bt_insert proto p new | None \<Rightarrow> new"
  have wf: "bt_wf ?new" and new: "\<forall>q p. bt_get q ?new = Some p \<longrightarrow> compiled_ok f p"
    using Cons.prems(2, 3) ok(2) by (auto split: option.splits if_splits)
  from Cons.IH [OF r(2) wf new] have IH: "bt_wf new' \<and> (\<forall>proto p. bt_get proto new' = Some p \<longrightarrow> compiled_ok f p)"
    and IH': "bt_get q new' \<noteq> None \<longleftrightarrow> bt_get q ?new \<noteq> None \<or>
      (\<exists>pol. (q, pol) \<in> set ps \<and> code_get (pr_code (pol_program pol)) f \<noteq> None)" for q
    by blast+
  have one: "bt_get q ?new \<noteq> None \<longleftrightarrow> bt_get q new \<noteq> None \<or> q = proto \<and> r \<noteq> None" for q
    by (cases r) auto
  have "bt_get q new' \<noteq> None \<longleftrightarrow> bt_get q new \<noteq> None \<or>
      (\<exists>pol. (q, pol) \<in> set (ppol # ps) \<and> code_get (pr_code (pol_program pol)) f \<noteq> None)" for q
    unfolding IH' one ok(1) ppol set_simps insert_iff prod.inject by blast
  then show ?case
    using IH by simp
qed

lemma map_opt_entries:
  "map_opt (\<lambda>(k, v). map_option (Pair k) (g v)) m = Some m' \<Longrightarrow> map fst m' = map fst m \<and>
     (\<forall>k. bt_get k m' = Option.bind (bt_get k m) g)"
proof (induction m arbitrary: m')
  case (Cons kv m)
  obtain k v where kv: "kv = (k, v)"
    by (cases kv)
  then obtain w m1 where w: "g v = Some w" "map_opt (\<lambda>(k, v). map_option (Pair k) (g v)) m = Some m1" "m' = (k, w) # m1"
    using Cons.prems by (auto split: option.splits)
  then show ?case
    using Cons.IH [OF w(2)] kv by auto
qed simp

lemma collect_converted:
  assumes "map_opt (\<lambda>(k, v). map_option (Pair k) (g v)) m = Some m'" and "bt_wf m"
  shows "bt_collect m' = m'" and "bt_get k m' = Option.bind (bt_get k m) g"
proof -
  have wf: "bt_wf m'"
    using map_opt_entries [OF assms(1)] assms(2) by (simp add: bt_wf_def)
  then show "bt_collect m' = m'"
    by (intro bt_eqI) (simp_all add: bt_get_collect map_of_rev_wf bt_get_map_of [of _ m'])
  show "bt_get k m' = Option.bind (bt_get k m) g"
    using map_opt_entries [OF assms(1)] by simp
qed

lemma compiled_dp_policy:
  assumes "compiled_ok f p" and "dp_of_cp_policy dp p = Some q"
  shows "\<exists>e. pr_code (pol_program q) = [(f, e)] \<and> pr_headers (pol_program q) = [(f, dp_local_sig f)] \<and>
    pol_fns q = [(f, FnArgs (word_of_nat (length (the (sig_args (dp_local_sig f))))))]"
proof -
  obtain e args where p: "local_args f = Some args" "f \<in> set main_functions" "pr_code (pol_program p) = [(f, e)]"
      "pr_headers (pol_program p) = [(f, new_sig args (cp_typ BoolT))]"
      "pol_fns p = [(f, FnArgs (word_of_nat (length args)))]"
    using assms(1) by (auto simp: compiled_ok_def)
  obtain dargs where d: "map_opt dp_of_cp_typ args = Some dargs" "dp_local_sig f = new_sig dargs (FlatTyp BoolT)"
    using main_local_args [OF p(2)] p(1) by (auto simp: dp_local_sig_def new_sig_def)
  have "length dargs = length args"
    using d(1) by (induction args arbitrary: dargs) (auto split: option.splits)
  then show ?thesis
    using assms(2) p d
    by (auto simp: dp_of_cp_policy_def dp_of_cp_program_def dp_of_cp_code_def dp_of_cp_headers_def dp_of_cp_sig_def
        new_sig_def bt_collect_def split: option.splits)
qed

lemma map_opt_all: "map_opt f xs = Some ys \<Longrightarrow> x \<in> set xs \<Longrightarrow> f x \<noteq> None"
  by (induction xs arbitrary: ys) (auto split: option.splits)

text \<open>C20: compiling a global policy for a service gives a policy for exactly the protocols whose global
  policy declares the function; each consists of that one function, on the message alone, returning
  a boolean, and is filed under its number of arguments.\<close>

theorem compiled_policies_shape:
  assumes "graph_algorithms pg" and "bt_wf global" and "compile_egress_ingress pg X n egress global f to s = (Ok ps, t)"
  shows "(bt_get proto ps \<noteq> None \<longleftrightarrow>
      (\<exists>pol. bt_get proto global = Some pol \<and> code_get (pr_code (pol_program pol)) f \<noteq> None)) \<and>
    (\<forall>p. bt_get proto ps = Some p \<longrightarrow>
      (\<exists>e. pr_code (pol_program p) = [(f, e)]) \<and> pr_headers (pol_program p) = [(f, dp_local_sig f)] \<and>
      pol_fns p = [(f, FnArgs (word_of_nat (length (the (sig_args (dp_local_sig f))))))])"
proof -
  obtain new where new: "compile_policies pg X n egress f to global [] s = (Ok new, t)"
      "dp_of_cp_policies dp_of_cp_lit new = Some ps"
    using assms(3) by (auto simp: compile_egress_ingress_def bind_Ok_iff ev_opt_def ev_ok_def ev_panic_def split: option.splits)
  have ok: "bt_wf new" "\<forall>proto p. bt_get proto new = Some p \<longrightarrow> compiled_ok f p"
      "bt_get proto new \<noteq> None \<longleftrightarrow> (\<exists>pol. bt_get proto global = Some pol \<and> code_get (pr_code (pol_program pol)) f \<noteq> None)"
    using compile_policies_ok [OF assms(1) new(1)] assms(2) by (simp_all add: bt_get_in_set [OF assms(2)])
  obtain m' where m': "map_opt (\<lambda>(p, pol). map_option (Pair p) (dp_of_cp_policy dp_of_cp_lit pol)) new = Some m'" "ps = bt_collect m'"
    using new(2) by (auto simp: dp_of_cp_policies_def)
  have get: "bt_get proto ps = Option.bind (bt_get proto new) (dp_of_cp_policy dp_of_cp_lit)"
    using collect_converted [OF m'(1) ok(1)] m'(2) by simp
  have all: "dp_of_cp_policy dp_of_cp_lit p \<noteq> None" if "bt_get proto new = Some p" for p
    using map_opt_all [OF m'(1)] that ok(1) by (auto simp: bt_get_in_set)
  show ?thesis
    using get all ok(2) compiled_dp_policy [of f _ dp_of_cp_lit] unfolding ok(3) [symmetric]
    by (cases "bt_get proto new") (auto, blast+)
qed

text \<open>A global policy that allows every request, for a service.\<close>

definition allow_requests :: cp_policy where
  "allow_requests = \<lparr>pol_program = \<lparr>pr_code = [(ALLOW_REST_REQUEST,
       closures [''from'', ''to'', ''req'', ''payload''] (LitExpr (cp_bool True)))],
     pr_externals = externals_default,
     pr_headers = [(ALLOW_REST_REQUEST, the (global_sig ALLOW_REST_REQUEST))]\<rparr>, pol_fns = []\<rparr>"

definition some_id :: ID where
  "some_id = \<lparr>id_hosts = [], id_ips = [], id_port = None, id_labels = []\<rparr>"

lemma allow_requests_compiled:
  fixes s :: "('s, cp_flat_literal) machine"
  shows "compile_egress_ingress closure_graph (\<lambda>c. plane_env cp_plane c lib_at rpc) 1 True [(HTTP, allow_requests)]
     ALLOW_REST_REQUEST some_id s =
   (Ok [(HTTP, \<lparr>pol_program = \<lparr>pr_code = [(ALLOW_REST_REQUEST,
        Closure ''req'' (Closure ''payload'' (LitExpr (FlatLit (BoolL True)))))], pr_externals = externals_default,
      pr_headers = [(ALLOW_REST_REQUEST, dp_local_sig ALLOW_REST_REQUEST)]\<rparr>,
      pol_fns = [(ALLOW_REST_REQUEST, FnArgs 2)]\<rparr>)], s)"
proof -
  let ?f = ALLOW_REST_REQUEST
  let ?n = "policy_default\<lparr>pol_program := program_default\<lparr>pr_code := code_insert ?f
      (Closure ''req'' (Closure ''payload'' (LitExpr (cp_bool True)))) []\<rparr>\<rparr> :: cp_policy"
  let ?p = "\<lparr>pol_program = \<lparr>pr_code = [(?f, Closure ''req'' (Closure ''payload'' (LitExpr (cp_bool True))))],
      pr_externals = externals_default, pr_headers = [(?f, new_sig [cp_typ HttpRequestT, cp_typ DataT] (cp_typ BoolT))]\<rparr>,
      pol_fns = [(?f, FnArgs 2)]\<rparr>"
  have h: "spec_check_header allow_requests ?f = Inr 4"
    by code_simp
  have "compile_helper closure_graph allow_requests ?f ?n u = (Ok ?p, u)" for u :: "('s, cp_flat_literal) machine"
    by (simp add: compile_helper_def main_function_typ [OF h] local_args_def Let_def program_default_def
        policy_default_def code_insert_def set_args_def deadcode_single [OF closure.graph_algorithms_axioms])
  moreover have "code_get (pr_code (pol_program allow_requests)) ?f = Some (closures [''from'', ''to'', ''req'', ''payload''] (LitExpr (cp_bool True)))"
    by code_simp
  ultimately have "compile_policy closure_graph (\<lambda>c. plane_env cp_plane c lib_at rpc) 1 True ?f some_id allow_requests s = (Ok (Some ?p), s)"
    by (simp add: compile_policy_def h closures_def closure_expr_def pevaluate_def pe_strip_def
        strip_return_def rebuild_def wrap_closures_def)
  moreover have "dp_of_cp_policies dp_of_cp_lit [(HTTP, ?p)] = Some [(HTTP, \<lparr>pol_program = \<lparr>pr_code = [(?f,
        Closure ''req'' (Closure ''payload'' (LitExpr (FlatLit (BoolL True)))))], pr_externals = externals_default,
      pr_headers = [(?f, dp_local_sig ?f)]\<rparr>, pol_fns = [(?f, FnArgs 2)]\<rparr>)]"
    by code_simp
  ultimately show ?thesis
    by (simp add: compile_egress_ingress_def)
qed

theorem compiled_policies_shape_witness:
  "\<forall>lib_at rpc s. \<exists>ps. compile_egress_ingress closure_graph (\<lambda>c. plane_env cp_plane c lib_at rpc) 1 True [(HTTP, allow_requests)]
     ALLOW_REST_REQUEST some_id s = (Ok ps, s) \<and> bt_get HTTP ps \<noteq> None \<and> bt_get TCP ps = None"
proof (intro allI)
  fix lib_at rpc s
  have wf: "bt_wf [(HTTP, allow_requests)]"
    by (simp add: bt_wf_def)
  note shape = compiled_policies_shape [OF closure.graph_algorithms_axioms wf allow_requests_compiled]
  show "\<exists>ps. compile_egress_ingress closure_graph (\<lambda>c. plane_env cp_plane c lib_at rpc) 1 True [(HTTP, allow_requests)]
     ALLOW_REST_REQUEST some_id s = (Ok ps, s) \<and> bt_get HTTP ps \<noteq> None \<and> bt_get TCP ps = None"
    using shape [of HTTP] shape [of TCP] allow_requests_compiled [of lib_at rpc s]
    by (intro exI conjI) (assumption, auto)
qed

text \<open>The types that specialisation asks of a function of a global policy, and the types it gives it in
  the policy of a service, are types that the protocol has for the function; except for
  \<open>on_tcp_disconnect\<close>, which the protocol wants to return nothing and specialisation wants to return a
  boolean, so that no policy that is accepted can be specialised for it.\<close>

theorem specialised_types_accepted:
  "list_all (\<lambda>(f, table). case (global_sig f, local_args f, bt_get f table) of
       (Some g, Some args, Some sigs) \<Rightarrow> g \<in> set sigs \<and> new_sig args (sig_typ g) \<in> set sigs
     | _ \<Rightarrow> False)
     [(ALLOW_REST_REQUEST, http_policy cp_types), (ALLOW_REST_RESPONSE, http_policy cp_types),
      (ALLOW_TCP_CONNECTION, tcp_policy cp_types)] \<and>
   (case (global_sig ON_TCP_DISCONNECT, bt_get ON_TCP_DISCONNECT (tcp_policy cp_types)) of
      (Some g, Some sigs) \<Rightarrow> list_all (\<lambda>sig. \<not> sig_check cp_types ON_TCP_DISCONNECT g sig) sigs
    | _ \<Rightarrow> False)"
  by code_simp

end
