(* ===== verification/ProxyPolicy.thy ===== *)
theory ProxyPolicy
  imports Policies
begin

text \<open>
  \<open>armour-proxy\<close>, the policy actor (\<open>policy.rs\<close>, \<open>http_policy.rs\<close>, \<open>tcp_policy.rs\<close>) and its messages
  (\<open>armour-api/src/proxy.rs\<close>, \<open>host.rs\<close>): the state it keeps about identities, the policies of the two
  protocols and their proxies, and one function per message handler, from the state to the reply and
  the next state. What is written to the host is a list of responses, the last one first. URIs, the
  resolver, the printing of addresses, the cipher and the encodings are arguments.
\<close>

type_synonym dp_policy = "(flat_typ, flat_literal) policy"
type_synonym dp_expr = "flat_literal expr"
type_synonym labels = "label list"
type_synonym socket_addr = "ip_addr \<times> u16"

section \<open>Parameters\<close>

text \<open>
  \<open>http::uri::Uri\<close>: parsing, the parts, and a builder (\<open>None\<close> where it fails); and
  \<open>dns_lookup\<close>, for a name and for an address.
\<close>

record 'u net =
  uri_parse :: "string \<Rightarrow> 'u option"
  uri_host :: "'u \<Rightarrow> string option"
  uri_port :: "'u \<Rightarrow> u16 option"
  uri_scheme :: "'u \<Rightarrow> string option"
  uri_authority :: "'u \<Rightarrow> string option"
  uri_build :: "string option \<Rightarrow> string \<Rightarrow> string option \<Rightarrow> 'u option"
  dns_host :: "string \<Rightarrow> ip_addr list option"
  dns_addr :: "ip_addr \<Rightarrow> string option"
  show_ip :: "ip_addr \<Rightarrow> string"

text \<open>The cipher under the proxy's key (nonce first), base64, and JSON of metadata.\<close>

record crypto =
  cr_seal :: "data \<Rightarrow> data \<Rightarrow> data option"
  cr_open :: "data \<Rightarrow> data \<Rightarrow> data option"
  cr_encode :: "data \<Rightarrow> string"
  cr_decode :: "string \<Rightarrow> data option"
  cr_json :: "meta \<Rightarrow> string option"
  cr_unjson :: "data \<Rightarrow> meta option"

section \<open>Messages\<close>

datatype label_op =
    AddIp "(ip_addr \<times> labels) list"
  | AddUri "(string \<times> labels) list"
  | RemoveIp ip_addr "label option"
  | RemoveUri string "label option"
  | Clear

datatype http_config = PortConfig u16 | IngressConfig u16 socket_addr

definition config_port :: "http_config \<Rightarrow> u16" where
  "config_port c = (case c of PortConfig p \<Rightarrow> p | IngressConfig p _ \<Rightarrow> p)"

definition config_ingress :: "http_config \<Rightarrow> socket_addr option" where
  "config_ingress c = (case c of PortConfig _ \<Rightarrow> None | IngressConfig _ s \<Rightarrow> Some s)"

datatype policy_request =
    CPOnboard "(ip_addr \<times> labels) list"
  | LabelReq label_op
  | SetPolicy "(flat_typ, flat_literal) policies"
  | Shutdown
  | StartHttp http_config
  | StartTcp u16
  | StatusReq
  | StopReq protocol
  | Timeout u8

record proxy_status =
  st_policy :: dp_policy
  st_port :: "u16 option"
  st_ingress :: "socket_addr option"

datatype policy_response =
    ConnectR nat "ID option" label string string
  | CPOnboardingProxy "(ip_addr \<times> labels) list"
  | RequestFailed
  | ShuttingDown
  | Started
  | StatusR label "(string \<times> labels) list" proxy_status proxy_status
  | Stopped
  | UpdatedPolicy protocol string

section \<open>Identities\<close>

text \<open>
  The hash maps are kept as ordered association lists; the code never depends on their order.
\<close>

record identity =
  idn_host_labels :: "(string \<times> labels) list"
  idn_ip_labels :: "(ip_addr \<times> labels) list"
  idn_host_cache :: "(string \<times> ID) list"
  idn_ip_cache :: "(ip_addr \<times> ID) list"

definition identity_default :: identity where
  "identity_default = \<lparr>idn_host_labels = [], idn_ip_labels = [], idn_host_cache = [], idn_ip_cache = []\<rparr>"

definition clear_caches :: "identity \<Rightarrow> identity" where
  "clear_caches i = i\<lparr>idn_host_cache := [], idn_ip_cache := []\<rparr>"

definition clear_labels :: "identity \<Rightarrow> identity" where
  "clear_labels i = clear_caches (i\<lparr>idn_host_labels := [], idn_ip_labels := []\<rparr>)"

text \<open>\<open>get_mut\<close> and \<open>insert\<close>, or a set of one label.\<close>

definition add_to :: "'k::linorder \<Rightarrow> label \<Rightarrow> ('k \<times> labels) list \<Rightarrow> ('k \<times> labels) list" where
  "add_to k l m =
     (case bt_get k m of
        Some ls \<Rightarrow> bt_insert k (bs_insert l ls) m
      | None \<Rightarrow> bt_insert k [l] m)"

text \<open>A set that becomes empty is removed with its key; without a label the key goes.\<close>

definition remove_from :: "'k::linorder \<Rightarrow> label option \<Rightarrow> ('k \<times> labels) list \<Rightarrow> ('k \<times> labels) list" where
  "remove_from k label m =
     (case label of
        None \<Rightarrow> bt_remove k m
      | Some l \<Rightarrow>
          (case bt_get k m of
             None \<Rightarrow> m
           | Some ls \<Rightarrow>
               (if l \<in> set ls \<and> bs_remove l ls = [] then bt_remove k m
                else bt_insert k (bs_remove l ls) m)))"

definition add_uri :: "'u net \<Rightarrow> 'u \<Rightarrow> label \<Rightarrow> identity \<Rightarrow> identity" where
  "add_uri N u l i =
     (case uri_host N u of
        Some host \<Rightarrow> clear_caches (i\<lparr>idn_host_labels := add_to host l (idn_host_labels i)\<rparr>)
      | None \<Rightarrow> i)"

definition add_ip :: "ip_addr \<Rightarrow> label \<Rightarrow> identity \<Rightarrow> identity" where
  "add_ip ip l i = clear_caches (i\<lparr>idn_ip_labels := add_to ip l (idn_ip_labels i)\<rparr>)"

definition remove_uri :: "'u net \<Rightarrow> 'u \<Rightarrow> label option \<Rightarrow> identity \<Rightarrow> identity" where
  "remove_uri N u l i =
     (case uri_host N u of
        Some host \<Rightarrow> clear_caches (i\<lparr>idn_host_labels := remove_from host l (idn_host_labels i)\<rparr>)
      | None \<Rightarrow> i)"

definition remove_ip :: "ip_addr \<Rightarrow> label option \<Rightarrow> identity \<Rightarrow> identity" where
  "remove_ip ip l i = clear_caches (i\<lparr>idn_ip_labels := remove_from ip l (idn_ip_labels i)\<rparr>)"

text \<open>The two ends of a connection, as the proxies know them.\<close>

datatype 'u peer = UriPeer 'u | SocketPeer socket_addr | Anonymous

definition authority :: "'u net \<Rightarrow> 'u \<Rightarrow> 'u" where
  "authority N u =
     (case uri_authority N u of
        Some auth \<Rightarrow> (case uri_build N None auth None of Some u' \<Rightarrow> u' | None \<Rightarrow> u)
      | None \<Rightarrow> u)"

definition peer_of_uri :: "'u net \<Rightarrow> 'u \<Rightarrow> 'u peer" where
  "peer_of_uri N u = UriPeer (authority N u)"

definition peer_of_socket :: "socket_addr option \<Rightarrow> 'u peer" where
  "peer_of_socket s = (case s of Some a \<Rightarrow> SocketPeer a | None \<Rightarrow> Anonymous)"

definition scheme_port :: "'u net \<Rightarrow> 'u \<Rightarrow> u16 option" where
  "scheme_port N u =
     (case uri_scheme N u of
        Some s \<Rightarrow> if s = ''http'' then Some 80 else if s = ''https'' then Some 443 else None
      | None \<Rightarrow> None)"

definition get_port :: "'u net \<Rightarrow> 'u \<Rightarrow> u16 option" where
  "get_port N u = (case uri_port N u of Some p \<Rightarrow> Some p | None \<Rightarrow> scheme_port N u)"

text \<open>\<open>extend\<close> of an ordered set.\<close>

definition bs_extend :: "'a::linorder list \<Rightarrow> 'a list \<Rightarrow> 'a list" where
  "bs_extend s xs = foldl (\<lambda>s x. bs_insert x s) s xs"

definition labels_at :: "'k \<Rightarrow> ('k \<times> labels) list \<Rightarrow> labels" where
  "labels_at k m = (case bt_get k m of Some ls \<Rightarrow> ls | None \<Rightarrow> [])"

definition is_ipv4 :: "ip_addr \<Rightarrow> bool" where
  "is_ipv4 ip = (case ip of V4 _ _ _ _ \<Rightarrow> True | V6 _ \<Rightarrow> False)"

text \<open>The identity of a peer. A new one is entered into the cache of its host or address.\<close>

definition host_id :: "'u net \<Rightarrow> identity \<Rightarrow> 'u \<Rightarrow> string \<Rightarrow> ID" where
  "host_id N i u host =
     (let ips = filter is_ipv4 (case dns_host N host of Some ips \<Rightarrow> ips | None \<Rightarrow> []);
          ls = foldl (\<lambda>s ip. bs_extend s (labels_at ip (idn_ip_labels i)))
                 (bs_extend [] (labels_at host (idn_host_labels i))) ips
      in id_new [host] (bs_extend [] ips) (get_port N u) ls)"

definition addr_id :: "'u net \<Rightarrow> identity \<Rightarrow> socket_addr \<Rightarrow> ID" where
  "addr_id N i s =
     (case s of (ip, port) \<Rightarrow>
        let name = dns_addr N ip;
            ls = (case name of Some host \<Rightarrow> bs_extend [] (labels_at host (idn_host_labels i)) | None \<Rightarrow> []);
            ls' = (if is_ipv4 ip then bs_extend ls (labels_at ip (idn_ip_labels i)) else ls)
        in id_new (case name of Some host \<Rightarrow> [host] | None \<Rightarrow> []) (if is_ipv4 ip then [ip] else []) (Some port) ls')"

definition peer_id :: "'u net \<Rightarrow> 'u peer \<Rightarrow> identity \<Rightarrow> ID \<times> identity" where
  "peer_id N p i =
     (case p of
        Anonymous \<Rightarrow> (default_id, i)
      | UriPeer u \<Rightarrow>
          (case uri_host N u of
             Some host \<Rightarrow>
               (case bt_get host (idn_host_cache i) of
                  Some d \<Rightarrow> (d, i)
                | None \<Rightarrow>
                    (let d = host_id N i u host
                     in (d, i\<lparr>idn_host_cache := bt_insert host d (idn_host_cache i)\<rparr>)))
           | None \<Rightarrow> (id_new [] [] (get_port N u) [], i))
      | SocketPeer s \<Rightarrow>
          (case bt_get (fst s) (idn_ip_cache i) of
             Some d \<Rightarrow> (id_set_port (snd s) d, i)
           | None \<Rightarrow>
               (let d = addr_id N i s
                in (d, i\<lparr>idn_ip_cache := bt_insert (fst s) d (idn_ip_cache i)\<rparr>))))"

section \<open>The policies of the two protocols\<close>

definition fn_default :: fn_policy where
  "fn_default = FnDeny"

definition fn_of :: "dp_policy \<Rightarrow> string \<Rightarrow> fn_policy" where
  "fn_of p name = (case policy_get p name of Some q \<Rightarrow> q | None \<Rightarrow> fn_default)"

text \<open>The timeout is in seconds.\<close>

record policy_status =
  ps_timeout :: nat
  ps_request :: fn_policy
  ps_response :: fn_policy
  ps_allow_all :: bool

definition status_default :: policy_status where
  "status_default = \<lparr>ps_timeout = 5, ps_request = fn_default, ps_response = fn_default, ps_allow_all = False\<rparr>"

definition update_for_policy :: "dp_policy \<Rightarrow> policy_status \<Rightarrow> policy_status" where
  "update_for_policy p s =
     (let rq = fn_of p ALLOW_REST_REQUEST; rs = fn_of p ALLOW_REST_RESPONSE
      in s\<lparr>ps_request := rq, ps_response := rs, ps_allow_all := (rq = FnAllow \<and> rs = FnAllow)\<rparr>)"

text \<open>The server itself is left out of \<open>HttpProxy\<close> and of the pair of \<open>TcpPolicy\<close>.\<close>

record http_proxy =
  hx_port :: u16
  hx_ingress :: "socket_addr option"

record http_state =
  hs_policy :: dp_policy
  hs_env :: "flat_literal code"
  hs_proxy :: "http_proxy option"
  hs_status :: policy_status

record tcp_state =
  ts_connect :: fn_policy
  ts_disconnect :: fn_policy
  ts_policy :: dp_policy
  ts_env :: "flat_literal code"
  ts_proxy :: "u16 option"

definition dp_deny_all :: "protocol \<Rightarrow> dp_policy" where
  "dp_deny_all p = (case policy_deny_all dp_types p of Some q \<Rightarrow> q | None \<Rightarrow> policy_default)"

definition http_default :: http_state where
  "http_default = \<lparr>hs_policy = dp_deny_all HTTP, hs_env = pr_code (pol_program (dp_deny_all HTTP)),
     hs_proxy = None, hs_status = status_default\<rparr>"

definition tcp_default :: tcp_state where
  "tcp_default = \<lparr>ts_connect = fn_default, ts_disconnect = fn_default, ts_policy = dp_deny_all TCP,
     ts_env = pr_code (pol_program (dp_deny_all TCP)), ts_proxy = None\<rparr>"

definition http_start :: "socket_addr option \<Rightarrow> u16 \<Rightarrow> http_state \<Rightarrow> http_state" where
  "http_start ingress port h = h\<lparr>hs_proxy := Some \<lparr>hx_port = port, hx_ingress = ingress\<rparr>\<rparr>"

definition http_stop :: "http_state \<Rightarrow> http_state" where
  "http_stop h = h\<lparr>hs_proxy := None\<rparr>"

definition http_set_policy :: "dp_policy \<Rightarrow> http_state \<Rightarrow> http_state" where
  "http_set_policy p h = h\<lparr>hs_status := update_for_policy p (hs_status h), hs_policy := p,
     hs_env := pr_code (pol_program p)\<rparr>"

definition http_port :: "http_state \<Rightarrow> u16 option" where
  "http_port h = map_option hx_port (hs_proxy h)"

definition http_status :: "http_state \<Rightarrow> proxy_status" where
  "http_status h = \<lparr>st_policy = hs_policy h, st_port = http_port h,
     st_ingress = Option.bind (hs_proxy h) hx_ingress\<rparr>"

definition http_set_timeout :: "u8 \<Rightarrow> http_state \<Rightarrow> http_state" where
  "http_set_timeout secs h = h\<lparr>hs_status := (hs_status h)\<lparr>ps_timeout := unat secs\<rparr>\<rparr>"

definition http_ingress :: "http_state \<Rightarrow> socket_addr option" where
  "http_ingress h = (case hs_proxy h of Some p \<Rightarrow> hx_ingress p | None \<Rightarrow> None)"

definition tcp_start :: "u16 \<Rightarrow> tcp_state \<Rightarrow> tcp_state" where
  "tcp_start port t = t\<lparr>ts_proxy := Some port\<rparr>"

definition tcp_stop :: "tcp_state \<Rightarrow> tcp_state" where
  "tcp_stop t = t\<lparr>ts_proxy := None\<rparr>"

definition tcp_set_policy :: "dp_policy \<Rightarrow> tcp_state \<Rightarrow> tcp_state" where
  "tcp_set_policy p t = t\<lparr>ts_connect := fn_of p ALLOW_TCP_CONNECTION, ts_disconnect := fn_of p ON_TCP_DISCONNECT,
     ts_policy := p, ts_env := pr_code (pol_program p)\<rparr>"

definition tcp_port :: "tcp_state \<Rightarrow> u16 option" where
  "tcp_port t = ts_proxy t"

definition tcp_status :: "tcp_state \<Rightarrow> proxy_status" where
  "tcp_status t = \<lparr>st_policy = ts_policy t, st_port = tcp_port t, st_ingress = None\<rparr>"

section \<open>The actor\<close>

text \<open>\<open>connection_number\<close> is a \<open>usize\<close>. \<open>pa_running\<close> is false once the system is told to stop.\<close>

record actor =
  pa_label :: label
  pa_connection_number :: "64 word"
  pa_http :: http_state
  pa_tcp :: tcp_state
  pa_identity :: identity
  pa_out :: "policy_response list"
  pa_running :: bool

definition actor_write :: "policy_response \<Rightarrow> actor \<Rightarrow> actor" where
  "actor_write r a = a\<lparr>pa_out := r # pa_out a\<rparr>"

text \<open>\<open>blake3\<close> is the hash of a policy; \<open>pid\<close> the number of the process.\<close>

definition create_policy :: "label \<Rightarrow> u8 \<Rightarrow> actor" where
  "create_policy l timeout = \<lparr>pa_label = l, pa_connection_number = 0, pa_http = http_set_timeout timeout http_default,
     pa_tcp = tcp_default, pa_identity = identity_default, pa_out = [], pa_running = True\<rparr>"

definition actor_started :: "(dp_policy \<Rightarrow> string) \<Rightarrow> nat \<Rightarrow> actor \<Rightarrow> actor" where
  "actor_started blake3 pid a =
     actor_write (ConnectR pid None (pa_label a) (blake3 (hs_policy (pa_http a))) (blake3 (ts_policy (pa_tcp a)))) a"

definition actor_connection :: "'u net \<Rightarrow> 'u peer \<Rightarrow> 'u peer \<Rightarrow> actor \<Rightarrow> connection \<times> actor" where
  "actor_connection N from to a =
     (let number = pa_connection_number a;
          (f, i) = peer_id N from (pa_identity a);
          (t, j) = peer_id N to i
      in (conn_from_usize f t (unat number), a\<lparr>pa_connection_number := number + 1, pa_identity := j\<rparr>))"

definition actor_labels :: "'u net \<Rightarrow> actor \<Rightarrow> (string \<times> labels) list" where
  "actor_labels N a =
     bt_collect (idn_host_labels (pa_identity a) @ map (\<lambda>(ip, ls). (show_ip N ip, ls)) (idn_ip_labels (pa_identity a)))"

fun add_uris :: "'u net \<Rightarrow> (string \<times> labels) list \<Rightarrow> actor \<Rightarrow> actor" where
  "add_uris N [] a = a"
| "add_uris N ((s, ls) # rest) a =
     add_uris N rest
       (case uri_parse N s of
          Some u \<Rightarrow> a\<lparr>pa_identity := foldl (\<lambda>i l. add_uri N u l i) (pa_identity a) ls\<rparr>
        | None \<Rightarrow> actor_write RequestFailed a)"

definition handle_label_op :: "'u net \<Rightarrow> label_op \<Rightarrow> actor \<Rightarrow> actor" where
  "handle_label_op N op a =
     (case op of
        AddUri uris \<Rightarrow> add_uris N uris a
      | AddIp ips \<Rightarrow>
          a\<lparr>pa_identity := foldl (\<lambda>i (ip, ls). foldl (\<lambda>i l. add_ip ip l i) i ls) (pa_identity a) ips\<rparr>
      | RemoveUri s l \<Rightarrow>
          (case uri_parse N s of
             Some u \<Rightarrow> a\<lparr>pa_identity := remove_uri N u l (pa_identity a)\<rparr>
           | None \<Rightarrow> actor_write RequestFailed a)
      | RemoveIp ip l \<Rightarrow> a\<lparr>pa_identity := remove_ip ip l (pa_identity a)\<rparr>
      | Clear \<Rightarrow> a\<lparr>pa_identity := clear_labels (pa_identity a)\<rparr>)"

definition install_http :: "(dp_policy \<Rightarrow> string) \<Rightarrow> dp_policy \<Rightarrow> actor \<Rightarrow> actor" where
  "install_http blake3 p a = actor_write (UpdatedPolicy HTTP (blake3 p)) (a\<lparr>pa_http := http_set_policy p (pa_http a)\<rparr>)"

definition install_tcp :: "(dp_policy \<Rightarrow> string) \<Rightarrow> dp_policy \<Rightarrow> actor \<Rightarrow> actor" where
  "install_tcp blake3 p a = actor_write (UpdatedPolicy TCP (blake3 p)) (a\<lparr>pa_tcp := tcp_set_policy p (pa_tcp a)\<rparr>)"

text \<open>
  The messages of the host. \<open>up\<close> says whether a proxy that is to be started comes up; the actor
  waits for it. \<open>None\<close> is \<open>unreachable!\<close>. The test for a TCP proxy that is already running looks at the
  port of the HTTP proxy.
\<close>

definition handle_policy_request ::
    "'u net \<Rightarrow> (dp_policy \<Rightarrow> string) \<Rightarrow> bool \<Rightarrow> policy_request \<Rightarrow> actor \<Rightarrow> actor option" where
  "handle_policy_request N blake3 up msg a =
     (case msg of
        CPOnboard ips \<Rightarrow> Some (actor_write (CPOnboardingProxy ips) a)
      | LabelReq op \<Rightarrow> Some (handle_label_op N op a)
      | Timeout secs \<Rightarrow> Some (a\<lparr>pa_http := http_set_timeout secs (pa_http a)\<rparr>)
      | StatusReq \<Rightarrow>
          Some (actor_write (StatusR (pa_label a) (actor_labels N a) (http_status (pa_http a)) (tcp_status (pa_tcp a))) a)
      | StopReq HTTP \<Rightarrow>
          Some (if http_port (pa_http a) = None then actor_write RequestFailed a
                else actor_write Stopped (a\<lparr>pa_http := http_stop (pa_http a)\<rparr>))
      | StopReq TCP \<Rightarrow>
          Some (if tcp_port (pa_tcp a) = None then actor_write RequestFailed a
                else actor_write Stopped (a\<lparr>pa_tcp := tcp_stop (pa_tcp a)\<rparr>))
      | StopReq PhantomProtocol \<Rightarrow> None
      | StartHttp config \<Rightarrow>
          (let port = config_port config
           in Some (if http_port (pa_http a) = Some port then actor_write RequestFailed a
                    else
                      (let b = a\<lparr>pa_http := http_stop (pa_http a)\<rparr>
                       in if up then actor_write Started (b\<lparr>pa_http := http_start (config_ingress config) port (pa_http b)\<rparr>)
                          else b)))
      | StartTcp port \<Rightarrow>
          Some (if http_port (pa_http a) = Some port then actor_write RequestFailed a
                else
                  (let b = a\<lparr>pa_tcp := tcp_stop (pa_tcp a)\<rparr>
                   in if up then actor_write Started (b\<lparr>pa_tcp := tcp_start port (pa_tcp b)\<rparr>) else b))
      | SetPolicy ps \<Rightarrow>
          (let b = (case policies_policy ps TCP of Some p \<Rightarrow> install_tcp blake3 p a | None \<Rightarrow> a)
           in Some (case policies_policy ps HTTP of Some p \<Rightarrow> install_http blake3 p b | None \<Rightarrow> b))
      | Shutdown \<Rightarrow> Some ((actor_write ShuttingDown a)\<lparr>pa_running := False\<rparr>))"

section \<open>Evaluating a policy\<close>

text \<open>
  \<open>Policy::evaluate\<close>: a call of the function in a new environment with the given metadata, whose
  literal is converted; with it come the metadata of the outgoing message, if there are any.
\<close>

definition policy_evaluate ::
    "(flat_literal literal \<Rightarrow> 'r option) \<Rightarrow> (flat_literal code \<Rightarrow> (unit, flat_typ, flat_literal) env) \<Rightarrow> nat \<Rightarrow>
       flat_literal code \<Rightarrow> string \<Rightarrow> dp_expr list \<Rightarrow> ingress_egress \<Rightarrow> (unit, flat_literal, 'r \<times> meta option) ev" where
  "policy_evaluate conv X n code f args meta = (\<lambda>s.
     ev_bind (evaluate (X code) n (expr_call f args)) (\<lambda>r s'.
       (case r of
          LitExpr l \<Rightarrow>
            (case conv l of
               Some x \<Rightarrow> ev_ok (x, (case handle_egress (mc_meta s') of Inr m \<Rightarrow> Some m | Inl _ \<Rightarrow> None)) s'
             | None \<Rightarrow> ev_err (Error ''literal has wrong type'') s')
        | _ \<Rightarrow> ev_err (Error ''did not evaluate to a literal'') s')) (s\<lparr>mc_meta := meta\<rparr>))"

section \<open>Metadata on the wire\<close>

text \<open>The low 64 bits of the time in nanoseconds, the first byte first; \<open>None\<close> before the epoch.\<close>

definition nonce :: "nat option \<Rightarrow> data option" where
  "nonce t = map_option (\<lambda>ns. str_bytes ''armo'' @
     map (\<lambda>k. word_of_nat (ns div 256 ^ k) :: u8) [7, 6, 5, 4, 3, 2, 1, 0]) t"

definition encrypt :: "crypto \<Rightarrow> nat option \<Rightarrow> string \<Rightarrow> string option" where
  "encrypt K t message =
     (case nonce t of
        None \<Rightarrow> None
      | Some no \<Rightarrow>
          map_option (\<lambda>block. cr_encode K block @ '';'' @ cr_encode K no) (cr_seal K no (str_bytes message)))"

text \<open>
  The nonce of the cipher has 12 bytes: \<open>GenericArray::from_slice\<close> panics on a slice of another length,
  the outer \<open>None\<close>.
\<close>

definition nonce_size :: nat where
  "nonce_size = 12"

definition decrypt :: "crypto \<Rightarrow> string \<Rightarrow> data option option" where
  "decrypt K message =
     (case map_opt (cr_decode K) (split_char (CHR '';'') message) of
        Some [block, no] \<Rightarrow> (if length no = nonce_size then Some (cr_open K no block) else None)
      | _ \<Rightarrow> Some None)"

definition encrypt_meta :: "crypto \<Rightarrow> nat option \<Rightarrow> meta option \<Rightarrow> string option" where
  "encrypt_meta K t m = Option.bind m (\<lambda>m. Option.bind (cr_json K m) (encrypt K t))"

definition decrypt_meta :: "crypto \<Rightarrow> string \<Rightarrow> meta option option" where
  "decrypt_meta K message = map_option (\<lambda>b. Option.bind b (cr_unjson K)) (decrypt K message)"

section \<open>The messages of the HTTP proxy\<close>

definition get_http_policy :: "'u net \<Rightarrow> 'u peer \<times> 'u peer \<Rightarrow> actor \<Rightarrow> (policy_status \<times> connection) \<times> actor" where
  "get_http_policy N from_to a =
     (let status = hs_status (pa_http a)
      in if ps_allow_all status then ((status, default_connection), a)
         else (case actor_connection N (fst from_to) (snd from_to) a of (c, a') \<Rightarrow> ((status, c), a')))"

datatype http_fn = RequestFn | ResponseFn

text \<open>The handler does not change the actor; \<open>t\<close> is the time at which the reply is encrypted.\<close>

definition eval_http_fn ::
    "crypto \<Rightarrow> nat option \<Rightarrow> (flat_literal code \<Rightarrow> (unit, flat_typ, flat_literal) env) \<Rightarrow> nat \<Rightarrow> http_fn \<Rightarrow> dp_expr list \<Rightarrow>
       string option \<Rightarrow> actor \<Rightarrow> (unit, flat_literal, bool \<times> string option) ev" where
  "eval_http_fn K t X n fn args xarmour a =
     (let f = (case fn of RequestFn \<Rightarrow> ALLOW_REST_REQUEST | ResponseFn \<Rightarrow> ALLOW_REST_RESPONSE)
      in case (case xarmour of Some x \<Rightarrow> decrypt_meta K x | None \<Rightarrow> Some None) of
           None \<Rightarrow> ev_panic
         | Some ingress \<Rightarrow>
             ev_bind (policy_evaluate (try_bool dp_lits) X n (hs_env (pa_http a)) f args (ie_new ingress (pa_label a)))
               (\<lambda>(b, m). ev_ok (b, encrypt_meta K t m)))"

section \<open>The messages of the TCP proxy\<close>

record connection_stats =
  cs_sent :: nat
  cs_received :: nat
  cs_connection :: dp_expr

definition stats_new :: "dp_expr \<Rightarrow> connection_stats" where
  "stats_new c = \<lparr>cs_sent = 0, cs_received = 0, cs_connection = c\<rparr>"

datatype tcp_policy_status = AllowTcp "connection_stats option" | BlockTcp

text \<open>The first component is the reply, which is computed after the actor has changed.\<close>

definition get_tcp_policy ::
    "'u net \<Rightarrow> (flat_literal code \<Rightarrow> (unit, flat_typ, flat_literal) env) \<Rightarrow> nat \<Rightarrow> socket_addr \<Rightarrow> socket_addr \<Rightarrow> actor \<Rightarrow>
       (unit, flat_literal, tcp_policy_status) ev \<times> actor" where
  "get_tcp_policy N X n from to a =
     (case ts_connect (pa_tcp a) of
        FnAllow \<Rightarrow> (ev_ok (AllowTcp None), a\<lparr>pa_connection_number := pa_connection_number a + 1\<rparr>)
      | FnDeny \<Rightarrow> (ev_ok BlockTcp, a)
      | FnArgs k \<Rightarrow>
          (if k = 1 then
             (case actor_connection N (SocketPeer from) (SocketPeer to) a of
                (c, a') \<Rightarrow>
                  (let e = LitExpr (lit_connection dp_lits c)
                   in (ev_bind (policy_evaluate (try_bool dp_lits) X n (ts_env (pa_tcp a)) ALLOW_TCP_CONNECTION [e] ie_default)
                         (\<lambda>(res, _). ev_ok (if res then AllowTcp (Some (stats_new e)) else BlockTcp)), a')))
           else (ev_panic, a)))"

text \<open>At the end of a connection. Errors of the policy are logged.\<close>

definition handle_stats ::
    "(flat_literal code \<Rightarrow> (unit, flat_typ, flat_literal) env) \<Rightarrow> nat \<Rightarrow> connection_stats \<Rightarrow> actor \<Rightarrow> (unit, flat_literal, unit) ev" where
  "handle_stats X n msg a =
     (case ts_disconnect (pa_tcp a) of
        FnArgs k \<Rightarrow>
          (if k = 3 then
             (let int = (\<lambda>n. LitExpr (lit_int dp_lits (usize_to_i64 n)))
              in ev_bind (policy_evaluate (try_unit dp_lits) X n (ts_env (pa_tcp a)) ON_TCP_DISCONNECT
                   [cs_connection msg, int (cs_sent msg), int (cs_received msg)] ie_default) (\<lambda>_. ev_ok ()))
           else ev_panic)
      | _ \<Rightarrow> ev_ok ())"

end
