(* ===== verification/HttpProxy.thy ===== *)
theory HttpProxy
  imports ProxyPolicy
begin

text \<open>
  \<open>armour-proxy/src/http_proxy.rs\<close> and the conversions of \<open>lib.rs\<close>: how a request is taken through the
  policy to the server and its response back. The policy actor, the server and the stream of the
  payload are arguments: functions from what the proxy sends them to what they answer, so that the
  actor may handle any other message in between.
\<close>

section \<open>Parameters\<close>

text \<open>
  Header maps of the HTTP library: all values of a name, setting a name to one value, adding a
  value, removing a name, and the entries in order; values from and to strings. \<open>hm_from\<close> is the
  header map of a client request made from another request.
\<close>

record 'h header_ops =
  hm_empty :: 'h
  hm_get_all :: "string \<Rightarrow> 'h \<Rightarrow> data list"
  hm_insert :: "string \<Rightarrow> data \<Rightarrow> 'h \<Rightarrow> 'h"
  hm_append :: "string \<Rightarrow> data \<Rightarrow> 'h \<Rightarrow> 'h"
  hm_remove :: "string \<Rightarrow> 'h \<Rightarrow> 'h"
  hm_iter :: "'h \<Rightarrow> (string \<times> data) list"
  hm_value :: "string \<Rightarrow> data option"
  hm_str :: "data \<Rightarrow> string option"
  hm_from :: "'h \<Rightarrow> 'h"
  hm_socket :: "socket_addr \<Rightarrow> string"

text \<open>The machine the proxy runs on: reading an IPv4 address, its own addresses and names.\<close>

record host_env =
  he_parse_v4 :: "string \<Rightarrow> ip_addr option"
  he_own_ip :: "ip_addr \<Rightarrow> bool"
  he_names :: "string list"

section \<open>Messages\<close>

record 'h web_request =
  wr_method :: string
  wr_version :: string
  wr_path :: string
  wr_query :: string
  wr_path_and_query :: "string option"
  wr_headers :: 'h
  wr_peer :: "socket_addr option"
  wr_scheme :: string
  wr_host :: string

record 'h web_response =
  wp_version :: string
  wp_status :: u16
  wp_reason :: "string option"
  wp_headers :: 'h

text \<open>The body of a server's response may break off.\<close>

record 'h server_response =
  sr_status :: u16
  sr_headers :: 'h
  sr_body :: "data option"

record ('u, 'h) client_request =
  cq_uri :: 'u
  cq_method :: string
  cq_headers :: 'h
  cq_timeout :: nat

datatype 'h reply =
    Unauthorized string
  | Internal
  | ServerReply "'h web_response" data
  | ErrorReply

text \<open>\<open>ToArmourExpression\<close>.\<close>

definition request_expr :: "'h header_ops \<Rightarrow> 'h web_request \<Rightarrow> connection \<Rightarrow> dp_expr" where
  "request_expr M req c = LitExpr (FlatLit (HttpRequestL
     (req_new (wr_method req) (wr_version req) (wr_path req) (wr_query req) (hm_iter M (wr_headers req)) c)))"

definition response_expr :: "'h header_ops \<Rightarrow> 'h web_response \<Rightarrow> connection \<Rightarrow> dp_expr" where
  "response_expr M res c = LitExpr (FlatLit (HttpResponseL
     (res_new (wp_version res) (wp_status res) (wp_reason res) (hm_iter M (wp_headers res)) c)))"

section \<open>Where a request goes\<close>

definition X_ARMOUR :: string where
  "X_ARMOUR = ''x-armour''"

definition get_x_armour :: "'h header_ops \<Rightarrow> 'h \<Rightarrow> string option" where
  "get_x_armour M h = (case hm_get_all M X_ARMOUR h of v # _ \<Rightarrow> hm_str M v | [] \<Rightarrow> None)"

definition is_local_host :: "host_env \<Rightarrow> string \<Rightarrow> bool" where
  "is_local_host H host =
     (case he_parse_v4 H host of
        Some ip \<Rightarrow> he_own_ip H ip
      | None \<Rightarrow> map lower_char host \<in> set (he_names H))"

text \<open>A request to the port of the proxy itself is not forwarded.\<close>

definition forward_uri ::
    "'u net \<Rightarrow> host_env \<Rightarrow> 'h header_ops \<Rightarrow> http_config \<Rightarrow> 'h web_request \<Rightarrow> 'u option" where
  "forward_uri N H M config req =
     (let host = (case config_ingress config of Some s \<Rightarrow> hm_socket M s | None \<Rightarrow> wr_host req)
      in case uri_build N (Some (wr_scheme req)) host (wr_path_and_query req) of
           None \<Rightarrow> None
         | Some u \<Rightarrow>
             (if (case uri_port N u of Some p \<Rightarrow> p | None \<Rightarrow> 80) = config_port config \<and>
                 (case uri_host N u of Some h \<Rightarrow> is_local_host H h | None \<Rightarrow> True)
              then None else Some u))"

record 'u proxy_connection =
  cn_uri :: 'u
  cn_from :: "'u peer"
  cn_to :: "'u peer"
  cn_meta :: "string option"

definition connection_new ::
    "'u net \<Rightarrow> host_env \<Rightarrow> 'h header_ops \<Rightarrow> http_config \<Rightarrow> 'h web_request \<Rightarrow> 'u proxy_connection option" where
  "connection_new N H M config req =
     map_option (\<lambda>u. \<lparr>cn_uri = u, cn_from = peer_of_socket (wr_peer req), cn_to = peer_of_uri N u,
       cn_meta = get_x_armour M (wr_headers req)\<rparr>) (forward_uri N H M config req)"

section \<open>What is sent on\<close>

definition forwarded_hosts :: "'h header_ops \<Rightarrow> 'h \<Rightarrow> 'h \<Rightarrow> 'h" where
  "forwarded_hosts M orig h =
     (case hm_get_all M ''x-forwarded-host'' orig of
        [] \<Rightarrow> h
      | v # vs \<Rightarrow>
          foldl (\<lambda>h v. hm_append M ''x-forwarded-host'' v h)
            (hm_remove M ''x-forwarded-host'' (hm_insert M ''host'' v h)) vs)"

definition build_request ::
    "'h header_ops \<Rightarrow> 'u \<Rightarrow> 'h web_request \<Rightarrow> string option \<Rightarrow> nat \<Rightarrow> ('u, 'h) client_request" where
  "build_request M u req meta timeout =
     (let h1 = forwarded_hosts M (wr_headers req) (hm_from M (wr_headers req));
          h2 = (case Option.bind (wr_peer req) (\<lambda>a. hm_value M (hm_socket M a)) of
                  Some v \<Rightarrow> hm_insert M ''x-forwarded-for'' v h1
                | None \<Rightarrow> h1);
          h3 = (case Option.bind meta (hm_value M) of
                  Some v \<Rightarrow> hm_insert M X_ARMOUR v h2
                | None \<Rightarrow> hm_remove M X_ARMOUR h2)
      in \<lparr>cq_uri = u, cq_method = wr_method req, cq_headers = h3, cq_timeout = timeout\<rparr>)"

text \<open>The headers of the response that are kept. \<open>fresh\<close> is a new response with a given status.\<close>

definition kept_header :: "string \<Rightarrow> bool" where
  "kept_header h \<longleftrightarrow> h \<noteq> ''connection'' \<and> h \<noteq> ''content-length'' \<and> h \<noteq> ''content-encoding'' \<and> h \<noteq> X_ARMOUR"

definition response_builder :: "'h header_ops \<Rightarrow> (u16 \<Rightarrow> 'h web_response) \<Rightarrow> 'h server_response \<Rightarrow> 'h web_response" where
  "response_builder M fresh res =
     foldl (\<lambda>r (k, v). r\<lparr>wp_headers := hm_append M k v (wp_headers r)\<rparr>) (fresh (sr_status res))
       (filter (\<lambda>(k, _). kept_header k) (hm_iter M (sr_headers res)))"

section \<open>The proxy\<close>

text \<open>The arguments of the policy function; \<open>None\<close> is \<open>unreachable!\<close>.\<close>

definition fn_args :: "dp_expr \<Rightarrow> data \<Rightarrow> u8 \<Rightarrow> dp_expr list option" where
  "fn_args e payload count =
     (if count = 0 then Some []
      else if count = 1 then Some [e]
      else if count = 2 then Some [e, LitExpr (lit_data dp_lits payload)]
      else None)"

text \<open>An answer of the actor to \<open>EvalHttpFn\<close>; \<open>None\<close> where the message is not delivered.\<close>

type_synonym eval_reply = "(bool \<times> string option) result option"

text \<open>The outer \<open>None\<close> is a panic.\<close>

definition proxy_response ::
    "'h header_ops \<Rightarrow> (u16 \<Rightarrow> 'h web_response) \<Rightarrow> policy_status \<Rightarrow> connection \<Rightarrow>
       (dp_expr list \<Rightarrow> string option \<Rightarrow> eval_reply) \<Rightarrow> 'h server_response option \<Rightarrow> 'h reply option" where
  "proxy_response M fresh status conn ev2 res =
     (case res of
        None \<Rightarrow> Some ErrorReply
      | Some r \<Rightarrow>
          (case ps_response status of
             FnArgs count \<Rightarrow>
               (case sr_body r of
                  None \<Rightarrow> Some ErrorReply
                | Some body \<Rightarrow>
                    (case fn_args (response_expr M (response_builder M fresh r) conn) body count of
                       None \<Rightarrow> None
                     | Some args \<Rightarrow>
                         (case ev2 args (get_x_armour M (sr_headers r)) of
                            Some (Inr (True, meta)) \<Rightarrow>
                              (let b = response_builder M fresh r
                               in case meta of
                                    None \<Rightarrow> Some (ServerReply b body)
                                  | Some m \<Rightarrow>
                                      (case hm_value M m of
                                         Some v \<Rightarrow> Some (ServerReply (b\<lparr>wp_headers := hm_append M X_ARMOUR v (wp_headers b)\<rparr>) body)
                                       | None \<Rightarrow> Some ErrorReply))
                          | Some (Inr (False, _)) \<Rightarrow> Some (Unauthorized ''request denied (bad server response)'')
                          | Some (Inl _) \<Rightarrow> Some Internal
                          | None \<Rightarrow> Some Internal)))
           | FnAllow \<Rightarrow>
               (case sr_body r of
                  None \<Rightarrow> Some ErrorReply
                | Some body \<Rightarrow> Some (ServerReply (response_builder M fresh r) body))
           | FnDeny \<Rightarrow> Some (Unauthorized ''request denied (bad server response)'')))"

text \<open>The chunks of the payload; a chunk may fail.\<close>

fun collect_payload :: "data option list \<Rightarrow> data option" where
  "collect_payload [] = Some []"
| "collect_payload (c # cs) =
     (case c of None \<Rightarrow> None | Some d \<Rightarrow> map_option ((@) d) (collect_payload cs))"

text \<open>The reply to the client, and the request that was sent to the server, if one was.\<close>

definition proxy_request ::
    "'u net \<Rightarrow> host_env \<Rightarrow> 'h header_ops \<Rightarrow> (u16 \<Rightarrow> 'h web_response) \<Rightarrow> http_config \<Rightarrow> 'h web_request \<Rightarrow> data option list \<Rightarrow>
       ('u peer \<times> 'u peer \<Rightarrow> (policy_status \<times> connection) option) \<Rightarrow>
       (dp_expr list \<Rightarrow> string option \<Rightarrow> eval_reply) \<Rightarrow>
       (('u, 'h) client_request \<Rightarrow> data \<Rightarrow> 'h server_response option) \<Rightarrow>
       (dp_expr list \<Rightarrow> string option \<Rightarrow> eval_reply) \<Rightarrow>
       'h reply option \<times> (('u, 'h) client_request \<times> data) option" where
  "proxy_request N H M fresh config req payload get ev1 server ev2 =
     (let no = (\<lambda>r. (Some r, None))
      in case connection_new N H M config req of
           None \<Rightarrow> no Internal
         | Some c \<Rightarrow>
             (case get (cn_from c, cn_to c) of
                None \<Rightarrow> no Internal
              | Some (status, conn) \<Rightarrow>
                  (let forward = (\<lambda>meta body.
                     (let q = build_request M (cn_uri c) req meta (ps_timeout status)
                      in (proxy_response M fresh status conn ev2 (server q body), Some (q, body))))
                   in case ps_request status of
                        FnArgs count \<Rightarrow>
                          (case collect_payload payload of
                             None \<Rightarrow> no ErrorReply
                           | Some body \<Rightarrow>
                               (case fn_args (request_expr M req conn) body count of
                                  None \<Rightarrow> (None, None)
                                | Some args \<Rightarrow>
                                    (case ev1 args (cn_meta c) of
                                       Some (Inr (True, meta)) \<Rightarrow> forward meta body
                                     | Some (Inr (False, _)) \<Rightarrow> no (Unauthorized ''bad client request'')
                                     | Some (Inl _) \<Rightarrow> no Internal
                                     | None \<Rightarrow> no Internal)))
                      | FnAllow \<Rightarrow>
                          (case collect_payload payload of
                             None \<Rightarrow> no ErrorReply
                           | Some body \<Rightarrow> forward None body)
                      | FnDeny \<Rightarrow> no (Unauthorized ''request denied''))))"

end
