(* ===== verification/ProxyProps.thy ===== *)
theory ProxyProps
  imports HttpProxy PolicyProps SpecializeProps
begin

text \<open>
  The policy actor and the HTTP proxy: what holds in every state the actor reaches, that nothing
  passes the proxy unless the policy in force allows it, and what travels with a message.
\<close>
section \<open>States of the actor\<close>

text \<open>Every handler of the actor that changes its state.\<close>

inductive actor_step :: "'u net \<Rightarrow> (dp_policy \<Rightarrow> string) \<Rightarrow> actor \<Rightarrow> actor \<Rightarrow> bool" for N blake3 where
  host: "handle_policy_request N blake3 up msg a = Some b \<Longrightarrow> actor_step N blake3 a b"
| http: "get_http_policy N from_to a = (r, b) \<Longrightarrow> actor_step N blake3 a b"
| tcp: "get_tcp_policy N X n from to a = (r, b) \<Longrightarrow> actor_step N blake3 a b"

inductive actor_reach :: "'u net \<Rightarrow> (dp_policy \<Rightarrow> string) \<Rightarrow> actor \<Rightarrow> bool" for N blake3 where
  start: "actor_reach N blake3 (actor_started blake3 pid (create_policy l timeout))"
| step: "actor_reach N blake3 a \<Longrightarrow> actor_step N blake3 a b \<Longrightarrow> actor_reach N blake3 b"

text \<open>An invariant of the start and of the handlers holds in every reachable state.\<close>

locale actor_invariant =
  fixes N :: "'u net" and blake3 :: "dp_policy \<Rightarrow> string" and I :: "actor \<Rightarrow> bool"
  assumes started: "I (actor_started blake3 pid (create_policy l timeout))"
    and host_keeps: "I a \<Longrightarrow> handle_policy_request N blake3 up msg a = Some b \<Longrightarrow> I b"
    and connection_keeps: "I a \<Longrightarrow> actor_connection N from to a = (c, b) \<Longrightarrow> I b"
    and number_keeps: "I a \<Longrightarrow> I (a\<lparr>pa_connection_number := k\<rparr>)"
begin

lemma http_keeps: "I a \<Longrightarrow> get_http_policy N from_to a = (r, b) \<Longrightarrow> I b"
  using connection_keeps by (auto simp: get_http_policy_def Let_def split: if_splits prod.splits)

lemma tcp_keeps: "I a \<Longrightarrow> get_tcp_policy N X n from to a = (r, b) \<Longrightarrow> I b"
  using connection_keeps number_keeps
  by (auto simp: get_tcp_policy_def Let_def split: fn_policy.splits if_splits prod.splits)

lemma reach_invariant: "actor_reach N blake3 a \<Longrightarrow> I a"
  by (induction rule: actor_reach.induct)
    (auto intro: started elim!: actor_step.cases dest: host_keeps http_keeps tcp_keeps)

end

section \<open>The policy in force\<close>

text \<open>What the actor has copied out of its policies agrees with them.\<close>

definition in_force :: "actor \<Rightarrow> bool" where
  "in_force a \<longleftrightarrow>
     hs_env (pa_http a) = pr_code (pol_program (hs_policy (pa_http a))) \<and>
     ps_request (hs_status (pa_http a)) = fn_of (hs_policy (pa_http a)) ALLOW_REST_REQUEST \<and>
     ps_response (hs_status (pa_http a)) = fn_of (hs_policy (pa_http a)) ALLOW_REST_RESPONSE \<and>
     (ps_allow_all (hs_status (pa_http a)) \<longleftrightarrow>
        ps_request (hs_status (pa_http a)) = FnAllow \<and> ps_response (hs_status (pa_http a)) = FnAllow) \<and>
     ts_env (pa_tcp a) = pr_code (pol_program (ts_policy (pa_tcp a))) \<and>
     ts_connect (pa_tcp a) = fn_of (ts_policy (pa_tcp a)) ALLOW_TCP_CONNECTION \<and>
     ts_disconnect (pa_tcp a) = fn_of (ts_policy (pa_tcp a)) ON_TCP_DISCONNECT"

text \<open>The hash of the policy of a protocol that the host was told last.\<close>

fun told :: "protocol \<Rightarrow> policy_response list \<Rightarrow> string option" where
  "told p [] = None"
| "told p (r # rs) =
     (case r of
        ConnectR _ _ _ h t \<Rightarrow> Some (if p = HTTP then h else t)
      | UpdatedPolicy q h \<Rightarrow> if p = q then Some h else told p rs
      | _ \<Rightarrow> told p rs)"

definition host_knows :: "(dp_policy \<Rightarrow> string) \<Rightarrow> actor \<Rightarrow> bool" where
  "host_knows blake3 a \<longleftrightarrow>
     told HTTP (pa_out a) = Some (blake3 (hs_policy (pa_http a))) \<and>
     told TCP (pa_out a) = Some (blake3 (ts_policy (pa_tcp a)))"

lemma deny_all_fns:
  "fn_of (dp_deny_all HTTP) ALLOW_REST_REQUEST = FnDeny" "fn_of (dp_deny_all HTTP) ALLOW_REST_RESPONSE = FnDeny"
  "fn_of (dp_deny_all TCP) ALLOW_TCP_CONNECTION = FnDeny" "fn_of (dp_deny_all TCP) ON_TCP_DISCONNECT = FnDeny"
  by code_simp+

lemma add_uris_frame:
  "pa_http (add_uris N us a) = pa_http a \<and> pa_tcp (add_uris N us a) = pa_tcp a \<and>
   told p (pa_out (add_uris N us a)) = told p (pa_out a)"
  by (induction N us a rule: add_uris.induct) (auto simp: actor_write_def split: option.splits)

lemma handle_label_op_frame:
  "pa_http (handle_label_op N op a) = pa_http a \<and> pa_tcp (handle_label_op N op a) = pa_tcp a \<and>
   told p (pa_out (handle_label_op N op a)) = told p (pa_out a)"
  using add_uris_frame [of N _ a p] by (auto simp: handle_label_op_def actor_write_def split: label_op.splits option.splits)

lemmas label_op_frame = handle_label_op_frame [THEN conjunct1] handle_label_op_frame [THEN conjunct2, THEN conjunct1]
  handle_label_op_frame [THEN conjunct2, THEN conjunct2]

lemmas request_cases = handle_policy_request_def Let_def actor_write_def install_http_def install_tcp_def
  http_set_policy_def tcp_set_policy_def http_set_timeout_def http_start_def http_stop_def tcp_start_def tcp_stop_def

interpretation force: actor_invariant N blake3 in_force for N :: "'u net" and blake3
proof
  show "in_force (actor_started blake3 pid (create_policy l timeout))" for pid l timeout
    by (simp add: in_force_def actor_started_def create_policy_def actor_write_def http_set_timeout_def http_default_def
        tcp_default_def status_default_def deny_all_fns fn_default_def)
  show "in_force b" if "in_force a" "handle_policy_request N blake3 up msg a = Some b" for a b :: actor and up msg
    using that
    by (cases msg) (auto simp: in_force_def request_cases update_for_policy_def label_op_frame
        split: protocol.splits if_splits option.splits)
  show "in_force b" if "in_force a" "actor_connection N p q a = (c, b)" for a b :: actor and c p q
    using that by (auto simp: in_force_def actor_connection_def Let_def split: prod.splits)
  show "in_force (a\<lparr>pa_connection_number := k\<rparr>)" if "in_force a" for a :: actor and k
    using that by (simp add: in_force_def)
qed

interpretation report: actor_invariant N blake3 "host_knows blake3" for N :: "'u net" and blake3
proof
  show "host_knows blake3 (actor_started blake3 pid (create_policy l timeout))" for pid l timeout
    by (simp add: host_knows_def actor_started_def create_policy_def actor_write_def http_set_timeout_def)
  show "host_knows blake3 b" if "host_knows blake3 a" "handle_policy_request N blake3 up msg a = Some b" for a b :: actor and up msg
    using that
    by (cases msg) (auto simp: host_knows_def request_cases label_op_frame split: protocol.splits if_splits option.splits)
  show "host_knows blake3 b" if "host_knows blake3 a" "actor_connection N p q a = (c, b)" for a b :: actor and c p q
    using that by (auto simp: host_knows_def actor_connection_def Let_def split: prod.splits)
  show "host_knows blake3 (a\<lparr>pa_connection_number := k\<rparr>)" if "host_knows blake3 a" for a :: actor and k
    using that by (simp add: host_knows_def)
qed

text \<open>C4: in every state the policy actor reaches, whatever messages it has handled, what it decides by (the
  code it evaluates, the status of requests, responses, connections and disconnections) is that of
  the policy it holds, and the hash the host was told last for each protocol is that policy's.\<close>

theorem policy_in_force:
  assumes "actor_reach N blake3 a"
  shows "in_force a \<and> host_knows blake3 a"
  using assms force.reach_invariant report.reach_invariant by blast

definition allow_http :: dp_policy where
  "allow_http = the (policy_allow_all dp_types HTTP)"

theorem policy_in_force_witness:
  "\<forall>(N :: 'u net) blake3. \<exists>a. actor_reach N blake3 a \<and> ps_allow_all (hs_status (pa_http a)) \<and>
     told HTTP (pa_out a) = Some (blake3 allow_http) \<and> hs_policy (pa_http a) = allow_http"
proof (intro allI)
  fix N :: "'u net" and blake3 :: "dp_policy \<Rightarrow> string"
  let ?a = "actor_started blake3 0 (create_policy [] 5)"
  let ?b = "install_http blake3 allow_http ?a"
  have "handle_policy_request N blake3 True (SetPolicy [(HTTP, allow_http)]) ?a = Some ?b"
    by (simp add: handle_policy_request_def policies_policy_def)
  then have r: "actor_reach N blake3 ?b"
    by (blast intro: actor_reach.intros actor_step.intros)
  have "fn_of allow_http ALLOW_REST_REQUEST = FnAllow" "fn_of allow_http ALLOW_REST_RESPONSE = FnAllow"
    by code_simp+
  moreover have p: "hs_policy (pa_http ?b) = allow_http"
    by (simp add: install_http_def actor_write_def http_set_policy_def)
  ultimately have "ps_allow_all (hs_status (pa_http ?b))" "told HTTP (pa_out ?b) = Some (blake3 allow_http)"
    using policy_in_force [OF r] by (simp_all add: in_force_def host_knows_def)
  then show "\<exists>a. actor_reach N blake3 a \<and> ps_allow_all (hs_status (pa_http a)) \<and>
     told HTTP (pa_out a) = Some (blake3 allow_http) \<and> hs_policy (pa_http a) = allow_http"
    using r p by blast
qed

section \<open>Mediation\<close>

text \<open>The actor as the proxy sees it, in the state in which it handles the message.\<close>

definition actor_get :: "'u net \<Rightarrow> actor \<Rightarrow> 'u peer \<times> 'u peer \<Rightarrow> (policy_status \<times> connection) option" where
  "actor_get N a from_to = Some (fst (get_http_policy N from_to a))"

definition actor_eval ::
    "crypto \<Rightarrow> nat option \<Rightarrow> (flat_literal code \<Rightarrow> (unit, flat_typ, flat_literal) env) \<Rightarrow> nat \<Rightarrow> http_fn \<Rightarrow> actor \<Rightarrow>
       (unit, flat_literal) machine \<Rightarrow> dp_expr list \<Rightarrow> string option \<Rightarrow> eval_reply" where
  "actor_eval K t X n fn a s args xarmour =
     (case fst (eval_http_fn K t X n fn args xarmour a s) of
        Ok r \<Rightarrow> Some (Inr r) | Err e \<Rightarrow> Some (Inl e) | _ \<Rightarrow> None)"

text \<open>The function of a policy, called on some arguments with some metadata, answers \<open>true\<close>.\<close>

definition answers_true ::
    "(flat_literal code \<Rightarrow> (unit, flat_typ, flat_literal) env) \<Rightarrow> nat \<Rightarrow> dp_policy \<Rightarrow> string \<Rightarrow> dp_expr list \<Rightarrow> (unit, flat_literal) machine \<Rightarrow> bool" where
  "answers_true X n p f args s \<longleftrightarrow>
     (\<exists>meta t. evaluate (X (pr_code (pol_program p))) n (expr_call f args) (s\<lparr>mc_meta := meta\<rparr>) =
        (Ok (LitExpr (FlatLit (BoolL True))), t))"

lemma try_bool_true: "try_bool dp_lits l = Some True \<Longrightarrow> l = FlatLit (BoolL True)"
  by (auto simp: try_bool_def lit_is_bool_def lit_get_bool_def dp_lits_def split: literal.splits flat_literal.splits if_splits)

lemma policy_evaluate_Ok:
  assumes "policy_evaluate conv X n code f args meta s = (Ok (x, m), t)"
  shows "\<exists>l. evaluate (X code) n (expr_call f args) (s\<lparr>mc_meta := meta\<rparr>) = (Ok (LitExpr l), t) \<and> conv l = Some x"
proof -
  obtain r u where r: "evaluate (X code) n (expr_call f args) (s\<lparr>mc_meta := meta\<rparr>) = (Ok r, u)"
      "(case r of LitExpr l \<Rightarrow> (case conv l of
          Some x \<Rightarrow> ev_ok (x, (case handle_egress (mc_meta u) of Inr m \<Rightarrow> Some m | Inl _ \<Rightarrow> None)) u
        | None \<Rightarrow> ev_err (Error ''literal has wrong type'') u)
      | _ \<Rightarrow> ev_err (Error ''did not evaluate to a literal'') u) = (Ok (x, m), t)"
    using assms by (auto simp: policy_evaluate_def bind_Ok_iff)
  show ?thesis
    using r by (cases r) (auto simp: ev_ok_def ev_err_def split: option.splits)
qed

lemma actor_eval_true:
  assumes "actor_eval K t X n fn a s args xarmour = Some (Inr (True, m))" and "in_force a"
  shows "answers_true X n (hs_policy (pa_http a))
    (case fn of RequestFn \<Rightarrow> ALLOW_REST_REQUEST | ResponseFn \<Rightarrow> ALLOW_REST_RESPONSE) args s"
proof -
  obtain u m' where "eval_http_fn K t X n fn args xarmour a s = (Ok (True, m), u)"
    using assms(1) by (auto simp: actor_eval_def prod_eq_iff split: outcome.splits)
  then obtain meta m'' where "policy_evaluate (try_bool dp_lits) X n (hs_env (pa_http a))
      (case fn of RequestFn \<Rightarrow> ALLOW_REST_REQUEST | ResponseFn \<Rightarrow> ALLOW_REST_RESPONSE) args meta s = (Ok (True, m''), u)"
    by (auto simp: eval_http_fn_def Let_def bind_Ok_iff ev_ok_def ev_panic_def split: option.splits)
  from policy_evaluate_Ok [OF this] show ?thesis
    using assms(2) by (auto simp: answers_true_def in_force_def dest!: try_bool_true)
qed

text \<open>
  What a function of a policy needs of a message: the policy says so outright, or the answer to the
  arguments it takes of this message is \<open>true\<close>.
\<close>

definition passes :: "fn_policy \<Rightarrow> dp_expr \<Rightarrow> data \<Rightarrow> (dp_expr list \<Rightarrow> bool) \<Rightarrow> bool" where
  "passes p e body ok \<longleftrightarrow>
     p = FnAllow \<or> (\<exists>k args. p = FnArgs k \<and> fn_args e body k = Some args \<and> ok args)"

definition replied_true :: "(dp_expr list \<Rightarrow> string option \<Rightarrow> eval_reply) \<Rightarrow> dp_expr list \<Rightarrow> bool" where
  "replied_true ev args \<longleftrightarrow> (\<exists>x m. ev args x = Some (Inr (True, m)))"

lemma replied_true_answers:
  assumes "passes p e body (replied_true (actor_eval K t X n fn a s))" and "in_force a"
  shows "passes p e body (\<lambda>args. answers_true X n (hs_policy (pa_http a))
    (case fn of RequestFn \<Rightarrow> ALLOW_REST_REQUEST | ResponseFn \<Rightarrow> ALLOW_REST_RESPONSE) args s)"
  using assms unfolding passes_def replied_true_def by (blast dest: actor_eval_true)

lemma reply_passes:
  assumes "proxy_response M fresh status conn ev2 res = Some (ServerReply p b)"
  shows "\<exists>r. res = Some r \<and> sr_body r = Some b \<and>
    passes (ps_response status) (response_expr M (response_builder M fresh r) conn) b (replied_true ev2)"
proof -
  obtain r where r: "res = Some r"
    using assms by (auto simp: proxy_response_def split: option.splits)
  show ?thesis
  proof (cases "ps_response status")
    case (FnArgs k)
    then obtain body args where a: "sr_body r = Some body"
        "fn_args (response_expr M (response_builder M fresh r) conn) body k = Some args"
      using assms r by (auto simp: proxy_response_def split: option.splits)
    then obtain m where "ev2 args (get_x_armour M (sr_headers r)) = Some (Inr (True, m))" "body = b"
      using assms FnArgs r
      by (auto simp: proxy_response_def Let_def split: option.splits sum.splits bool.splits)
    then show ?thesis
      using FnArgs a r by (auto simp: passes_def replied_true_def)
  next
    case FnDeny
    then show ?thesis
      using assms r by (simp add: proxy_response_def)
  next
    case FnAllow
    then show ?thesis
      using assms r by (auto simp: proxy_response_def passes_def split: option.splits)
  qed
qed

lemma sent_passes:
  assumes "proxy_request N H M fresh config req payload get ev1 server ev2 = (reply, Some (q, body))"
  shows "\<exists>c status conn. connection_new N H M config req = Some c \<and> cq_uri q = cn_uri c \<and>
    get (cn_from c, cn_to c) = Some (status, conn) \<and> collect_payload payload = Some body \<and>
    passes (ps_request status) (request_expr M req conn) body (replied_true ev1) \<and>
    reply = proxy_response M fresh status conn ev2 (server q body)"
proof -
  obtain c status conn where c: "connection_new N H M config req = Some c" "get (cn_from c, cn_to c) = Some (status, conn)"
    using assms by (auto simp: proxy_request_def Let_def split: option.splits)
  show ?thesis
  proof (cases "ps_request status")
    case FnAllow
    then show ?thesis
      using assms c by (auto simp: proxy_request_def Let_def passes_def build_request_def split: option.splits)
  next
    case FnDeny
    then show ?thesis
      using assms c by (simp add: proxy_request_def)
  next
    case (FnArgs k)
    obtain b where b: "collect_payload payload = Some b"
      using assms c FnArgs by (auto simp: proxy_request_def Let_def split: option.splits)
    obtain args where args: "fn_args (request_expr M req conn) b k = Some args"
      using assms c FnArgs b by (auto simp: proxy_request_def Let_def split: option.splits)
    obtain m where m: "ev1 args (cn_meta c) = Some (Inr (True, m))"
      using assms c FnArgs b args by (auto simp: proxy_request_def Let_def split: option.splits sum.splits bool.splits)
    show ?thesis
      using assms c FnArgs b args m
      by (auto simp: proxy_request_def Let_def passes_def replied_true_def build_request_def)
  qed
qed

lemma reply_sent:
  assumes "proxy_request N H M fresh config req payload get ev1 server ev2 = (Some (ServerReply p b), sent)"
  shows "sent \<noteq> None"
  using assms
  by (auto simp: proxy_request_def Let_def split: option.splits fn_policy.splits sum.splits bool.splits prod.splits)

text \<open>C2: a request reaches a server only at the address it was forwarded to, with the payload of the client,
  and only if the policy that the actor holds when it is asked for its status allows every request, or
  the policy it holds when it evaluates the request answers \<open>true\<close> to the arguments made of this
  request. A response of a server reaches the client only if a request was sent, with the body that
  the server sent, and only if the same holds for that response. The three messages may find the
  actor in any three states that it reaches: the host may install policies in between.\<close>

theorem requests_mediated:
  fixes N :: "'u net"
  assumes reach: "actor_reach N blake3 a1" "actor_reach N blake3 a2" "actor_reach N blake3 a3"
    and run: "proxy_request N H M fresh config req payload (actor_get N a1) (actor_eval K t X n RequestFn a2 s)
      server (actor_eval K t' X n ResponseFn a3 s') = (reply, sent)"
  shows "case sent of
      None \<Rightarrow> \<nexists>p b. reply = Some (ServerReply p b)
    | Some (q, body) \<Rightarrow>
        \<exists>c conn. connection_new N H M config req = Some c \<and> cq_uri q = cn_uri c \<and>
          conn = snd (fst (get_http_policy N (cn_from c, cn_to c) a1)) \<and> collect_payload payload = Some body \<and>
          passes (fn_of (hs_policy (pa_http a1)) ALLOW_REST_REQUEST) (request_expr M req conn) body
            (\<lambda>args. answers_true X n (hs_policy (pa_http a2)) ALLOW_REST_REQUEST args s) \<and>
          (\<forall>p b. reply = Some (ServerReply p b) \<longrightarrow>
            (\<exists>r. server q body = Some r \<and> sr_body r = Some b \<and>
              passes (fn_of (hs_policy (pa_http a1)) ALLOW_REST_RESPONSE)
                (response_expr M (response_builder M fresh r) conn) b
                (\<lambda>args. answers_true X n (hs_policy (pa_http a3)) ALLOW_REST_RESPONSE args s')))"
proof (cases sent)
  case None
  then show ?thesis
    using reply_sent run by fastforce
next
  case (Some qb)
  then obtain q body where qb: "sent = Some (q, body)"
    by (cases qb) simp
  have f: "in_force a1" "in_force a2" "in_force a3"
    using reach force.reach_invariant by blast+
  from qb obtain c :: "'u proxy_connection" and status conn where
    c: "connection_new N H M config req = Some c" "cq_uri q = cn_uri c"
      "actor_get N a1 (cn_from c, cn_to c) = Some (status, conn)" "collect_payload payload = Some body"
      "passes (ps_request status) (request_expr M req conn) body (replied_true (actor_eval K t X n RequestFn a2 s))"
      "reply = proxy_response M fresh status conn (actor_eval K t' X n ResponseFn a3 s') (server q body)"
    using sent_passes run by blast
  have st: "status = hs_status (pa_http a1)" "conn = snd (fst (get_http_policy N (cn_from c, cn_to c) a1))"
    using c(3) by (auto simp: actor_get_def get_http_policy_def Let_def split: if_splits prod.splits)
  have rq: "passes (fn_of (hs_policy (pa_http a1)) ALLOW_REST_REQUEST) (request_expr M req conn) body
      (\<lambda>args. answers_true X n (hs_policy (pa_http a2)) ALLOW_REST_REQUEST args s)"
    using replied_true_answers [OF c(5) f(2)] f(1) by (simp add: st(1) in_force_def)
  have rs: "\<exists>r. server q body = Some r \<and> sr_body r = Some b \<and>
      passes (fn_of (hs_policy (pa_http a1)) ALLOW_REST_RESPONSE)
        (response_expr M (response_builder M fresh r) conn) b
        (\<lambda>args. answers_true X n (hs_policy (pa_http a3)) ALLOW_REST_RESPONSE args s')"
    if reply: "reply = Some (ServerReply p b)" for p b
  proof -
    obtain r where r: "server q body = Some r" "sr_body r = Some b"
        "passes (ps_response status) (response_expr M (response_builder M fresh r) conn) b
          (replied_true (actor_eval K t' X n ResponseFn a3 s'))"
      using reply_passes c(6) reply by metis
    then show ?thesis
      using replied_true_answers [OF r(3) f(3)] f(1) by (auto simp: st(1) in_force_def)
  qed
  show ?thesis
    unfolding qb option.case prod.case using c(1,2,4) st(2) rq rs by blast
qed

definition bytes_str :: "data \<Rightarrow> string" where
  "bytes_str d = map (\<lambda>b. char_of (unat b)) d"

lemma bytes_str_inverse [simp]: "bytes_str (str_bytes s) = s" "str_bytes (bytes_str d) = d"
proof -
  have u: "unat (of_char c :: u8) = of_char c" for c
    using unat_of_nat [where 'a = 8, of "of_char c"] by (simp add: of_nat_of_char)
  moreover have "(of_char (char_of (unat b) :: char) :: u8) = b" for b
  proof -
    have "unat b < 256"
      using unsigned_less [of b] by simp
    then show ?thesis
      by (intro word_unat_eq_iff [THEN iffD2]) (simp add: u)
  qed
  ultimately show "bytes_str (str_bytes s) = s" "str_bytes (bytes_str d) = d"
    by (auto simp: bytes_str_def str_bytes_def intro!: map_idI)
qed

text \<open>A concrete world: a URI is an authority and a port, a header map an association list.\<close>

definition plain_net :: "(string \<times> u16 option) net" where
  "plain_net = \<lparr>uri_parse = (\<lambda>s. Some (s, None)), uri_host = (\<lambda>u. Some (fst u)), uri_port = snd,
     uri_scheme = (\<lambda>_. Some ''http''), uri_authority = (\<lambda>u. Some (fst u)),
     uri_build = (\<lambda>_ a _. Some (a, None)), dns_host = (\<lambda>_. None), dns_addr = (\<lambda>_. None), show_ip = (\<lambda>_. [])\<rparr>"

definition plain_headers :: "(string \<times> data) list header_ops" where
  "plain_headers = \<lparr>hm_empty = [], hm_get_all = (\<lambda>k h. map snd (filter (\<lambda>e. fst e = k) h)),
     hm_insert = (\<lambda>k v h. filter (\<lambda>e. fst e \<noteq> k) h @ [(k, v)]), hm_append = (\<lambda>k v h. h @ [(k, v)]),
     hm_remove = (\<lambda>k h. filter (\<lambda>e. fst e \<noteq> k) h), hm_iter = (\<lambda>h. h),
     hm_value = (\<lambda>s. Some (str_bytes s)), hm_str = (\<lambda>d. Some (bytes_str d)), hm_from = (\<lambda>h. h),
     hm_socket = (\<lambda>_. ''10.0.0.1:80'')\<rparr>"

definition plain_host :: host_env where
  "plain_host = \<lparr>he_parse_v4 = (\<lambda>_. None), he_own_ip = (\<lambda>_. False), he_names = [''localhost'']\<rparr>"

definition plain_crypto :: crypto where
  "plain_crypto = \<lparr>cr_seal = (\<lambda>_ b. Some b), cr_open = (\<lambda>_ b. Some b), cr_encode = bytes_str,
     cr_decode = (\<lambda>s. Some (str_bytes s)), cr_json = (\<lambda>_. None), cr_unjson = (\<lambda>_. None)\<rparr>"

definition plain_fresh :: "u16 \<Rightarrow> (string \<times> data) list web_response" where
  "plain_fresh st = \<lparr>wp_version = ''HTTP/1.1'', wp_status = st, wp_reason = None, wp_headers = []\<rparr>"

definition get_request :: "(string \<times> data) list \<Rightarrow> (string \<times> data) list web_request" where
  "get_request h = \<lparr>wr_method = ''GET'', wr_version = ''HTTP/1.1'', wr_path = ''/'', wr_query = [],
     wr_path_and_query = Some ''/'', wr_headers = h, wr_peer = Some (V4 10 0 0 2, 5000),
     wr_scheme = ''http'', wr_host = ''b''\<rparr>"

text \<open>A policy that checks requests by a function without parameters, and has no function for responses.\<close>

definition check_http :: dp_policy where
  "check_http = (case from_program dp_builtin
       \<lparr>pr_code = [(ALLOW_REST_REQUEST, LitExpr (FlatLit (BoolL True)))], pr_externals = externals_default,
        pr_headers = [(ALLOW_REST_REQUEST, new_sig [] (FlatTyp BoolT))]\<rparr> (http_policy dp_types) of
     Inr p \<Rightarrow> p | Inl _ \<Rightarrow> policy_default)"

definition checking_actor :: actor where
  "checking_actor = install_http (\<lambda>_. []) check_http (actor_started (\<lambda>_. []) 0 (create_policy [Str ''a''] 5))"

lemma install_reach:
  assumes "actor_reach N blake3 a"
  shows "actor_reach N blake3 (install_http blake3 p a)"
proof -
  have "handle_policy_request N blake3 True (SetPolicy [(HTTP, p)]) a = Some (install_http blake3 p a)"
    by (simp add: handle_policy_request_def policies_policy_def)
  then show ?thesis
    using assms by (blast intro: actor_reach.step actor_step.host)
qed

lemma checking_reach: "actor_reach N (\<lambda>_. []) checking_actor"
  unfolding checking_actor_def by (intro install_reach actor_reach.start)

definition first_run ::
    "(flat_literal event list \<Rightarrow> lib) \<Rightarrow> (flat_literal event list \<Rightarrow> flat_literal call \<Rightarrow> flat_literal literal result) \<Rightarrow>
       (string \<times> data) list reply option \<times> ((string \<times> u16 option, (string \<times> data) list) client_request \<times> data) option" where
  "first_run L R = proxy_request plain_net plain_host plain_headers plain_fresh (PortConfig 8080) (get_request []) [Some [1], Some [2]]
     (actor_get plain_net checking_actor)
     (actor_eval plain_crypto (Some 0) (\<lambda>c. plane_env dp_plane c L R) 3 RequestFn checking_actor \<lparr>mc_meta = ie_default, mc_trace = [], mc_state = ()\<rparr>)
     (\<lambda>q b. Some \<lparr>sr_status = 200, sr_headers = [], sr_body = Some [7]\<rparr>)
     (actor_eval plain_crypto (Some 0) (\<lambda>c. plane_env dp_plane c L R) 3 ResponseFn checking_actor \<lparr>mc_meta = ie_default, mc_trace = [], mc_state = ()\<rparr>)"

lemma first_run: "fst (first_run L R) = Some (ServerReply (plain_fresh 200) [7])" "map_option snd (snd (first_run L R)) = Some [1, 2]"
  by code_simp+

theorem requests_mediated_witness:
  "\<forall>L R. case snd (first_run L R) of
      None \<Rightarrow> False
    | Some (q, body) \<Rightarrow> body = [1, 2] \<and> (\<exists>args. answers_true (\<lambda>c. plane_env dp_plane c L R) 3
        (hs_policy (pa_http checking_actor)) ALLOW_REST_REQUEST args \<lparr>mc_meta = ie_default, mc_trace = [], mc_state = ()\<rparr>)"
proof (intro allI)
  fix L R
  obtain q where run: "first_run L R = (Some (ServerReply (plain_fresh 200) [7]), Some (q, [1, 2]))"
    using first_run [of L R] by (cases "first_run L R") auto
  have "fn_of (hs_policy (pa_http checking_actor)) ALLOW_REST_REQUEST = FnArgs 0"
    by code_simp
  moreover note requests_mediated [OF checking_reach checking_reach checking_reach run [unfolded first_run_def]]
  ultimately show "case snd (first_run L R) of
      None \<Rightarrow> False
    | Some (q, body) \<Rightarrow> body = [1, 2] \<and> (\<exists>args. answers_true (\<lambda>c. plane_env dp_plane c L R) 3
        (hs_policy (pa_http checking_actor)) ALLOW_REST_REQUEST args \<lparr>mc_meta = ie_default, mc_trace = [], mc_state = ()\<rparr>)"
    by (auto simp: run passes_def)
qed

end
