(* ===== verification/ProxyWire.thy ===== *)
theory ProxyWire
  imports ProxyProps
begin

text \<open>
  What the proxy writes on the messages it lets through: the metadata of the policy and no others,
  readable by the next proxy under the same key; and the two ways in which a message or an accepted
  policy makes the proxy panic.
\<close>

section \<open>Documented behaviour of the libraries\<close>

text \<open>Header maps: setting, adding and removing values of a name; a value made of a string reads back.\<close>

definition header_laws :: "'h header_ops \<Rightarrow> bool" where
  "header_laws M \<longleftrightarrow>
     (\<forall>k k' v h. hm_get_all M k (hm_insert M k' v h) = (if k = k' then [v] else hm_get_all M k h)) \<and>
     (\<forall>k k' v h. hm_get_all M k (hm_append M k' v h) = hm_get_all M k h @ (if k = k' then [v] else [])) \<and>
     (\<forall>k k' h. hm_get_all M k (hm_remove M k' h) = (if k = k' then [] else hm_get_all M k h)) \<and>
     (\<forall>s v. hm_value M s = Some v \<longrightarrow> hm_str M v = Some s)"

text \<open>Decoding undoes base64, whose alphabet has no semicolon; and the cipher opens what it sealed.\<close>

definition base64_laws :: "crypto \<Rightarrow> bool" where
  "base64_laws K \<longleftrightarrow> (\<forall>b. cr_decode K (cr_encode K b) = Some b \<and> CHR '';'' \<notin> set (cr_encode K b))"

definition cipher_laws :: "crypto \<Rightarrow> bool" where
  "cipher_laws K \<longleftrightarrow> (\<forall>no b c. cr_seal K no b = Some c \<longrightarrow> cr_open K no c = Some b)"

lemma split_char_none: "c \<notin> set s \<Longrightarrow> split_char c s = [s]"
  by (induction s) auto

lemma split_char_one: "c \<notin> set s \<Longrightarrow> split_char c (s @ c # t) = s # split_char c t"
  by (induction s) auto

lemma nonce_length: "nonce t = Some no \<Longrightarrow> length no = nonce_size"
  by (auto simp: nonce_def nonce_size_def str_bytes_def)

lemma decrypt_parts:
  assumes "base64_laws K"
  shows "decrypt K (cr_encode K block @ '';'' @ cr_encode K no) =
    (if length no = nonce_size then Some (cr_open K no block) else None)"
  using assms by (simp add: decrypt_def base64_laws_def split_char_one split_char_none)

lemma decrypt_encrypt:
  assumes "base64_laws K" "cipher_laws K" "encrypt K t message = Some s"
  shows "decrypt K s = Some (Some (str_bytes message))"
proof -
  obtain no block where "nonce t = Some no" "cr_seal K no (str_bytes message) = Some block"
      "s = cr_encode K block @ '';'' @ cr_encode K no"
    using assms(3) by (auto simp: encrypt_def split: option.splits)
  then show ?thesis
    using assms(2) nonce_length decrypt_parts [OF assms(1), of block no] by (simp add: cipher_laws_def)
qed

lemma decrypt_encrypt_meta:
  assumes "base64_laws K" "cipher_laws K" "encrypt_meta K t (Some m) = Some s"
    and "\<And>j. cr_json K m = Some j \<Longrightarrow> cr_unjson K (str_bytes j) = Some m"
  shows "decrypt_meta K s = Some (Some m)"
proof -
  obtain j where j: "cr_json K m = Some j" "encrypt K t j = Some s"
    using assms(3) by (auto simp: encrypt_meta_def bind_eq_Some_conv)
  then show ?thesis
    using decrypt_encrypt [OF assms(1,2) j(2)] assms(4) by (simp add: decrypt_meta_def)
qed

section \<open>The metadata of a message\<close>

text \<open>A message carries one value of \<open>x-armour\<close>, which the policy has answered with, or none.\<close>

definition vouched :: "'h header_ops \<Rightarrow> (dp_expr list \<Rightarrow> string option \<Rightarrow> eval_reply) \<Rightarrow> 'h \<Rightarrow> bool" where
  "vouched M ev h \<longleftrightarrow>
     (case hm_get_all M X_ARMOUR h of
        [] \<Rightarrow> True
      | v # vs \<Rightarrow> vs = [] \<and> (\<exists>args x m. ev args x = Some (Inr (True, Some m)) \<and> hm_value M m = Some v))"

lemma forwarded_hosts_armour:
  assumes "header_laws M"
  shows "hm_get_all M X_ARMOUR (forwarded_hosts M orig h) = hm_get_all M X_ARMOUR h"
proof -
  have "hm_get_all M X_ARMOUR (foldl (\<lambda>h v. hm_append M ''x-forwarded-host'' v h) h vs) = hm_get_all M X_ARMOUR h" for h vs
    using assms by (induction vs arbitrary: h) (simp_all add: header_laws_def X_ARMOUR_def)
  then show ?thesis
    using assms by (simp add: forwarded_hosts_def header_laws_def X_ARMOUR_def split: list.split)
qed

lemma build_request_armour:
  assumes "header_laws M"
  shows "hm_get_all M X_ARMOUR (cq_headers (build_request M u req meta timeout)) =
    (case Option.bind meta (hm_value M) of Some v \<Rightarrow> [v] | None \<Rightarrow> [])"
  using assms by (simp add: build_request_def Let_def header_laws_def split: option.split)

lemma response_builder_armour:
  fixes M :: "'h header_ops"
  assumes "header_laws M" and "hm_get_all M X_ARMOUR (wp_headers (fresh (sr_status r))) = []"
  shows "hm_get_all M X_ARMOUR (wp_headers (response_builder M fresh r)) = []"
proof -
  have x: "\<not> kept_header X_ARMOUR"
    by (simp add: kept_header_def)
  have a: "hm_get_all M k (hm_append M k' v h) = hm_get_all M k h @ (if k = k' then [v] else [])" for k k' v h
    using assms(1) by (simp add: header_laws_def)
  have same: "hm_get_all M X_ARMOUR (wp_headers (foldl (\<lambda>r (k, v). r\<lparr>wp_headers := hm_append M k v (wp_headers r)\<rparr>) p kvs)) =
      hm_get_all M X_ARMOUR (wp_headers p)" if "\<forall>e \<in> set kvs. kept_header (fst e)" for p :: "'h web_response" and kvs
    using that x by (induction kvs arbitrary: p) (auto simp: a)
  have "\<forall>e \<in> set (filter (\<lambda>(k, _). kept_header k) xs). kept_header (fst e)" for xs :: "(string \<times> data) list"
    by auto
  from same [OF this] show ?thesis
    using assms(2) by (simp add: response_builder_def)
qed

lemma reply_vouched:
  assumes "header_laws M" and "\<And>st. hm_get_all M X_ARMOUR (wp_headers (fresh st)) = []"
    and "proxy_response M fresh status conn ev2 res = Some (ServerReply p b)"
  shows "vouched M ev2 (wp_headers p)"
proof -
  obtain r where r: "res = Some r"
    using assms(3) by (auto simp: proxy_response_def split: option.splits)
  have "p = response_builder M fresh r \<or>
      (\<exists>v. p = (response_builder M fresh r)\<lparr>wp_headers := hm_append M X_ARMOUR v (wp_headers (response_builder M fresh r))\<rparr> \<and>
        (\<exists>args x s. ev2 args x = Some (Inr (True, Some s)) \<and> hm_value M s = Some v))"
    using assms(3) unfolding r
    by (auto simp: proxy_response_def Let_def split: option.splits fn_policy.splits sum.splits bool.splits prod.splits)
  moreover have "hm_get_all M X_ARMOUR (wp_headers (response_builder M fresh r)) = []"
    using assms(1,2) by (rule response_builder_armour)
  moreover have "hm_get_all M X_ARMOUR (hm_append M X_ARMOUR v h) = hm_get_all M X_ARMOUR h @ [v]" for v h
    using assms(1) by (simp add: header_laws_def)
  ultimately show ?thesis
    unfolding vouched_def by (elim disjE exE conjE) (simp_all, blast)
qed

lemma sent_meta:
  assumes "proxy_request N H M fresh config req payload get ev1 server ev2 = (reply, Some (q, body))"
  shows "\<exists>u meta timeout. q = build_request M u req meta timeout \<and>
    (case meta of None \<Rightarrow> True | Some m \<Rightarrow> \<exists>args x. ev1 args x = Some (Inr (True, Some m)))"
proof -
  obtain c status conn where c: "connection_new N H M config req = Some c" "get (cn_from c, cn_to c) = Some (status, conn)"
    using assms by (auto simp: proxy_request_def Let_def split: option.splits)
  show ?thesis
  proof (cases "ps_request status")
    case FnAllow
    then have "q = build_request M (cn_uri c) req None (ps_timeout status)"
      using assms c by (auto simp: proxy_request_def Let_def split: option.splits)
    then show ?thesis
      by (intro exI [of _ "cn_uri c"] exI [of _ None] exI [of _ "ps_timeout status"]) simp
  next
    case FnDeny
    then show ?thesis
      using assms c by (simp add: proxy_request_def)
  next
    case (FnArgs k)
    then obtain b args where args: "collect_payload payload = Some b" "fn_args (request_expr M req conn) b k = Some args"
      using assms c by (auto simp: proxy_request_def Let_def split: option.splits)
    then obtain m where m: "ev1 args (cn_meta c) = Some (Inr (True, m))"
      using assms c FnArgs by (auto simp: proxy_request_def Let_def split: option.splits sum.splits bool.splits)
    then have "q = build_request M (cn_uri c) req m (ps_timeout status)"
      using assms c FnArgs args by (auto simp: proxy_request_def Let_def)
    then show ?thesis
      using m by (intro exI [of _ "cn_uri c"] exI [of _ m] exI [of _ "ps_timeout status"]) (auto split: option.split)
  qed
qed

lemma sent_vouched:
  assumes "header_laws M"
    and "proxy_request N H M fresh config req payload get ev1 server ev2 = (reply, Some (q, body))"
  shows "vouched M ev1 (cq_headers q)"
proof -
  obtain u meta timeout where "q = build_request M u req meta timeout"
      "case meta of None \<Rightarrow> True | Some m \<Rightarrow> \<exists>args x. ev1 args x = Some (Inr (True, Some m))"
    using sent_meta [OF assms(2)] by blast
  then show ?thesis
    by (auto simp: vouched_def build_request_armour [OF assms(1)] bind_eq_Some_conv split: option.splits)
qed

lemma policy_evaluate_egress:
  assumes "policy_evaluate conv X n code f args i s = (Ok (x, Some m), t)"
  shows "\<exists>l. evaluate (X code) n (expr_call f args) (s\<lparr>mc_meta := i\<rparr>) = (Ok (LitExpr l), t) \<and> conv l = Some x \<and>
    handle_egress (mc_meta t) = Inr m"
proof -
  obtain r u where r: "evaluate (X code) n (expr_call f args) (s\<lparr>mc_meta := i\<rparr>) = (Ok r, u)"
      "(case r of LitExpr l \<Rightarrow> (case conv l of
          Some x \<Rightarrow> ev_ok (x, (case handle_egress (mc_meta u) of Inr m \<Rightarrow> Some m | Inl _ \<Rightarrow> None)) u
        | None \<Rightarrow> ev_err (Error ''literal has wrong type'') u)
      | _ \<Rightarrow> ev_err (Error ''did not evaluate to a literal'') u) = (Ok (x, Some m), t)"
    using assms by (auto simp: policy_evaluate_def bind_Ok_iff)
  then obtain l where "r = LitExpr l" "conv l = Some x" "handle_egress (mc_meta t) = Inr m" "u = t"
    by (cases r) (auto simp: ev_ok_def ev_err_def split: option.splits sum.splits)
  then show ?thesis
    using r(1) by blast
qed

text \<open>What the actor answers with is the sealed egress metadata of an evaluation of its policy.\<close>

lemma actor_eval_meta:
  assumes "actor_eval K t X n fn a s args x = Some (Inr (True, Some e))"
  shows "\<exists>i u m. evaluate (X (hs_env (pa_http a))) n
      (expr_call (case fn of RequestFn \<Rightarrow> ALLOW_REST_REQUEST | ResponseFn \<Rightarrow> ALLOW_REST_RESPONSE) args)
      (s\<lparr>mc_meta := ie_new i (pa_label a)\<rparr>) = (Ok (LitExpr (FlatLit (BoolL True))), u) \<and>
    handle_egress (mc_meta u) = Inr m \<and> encrypt_meta K t (Some m) = Some e"
proof -
  obtain u where "eval_http_fn K t X n fn args x a s = (Ok (True, Some e), u)"
    using assms by (auto simp: actor_eval_def prod_eq_iff split: outcome.splits)
  then obtain i m where m: "policy_evaluate (try_bool dp_lits) X n (hs_env (pa_http a))
      (case fn of RequestFn \<Rightarrow> ALLOW_REST_REQUEST | ResponseFn \<Rightarrow> ALLOW_REST_RESPONSE) args (ie_new i (pa_label a)) s = (Ok (True, m), u)"
      "encrypt_meta K t m = Some e"
    by (auto simp: eval_http_fn_def Let_def bind_Ok_iff ev_ok_def ev_panic_def split: option.splits)
  then obtain k where k: "m = Some k"
    by (auto simp: encrypt_meta_def bind_eq_Some_conv)
  show ?thesis
    using policy_evaluate_egress [OF m(1) [unfolded k]] m(2) k by (blast dest: try_bool_true)
qed



text \<open>An encoding without semicolons, and a cipher that seals nothing but the metadata of \<open>a\<close>.\<close>

fun esc :: "string \<Rightarrow> string" where
  "esc [] = []"
| "esc (c # s) = (if c = CHR '';'' then ''bb'' else [c, CHR ''a'']) @ esc s"

fun unesc :: "string \<Rightarrow> string" where
  "unesc (x # y # s) = (if y = CHR ''b'' then CHR '';'' else x) # unesc s"
| "unesc _ = []"

lemma esc_inverse: "unesc (esc s) = s" "CHR '';'' \<notin> set (esc s)"
  by (induction s) auto

definition wire_crypto :: crypto where
  "wire_crypto = \<lparr>cr_seal = (\<lambda>_ b. Some b), cr_open = (\<lambda>_ b. Some b), cr_encode = (\<lambda>b. esc (bytes_str b)),
     cr_decode = (\<lambda>s. Some (str_bytes (unesc s))),
     cr_json = (\<lambda>m. if m = meta_new [Str ''a''] then Some ''A'' else None),
     cr_unjson = (\<lambda>_. Some (meta_new [Str ''a'']))\<rparr>"

lemma wire_laws: "base64_laws wire_crypto" "cipher_laws wire_crypto" "header_laws plain_headers"
  "cr_json wire_crypto m = Some j \<Longrightarrow> cr_unjson wire_crypto (str_bytes j) = Some m"
  by (auto simp: base64_laws_def cipher_laws_def header_laws_def wire_crypto_def plain_headers_def esc_inverse
      filter_empty_conv split: if_splits intro!: arg_cong [where f = "map snd"] filter_cong)

text \<open>A policy that names its proxy in the metadata of every request it lets through.\<close>

definition tag_http :: dp_policy where
  "tag_http = (case from_program dp_builtin
       \<lparr>pr_code = [(ALLOW_REST_REQUEST,
          BlockExpr Block [CallExpr ''Egress::set_id'' [] False, LitExpr (FlatLit (BoolL True))])],
        pr_externals = externals_default,
        pr_headers = [(ALLOW_REST_REQUEST, new_sig [] (FlatTyp BoolT))]\<rparr> (http_policy dp_types) of
     Inr p \<Rightarrow> p | Inl _ \<Rightarrow> policy_default)"

definition tagging_actor :: actor where
  "tagging_actor = install_http (\<lambda>_. []) tag_http (actor_started (\<lambda>_. []) 0 (create_policy [Str ''a''] 5))"

definition tag_run ::
    "(flat_literal event list \<Rightarrow> lib) \<Rightarrow> (flat_literal event list \<Rightarrow> flat_literal call \<Rightarrow> flat_literal literal result) \<Rightarrow>
       (string \<times> data) list reply option \<times> ((string \<times> u16 option, (string \<times> data) list) client_request \<times> data) option" where
  "tag_run L R = proxy_request plain_net plain_host plain_headers plain_fresh (PortConfig 8080)
     (get_request [(X_ARMOUR, str_bytes ''forged'')]) [Some [1]]
     (actor_get plain_net tagging_actor)
     (actor_eval wire_crypto (Some 0) (\<lambda>c. plane_env dp_plane c L R) 4 RequestFn tagging_actor \<lparr>mc_meta = ie_default, mc_trace = [], mc_state = ()\<rparr>)
     (\<lambda>q b. Some \<lparr>sr_status = 200, sr_headers = [(X_ARMOUR, [1]), (''a'', [2])], sr_body = Some [7]\<rparr>)
     (actor_eval wire_crypto (Some 0) (\<lambda>c. plane_env dp_plane c L R) 4 ResponseFn tagging_actor \<lparr>mc_meta = ie_default, mc_trace = [], mc_state = ()\<rparr>)"

text \<open>The forged header is not readable, and the policy answers with its own metadata.\<close>

lemma forged: "get_x_armour plain_headers [(X_ARMOUR, str_bytes ''forged'')] = Some ''forged''"
  "decrypt_meta wire_crypto ''forged'' = Some None"
  by (simp_all add: get_x_armour_def plain_headers_def decrypt_meta_def decrypt_def wire_crypto_def)

lemma tag_policy:
  "fst (policy_evaluate (try_bool dp_lits) (\<lambda>c. plane_env dp_plane c L R) 4 (hs_env (pa_http tagging_actor))
     ALLOW_REST_REQUEST [] (ie_new None [Str ''a'']) \<lparr>mc_meta = ie_default, mc_trace = [], mc_state = ()\<rparr>) =
   Ok (True, Some (meta_new [Str ''a'']))"
  "pa_label tagging_actor = [Str ''a'']"
  "ps_request (hs_status (pa_http tagging_actor)) = FnArgs 0"
  "ps_response (hs_status (pa_http tagging_actor)) = FnAllow"
  "ps_timeout (hs_status (pa_http tagging_actor)) = 5"
  by code_simp+

lemma tag_eval:
  "actor_eval wire_crypto (Some 0) (\<lambda>c. plane_env dp_plane c L R) 4 RequestFn tagging_actor
     \<lparr>mc_meta = ie_default, mc_trace = [], mc_state = ()\<rparr> [] (Some ''forged'') =
   Some (Inr (True, encrypt_meta wire_crypto (Some 0) (Some (meta_new [Str ''a'']))))"
proof -
  obtain u where "policy_evaluate (try_bool dp_lits) (\<lambda>c. plane_env dp_plane c L R) 4 (hs_env (pa_http tagging_actor))
      ALLOW_REST_REQUEST [] (ie_new None [Str ''a'']) \<lparr>mc_meta = ie_default, mc_trace = [], mc_state = ()\<rparr> =
      (Ok (True, Some (meta_new [Str ''a''])), u)"
    using tag_policy(1) [of L R] by (metis prod.collapse)
  then show ?thesis
    by (simp add: actor_eval_def eval_http_fn_def forged ev_bind_def ev_ok_def tag_policy)
qed

lemma tag_sealed: "\<exists>x. encrypt_meta wire_crypto (Some 0) (Some (meta_new [Str ''a''])) = Some x"
  by (simp add: encrypt_meta_def encrypt_def wire_crypto_def nonce_def)

lemma actor_get_status: "\<exists>conn. actor_get N a p = Some (hs_status (pa_http a), conn)"
proof -
  have "fst (fst (get_http_policy N p a)) = hs_status (pa_http a)"
    by (simp add: get_http_policy_def Let_def split: prod.split)
  then show ?thesis
    by (metis actor_get_def prod.collapse)
qed

lemma tag_run: "\<exists>q x. tag_run L R = (Some (ServerReply ((plain_fresh 200)\<lparr>wp_headers := [(''a'', [2])]\<rparr>) [7]), Some (q, [1])) \<and>
  get_x_armour plain_headers (cq_headers q) = Some x \<and> hm_get_all plain_headers X_ARMOUR (cq_headers q) = [str_bytes x]"
proof -
  obtain x where x: "encrypt_meta wire_crypto (Some 0) (Some (meta_new [Str ''a''])) = Some x"
    using tag_sealed by blast
  let ?q = "build_request plain_headers (''b'', None) (get_request [(X_ARMOUR, str_bytes ''forged'')]) (Some x) 5"
  have c: "connection_new plain_net plain_host plain_headers (PortConfig 8080) (get_request [(X_ARMOUR, str_bytes ''forged'')]) =
      Some \<lparr>cn_uri = (''b'', None), cn_from = SocketPeer (V4 10 0 0 2, 5000), cn_to = UriPeer (''b'', None), cn_meta = Some ''forged''\<rparr>"
    by (simp add: connection_new_def forward_uri_def config_ingress_def config_port_def plain_net_def get_request_def
        peer_of_socket_def peer_of_uri_def authority_def forged)
  obtain conn where g: "actor_get plain_net tagging_actor (SocketPeer (V4 10 0 0 2, 5000), UriPeer (''b'', None)) =
      Some (hs_status (pa_http tagging_actor), conn)"
    by (metis actor_get_status)
  have "fn_args e b 0 = Some []" for e b
    by (simp add: fn_args_def)
  then have "tag_run L R = (Some (ServerReply ((plain_fresh 200)\<lparr>wp_headers := [(''a'', [2])]\<rparr>) [7]), Some (?q, [1]))"
    unfolding tag_run_def proxy_request_def Let_def c
    by (simp add: g tag_policy tag_eval x proxy_response_def response_builder_def plain_headers_def plain_fresh_def
        kept_header_def X_ARMOUR_def)
  moreover have h: "hm_get_all plain_headers X_ARMOUR (cq_headers ?q) = [str_bytes x]"
    by (simp add: build_request_armour [OF wire_laws(3)]) (simp add: plain_headers_def)
  moreover have "get_x_armour plain_headers (cq_headers ?q) = Some x"
    unfolding get_x_armour_def h by (simp add: plain_headers_def)
  ultimately show ?thesis
    by blast
qed



section \<open>What makes the proxy panic\<close>

lemma bad_nonce: "base64_laws K \<Longrightarrow> length no \<noteq> nonce_size \<Longrightarrow>
    decrypt_meta K (cr_encode K block @ '';'' @ cr_encode K no) = None"
  using decrypt_parts [of K block no] by (simp add: decrypt_meta_def)


lemma sig_args_of: "sig_args (new_sig v t) = Some v"
  by (simp add: new_sig_def)

lemma accepted_arity:
  assumes "protocol_policy_of (b_types B) pr = Some pp" and "from_program B prog pp = Inr p"
    and "(f, sigs) \<in> set pp" and "header_typ B (pr_headers prog) f = Some sig" and "sig_args sig = Some ts"
  shows "length ts \<in> (\<lambda>s. length (the (sig_args s))) ` set sigs \<and> policy_get p f = Some (FnArgs (word_of_nat (length ts)))"
proof
  obtain s where s: "s \<in> set sigs" "sig_check (b_types B) f sig s"
    using assms(2,3,4) fn_policies_of_accepts [of B prog pp "[]"]
    by (fastforce simp: from_program_def bind_res_Inr_iff)
  obtain a where "sig_args s = Some a"
    using permitted_args [OF assms(1,3) s(1)] by blast
  then show "length ts \<in> (\<lambda>s. length (the (sig_args s))) ` set sigs"
    using sig_check_args [OF s(2) assms(5)] s(1) by force
  have "f \<in> set (pp_functions pp)"
    using assms(3) by (force simp: pp_functions_def)
  from entry_policy [OF assms(1,2) this] obtain n where "policy_get p f = Some (FnArgs n)" "unat n = length ts"
    using assms(4,5) by auto
  then show "policy_get p f = Some (FnArgs (word_of_nat (length ts)))"
    by (metis of_nat_unat ucast_id)
qed


text \<open>A policy for TCP that is accepted may check a connection by a function of no, one or three
  arguments and end one by a function of no, one, three or five; in every state the actor reaches
  with such a policy, it panics at a connection unless the first takes one argument, and at the end of
  a connection unless the second takes three.\<close>

theorem accepted_tcp_policy_panics:
  assumes "actor_reach N blake3 a" and "from_program dp_builtin prog (tcp_policy dp_types) = Inr (ts_policy (pa_tcp a))"
    and "header_typ dp_builtin (pr_headers prog) ALLOW_TCP_CONNECTION = Some sig" and "sig_args sig = Some ts"
    and "header_typ dp_builtin (pr_headers prog) ON_TCP_DISCONNECT = Some sig'" and "sig_args sig' = Some ts'"
  shows "length ts \<in> {0, 1, 3} \<and> (get_tcp_policy N X n src dst a = (ev_panic, a) \<longleftrightarrow> length ts \<noteq> 1) \<and>
    length ts' \<in> {0, 1, 3, 5} \<and> (length ts' \<noteq> 3 \<longrightarrow> handle_stats X n msg a = ev_panic)"
proof -
  have pp: "protocol_policy_of (b_types dp_builtin) TCP = Some (tcp_policy dp_types)"
    by (simp add: protocol_policy_of_def dp_builtin_def)
  have f: "in_force a"
    using assms(1) by (rule force.reach_invariant)
  obtain cs where cs: "(ALLOW_TCP_CONNECTION, cs) \<in> set (tcp_policy dp_types)" "(\<lambda>s. length (the (sig_args s))) ` set cs = {0, 1, 3}"
    by (auto simp: tcp_policy_def pp_insert_bool_def pp_insert_unit_def Let_def new_sig_def entry_names eval_nat_numeral insert_commute)
  obtain ds where ds: "(ON_TCP_DISCONNECT, ds) \<in> set (tcp_policy dp_types)" "(\<lambda>s. length (the (sig_args s))) ` set ds = {0, 1, 3, 5}"
    by (auto simp: tcp_policy_def pp_insert_bool_def pp_insert_unit_def Let_def new_sig_def entry_names eval_nat_numeral insert_commute)
  have c: "length ts \<in> {0, 1, 3}" "ts_connect (pa_tcp a) = FnArgs (word_of_nat (length ts))"
    using accepted_arity [OF pp assms(2) cs(1) assms(3,4)] cs(2) f by (simp_all add: in_force_def fn_of_def)
  have d: "length ts' \<in> {0, 1, 3, 5}" "ts_disconnect (pa_tcp a) = FnArgs (word_of_nat (length ts'))"
    using accepted_arity [OF pp assms(2) ds(1) assms(5,6)] ds(2) f by (simp_all add: in_force_def fn_of_def)
  have "snd (get_tcp_policy N X n src dst a) \<noteq> a" if "length ts = 1"
  proof
    assume "snd (get_tcp_policy N X n src dst a) = a"
    then have "pa_connection_number a = pa_connection_number a + 1"
      using c(2) that by (auto simp: get_tcp_policy_def actor_connection_def Let_def split: prod.splits dest!: arg_cong [where f = pa_connection_number])
    then show False
      by simp
  qed
  then have "get_tcp_policy N X n src dst a = (ev_panic, a) \<longleftrightarrow> length ts \<noteq> 1"
    using c by (auto simp: get_tcp_policy_def)
  moreover have "handle_stats X n msg a = ev_panic" if "length ts' \<noteq> 3"
    using d that by (auto simp: handle_stats_def)
  ultimately show ?thesis
    using c(1) d(1) by blast
qed


definition four_prog :: "(flat_typ, flat_literal) program" where
  "four_prog = \<lparr>pr_code = [], pr_externals = externals_default,
     pr_headers = [(ALLOW_REST_REQUEST, new_sig [FlatTyp IDT, FlatTyp IDT, FlatTyp HttpRequestT, FlatTyp DataT] (FlatTyp BoolT))]\<rparr>"


definition tcp_prog :: "(flat_typ, flat_literal) program" where
  "tcp_prog = \<lparr>pr_code = [], pr_externals = externals_default,
     pr_headers = [(ALLOW_TCP_CONNECTION, new_sig [] (FlatTyp BoolT)),
       (ON_TCP_DISCONNECT, new_sig [FlatTyp ConnectionT] (FlatTyp UnitT))]\<rparr>"

theorem accepted_tcp_policy_panics_witness:
  "\<forall>(N :: 'u net) X n src dst. \<exists>a. actor_reach N (\<lambda>_. []) a \<and> get_tcp_policy N X n src dst a = (ev_panic, a)"
proof (intro allI)
  fix N :: "'u net" and X :: "flat_literal code \<Rightarrow> (unit, flat_typ, flat_literal) env" and n :: nat and src dst :: socket_addr
  have "case from_program dp_builtin tcp_prog (tcp_policy dp_types) of Inr p \<Rightarrow> True | Inl _ \<Rightarrow> False"
    by code_simp
  then obtain p where p: "from_program dp_builtin tcp_prog (tcp_policy dp_types) = Inr p"
    by (auto split: sum.splits)
  let ?s = "actor_started (\<lambda>_. []) 0 (create_policy [] 5)"
  let ?a = "install_tcp (\<lambda>_. []) p ?s"
  have "handle_policy_request N (\<lambda>_. []) True (SetPolicy [(TCP, p)]) ?s = Some ?a"
    by (simp add: handle_policy_request_def policies_policy_def)
  then have r: "actor_reach N (\<lambda>_. []) ?a"
    by (blast intro: actor_reach.intros actor_step.intros)
  have "ts_policy (pa_tcp ?a) = p"
    by (simp add: install_tcp_def actor_write_def tcp_set_policy_def)
  then have p': "from_program dp_builtin tcp_prog (tcp_policy dp_types) = Inr (ts_policy (pa_tcp ?a))"
    using p by simp
  have h: "header_typ dp_builtin (pr_headers tcp_prog) ALLOW_TCP_CONNECTION = Some (new_sig [] (FlatTyp BoolT))"
    "header_typ dp_builtin (pr_headers tcp_prog) ON_TCP_DISCONNECT = Some (new_sig [FlatTyp ConnectionT] (FlatTyp UnitT))"
    by code_simp+
  show "\<exists>a. actor_reach N (\<lambda>_. []) a \<and> get_tcp_policy N X n src dst a = (ev_panic, a)"
    using accepted_tcp_policy_panics [OF r p' h(1) sig_args_of h(2) sig_args_of, of X n src dst] r by auto
qed

end
