(* ===== verification/ProxyIdentity.thy ===== *)
theory ProxyIdentity
  imports ProxyProps
begin

text \<open>
  The identities that the policy actor gives to the ends of a connection: the operations on labels
  refine operations on relations between names, addresses and labels, and the identities agree with
  these relations at every moment although they come from caches.
\<close>

section \<open>Stores of labels\<close>

text \<open>What the actor relies on in a map from names or addresses to sets of labels.\<close>

locale label_store =
  fixes add :: "'k \<Rightarrow> 'l \<Rightarrow> 'm \<Rightarrow> 'm"
    and del :: "'k \<Rightarrow> 'l option \<Rightarrow> 'm \<Rightarrow> 'm"
    and rel :: "'m \<Rightarrow> ('k \<times> 'l) set"
    and wf :: "'m \<Rightarrow> bool"
  assumes rel_add: "wf m \<Longrightarrow> rel (add k l m) = insert (k, l) (rel m)"
    and wf_add: "wf m \<Longrightarrow> wf (add k l m)"
    and rel_del: "wf m \<Longrightarrow> rel (del k lo m) = rel m - {(k, l) | l. lo = None \<or> lo = Some l}"
    and wf_del: "wf m \<Longrightarrow> wf (del k lo m)"
begin

lemma add_all: "wf m \<Longrightarrow> wf (foldl (\<lambda>m l. add k l m) m ls) \<and>
    rel (foldl (\<lambda>m l. add k l m) m ls) = rel m \<union> {(k, l) | l. l \<in> set ls}"
  by (induction ls arbitrary: m) (auto simp: rel_add wf_add)

lemma add_table: "wf m \<Longrightarrow> wf (foldl (\<lambda>m (k, ls). foldl (\<lambda>m l. add k l m) m ls) m xs) \<and>
    rel (foldl (\<lambda>m (k, ls). foldl (\<lambda>m l. add k l m) m ls) m xs) = rel m \<union> {(k, l) | k l ls. (k, ls) \<in> set xs \<and> l \<in> set ls}"
proof (induction xs arbitrary: m)
  case (Cons x xs)
  obtain k ls where "x = (k, ls)"
    by (cases x)
  then show ?case
    using Cons.IH [of "foldl (\<lambda>m l. add k l m) m ls"] add_all [OF Cons.prems, of k ls] by auto
qed simp

end

definition label_rel :: "('k \<times> labels) list \<Rightarrow> ('k \<times> label) set" where
  "label_rel m = {(k, l). l \<in> set (labels_at k m)}"

text \<open>No set is empty.\<close>

definition labels_wf :: "('k::linorder \<times> labels) list \<Rightarrow> bool" where
  "labels_wf m \<longleftrightarrow> bt_wf m \<and> (\<forall>k ls. bt_get k m = Some ls \<longrightarrow> ls \<noteq> [] \<and> bs_wf ls)"

lemma labels_at_rel: "l \<in> set (labels_at k m) \<longleftrightarrow> (k, l) \<in> label_rel m"
  by (simp add: label_rel_def)

lemma set_empty_iff: "bs_remove l ls = [] \<longleftrightarrow> set ls \<subseteq> {l}"
  by (auto simp: bs_remove_def filter_empty_conv)

lemma bs_insert_nonempty [simp]: "bs_insert l ls \<noteq> []"
  using set_bs_insert [of l ls] by (metis empty_set insert_not_empty)

interpretation lb: label_store add_to remove_from label_rel "labels_wf :: ('k::linorder \<times> labels) list \<Rightarrow> bool"
proof
  fix m :: "('k \<times> labels) list" and k :: 'k and l :: label and lo :: "label option"
  assume wf: "labels_wf m"
  show "label_rel (add_to k l m) = insert (k, l) (label_rel m)"
    by (auto simp: label_rel_def add_to_def labels_at_def split: option.splits if_splits)
  show "labels_wf (add_to k l m)"
    using wf by (auto simp: labels_wf_def add_to_def bs_wf_def [of "[l]"] split: option.splits if_splits)
  show "label_rel (remove_from k lo m) = label_rel m - {(k, l) | l. lo = None \<or> lo = Some l}"
    using wf by (auto simp: label_rel_def remove_from_def labels_at_def labels_wf_def set_empty_iff split: option.splits if_splits)
  show "labels_wf (remove_from k lo m)"
    using wf by (auto simp: labels_wf_def remove_from_def set_empty_iff split: option.splits if_splits dest!: subset_singletonD)
qed

section \<open>Labels and identities of an actor\<close>

type_synonym label_state = "(string \<times> label) set \<times> (ip_addr \<times> label) set"

definition id_rel :: "identity \<Rightarrow> label_state" where
  "id_rel i = (label_rel (idn_host_labels i), label_rel (idn_ip_labels i))"

definition drop_labels :: "'k \<Rightarrow> label option \<Rightarrow> ('k \<times> label) set \<Rightarrow> ('k \<times> label) set" where
  "drop_labels k lo R = R - {(k, l) | l. lo = None \<or> lo = Some l}"

text \<open>What the operations on labels mean.\<close>

fun spec_op :: "'u net \<Rightarrow> label_op \<Rightarrow> label_state \<Rightarrow> label_state" where
  "spec_op N (AddUri us) (H, I) =
     (H \<union> {(h, l) | h l s ls. (s, ls) \<in> set us \<and> Option.bind (uri_parse N s) (uri_host N) = Some h \<and> l \<in> set ls}, I)"
| "spec_op N (AddIp xs) (H, I) = (H, I \<union> {(ip, l) | ip l ls. (ip, ls) \<in> set xs \<and> l \<in> set ls})"
| "spec_op N (RemoveUri s lo) (H, I) =
     ((case Option.bind (uri_parse N s) (uri_host N) of Some h \<Rightarrow> drop_labels h lo H | None \<Rightarrow> H), I)"
| "spec_op N (RemoveIp ip lo) (H, I) = (H, drop_labels ip lo I)"
| "spec_op N Clear _ = ({}, {})"

text \<open>The cached identities are those a new look-up would make, but for the port of a host's.\<close>

definition coherent :: "'u net \<Rightarrow> identity \<Rightarrow> bool" where
  "coherent N i \<longleftrightarrow>
     labels_wf (idn_host_labels i) \<and> labels_wf (idn_ip_labels i) \<and>
     (\<forall>ip d p. bt_get ip (idn_ip_cache i) = Some d \<longrightarrow> id_set_port p d = addr_id N i (ip, p)) \<and>
     (\<forall>h d. bt_get h (idn_host_cache i) = Some d \<longrightarrow> (\<exists>u. uri_host N u = Some h \<and> d = host_id N i u h))"

lemma fresh_ids:
  "idn_host_labels i = idn_host_labels j \<Longrightarrow> idn_ip_labels i = idn_ip_labels j \<Longrightarrow>
     addr_id N i = addr_id N j \<and> host_id N i = host_id N j"
  by (simp add: addr_id_def host_id_def fun_eq_iff cong: option.case_cong)

lemma coherent_cleared:
  "coherent N (clear_caches i) \<longleftrightarrow> labels_wf (idn_host_labels i) \<and> labels_wf (idn_ip_labels i)"
  by (simp add: coherent_def clear_caches_def)

lemma coherent_peer_id:
  assumes "coherent N i" and "peer_id N p i = (d, j)"
  shows "coherent N j \<and> id_rel j = id_rel i"
proof -
  have port: "id_set_port q (addr_id N i (ip, q')) = addr_id N i (ip, q)" for ip q q'
    by (simp add: addr_id_def id_set_port_def id_new_def Let_def)
  consider (same) "j = i"
    | (host) u h where "uri_host N u = Some h" "j = i\<lparr>idn_host_cache := bt_insert h (host_id N i u h) (idn_host_cache i)\<rparr>"
    | (addr) ip q where "j = i\<lparr>idn_ip_cache := bt_insert ip (addr_id N i (ip, q)) (idn_ip_cache i)\<rparr>"
    using assms(2) by (auto simp: peer_id_def Let_def split: peer.splits option.splits)
  then show ?thesis
  proof cases
    case host
    have f: "addr_id N j = addr_id N i" "host_id N j = host_id N i"
      using fresh_ids [of j i N] host(2) by simp_all
    have "coherent N j"
      using assms(1) host unfolding coherent_def f by auto
    then show ?thesis
      using host(2) by (simp add: id_rel_def)
  next
    case addr
    have f: "addr_id N j = addr_id N i" "host_id N j = host_id N i"
      using fresh_ids [of j i N] addr by simp_all
    have "coherent N j"
      using assms(1) addr port unfolding coherent_def f by auto
    then show ?thesis
      using addr by (simp add: id_rel_def)
  qed (use assms(1) in simp)
qed

lemma add_uri_rel:
  assumes "coherent N i"
  shows "coherent N (add_uri N u l i) \<and>
    id_rel (add_uri N u l i) = (case uri_host N u of Some h \<Rightarrow> insert (h, l) (fst (id_rel i)) | None \<Rightarrow> fst (id_rel i), snd (id_rel i))"
proof (cases "uri_host N u")
  case (Some h)
  have "labels_wf (idn_host_labels i)" "labels_wf (idn_ip_labels i)"
    using assms by (simp_all add: coherent_def)
  then show ?thesis
    using lb.rel_add [of "idn_host_labels i"] lb.wf_add [of "idn_host_labels i"]
    by (simp add: Some add_uri_def coherent_cleared) (simp add: id_rel_def clear_caches_def)
qed (simp add: add_uri_def assms id_rel_def)

lemma add_uri_all:
  assumes "coherent N i"
  shows "coherent N (foldl (\<lambda>i l. add_uri N u l i) i ls) \<and>
    id_rel (foldl (\<lambda>i l. add_uri N u l i) i ls) =
      (fst (id_rel i) \<union> {(h, l) | h l. uri_host N u = Some h \<and> l \<in> set ls}, snd (id_rel i))"
  using assms
proof (induction ls arbitrary: i)
  case (Cons l ls)
  then show ?case
    using add_uri_rel [OF Cons.prems, of u l] by (auto split: option.splits)
qed (simp add: id_rel_def)

lemma add_uris_rel:
  "coherent N (pa_identity a) \<Longrightarrow> coherent N (pa_identity (add_uris N us a)) \<and>
     id_rel (pa_identity (add_uris N us a)) = spec_op N (AddUri us) (id_rel (pa_identity a))"
proof (induction N us a rule: add_uris.induct)
  case (1 N a)
  then show ?case
    by (simp add: id_rel_def)
next
  case (2 N s ls rest a)
  let ?b = "(case uri_parse N s of
      Some u \<Rightarrow> a\<lparr>pa_identity := foldl (\<lambda>i l. add_uri N u l i) (pa_identity a) ls\<rparr>
    | None \<Rightarrow> actor_write RequestFailed a)"
  have "coherent N (pa_identity ?b) \<and> id_rel (pa_identity ?b) =
      (fst (id_rel (pa_identity a)) \<union> {(h, l) | h l. Option.bind (uri_parse N s) (uri_host N) = Some h \<and> l \<in> set ls},
       snd (id_rel (pa_identity a)))"
    using add_uri_all [OF "2.prems"] "2.prems" by (simp add: actor_write_def split: option.split)
  then show ?case
    using "2.IH" by (cases "id_rel (pa_identity a)") auto
qed

lemma one_ip:
  "idn_host_labels (add_ip ip l i) = idn_host_labels i \<and> idn_ip_labels (add_ip ip l i) = add_to ip l (idn_ip_labels i) \<and>
   (coherent N i \<longrightarrow> coherent N (add_ip ip l i))"
proof (intro conjI impI)
  assume "coherent N i"
  then show "coherent N (add_ip ip l i)"
    using lb.wf_add [of "idn_ip_labels i"] by (simp add: add_ip_def coherent_cleared) (simp add: coherent_def)
qed (simp_all add: add_ip_def clear_caches_def)

lemma add_ip_rel:
  assumes "coherent N i"
  shows "coherent N (foldl (\<lambda>i (ip, ls). foldl (\<lambda>i l. add_ip ip l i) i ls) i xs) \<and>
    id_rel (foldl (\<lambda>i (ip, ls). foldl (\<lambda>i l. add_ip ip l i) i ls) i xs) = spec_op N (AddIp xs) (id_rel i)"
proof -
  have one: "idn_host_labels (foldl (\<lambda>i l. add_ip ip l i) i ls) = idn_host_labels i \<and>
      idn_ip_labels (foldl (\<lambda>i l. add_ip ip l i) i ls) = foldl (\<lambda>m l. add_to ip l m) (idn_ip_labels i) ls \<and>
      (coherent N i \<longrightarrow> coherent N (foldl (\<lambda>i l. add_ip ip l i) i ls))" for i ip ls
  proof (induction ls arbitrary: i)
    case (Cons l ls)
    then show ?case
      using one_ip [of ip l i N] by simp
  qed simp
  have all: "idn_host_labels (foldl (\<lambda>i (ip, ls). foldl (\<lambda>i l. add_ip ip l i) i ls) i xs) = idn_host_labels i \<and>
      idn_ip_labels (foldl (\<lambda>i (ip, ls). foldl (\<lambda>i l. add_ip ip l i) i ls) i xs) =
        foldl (\<lambda>m (ip, ls). foldl (\<lambda>m l. add_to ip l m) m ls) (idn_ip_labels i) xs \<and>
      (coherent N i \<longrightarrow> coherent N (foldl (\<lambda>i (ip, ls). foldl (\<lambda>i l. add_ip ip l i) i ls) i xs))" for i
  proof (induction xs arbitrary: i)
    case (Cons x xs)
    obtain ip ls where "x = (ip, ls)"
      by (cases x)
    then show ?case
      using Cons.IH [of "foldl (\<lambda>i l. add_ip ip l i) i ls"] one [of ip i ls] by simp
  qed simp
  have "labels_wf (idn_ip_labels i)"
    using assms by (simp add: coherent_def)
  then have "label_rel (foldl (\<lambda>m (ip, ls). foldl (\<lambda>m l. add_to ip l m) m ls) (idn_ip_labels i) xs) =
      label_rel (idn_ip_labels i) \<union> {(ip, l) | ip l ls. (ip, ls) \<in> set xs \<and> l \<in> set ls}"
    using lb.add_table by blast
  then show ?thesis
    using all [of i] assms by (simp only: id_rel_def spec_op.simps)
qed

lemma label_op_rel:
  assumes "coherent N (pa_identity a)"
  shows "coherent N (pa_identity (handle_label_op N op a)) \<and>
    id_rel (pa_identity (handle_label_op N op a)) = spec_op N op (id_rel (pa_identity a))"
proof -
  have w: "labels_wf (idn_host_labels (pa_identity a))" "labels_wf (idn_ip_labels (pa_identity a))"
    using assms by (simp_all add: coherent_def)
  show ?thesis
  proof (cases op)
    case (AddIp xs)
    then show ?thesis
      using add_ip_rel [OF assms] by (simp add: handle_label_op_def)
  next
    case (AddUri us)
    then show ?thesis
      using add_uris_rel [OF assms] by (simp add: handle_label_op_def)
  next
    case (RemoveIp ip lo)
    then show ?thesis
      using w lb.rel_del [OF w(2), of ip lo] lb.wf_del [OF w(2), of ip lo]
      by (simp add: handle_label_op_def remove_ip_def coherent_cleared) (simp add: id_rel_def clear_caches_def drop_labels_def)
  next
    case (RemoveUri s lo)
    show ?thesis
    proof (cases "Option.bind (uri_parse N s) (uri_host N)")
      case None
      then show ?thesis
        using RemoveUri assms
        by (cases "uri_parse N s") (simp_all add: handle_label_op_def remove_uri_def actor_write_def id_rel_def)
    next
      case (Some h)
      then obtain u where "uri_parse N s = Some u" "uri_host N u = Some h"
        by (auto simp: bind_eq_Some_conv)
      then show ?thesis
        using w RemoveUri lb.rel_del [OF w(1), of h lo] lb.wf_del [OF w(1), of h lo]
        by (simp add: handle_label_op_def remove_uri_def coherent_cleared) (simp add: id_rel_def clear_caches_def drop_labels_def)
    qed
  next
    case Clear
    then show ?thesis
      by (simp add: handle_label_op_def clear_labels_def coherent_cleared)
        (simp add: id_rel_def clear_caches_def label_rel_def labels_at_def labels_wf_def)
  qed
qed

lemma connection_rel:
  assumes "coherent N (pa_identity a)" and "actor_connection N p q a = (c, b)"
  shows "coherent N (pa_identity b) \<and> id_rel (pa_identity b) = id_rel (pa_identity a)"
proof -
  obtain f i t j where ids: "peer_id N p (pa_identity a) = (f, i)" "peer_id N q i = (t, j)" "pa_identity b = j"
    using assms(2) by (auto simp: actor_connection_def Let_def split: prod.splits)
  show ?thesis
    using coherent_peer_id [OF assms(1) ids(1)] coherent_peer_id [OF _ ids(2)] ids(3) by simp
qed

lemma request_identity:
  "handle_policy_request N blake3 up msg a = Some b \<Longrightarrow>
     pa_identity b = (case msg of LabelReq op \<Rightarrow> pa_identity (handle_label_op N op a) | _ \<Rightarrow> pa_identity a)"
  by (auto simp: request_cases split: policy_request.splits protocol.splits if_splits option.splits)

lemma coherent_started: "coherent N (pa_identity (actor_started blake3 pid (create_policy l timeout)))"
  by (simp add: actor_started_def create_policy_def actor_write_def identity_default_def coherent_def labels_wf_def)

interpretation ids: actor_invariant N blake3 "\<lambda>a. coherent N (pa_identity a)" for N :: "'u net" and blake3
proof
  show "coherent N (pa_identity (actor_started blake3 pid (create_policy l timeout)))" for pid l timeout
    by (rule coherent_started)
  show "coherent N (pa_identity b)" if "coherent N (pa_identity a)" "handle_policy_request N blake3 up msg a = Some b" for a b :: actor and up msg
    using that(1) request_identity [OF that(2)] label_op_rel by (auto split: policy_request.splits)
  show "coherent N (pa_identity b)" if "coherent N (pa_identity a)" "actor_connection N p q a = (c, b)" for a b :: actor and c p q
    using connection_rel that by blast
qed simp

text \<open>C22: in every state it reaches, the actor's tables of labels stand for a relation between names, addresses and
  labels; a request of the host changes it as the operation on labels says, if it is one, and not at
  all otherwise; and no look-up for a connection changes it.\<close>

theorem label_operations_refine:
  assumes "actor_reach N blake3 a"
  shows "id_rel (pa_identity (actor_started blake3 pid (create_policy l timeout))) = ({}, {}) \<and>
    (case handle_policy_request N blake3 up msg a of
       Some b \<Rightarrow> id_rel (pa_identity b) =
         (case msg of LabelReq op \<Rightarrow> spec_op N op (id_rel (pa_identity a)) | _ \<Rightarrow> id_rel (pa_identity a))
     | None \<Rightarrow> msg = StopReq PhantomProtocol) \<and>
    id_rel (pa_identity (snd (get_http_policy N from_to a))) = id_rel (pa_identity a) \<and>
    id_rel (pa_identity (snd (get_tcp_policy N X n src dst a))) = id_rel (pa_identity a)"
proof (intro conjI)
  have c: "coherent N (pa_identity a)"
    using assms by (rule ids.reach_invariant)
  show "id_rel (pa_identity (actor_started blake3 pid (create_policy l timeout))) = ({}, {})"
    by (simp add: actor_started_def create_policy_def actor_write_def identity_default_def id_rel_def label_rel_def labels_at_def)
  show "case handle_policy_request N blake3 up msg a of
       Some b \<Rightarrow> id_rel (pa_identity b) =
         (case msg of LabelReq op \<Rightarrow> spec_op N op (id_rel (pa_identity a)) | _ \<Rightarrow> id_rel (pa_identity a))
     | None \<Rightarrow> msg = StopReq PhantomProtocol"
  proof (cases "handle_policy_request N blake3 up msg a")
    case None
    then show ?thesis
      by (simp add: handle_policy_request_def Let_def split: policy_request.splits protocol.splits)
  next
    case (Some b)
    then show ?thesis
      using request_identity [OF Some] label_op_rel [OF c] by (auto split: policy_request.split)
  qed
  show "id_rel (pa_identity (snd (get_http_policy N from_to a))) = id_rel (pa_identity a)"
    using connection_rel [OF c] by (simp add: get_http_policy_def Let_def split: prod.split)
  show "id_rel (pa_identity (snd (get_tcp_policy N X n src dst a))) = id_rel (pa_identity a)"
    using connection_rel [OF c] by (simp add: get_tcp_policy_def Let_def split: fn_policy.split prod.split)
qed

theorem label_operations_refine_witness:
  "\<exists>a b. actor_reach plain_net (\<lambda>_. []) a \<and>
     handle_policy_request plain_net (\<lambda>_. []) True (LabelReq (AddUri [(''b'', [[Str ''x'']])])) a = Some b \<and>
     id_rel (pa_identity b) = ({(''b'', [Str ''x''])}, {})"
proof -
  let ?a = "actor_started (\<lambda>_. []) 0 (create_policy [] 5)"
  have r: "actor_reach plain_net (\<lambda>_. []) ?a"
    by (rule actor_reach.start)
  obtain b where b: "handle_policy_request plain_net (\<lambda>_. []) True (LabelReq (AddUri [(''b'', [[Str ''x'']])])) ?a = Some b"
    by (simp add: handle_policy_request_def)
  note refines = label_operations_refine [OF r, where pid = 0 and l = "[]" and timeout = 5 and up = True and
      msg = "LabelReq (AddUri [(''b'', [[Str ''x'']])])"]
  have "id_rel (pa_identity b) = ({(''b'', [Str ''x''])}, {})"
    using conjunct1 [OF refines] conjunct1 [OF conjunct2 [OF refines], unfolded b]
    by (simp, simp add: plain_net_def)
  then show ?thesis
    using r b by blast
qed

lemma set_bs_extend [simp]: "set (bs_extend s xs) = set s \<union> set xs"
  unfolding bs_extend_def by (induction xs arbitrary: s) auto

lemma addr_id_labels: "l \<in> set (id_labels (addr_id N i (ip, q))) \<longleftrightarrow>
    is_ipv4 ip \<and> (ip, l) \<in> snd (id_rel i) \<or> (\<exists>h. dns_addr N ip = Some h \<and> (h, l) \<in> fst (id_rel i))"
  by (cases "dns_addr N ip") (auto simp: addr_id_def id_new_def Let_def id_rel_def labels_at_rel)

lemma host_id_labels: "l \<in> set (id_labels (host_id N i u h)) \<longleftrightarrow>
    (h, l) \<in> fst (id_rel i) \<or>
    (\<exists>ips ip. dns_host N h = Some ips \<and> ip \<in> set ips \<and> is_ipv4 ip \<and> (ip, l) \<in> snd (id_rel i))"
proof -
  have "set (foldl (\<lambda>s ip. bs_extend s (labels_at ip m)) s ips) = set s \<union> (\<Union>ip \<in> set ips. set (labels_at ip m))"
    for s ips and m :: "(ip_addr \<times> labels) list"
    by (induction ips arbitrary: s) auto
  then show ?thesis
    by (cases "dns_host N h") (auto simp: host_id_def id_new_def Let_def id_rel_def labels_at_rel)
qed



text \<open>The cache of hosts does not see the port: two URIs of one host have the same identity, with the port of
  the one that came first.\<close>

theorem host_cache_forgets_port:
  assumes "uri_host N u = Some h" and "uri_host N v = Some h" and "bt_get h (idn_host_cache i) = None"
  shows "fst (peer_id N (UriPeer v) (snd (peer_id N (UriPeer u) i))) = fst (peer_id N (UriPeer u) i) \<and>
    id_port (fst (peer_id N (UriPeer v) (snd (peer_id N (UriPeer u) i)))) = get_port N u"
  using assms by (simp add: peer_id_def Let_def host_id_def id_new_def)

theorem host_cache_forgets_port_witness:
  "id_port (fst (peer_id plain_net (UriPeer (''b'', Some 90)) (snd (peer_id plain_net (UriPeer (''b'', Some 80)) identity_default)))) = Some 80"
  using host_cache_forgets_port [THEN conjunct2, of plain_net "(''b'', Some 80)" "''b''" "(''b'', Some 90)" identity_default]
  by (simp add: plain_net_def identity_default_def get_port_def)

end
