(* ===== verification/ControlApi.thy ===== *)
theory ControlApi
  imports Specialize ProxyPolicy
begin

text \<open>
  The requests of the control plane (\<open>armour-api/src/control.rs\<close>) and the documents they are stored as: what
  serde makes of the types, for BSON and JSON alike.
\<close>

section \<open>Documents\<close>

datatype bson = BsonNull | BsonNum int | BsonStr string | BsonArr "bson list" | BsonDoc "(string \<times> bson) list"

type_synonym document = "(string \<times> bson) list"

text \<open>
  The crates behind the documents: bincode of a policy (gzip and base64 included), the text of an IP
  address, a port as a number, and the parts of a URL, which is represented by its text.
\<close>

record codec =
  cd_dp :: "dp_policy \<Rightarrow> string option"
  cd_of_dp :: "string \<Rightarrow> dp_policy option"
  cd_cp :: "cp_policy \<Rightarrow> string option"
  cd_of_cp :: "string \<Rightarrow> cp_policy option"
  cd_ip :: "ip_addr \<Rightarrow> string"
  cd_of_ip :: "string \<Rightarrow> ip_addr option"
  cd_port :: "u16 \<Rightarrow> bson"
  cd_of_port :: "bson \<Rightarrow> u16 option"
  cd_url :: "string \<Rightarrow> string option"
  cd_url_host :: "string \<Rightarrow> string option"
  cd_url_port :: "string \<Rightarrow> u16 option"

definition field :: "string \<Rightarrow> document \<Rightarrow> bson option" where
  "field k d = map_of d k"

section \<open>Writing\<close>

definition ser_label :: "label \<Rightarrow> bson" where
  "ser_label l = BsonStr (show_label l)"

definition ser_labels :: "labels \<Rightarrow> bson" where
  "ser_labels ls = BsonArr (map ser_label ls)"

definition ser_port :: "codec \<Rightarrow> u16 option \<Rightarrow> bson" where
  "ser_port C p = (case p of Some n \<Rightarrow> cd_port C n | None \<Rightarrow> BsonNull)"

definition ser_id :: "codec \<Rightarrow> ID \<Rightarrow> bson" where
  "ser_id C i =
     BsonDoc [(''hosts'', BsonArr (map BsonStr (id_hosts i))), (''ips'', BsonArr (map (BsonStr \<circ> cd_ip C) (id_ips i))),
       (''port'', ser_port C (id_port i)), (''labels'', ser_labels (id_labels i)), (''phantom'', BsonNull)]"

text \<open>A key has to be a string: \<open>Phantom\<close>, which carries data, is not.\<close>

definition ser_protocol :: "protocol \<Rightarrow> string option" where
  "ser_protocol p = (case p of HTTP \<Rightarrow> Some ''HTTP'' | TCP \<Rightarrow> Some ''TCP'' | PhantomProtocol \<Rightarrow> None)"

definition ser_policies :: "(('f, 'l) policy \<Rightarrow> string option) \<Rightarrow> ('f, 'l) policies \<Rightarrow> bson option" where
  "ser_policies enc ps =
     (case policies_serialize enc ps of
        Inl _ \<Rightarrow> None
      | Inr xs \<Rightarrow> map_option BsonDoc (map_opt (\<lambda>(p, s). map_option (\<lambda>k. (k, BsonStr s)) (ser_protocol p)) xs))"

type_synonym label_map = "(string \<times> labels) list"

definition ser_label_map :: "label_map \<Rightarrow> bson" where
  "ser_label_map m = BsonDoc (map (\<lambda>(k, ls). (k, ser_labels ls)) m)"

definition ser_option :: "('a \<Rightarrow> bson) \<Rightarrow> 'a option \<Rightarrow> bson" where
  "ser_option f x = (case x of Some y \<Rightarrow> f y | None \<Rightarrow> BsonNull)"

section \<open>Reading\<close>

fun deser_str :: "bson \<Rightarrow> string option" where
  "deser_str (BsonStr s) = Some s"
| "deser_str _ = None"

definition deser_label :: "bson \<Rightarrow> label option" where
  "deser_label b = Option.bind (deser_str b) (\<lambda>s. case parse_label s of Inr l \<Rightarrow> Some l | Inl _ \<Rightarrow> None)"

fun deser_set :: "(bson \<Rightarrow> 'a::linorder option) \<Rightarrow> bson \<Rightarrow> 'a list option" where
  "deser_set f (BsonArr bs) = map_option (foldl (\<lambda>s x. bs_insert x s) []) (map_opt f bs)"
| "deser_set f _ = None"

text \<open>An \<open>Option\<close> may be missing or null.\<close>

definition deser_option :: "(bson \<Rightarrow> 'a option) \<Rightarrow> bson option \<Rightarrow> 'a option option" where
  "deser_option f b =
     (case b of None \<Rightarrow> Some None | Some BsonNull \<Rightarrow> Some None | Some x \<Rightarrow> map_option Some (f x))"

definition deser_port :: "codec \<Rightarrow> bson option \<Rightarrow> u16 option option" where
  "deser_port C = deser_option (cd_of_port C)"

text \<open>A field that has to be there.\<close>

definition need :: "string \<Rightarrow> (bson \<Rightarrow> 'a option) \<Rightarrow> document \<Rightarrow> 'a option" where
  "need k f d = Option.bind (field k d) f"

fun deser_doc :: "(document \<Rightarrow> 'a option) \<Rightarrow> bson \<Rightarrow> 'a option" where
  "deser_doc f (BsonDoc d) = f d"
| "deser_doc f _ = None"

definition deser_id :: "codec \<Rightarrow> bson \<Rightarrow> ID option" where
  "deser_id C = deser_doc (\<lambda>d.
     Option.bind (need ''hosts'' (deser_set deser_str) d) (\<lambda>hosts.
     Option.bind (need ''ips'' (deser_set (\<lambda>b. Option.bind (deser_str b) (cd_of_ip C))) d) (\<lambda>ips.
     Option.bind (deser_port C (field ''port'' d)) (\<lambda>port.
     Option.bind (need ''labels'' (deser_set deser_label) d) (\<lambda>labels.
     if field ''phantom'' d = Some BsonNull then Some (id_new hosts ips port labels) else None)))))"

definition deser_protocol :: "string \<Rightarrow> protocol option" where
  "deser_protocol s = (if s = ''HTTP'' then Some HTTP else if s = ''TCP'' then Some TCP else None)"

definition deser_policies :: "(string \<Rightarrow> ('f, 'l) policy option) \<Rightarrow> bson \<Rightarrow> ('f, 'l) policies option" where
  "deser_policies dec = deser_doc (\<lambda>d.
     Option.bind (map_opt (\<lambda>(k, b). Option.bind (deser_protocol k) (\<lambda>p. map_option (Pair p) (deser_str b))) d) (\<lambda>xs.
       case policies_deserialize dec xs of Inr ps \<Rightarrow> Some ps | Inl _ \<Rightarrow> None))"

definition deser_label_map :: "bson \<Rightarrow> label_map option" where
  "deser_label_map = deser_doc (\<lambda>d.
     map_option bt_collect (map_opt (\<lambda>(k, b). map_option (Pair k) (deser_set deser_label b)) d))"

section \<open>Labels of the policies\<close>

definition ONBOARDING_POLICY_KEY :: string where "ONBOARDING_POLICY_KEY = ''onboarding_policy''"
definition GLOBAL_POLICY_KEY :: string where "GLOBAL_POLICY_KEY = ''global_policy''"

text \<open>\<open>from_str(..).unwrap()\<close> of a constant.\<close>

definition label_const :: "string \<Rightarrow> label" where
  "label_const s = (case parse_label s of Inr l \<Rightarrow> l | Inl _ \<Rightarrow> [])"

definition onboarding_policy_label :: label where
  "onboarding_policy_label = label_const ONBOARDING_POLICY_KEY"

definition global_policy_label :: label where
  "global_policy_label = label_const GLOBAL_POLICY_KEY"

section \<open>Requests\<close>

record onboard_host_request =
  oh_host :: string
  oh_label :: label
  oh_credentials :: string

definition ser_onboard_host :: "onboard_host_request \<Rightarrow> document" where
  "ser_onboard_host r =
     [(''host'', BsonStr (oh_host r)), (''label'', ser_label (oh_label r)), (''credentials'', BsonStr (oh_credentials r))]"

definition deser_onboard_host :: "codec \<Rightarrow> document \<Rightarrow> onboard_host_request option" where
  "deser_onboard_host C d =
     Option.bind (need ''host'' (\<lambda>b. Option.bind (deser_str b) (cd_url C)) d) (\<lambda>host.
     Option.bind (need ''label'' deser_label d) (\<lambda>label.
     Option.bind (need ''credentials'' deser_str d) (\<lambda>credentials.
     Some \<lparr>oh_host = host, oh_label = label, oh_credentials = credentials\<rparr>)))"

record onboard_service_request =
  os_service :: label
  os_host :: label
  os_tmp_dpid :: "ID option"
  os_credentials :: string

definition deser_onboard_service :: "codec \<Rightarrow> document \<Rightarrow> onboard_service_request option" where
  "deser_onboard_service C d =
     Option.bind (need ''service'' deser_label d) (\<lambda>service.
     Option.bind (need ''host'' deser_label d) (\<lambda>host.
     Option.bind (deser_option (deser_id C) (field ''tmp_dpid'' d)) (\<lambda>tmp_dpid.
     Option.bind (need ''credentials'' deser_str d) (\<lambda>credentials.
     Some \<lparr>os_service = service, os_host = host, os_tmp_dpid = tmp_dpid, os_credentials = credentials\<rparr>))))"

record specialization_request =
  sr_service :: label
  sr_proxy :: label
  sr_host :: label
  sr_policy :: cp_policies
  sr_cpid :: ID

record onboarded_service =
  po_service :: label
  po_service_id :: ID
  po_host :: label

definition ser_onboarded :: "codec \<Rightarrow> onboarded_service \<Rightarrow> document" where
  "ser_onboarded C r =
     [(''service'', ser_label (po_service r)), (''service_id'', ser_id C (po_service_id r)), (''host'', ser_label (po_host r))]"

definition deser_onboarded :: "codec \<Rightarrow> document \<Rightarrow> onboarded_service option" where
  "deser_onboarded C d =
     Option.bind (need ''service'' deser_label d) (\<lambda>service.
     Option.bind (need ''service_id'' (deser_id C) d) (\<lambda>service_id.
     Option.bind (need ''host'' deser_label d) (\<lambda>host.
     Some \<lparr>po_service = service, po_service_id = service_id, po_host = host\<rparr>)))"

record policy_update_request =
  pu_label :: label
  pu_policy :: dp_policies
  pu_labels :: label_map

definition ser_policy_update :: "codec \<Rightarrow> policy_update_request \<Rightarrow> document option" where
  "ser_policy_update C r =
     map_option (\<lambda>p. [(''label'', ser_label (pu_label r)), (''policy'', p), (''labels'', ser_label_map (pu_labels r))])
       (ser_policies (cd_dp C) (pu_policy r))"

definition deser_policy_update :: "codec \<Rightarrow> document \<Rightarrow> policy_update_request option" where
  "deser_policy_update C d =
     Option.bind (need ''label'' deser_label d) (\<lambda>label.
     Option.bind (need ''policy'' (deser_policies (cd_of_dp C)) d) (\<lambda>policy.
     Option.bind (need ''labels'' deser_label_map d) (\<lambda>labels.
     Some \<lparr>pu_label = label, pu_policy = policy, pu_labels = labels\<rparr>)))"

record cp_policy_update_request =
  cu_label :: label
  cu_policy :: cp_policies
  cu_labels :: label_map
  cu_selector :: "label option"

definition ser_cp_policy_update :: "codec \<Rightarrow> cp_policy_update_request \<Rightarrow> document option" where
  "ser_cp_policy_update C r =
     map_option (\<lambda>p. [(''label'', ser_label (cu_label r)), (''policy'', p), (''labels'', ser_label_map (cu_labels r)),
         (''selector'', ser_option ser_label (cu_selector r))])
       (ser_policies (cd_cp C) (cu_policy r))"

definition deser_cp_policy_update :: "codec \<Rightarrow> document \<Rightarrow> cp_policy_update_request option" where
  "deser_cp_policy_update C d =
     Option.bind (need ''label'' deser_label d) (\<lambda>label.
     Option.bind (need ''policy'' (deser_policies (cd_of_cp C)) d) (\<lambda>policy.
     Option.bind (need ''labels'' deser_label_map d) (\<lambda>labels.
     Option.bind (deser_option deser_label (field ''selector'' d)) (\<lambda>selector.
     Some \<lparr>cu_label = label, cu_policy = policy, cu_labels = labels, cu_selector = selector\<rparr>))))"

record onboarding_update_request =
  ou_label :: label
  ou_policy :: cp_policy
  ou_labels :: label_map

definition pack :: "onboarding_update_request \<Rightarrow> cp_policy_update_request" where
  "pack r = \<lparr>cu_label = ou_label r, cu_policy = bt_insert HTTP (ou_policy r) [], cu_labels = ou_labels r, cu_selector = None\<rparr>"

text \<open>\<open>None\<close> is a panic: the policy has no HTTP part.\<close>

definition unpack :: "cp_policy_update_request \<Rightarrow> onboarding_update_request option" where
  "unpack r =
     map_option (\<lambda>p. \<lparr>ou_label = cu_label r, ou_policy = p, ou_labels = cu_labels r\<rparr>) (policies_policy (cu_policy r) HTTP)"

text \<open>\<open>host::PolicyUpdate\<close>, what the agent of a host is sent.\<close>

definition ser_host_policy_update :: "codec \<Rightarrow> label \<Rightarrow> dp_policies \<Rightarrow> document option" where
  "ser_host_policy_update C l ps =
     map_option (\<lambda>p. [(''label'', ser_label l), (''policy'', p)]) (ser_policies (cd_dp C) ps)"

end
