(* ===== verification/ControlStore.thy ===== *)
theory ControlStore
  imports ControlApi "HOL-Library.Multiset"
begin

text \<open>
  The state of the control plane (\<open>ControlPlaneState\<close>): a MongoDB database of three collections, reached by
  requests that may fail, and the policies posted to the agents of hosts. The database is a parameter;
  what the code relies on is \<open>documented\<close>.
\<close>

section \<open>Requests to the database\<close>

definition HOSTS_COL :: string where "HOSTS_COL = ''hosts''"
definition SERVICES_COL :: string where "SERVICES_COL = ''services''"
definition POLICIES_COL :: string where "POLICIES_COL = ''policies''"

datatype db_op =
    Find string document
  | FindOne string document
  | InsertOne string document
  | DeleteOne string document
  | DeleteMany string document
  | DropCollection string

datatype db_reply = DbError | Docs "document list" | Found "document option" | Count nat

type_synonym collections = "string \<Rightarrow> document list"

text \<open>The number of requests made before stands for the time, so that a failure need not last.\<close>

type_synonym mongo = "nat \<Rightarrow> collections \<Rightarrow> db_op \<Rightarrow> db_reply \<times> collections"

record control_state =
  cs_store :: collections
  cs_ops :: nat
  cs_posts :: "(string \<times> document) list"

text \<open>
  Everything outside the program: the database, the crates behind documents, the graph library, the
  clock and the resolver, and the services behind externals.
\<close>

record control =
  ct_mongo :: mongo
  ct_codec :: codec
  ct_graph :: petgraph
  ct_lib :: "cp_flat_literal event list \<Rightarrow> lib"
  ct_rpc :: "cp_flat_literal event list \<Rightarrow> cp_flat_literal call \<Rightarrow> cp_flat_literal literal result"

type_synonym 'a ctl = "(control_state, 'a) cp_ev"
type_synonym ctl_machine = "(control_state, cp_flat_literal) machine"

definition db :: "control \<Rightarrow> db_op \<Rightarrow> db_reply ctl" where
  "db W op = (\<lambda>s.
     let c = mc_state s
     in case ct_mongo W (cs_ops c) (cs_store c) op of
          (r, st) \<Rightarrow> (Ok r, s\<lparr>mc_state := c\<lparr>cs_store := st, cs_ops := Suc (cs_ops c)\<rparr>\<rparr>))"

text \<open>\<open>.on_err(msg)?\<close> on each kind of reply.\<close>

definition db_find :: "control \<Rightarrow> string \<Rightarrow> string \<Rightarrow> document \<Rightarrow> document list ctl" where
  "db_find W msg col f =
     ev_bind (db W (Find col f)) (\<lambda>r. case r of Docs ds \<Rightarrow> ev_ok ds | _ \<Rightarrow> ev_err (Error msg))"

definition db_find_one :: "control \<Rightarrow> string \<Rightarrow> string \<Rightarrow> document \<Rightarrow> document option ctl" where
  "db_find_one W msg col f =
     ev_bind (db W (FindOne col f)) (\<lambda>r. case r of Found d \<Rightarrow> ev_ok d | _ \<Rightarrow> ev_err (Error msg))"

definition db_change :: "control \<Rightarrow> string \<Rightarrow> db_op \<Rightarrow> nat ctl" where
  "db_change W msg op =
     ev_bind (db W op) (\<lambda>r. case r of Count n \<Rightarrow> ev_ok n | _ \<Rightarrow> ev_err (Error msg))"

text \<open>\<open>if let Ok(Some(doc)) = col.find_one(..)\<close>: a failure counts as nothing found.\<close>

definition db_look :: "control \<Rightarrow> string \<Rightarrow> document \<Rightarrow> document option ctl" where
  "db_look W col f = ev_bind (db W (FindOne col f)) (\<lambda>r. ev_ok (case r of Found d \<Rightarrow> d | _ \<Rightarrow> None))"

text \<open>\<open>to_bson(..)?\<close> and \<open>from_bson(..).on_err(..)?\<close>.\<close>

definition conv :: "'a option \<Rightarrow> 'a ctl" where
  "conv x = (case x of Some y \<Rightarrow> ev_ok y | None \<Rightarrow> ev_err (Error ''Bson conversion error''))"

definition present :: "control \<Rightarrow> string \<Rightarrow> document \<Rightarrow> bool ctl" where
  "present W col f = ev_bind (db_find W ''MongoDB query error'' col f) (\<lambda>ds. ev_ok (ds \<noteq> []))"

section \<open>What the database promises\<close>

text \<open>
  A filter asks for fields, possibly nested; an array satisfies it too when it has the value as an
  element.
\<close>

fun path_get :: "string list \<Rightarrow> bson \<Rightarrow> bson option" where
  "path_get [] b = Some b"
| "path_get (k # ks) (BsonDoc d) = Option.bind (field k d) (path_get ks)"
| "path_get (k # ks) _ = None"

definition value_matches :: "bson \<Rightarrow> bson \<Rightarrow> bool" where
  "value_matches v w \<longleftrightarrow> w = v \<or> (case w of BsonArr bs \<Rightarrow> v \<in> set bs | _ \<Rightarrow> False)"

definition doc_matches :: "document \<Rightarrow> document \<Rightarrow> bool" where
  "doc_matches f d \<longleftrightarrow>
     (\<forall>(p, v) \<in> set f. case path_get (split_char CHR ''.'' p) (BsonDoc d) of Some w \<Rightarrow> value_matches v w | None \<Rightarrow> False)"

text \<open>
  The order of documents is not fixed; a request that fails may have been carried out, and a deletion
  in part; a document is stored with an identifier. A cursor, once opened, gives every document.
\<close>

fun permitted :: "collections \<Rightarrow> db_op \<Rightarrow> db_reply \<Rightarrow> collections \<Rightarrow> bool" where
  "permitted st (Find c f) r st' \<longleftrightarrow>
     st' = st \<and> (r = DbError \<or> (\<exists>ds. r = Docs ds \<and> mset ds = mset (filter (doc_matches f) (st c))))"
| "permitted st (FindOne c f) r st' \<longleftrightarrow>
     st' = st \<and> (r = DbError \<or> (r = Found None \<and> (\<forall>d \<in> set (st c). \<not> doc_matches f d)) \<or>
       (\<exists>d \<in> set (st c). r = Found (Some d) \<and> doc_matches f d))"
| "permitted st (InsertOne c d) r st' \<longleftrightarrow>
     (r = DbError \<and> st' = st) \<or>
     ((r = DbError \<or> r = Count 1) \<and> (\<exists>oid. st' = st(c := st c @ [(''_id'', oid) # d])))"
| "permitted st (DeleteOne c f) r st' \<longleftrightarrow>
     (st' = st \<and> (r = DbError \<or> (r = Count 0 \<and> (\<forall>d \<in> set (st c). \<not> doc_matches f d)))) \<or>
     ((r = DbError \<or> r = Count 1) \<and>
       (\<exists>xs d ys. st c = xs @ d # ys \<and> doc_matches f d \<and> st' = st(c := xs @ ys)))"
| "permitted st (DeleteMany c f) r st' \<longleftrightarrow>
     (r = DbError \<and> (\<exists>P. st' = st(c := filter (\<lambda>d. doc_matches f d \<longrightarrow> P d) (st c)))) \<or>
     ((\<exists>n. r = Count n) \<and> st' = st(c := filter (\<lambda>d. \<not> doc_matches f d) (st c)))"
| "permitted st (DropCollection c) r st' \<longleftrightarrow>
     (r = DbError \<and> st' = st) \<or> ((r = DbError \<or> (\<exists>n. r = Count n)) \<and> st' = st(c := []))"

definition documented :: "mongo \<Rightarrow> bool" where
  "documented m \<longleftrightarrow> (\<forall>n st op. permitted st op (fst (m n st op)) (snd (m n st op)))"

text \<open>What the crates promise: what is written is read back.\<close>

definition codec_ok :: "codec \<Rightarrow> bool" where
  "codec_ok C \<longleftrightarrow>
     (\<forall>p s. cd_dp C p = Some s \<longrightarrow> cd_of_dp C s = Some p) \<and> (\<forall>p s. cd_cp C p = Some s \<longrightarrow> cd_of_cp C s = Some p) \<and>
     (\<forall>i. cd_of_ip C (cd_ip C i) = Some i) \<and> (\<forall>p. cd_port C p \<noteq> BsonNull \<and> cd_of_port C (cd_port C p) = Some p)"

end
