(* ===== verification/ControlEval.thy ===== *)
theory ControlEval
  imports ControlStore
begin

text \<open>
  The builtin functions that only the control plane has (\<open>armour-control/src/interpret.rs\<close>) and the
  evaluation of the onboarding policy (\<open>armour-control/src/policy.rs\<close>). A call of \<open>compile_ingress\<close> or
  \<open>compile_egress\<close> evaluates the global policy, whose calls come back here: the fuel bounds this nesting.
\<close>

section \<open>The global policy\<close>

definition get_global_pol :: "control \<Rightarrow> cp_policy_update_request ctl" where
  "get_global_pol W =
     ev_bind (db_look W POLICIES_COL [(''label'', ser_label global_policy_label)]) (\<lambda>r.
       case r of
         Some d \<Rightarrow> conv (deser_cp_policy_update (ct_codec W) d)
       | None \<Rightarrow> ev_ok \<lparr>cu_label = global_policy_label, cu_policy = [], cu_labels = [], cu_selector = None\<rparr>)"

type_synonym compiler = "cp_policies \<Rightarrow> string \<Rightarrow> ID \<Rightarrow> dp_policies ctl"

definition helper_compile :: "control \<Rightarrow> compiler \<Rightarrow> string \<Rightarrow> ID \<Rightarrow> cp_flat_literal literal ctl" where
  "helper_compile W compile f i =
     ev_bind (get_global_pol W) (\<lambda>g.
     ev_bind (compile (cu_policy g) f i) (\<lambda>p.
     ev_ok (FlatLit (PolicyL p))))"

section \<open>Onboarding\<close>

definition new_ID :: "onboarding_data \<Rightarrow> label" where
  "new_ID obd = label_prefix (label_concat (obd_host obd) (obd_service obd)) ''ServiceID''"

definition helper_onboarded :: "control \<Rightarrow> onboarding_data \<Rightarrow> cp_flat_literal literal ctl" where
  "helper_onboarded W obd =
     ev_bind (db_look W SERVICES_COL [(''service_id.labels'', ser_label (new_ID obd))]) (\<lambda>r.
       case r of
         Some d \<Rightarrow>
           ev_bind (conv (deser_onboarded (ct_codec W) d)) (\<lambda>x.
             ev_ok (lit_some (lit_id cp_lits (po_service_id x))))
       | None \<Rightarrow> ev_ok lit_none)"

definition helper_onboard :: "control \<Rightarrow> ID \<Rightarrow> cp_flat_literal literal ctl" where
  "helper_onboard W i =
     (case id_find_label (label_const ''Host::**'') i of
        None \<Rightarrow> ev_err (Error ''Extracting host from id labels'')
      | Some host \<Rightarrow>
          (case id_find_label (label_const ''ServiceID::**'') i of
             None \<Rightarrow> ev_err (Error ''Extracting service from id labels'')
           | Some service_id \<Rightarrow>
               (let request = \<lparr>po_service = service_id, po_service_id = i, po_host = host\<rparr>
                in ev_bind (present W SERVICES_COL [(''service_id'', ser_label service_id)]) (\<lambda>there.
                     if there then ev_ok (cp_bool True)
                     else ev_bind (db_change W ''error inserting in MongoDB''
                         (InsertOne SERVICES_COL (ser_onboarded (ct_codec W) request))) (\<lambda>_.
                       ev_ok (cp_bool True))))))"

text \<open>\<open>ControlPlane::newID\<close>.\<close>

definition onboarding_id :: "onboarding_data \<Rightarrow> ID" where
  "onboarding_id obd =
     id_add_label (label_prefix (obd_host obd) ''Host'')
       (id_add_label (label_prefix (obd_service obd) ''Service'')
         (id_add_label (new_ID obd) (default_id\<lparr>id_port := obd_port obd\<rparr>)))"

section \<open>Builtin functions\<close>

definition policy_lit :: "dp_policies \<Rightarrow> cp_flat_literal literal" where
  "policy_lit p = FlatLit (PolicyL p)"

definition primitive_lit :: "string \<Rightarrow> cp_flat_literal literal" where
  "primitive_lit f = FlatLit (PrimitiveL f)"

text \<open>The outer \<open>None\<close> is a panic.\<close>

definition seval_call0 :: "lib \<Rightarrow> string \<Rightarrow> cp_flat_literal literal option option" where
  "seval_call0 lb f =
     (if f = ''allow_egress'' then map_option (Some \<circ> policy_lit) (policies_allow_egress dp_types)
      else if f = ''allow_ingress'' then map_option (Some \<circ> policy_lit) (policies_allow_ingress dp_types)
      else if f = ''Primitive::allow_rest_request'' then Some (Some (primitive_lit ''allow_rest_request''))
      else if f = ''Primitive::allow_rest_response'' then Some (Some (primitive_lit ''allow_rest_response''))
      else if f = ''Primitive::allow_tcp_connection'' then Some (Some (primitive_lit ''allow_tcp_connection''))
      else if f = ''deny_egress'' then map_option (Some \<circ> policy_lit) (policies_deny_egress dp_types)
      else if f = ''deny_ingress'' then map_option (Some \<circ> policy_lit) (policies_deny_ingress dp_types)
      else if f = ''Primitive::on_tcp_disconnect'' then Some (Some (primitive_lit ''on_tcp_disconnect''))
      else Some (lit_call0 cp_plane lb f))"

definition seval_call1 ::
    "control \<Rightarrow> lib \<Rightarrow> string \<Rightarrow> cp_flat_literal literal \<Rightarrow> cp_flat_literal literal option ctl" where
  "seval_call1 W lb f a =
     (case a of
        FlatLit (DPFlatL (IDL i)) \<Rightarrow>
          (if f = ''ControlPlane::onboard'' then ev_bind (helper_onboard W i) (ev_ok \<circ> Some)
           else ev_ok (lit_call1 cp_plane lb f a))
      | FlatLit (OnboardingDataL obd) \<Rightarrow>
          (if f = ''ControlPlane::onboarded'' then ev_bind (helper_onboarded W obd) (ev_ok \<circ> Some)
           else if f = ''ControlPlane::newID'' then ev_ok (Some (lit_id cp_lits (onboarding_id obd)))
           else ev_ok (lit_call1 cp_plane lb f a))
      | _ \<Rightarrow> ev_ok (lit_call1 cp_plane lb f a))"

definition seval_call2 ::
    "control \<Rightarrow> (bool \<Rightarrow> compiler) \<Rightarrow> lib \<Rightarrow> string \<Rightarrow> cp_flat_literal literal \<Rightarrow> cp_flat_literal literal \<Rightarrow>
       cp_flat_literal literal option ctl" where
  "seval_call2 W compile lb f a b =
     (case (a, b) of
        (FlatLit (PrimitiveL p), FlatLit (DPFlatL (IDL i))) \<Rightarrow>
          (if f = ''compile_ingress'' then ev_bind (helper_compile W (compile False) p i) (ev_ok \<circ> Some)
           else if f = ''compile_egress'' then ev_bind (helper_compile W (compile True) p i) (ev_ok \<circ> Some)
           else ev_ok (lit_call2 cp_plane lb f a b))
      | (FlatLit (OnboardingDataL obd), FlatLit (DPFlatL (LabelL l))) \<Rightarrow>
          (if f = ''verify_credentials'' then ev_ok (Some (cp_bool True))
           else ev_ok (lit_call2 cp_plane lb f a b))
      | _ \<Rightarrow> ev_ok (lit_call2 cp_plane lb f a b))"

text \<open>\<open>CPExprWrapper::eval_call\<close>; \<open>compile egress\<close> is one of the two compilations.\<close>

definition eval_control ::
    "control \<Rightarrow> (bool \<Rightarrow> compiler) \<Rightarrow> string \<Rightarrow> cp_expr list \<Rightarrow> cp_expr ctl" where
  "eval_control W compile f args = (\<lambda>s.
     let lb = ct_lib W (mc_trace s)
     in (case args of
           [] \<Rightarrow> ev_bind (ev_opt (seval_call0 lb f)) (\<lambda>r. ev_res (call_result ''eval, call(0): type error'' r))
         | [LitExpr a] \<Rightarrow>
             ev_bind (seval_call1 W lb f a) (\<lambda>r. ev_res (call_result ''eval, call(1): type error'' r))
         | [LitExpr a, LitExpr b] \<Rightarrow>
             ev_bind (seval_call2 W compile lb f a b) (\<lambda>r. ev_res (call_result ''eval, call(2): type error'' r))
         | [LitExpr a, LitExpr b, LitExpr c] \<Rightarrow>
             ev_res (call_result ''eval, call(3): type error'' (lit_call3 cp_plane f a b c))
         | [LitExpr a, LitExpr b, LitExpr c, LitExpr d] \<Rightarrow>
             ev_res (call_result ''eval, call(4): type error'' (lit_call4 cp_plane f a b c d))
         | _ \<Rightarrow> ev_err (ErrorFmt ''eval, call: {}: {:?}'' [f]))
       (s\<lparr>mc_trace := Builtin f # mc_trace s\<rparr>))"

section \<open>The interpreter\<close>

type_synonym ctl_env = "control_state cp_env"

definition env_with :: "control \<Rightarrow> (string \<Rightarrow> cp_expr list \<Rightarrow> cp_expr ctl) \<Rightarrow> cp_flat_literal code \<Rightarrow> ctl_env" where
  "env_with W call code =
     \<lparr>en_plane = cp_plane, en_code = code, en_lib = ct_lib W, en_rpc = ct_rpc W, en_call = call\<rparr>"

fun control_call :: "control \<Rightarrow> nat \<Rightarrow> string \<Rightarrow> cp_expr list \<Rightarrow> cp_expr ctl" where
  "control_call W 0 f args = (\<lambda>s. (NoFuel, s))"
| "control_call W (Suc n) f args =
     eval_control W (\<lambda>egress. compile_egress_ingress (ct_graph W) (env_with W (control_call W n)) n egress) f args"

definition control_env :: "control \<Rightarrow> nat \<Rightarrow> cp_flat_literal code \<Rightarrow> ctl_env" where
  "control_env W n = env_with W (control_call W n)"

section \<open>The onboarding policy\<close>

definition policy_evaluate_onboarding :: "control \<Rightarrow> nat \<Rightarrow> cp_policy \<Rightarrow> cp_expr \<Rightarrow> onboarding_result ctl" where
  "policy_evaluate_onboarding W n pol onboarding_data =
     ev_bind (evaluate (control_env W n (pr_code (pol_program pol))) n (expr_call ONBOARDING_SERVICES [onboarding_data])) (\<lambda>r.
       case r of
         LitExpr (FlatLit (OnboardingResultL x)) \<Rightarrow> ev_ok x
       | LitExpr _ \<Rightarrow> ev_err (Error ''literal has wrong type'')
       | _ \<Rightarrow> ev_err (Error ''did not evaluate to a literal''))"

text \<open>What \<open>from_buf\<close> makes of the text of the default policy.\<close>

definition onboarding_disabled :: string where
  "onboarding_disabled = ''Onboarding disabled by default, update the onboarding policy first.''"

definition default_onboarding_policy :: cp_policy where
  "default_onboarding_policy =
     \<lparr>pol_program =
        \<lparr>pr_code = [(ONBOARDING_SERVICES,
           closures [''od''] (CallExpr ''OnboardingResult::ErrStr'' [LitExpr (lit_str cp_lits onboarding_disabled)] False))],
         pr_externals = externals_default, pr_headers = [(ONBOARDING_SERVICES, onboarding_sig)]\<rparr>,
      pol_fns = []\<rparr>"

end
