(* ===== verification/ControlService.thy ===== *)
theory ControlService
  imports ControlEval
begin

text \<open>
  The REST interface of the control plane (\<open>armour-control/src/rest_api.rs\<close>): one definition per handler,
  run to its end. An error of actix is an \<open>Err\<close>; a reply may still say that something went wrong.
\<close>

datatype control_reply =
    Finish
  | Body string
  | Internal error
  | NotFound string
  | JsonPolicy policy_update_request
  | JsonGlobal cp_policy_update_request
  | JsonOnboarding onboarding_update_request
  | JsonServiceId label
  | JsonSpecialized dp_policies

definition show_pair :: "string \<Rightarrow> string \<Rightarrow> string" where
  "show_pair a b = a @ '' ('' @ b @ '')'' @ [CHR 0x0A]"

definition captured :: "string \<Rightarrow> string \<Rightarrow> label \<Rightarrow> label option" where
  "captured pattern x l = Option.bind (match_with (label_const pattern) l) (\<lambda>m. match_get_label m x)"

section \<open>Hosts\<close>

definition host_list :: "control \<Rightarrow> control_reply ctl" where
  "host_list W =
     ev_bind (db_find W ''error listing hosts'' HOSTS_COL []) (\<lambda>ds.
     ev_bind (ev_map (\<lambda>d. conv (deser_onboard_host (ct_codec W) d)) ds) (\<lambda>hs.
     ev_ok (Body (concat (map (\<lambda>h. show_pair (show_label (oh_label h)) (oh_host h)) hs)))))"

definition host_on_board :: "control \<Rightarrow> onboard_host_request \<Rightarrow> control_reply ctl" where
  "host_on_board W r =
     ev_bind (present W HOSTS_COL [(''label'', ser_label (oh_label r))]) (\<lambda>there.
       if there then ev_ok (Internal (ErrorFmt ''host label \"{}\" already present'' [show_label (oh_label r)]))
       else ev_bind (db_change W ''error inserting in MongoDB'' (InsertOne HOSTS_COL (ser_onboard_host r))) (\<lambda>_.
         ev_ok (Body ''success'')))"

definition host_drop :: "control \<Rightarrow> onboard_host_request \<Rightarrow> control_reply ctl" where
  "host_drop W r =
     ev_bind (db_change W ''error removing host from MongoDB'' (DeleteOne HOSTS_COL (ser_onboard_host r))) (\<lambda>_.
     ev_bind (db_change W ''error removing services from MongoDB''
         (DeleteMany SERVICES_COL [(''label'', ser_label (oh_label r))])) (\<lambda>_.
     ev_ok (Body ''success'')))"

section \<open>Saving a policy\<close>

definition replace_policy :: "control \<Rightarrow> label \<Rightarrow> document option \<Rightarrow> unit ctl" where
  "replace_policy W l doc =
     ev_bind (conv doc) (\<lambda>d.
     ev_bind (db_change W ''error removing old policies'' (DeleteMany POLICIES_COL [(''label'', ser_label l)])) (\<lambda>_.
     ev_bind (db_change W ''error inserting new policy'' (InsertOne POLICIES_COL d)) (\<lambda>_.
     ev_ok ())))"

definition save_policy :: "control \<Rightarrow> policy_update_request \<Rightarrow> control_reply ctl" where
  "save_policy W r =
     ev_bind (replace_policy W (pu_label r) (ser_policy_update (ct_codec W) r)) (\<lambda>_. ev_ok Finish)"

section \<open>Services\<close>

definition service_list :: "control \<Rightarrow> control_reply ctl" where
  "service_list W =
     ev_bind (db_find W ''error listing services'' SERVICES_COL []) (\<lambda>ds.
     ev_bind (ev_map (\<lambda>d. conv (deser_onboard_service (ct_codec W) d)) ds) (\<lambda>ss.
     ev_ok (Body (concat (map (\<lambda>x. show_pair (show_label (os_service x)) (show_label (os_host x))) ss)))))"

definition get_onboarding_policy :: "control \<Rightarrow> cp_policy ctl" where
  "get_onboarding_policy W =
     ev_bind (db_look W POLICIES_COL [(''label'', ser_label onboarding_policy_label)]) (\<lambda>r.
       case r of
         Some d \<Rightarrow>
           ev_bind (conv (deser_cp_policy_update (ct_codec W) d)) (\<lambda>x.
           ev_bind (ev_opt (unpack x)) (\<lambda>u.
           ev_ok (ou_policy u)))
       | None \<Rightarrow> ev_ok default_onboarding_policy)"

definition onboarding_data_of :: "onboard_service_request \<Rightarrow> onboarding_data" where
  "onboarding_data_of r =
     \<lparr>obd_host = os_host r, obd_service = os_service r, obd_credentials = os_credentials r,
      obd_port = Option.bind (os_tmp_dpid r) id_port,
      obd_proposed_labels = (case os_tmp_dpid r of Some x \<Rightarrow> id_labels x | None \<Rightarrow> []),
      obd_ips = (case os_tmp_dpid r of Some x \<Rightarrow> id_ips x | None \<Rightarrow> [])\<rparr>"

text \<open>\<open>match .. .await\<close>: an error becomes a value.\<close>

definition ev_try :: "('s, 'l, 'a) ev \<Rightarrow> ('s, 'l, 'a result) ev" where
  "ev_try m = (\<lambda>s.
     case m s of
       (Ok x, t) \<Rightarrow> (Ok (Inr x), t)
     | (Err e, t) \<Rightarrow> (Ok (Inl e), t)
     | (Panic, t) \<Rightarrow> (Panic, t)
     | (NoFuel, t) \<Rightarrow> (NoFuel, t))"

definition helper_on_board ::
    "control \<Rightarrow> nat \<Rightarrow> onboard_service_request \<Rightarrow> (label \<times> policy_update_request \<times> policy_update_request) result ctl" where
  "helper_on_board W n request =
     ev_bind (get_onboarding_policy W) (\<lambda>pol.
     ev_bind (ev_try (policy_evaluate_onboarding W n pol
         (LitExpr (FlatLit (OnboardingDataL (onboarding_data_of request)))))) (\<lambda>r.
       case r of
         Inr (OnboardOk i ingress egress) \<Rightarrow>
           (case id_find_label (label_const ''ServiceID::**'') i of
              None \<Rightarrow> ev_err (Error ''Extracting service_id from id labels'')
            | Some service_id \<Rightarrow>
                ev_ok (Inr (service_id,
                  \<lparr>pu_label = service_id, pu_policy = ingress, pu_labels = []\<rparr>,
                  \<lparr>pu_label = service_id, pu_policy = egress, pu_labels = []\<rparr>)))
       | Inr (OnboardErr e _ _) \<Rightarrow> ev_ok (Inl (Error e))
       | Inl e \<Rightarrow> ev_ok (Inl e)))"

definition service_on_board :: "control \<Rightarrow> nat \<Rightarrow> onboard_service_request \<Rightarrow> control_reply ctl" where
  "service_on_board W n request =
     ev_bind (helper_on_board W n request) (\<lambda>r.
       case r of
         Inr (service_id, ingress, egress) \<Rightarrow>
           ev_bind (save_policy W
             \<lparr>pu_label = service_id, pu_policy = policies_merge (pu_policy ingress) (pu_policy egress),
              pu_labels = bt_merge (pu_labels ingress) (pu_labels egress)\<rparr>) (\<lambda>_.
           ev_ok (JsonServiceId service_id))
       | Inl e \<Rightarrow> ev_ok (Internal e))"

definition service_drop :: "control \<Rightarrow> onboard_service_request \<Rightarrow> control_reply ctl" where
  "service_drop W request =
     (case os_tmp_dpid request of
        None \<Rightarrow> ev_ok (Internal (Error ''error no global id provided''))
      | Some dpid \<Rightarrow>
          (case id_find_label (label_const ''ServiceID::**'') dpid of
             None \<Rightarrow> ev_ok (Internal (Error ''error no global id provided''))
           | Some service \<Rightarrow>
               ev_bind (db_change W ''error inserting in MongoDB''
                   (DeleteOne SERVICES_COL [(''service'', BsonStr (show_label service))])) (\<lambda>_.
               ev_ok (Body ''success''))))"

section \<open>Pushing a policy to the hosts of a service\<close>

definition services :: "control \<Rightarrow> labels ctl" where
  "services W =
     ev_bind (db_find W ''error finding services'' POLICIES_COL []) (\<lambda>ds.
     ev_bind (ev_map (\<lambda>d. conv (deser_policy_update (ct_codec W) d)) ds) (\<lambda>rs.
     ev_ok (foldl (\<lambda>s r. bs_insert (pu_label r) s) [] rs)))"

definition services_full :: "control \<Rightarrow> onboarded_service list ctl" where
  "services_full W =
     ev_bind (db_find W ''error finding services'' SERVICES_COL []) (\<lambda>ds.
       ev_map (\<lambda>d. conv (deser_onboarded (ct_codec W) d)) ds)"

text \<open>The loop over the documents of a service: each names the label of a host.\<close>

fun hosts_loop :: "control \<Rightarrow> document list \<Rightarrow> string list \<Rightarrow> string list ctl" where
  "hosts_loop W [] hosts = ev_ok hosts"
| "hosts_loop W (d # ds) hosts =
     ev_bind (conv (deser_onboard_service (ct_codec W) d)) (\<lambda>x.
     ev_bind (ev_opt (captured ''Host::<<host>>'' ''host'' (os_host x))) (\<lambda>host.
     ev_bind (db_look W HOSTS_COL [(''label'', ser_label host)]) (\<lambda>r.
       case r of
         Some d' \<Rightarrow>
           ev_bind (conv (deser_onboard_host (ct_codec W) d')) (\<lambda>h. hosts_loop W ds (bs_insert (oh_host h) hosts))
       | None \<Rightarrow> hosts_loop W ds hosts)))"

definition hosts_of :: "control \<Rightarrow> label \<Rightarrow> string list ctl" where
  "hosts_of W l =
     ev_bind (db_find W ''error notifying hosts'' SERVICES_COL [(''service'', ser_label l)]) (\<lambda>ds. hosts_loop W ds [])"

definition post :: "string \<Rightarrow> document \<Rightarrow> unit ctl" where
  "post url d = (\<lambda>s. (Ok (), s\<lparr>mc_state := (mc_state s)\<lparr>cs_posts := cs_posts (mc_state s) @ [(url, d)]\<rparr>\<rparr>))"

text \<open>The answer of the agent is only logged; nothing is sent where the request cannot be written.\<close>

definition push_policy :: "control \<Rightarrow> label \<Rightarrow> dp_policies \<Rightarrow> string \<Rightarrow> unit ctl" where
  "push_policy W local_label policy host =
     (case (cd_url_host (ct_codec W) host, ser_host_policy_update (ct_codec W) local_label policy) of
        (Some name, Some d) \<Rightarrow>
          post (''https://'' @ name @ '':'' @
            show_nat (case cd_url_port (ct_codec W) host of Some p \<Rightarrow> unat p | None \<Rightarrow> 8090) @ ''/policy/update'') d
      | _ \<Rightarrow> ev_ok ())"

definition update_hosts :: "control \<Rightarrow> label \<Rightarrow> label \<Rightarrow> dp_policies \<Rightarrow> unit ctl" where
  "update_hosts W l local_label policy =
     ev_bind (hosts_of W l) (\<lambda>hosts.
     ev_bind (ev_map (push_policy W local_label policy) hosts) (\<lambda>_. ev_ok ()))"

definition get_local_service_label :: "control \<Rightarrow> label \<Rightarrow> label ctl" where
  "get_local_service_label W l =
     ev_bind (db_find_one W ''error finding services'' SERVICES_COL [(''service'', ser_label l)]) (\<lambda>r.
       case r of
         None \<Rightarrow> ev_err (ErrorFmt ''get_local_service_label failed for {}: no related service in DB'' [show_label l])
       | Some d \<Rightarrow>
           ev_bind (conv (deser_onboarded (ct_codec W) d)) (\<lambda>x.
             case id_find_label (label_const ''Service::**'') (po_service_id x) of
               None \<Rightarrow> ev_err (ErrorFmt ''get_local_service_label failed for {}: no local id specified'' [show_label l])
             | Some local_label \<Rightarrow> ev_opt (captured ''Service::<<service>>'' ''service'' local_label)))"

definition helper_update :: "control \<Rightarrow> label \<Rightarrow> policy_update_request \<Rightarrow> control_reply ctl" where
  "helper_update W local_label r =
     ev_bind (replace_policy W (pu_label r) (ser_policy_update (ct_codec W) r)) (\<lambda>_.
     ev_bind (update_hosts W (pu_label r) local_label (pu_policy r)) (\<lambda>_. ev_ok Finish))"

section \<open>Policies\<close>

definition show_kind :: "dp_policies \<Rightarrow> string" where
  "show_kind ps =
     (if policies_is_allow_all ps then ''(allow all)''
      else if policies_is_deny_all ps then ''(deny all)''
      else
        (if policies_is_allow_egress ps then ''(allow egress)'' else []) @
        (if policies_is_allow_ingress ps then ''(allow ingress)'' else []) @
        (if policies_is_deny_ingress ps then ''(deny ingress)'' else []) @
        (if policies_is_deny_ingress ps then ''(deny ingress)'' else []))"

definition policy_list :: "control \<Rightarrow> control_reply ctl" where
  "policy_list W =
     ev_bind (db_find W ''error listing policies'' POLICIES_COL []) (\<lambda>ds.
     ev_bind (ev_map (\<lambda>d. conv (deser_policy_update (ct_codec W) d)) ds) (\<lambda>rs.
     ev_ok (Body (concat (map (\<lambda>r. show_label (pu_label r) @ show_kind (pu_policy r) @ [CHR 0x0A]) rs)))))"

text \<open>The functions of a global policy: those that decide what leaves, and those that decide what enters.\<close>

definition entry_functions :: "(bool \<times> string) list" where
  "entry_functions =
     [(True, ALLOW_REST_REQUEST), (True, ALLOW_TCP_CONNECTION), (False, ALLOW_REST_RESPONSE), (False, ON_TCP_DISCONNECT)]"

definition merge_into :: "dp_policies option \<Rightarrow> dp_policies \<Rightarrow> dp_policies" where
  "merge_into pol p = (case pol of None \<Rightarrow> p | Some q \<Rightarrow> policies_merge q p)"

fun compile_functions ::
    "control \<Rightarrow> nat \<Rightarrow> cp_policies \<Rightarrow> ID \<Rightarrow> (bool \<times> string) list \<Rightarrow> dp_policies option \<Rightarrow> dp_policies option ctl" where
  "compile_functions W n global i [] pol = ev_ok pol"
| "compile_functions W n global i ((egress, f) # fs) pol =
     ev_bind (compile_egress_ingress (ct_graph W) (control_env W n) n egress global f i) (\<lambda>p.
       compile_functions W n global i fs (Some (merge_into pol p)))"

fun update_services :: "control \<Rightarrow> nat \<Rightarrow> cp_policy_update_request \<Rightarrow> onboarded_service list \<Rightarrow> control_reply ctl" where
  "update_services W n request [] = ev_ok Finish"
| "update_services W n request (x # xs) =
     ev_bind (get_local_service_label W (po_service x)) (\<lambda>local_label.
     ev_bind (compile_functions W n (cu_policy request) (po_service_id x) entry_functions None) (\<lambda>pol.
       case pol of
         None \<Rightarrow> ev_ok (Internal (Error ''error updating policy of selected services''))
       | Some p \<Rightarrow>
           ev_bind (helper_update W local_label
               \<lparr>pu_label = po_service x, pu_policy = p, pu_labels = cu_labels request\<rparr>) (\<lambda>_.
           update_services W n request xs)))"

definition update_global :: "control \<Rightarrow> nat \<Rightarrow> cp_policy_update_request \<Rightarrow> control_reply ctl" where
  "update_global W n r =
     (let request = r\<lparr>cu_label := global_policy_label\<rparr>;
          selector = (case cu_selector request of Some l \<Rightarrow> l | None \<Rightarrow> label_const ''ServiceID::**'')
      in ev_bind (replace_policy W (cu_label request) (ser_cp_policy_update (ct_codec W) request)) (\<lambda>_.
         ev_bind (services_full W) (\<lambda>xs.
         update_services W n request (filter (\<lambda>x. id_has_label selector (po_service_id x)) xs))))"

definition update_onboarding :: "control \<Rightarrow> onboarding_update_request \<Rightarrow> control_reply ctl" where
  "update_onboarding W r =
     (let request = (pack r)\<lparr>cu_label := onboarding_policy_label\<rparr>
      in ev_bind (replace_policy W (cu_label request) (ser_cp_policy_update (ct_codec W) request)) (\<lambda>_. ev_ok Finish))"

definition policy_update :: "control \<Rightarrow> policy_update_request \<Rightarrow> control_reply ctl" where
  "policy_update W r =
     ev_bind (get_local_service_label W (pu_label r)) (\<lambda>local_label. helper_update W local_label r)"

definition query :: "control \<Rightarrow> label \<Rightarrow> control_reply ctl" where
  "query W l =
     ev_bind (db_look W POLICIES_COL [(''label'', BsonStr (show_label l))]) (\<lambda>r.
       case r of
         Some d \<Rightarrow> ev_bind (conv (deser_policy_update (ct_codec W) d)) (\<lambda>x. ev_ok (JsonPolicy x))
       | None \<Rightarrow> ev_ok (NotFound (''no policy for '' @ show_label l)))"

definition query_global :: "control \<Rightarrow> label \<Rightarrow> control_reply ctl" where
  "query_global W l =
     ev_bind (db_look W POLICIES_COL [(''label'', BsonStr (show_label l))]) (\<lambda>r.
       case r of
         Some d \<Rightarrow> ev_bind (conv (deser_cp_policy_update (ct_codec W) d)) (\<lambda>x. ev_ok (JsonGlobal x))
       | None \<Rightarrow> ev_ok (NotFound (''no policy for '' @ show_label l)))"

definition query_onboarding :: "control \<Rightarrow> label \<Rightarrow> control_reply ctl" where
  "query_onboarding W l =
     ev_bind (get_onboarding_policy W) (\<lambda>p.
       ev_ok (JsonOnboarding \<lparr>ou_label = onboarding_policy_label, ou_policy = p, ou_labels = []\<rparr>))"

text \<open>The agents of a service without a policy are told to deny everything.\<close>

definition push_deny_all :: "control \<Rightarrow> label \<Rightarrow> unit ctl" where
  "push_deny_all W l =
     ev_bind (get_local_service_label W l) (\<lambda>local_label.
     ev_bind (ev_opt (policies_deny_all dp_types)) (\<lambda>deny.
       update_hosts W l local_label deny))"

definition policy_drop :: "control \<Rightarrow> label \<Rightarrow> control_reply ctl" where
  "policy_drop W l =
     ev_bind (db_change W ''failed to drop policy'' (DeleteOne POLICIES_COL [(''label'', BsonStr (show_label l))])) (\<lambda>n.
     ev_bind (push_deny_all W l) (\<lambda>_.
     ev_ok (Body (''dropped '' @ show_nat n))))"

definition drop_all :: "control \<Rightarrow> control_reply ctl" where
  "drop_all W =
     ev_bind (services W) (\<lambda>ls.
     ev_bind (db W (DropCollection POLICIES_COL)) (\<lambda>r.
     ev_bind (case r of Count _ \<Rightarrow> ev_bind (ev_map (push_deny_all W) ls) (\<lambda>_. ev_ok ()) | _ \<Rightarrow> ev_ok ()) (\<lambda>_.
     ev_ok (Body ''dropped all policies''))))"

definition specialize :: "control \<Rightarrow> nat \<Rightarrow> specialization_request \<Rightarrow> control_reply ctl" where
  "specialize W n r =
     (let global_label = label_prefix (label_concat (sr_host r) (sr_proxy r)) ''ServiceID'';
          global_id = id_add_label global_label (sr_cpid r)
      in ev_bind (compile_functions W n (sr_policy r) global_id entry_functions (Some [])) (\<lambda>pol.
         case pol of
           Some p \<Rightarrow> ev_ok (JsonSpecialized p)
         | None \<Rightarrow> ev_panic))"

section \<open>The service\<close>

datatype control_request =
    ListHosts
  | OnboardHost onboard_host_request
  | DropHost onboard_host_request
  | ListServices
  | OnboardService onboard_service_request
  | DropService onboard_service_request
  | ListPolicies
  | UpdateGlobal cp_policy_update_request
  | UpdateOnboarding onboarding_update_request
  | UpdatePolicy policy_update_request
  | QueryPolicy label
  | QueryGlobal label
  | QueryOnboarding label
  | DropPolicy label
  | DropAllPolicies
  | SpecializePolicy specialization_request

fun control_handle :: "control \<Rightarrow> nat \<Rightarrow> control_request \<Rightarrow> control_reply ctl" where
  "control_handle W n ListHosts = host_list W"
| "control_handle W n (OnboardHost r) = host_on_board W r"
| "control_handle W n (DropHost r) = host_drop W r"
| "control_handle W n ListServices = service_list W"
| "control_handle W n (OnboardService r) = service_on_board W n r"
| "control_handle W n (DropService r) = service_drop W r"
| "control_handle W n ListPolicies = policy_list W"
| "control_handle W n (UpdateGlobal r) = update_global W n r"
| "control_handle W n (UpdateOnboarding r) = update_onboarding W r"
| "control_handle W n (UpdatePolicy r) = policy_update W r"
| "control_handle W n (QueryPolicy l) = query W l"
| "control_handle W n (QueryGlobal l) = query_global W l"
| "control_handle W n (QueryOnboarding l) = query_onboarding W l"
| "control_handle W n (DropPolicy l) = policy_drop W l"
| "control_handle W n DropAllPolicies = drop_all W"
| "control_handle W n (SpecializePolicy r) = specialize W n r"

text \<open>Each request is evaluated with metadata of its own, by whatever happened before.\<close>

definition control_serve :: "control \<Rightarrow> nat \<Rightarrow> control_request \<Rightarrow> ctl_machine \<Rightarrow> control_reply outcome \<times> ctl_machine" where
  "control_serve W n r s = control_handle W n r (s\<lparr>mc_meta := ie_default\<rparr>)"

text \<open>The states of the service that starts with an empty database, whatever is asked of it.\<close>

inductive control_reach :: "control \<Rightarrow> nat \<Rightarrow> ctl_machine \<Rightarrow> bool" for W n where
  start: "control_reach W n \<lparr>mc_meta = ie_default, mc_trace = [], mc_state = \<lparr>cs_store = (\<lambda>_. []), cs_ops = 0, cs_posts = []\<rparr>\<rparr>"
| serve: "control_reach W n s \<Longrightarrow> control_serve W n r s = (out, t) \<Longrightarrow> control_reach W n t"

end
