(* ===== verification/ControlEffects.thy ===== *)
theory ControlEffects
  imports ControlService EvalProps
begin

text \<open>
  What the control plane does to its database. A relation between machines that every single request to
  the database respects is respected by the evaluation of policies, by their compilation and by every
  handler, however they end.
\<close>

section \<open>Relations that a computation respects\<close>

locale respecting =
  fixes R :: "('s, cp_flat_literal) machine \<Rightarrow> ('s, cp_flat_literal) machine \<Rightarrow> bool"
  assumes respects_refl: "R s s"
    and respects_trans: "R s t \<Longrightarrow> R t u \<Longrightarrow> R s u"
begin

definition safe :: "('s, cp_flat_literal, 'a) ev \<Rightarrow> bool" where
  "safe m \<longleftrightarrow> (\<forall>s. R s (snd (m s)))"

lemma safeD: "safe m \<Longrightarrow> m s = (r, t) \<Longrightarrow> R s t"
  by (metis safe_def snd_conv)

lemma safe_basic [simp, intro!]:
  "safe (ev_ok x)" "safe (ev_err e)" "safe ev_panic" "safe (ev_res r)" "safe (ev_opt y)" "safe (\<lambda>s. (NoFuel, s))"
  by (auto simp: safe_def ev_ok_def ev_err_def ev_panic_def ev_res_def ev_opt_def respects_refl
      split: sum.split option.split)

lemma safe_bind [intro!]:
  assumes "safe m" and "\<And>x. safe (f x)"
  shows "safe (ev_bind m f)"
  unfolding safe_def
proof
  fix s
  obtain r t where rt: "m s = (r, t)"
    by fastforce
  have "R s t"
    by (rule safeD [OF assms(1) rt])
  then show "R s (snd (ev_bind m f s))"
    using assms(2) rt by (cases r) (auto simp: ev_bind_def safe_def intro: respects_trans)
qed

lemma safe_map [intro!]: "(\<And>x. safe (f x)) \<Longrightarrow> safe (ev_map f xs)"
  by (induction xs) auto

lemma snd_try [simp]: "snd (ev_try m s) = snd (m s)"
  by (cases "m s"; cases "fst (m s)") (auto simp: ev_try_def)

lemma safe_try [intro!]: "safe m \<Longrightarrow> safe (ev_try m)"
  by (simp add: safe_def)

section \<open>Partial evaluation\<close>

lemma safe_pe_strip [intro!]: "safe m \<Longrightarrow> safe (pe_strip m)"
  by (auto simp: pe_strip_def)

lemma safe_iter_result [intro!]: "safe (iter_result L op lits vals)"
  by (auto simp: iter_result_def split: iter_op.split)

lemma safe_pe_iter [intro!]: "(\<And>e. safe (pe e)) \<Longrightarrow> safe (pe_iter pe vs body ls acc)"
  by (induction ls arbitrary: acc) (auto split: prod.split)

lemma safe_pe_iter_result [intro!]: "safe (pe_iter_result op vs lits body acc_name res acc)"
  by (auto simp: pe_iter_result_def Let_def split: option.split)

lemma safe_pe_matches [intro!]: "(\<And>e. safe (pe e)) \<Longrightarrow> safe (pe_matches X pe ms)"
proof (induction ms)
  case (Cons m ms)
  have "safe (\<lambda>s. case perform_match (en_lits X) (en_lib X (mc_trace s)) p r of
       None \<Rightarrow> ev_panic s
     | Some None \<Rightarrow> ev_err (Error ''peval, if-match-expression: type error'') s
     | Some (Some x) \<Rightarrow> ev_ok x s)" for p r
    by (auto simp: safe_def ev_ok_def ev_err_def ev_panic_def respects_refl split: option.split)
  with Cons show ?case
    by (cases m) (auto split: prod.split)
qed auto

lemma safe_pe_check [intro!]: "safe (pe_check r)"
  by (auto simp: pe_check_def split: expr.split)

lemma safe_pe_opt [intro!]: "(\<And>e. safe (pe e)) \<Longrightarrow> safe (pe_opt pe alt)"
  by (auto simp: pe_opt_def split: option.split)

lemma safe_pe_call [intro!]:
  "(\<And>e. safe (pe e)) \<Longrightarrow> (\<And>g as. safe (en_call X g as)) \<Longrightarrow> safe (pe_call X pe only f arguments async args)"
  by (auto simp: pe_call_def Let_def split: option.split prod.split)

lemma safe_pe_block [intro!]: "(\<And>b e. safe (pe b e)) \<Longrightarrow> safe (pe_block pe only b es)"
  by (auto simp: pe_block_def Let_def split: list.split option.split prod.split expr.split)

lemma safe_pe_let [intro!]: "(\<And>e. safe (pe e)) \<Longrightarrow> safe (pe_let pe vs e1 e2)"
  by (auto simp: pe_let_def split: option.split prod.split expr.split literal.split)

lemma safe_pe_iter_expr [intro!]: "(\<And>e. safe (pe e)) \<Longrightarrow> safe (pe_iter_expr pe op vs e1 e2 acc)"
  by (auto simp: pe_iter_expr_def split: option.split prod.split expr.split literal.split)

lemma safe_pe_if [intro!]: "(\<And>e. safe (pe e)) \<Longrightarrow> safe (pe_if pe c t alt)"
  by (auto simp: pe_if_def split: option.split prod.split expr.split)

lemma safe_pe_some_match [intro!]: "(\<And>e. safe (pe e)) \<Longrightarrow> safe (pe_some_match pe e t alt)"
  by (auto simp: pe_some_match_def split: option.split prod.split expr.split literal.split)

lemma safe_pe_if_match [intro!]: "(\<And>e. safe (pe e)) \<Longrightarrow> safe (pe_if_match X pe vs ms t alt)"
  by (auto simp: pe_if_match_def split: option.split prod.split)

lemma safe_peval:
  assumes "\<And>f args. safe (en_call X f args)"
  shows "safe (peval X n only e)"
proof (induction n arbitrary: only e)
  case (Suc n)
  then show ?case
    using assms by (cases e) (auto split: prod.split expr.split)
qed auto

section \<open>Compilation\<close>

lemma safe_compile_helper [intro!]: "safe (compile_helper pg pol f n_pol)"
  by (auto simp: compile_helper_def Let_def split: sum.split option.split)

lemma safe_compile_policy:
  assumes "\<And>code f args. safe (en_call (X code) f args)"
  shows "safe (compile_policy pg X n egress f to pol)"
  using assms by (auto simp: compile_policy_def Let_def pevaluate_def split: option.split prod.split intro!: safe_peval)

lemma safe_compile:
  assumes "\<And>code f args. safe (en_call (X code) f args)"
  shows "safe (compile_egress_ingress pg X n egress global f to)"
proof -
  have "safe (compile_policies pg X n egress f to ps new)" for ps new
    by (induction ps arbitrary: new) (auto intro!: safe_compile_policy assms)
  then show ?thesis
    by (auto simp: compile_egress_ingress_def)
qed

end

section \<open>Builtin calls give values\<close>

lemma bind_value:
  assumes "fst (ev_bind m f s) = Ok e" and "\<And>x t. fst (f x t) = Ok e \<Longrightarrow> is_value e"
  shows "is_value e"
  using assms by (cases "m s"; cases "fst (m s)") (auto simp: ev_bind_def)

lemma res_value: "fst (ev_res (call_result msg r) s) = Ok e \<Longrightarrow> is_value e"
  by (auto simp: ev_res_def ev_ok_def ev_err_def split: sum.splits dest: call_result_value)

lemma eval_control_value: "fst (eval_control W compile f args s) = Ok e \<Longrightarrow> is_value e"
  by (auto simp: eval_control_def Let_def ev_err_def split: list.splits expr.splits
      elim!: bind_value intro: res_value dest: res_value)

lemma control_call_value: "fst (control_call W n f args s) = Ok e \<Longrightarrow> is_value e"
  by (cases n) (auto dest: eval_control_value)

section \<open>Policies of the control plane\<close>

text \<open>
  What a relation has to allow for the evaluation of policies: whatever leaves the state of the control
  plane alone, reading the database, and recording a service.
\<close>

locale evaluation_effects_ok = respecting R
  for R :: "ctl_machine \<Rightarrow> ctl_machine \<Rightarrow> bool" +
  fixes W :: control
  assumes state_only: "mc_state t = mc_state s \<Longrightarrow> R s t"
    and reads: "safe (db W (Find c f))" "safe (db W (FindOne c f))"
    and records: "safe (db W (InsertOne SERVICES_COL (ser_onboarded (ct_codec W) r)))"
begin

lemma safe_conv [intro!]: "safe (conv x)"
  by (auto simp: conv_def split: option.split)

lemma safe_reads [intro!]:
  "safe (db_find W msg c f)" "safe (db_find_one W msg c f)" "safe (db_look W c f)" "safe (present W c f)"
  by (auto simp: db_find_def db_find_one_def db_look_def present_def reads split: db_reply.split)

lemma safe_change [intro!]: "safe (db W op) \<Longrightarrow> safe (db_change W msg op)"
  by (auto simp: db_change_def split: db_reply.split)

lemma safe_helpers [intro!]:
  "safe (get_global_pol W)" "safe (helper_onboarded W obd)" "safe (helper_onboard W i)"
  "(\<And>p f i. safe (compile p f i)) \<Longrightarrow> safe (helper_compile W compile g i)"
  by (auto simp: get_global_pol_def helper_onboarded_def helper_onboard_def helper_compile_def records
      split: option.split)

lemma safe_seval_call1 [intro!]: "safe (seval_call1 W lb f a)"
  by (auto simp: seval_call1_def split: literal.split cp_flat_literal.split flat_literal.split)

lemma safe_seval_call2 [intro!]: "(\<And>e p f i. safe (compile e p f i)) \<Longrightarrow> safe (seval_call2 W compile lb f a b)"
  by (auto simp: seval_call2_def split: literal.split cp_flat_literal.split flat_literal.split)

lemma safe_after:
  assumes "\<And>s. safe (m s)" and "\<And>s. mc_state (g s) = mc_state s"
  shows "safe (\<lambda>s. m s (g s))"
  unfolding safe_def
proof
  fix s
  have "R s (g s)" and "R (g s) (snd (m s (g s)))"
    using assms by (auto simp: safe_def intro: state_only)
  then show "R s (snd (m s (g s)))"
    by (rule respects_trans)
qed

lemma safe_eval_control:
  assumes "\<And>e p f i. safe (compile e p f i)"
  shows "safe (eval_control W compile f args)"
  unfolding eval_control_def Let_def
  by (rule safe_after) (use assms in \<open>auto split: list.split expr.split\<close>)

lemma safe_control_call: "safe (control_call W n f args)"
proof (induction n arbitrary: f args)
  case (Suc n)
  have "safe (en_call (env_with W (control_call W n) code) g as)" for code g as
    by (simp add: env_with_def Suc)
  then show ?case
    by (simp add: safe_eval_control safe_compile)
qed auto

lemma safe_control_compile [intro!]:
  "safe (compile_egress_ingress (ct_graph W) (control_env W n) m egress global f i)"
  by (rule safe_compile) (simp add: control_env_def env_with_def safe_control_call)

lemma safe_compile_functions [intro!]: "safe (compile_functions W n global i fs pol)"
  by (induction fs arbitrary: pol) auto

lemma control_evaluator: "evaluator (control_env W n code) R (\<lambda>_. True)"
proof
  show "R s s" for s
    by (rule respects_refl)
  show "R s t \<Longrightarrow> R t u \<Longrightarrow> R s u" for s t u
    by (rule respects_trans)
  show "ev_spec R is_value (en_call (control_env W n code) f args)" for f args
    using safe_control_call control_call_value by (auto simp: ev_spec_def safe_def control_env_def env_with_def)
qed (auto simp: ev_spec_def intro: state_only dest: send_meta_value rpc_value)

lemma safe_evaluate [intro!]: "safe (evaluate (control_env W n code) m e)"
  using evaluator.eval_spec [OF control_evaluator, of e n code m]
  unfolding evaluate_def by (intro safe_bind) (auto simp: ev_spec_def safe_def [of "eval _ _ _"])

lemma safe_policy_evaluate [intro!]: "safe (policy_evaluate_onboarding W n pol data)"
  by (auto simp: policy_evaluate_onboarding_def split: expr.split literal.split cp_flat_literal.split)

end

section \<open>The handlers\<close>

text \<open>
  What a relation has to allow for the handlers besides: the changes of the hosts and of the services, the
  replacement and the removal of policies, and telling the hosts.
\<close>

locale service_effects_ok = evaluation_effects_ok R W
  for R :: "ctl_machine \<Rightarrow> ctl_machine \<Rightarrow> bool" and W :: control +
  assumes hosts_change: "safe (db W (InsertOne HOSTS_COL d))" "safe (db W (DeleteOne HOSTS_COL f))"
    and services_removed: "safe (db W (DeleteOne SERVICES_COL f))" "safe (db W (DeleteMany SERVICES_COL f))"
    and replaced: "doc = None \<or> field ''label'' (the doc) = Some (ser_label l) \<Longrightarrow> safe (replace_policy W l doc)"
    and policies_removed: "safe (db W (DeleteOne POLICIES_COL f))" "safe (db W (DropCollection POLICIES_COL))"
    and told: "safe (update_hosts W l local_label p)"
begin

lemma safe_replaced [intro!]:
  "pu_label r = l \<Longrightarrow> safe (replace_policy W l (ser_policy_update (ct_codec W) r))"
  "cu_label u = l \<Longrightarrow> safe (replace_policy W l (ser_cp_policy_update (ct_codec W) u))"
  by (rule replaced; cases "ser_policies (cd_dp (ct_codec W)) (pu_policy r)";
      cases "ser_policies (cd_cp (ct_codec W)) (cu_policy u)";
      simp add: ser_policy_update_def ser_cp_policy_update_def field_def)+

lemma safe_parts [intro!]:
  "safe (get_onboarding_policy W)" "safe (save_policy W r)" "safe (services W)" "safe (services_full W)"
  "safe (get_local_service_label W l)" "safe (push_deny_all W l)" "safe (helper_update W l r)"
  by (auto simp: get_onboarding_policy_def save_policy_def services_def services_full_def
      get_local_service_label_def push_deny_all_def helper_update_def split: option.split intro: told)

lemma safe_helper_on_board [intro!]: "safe (helper_on_board W n request)"
  by (auto simp: helper_on_board_def split: option.split sum.split onboarding_result.split)

lemma safe_update_services [intro!]: "safe (update_services W n request xs)"
  by (induction xs) (auto split: option.split)

lemma safe_handle: "safe (control_handle W n r)"
  by (cases r)
    (auto simp: host_list_def host_on_board_def host_drop_def service_list_def service_on_board_def service_drop_def
      policy_list_def update_global_def update_onboarding_def policy_update_def query_def query_global_def
      query_onboarding_def policy_drop_def drop_all_def specialize_def Let_def hosts_change services_removed
      policies_removed split: option.split sum.split prod.split db_reply.split)

lemma serve_respects: "control_serve W n r s = (out, t) \<Longrightarrow> R s t"
  using safe_handle [of n r] unfolding safe_def control_serve_def
  by (metis machine.select_convs(3) machine.surjective machine.update_convs(1) respects_trans snd_conv state_only)

end

end
