(* ===== verification/ControlMemory.thy ===== *)
theory ControlMemory
  imports ControlService
begin

text \<open>
  A database in memory that never fails, and an encoding of what the control plane stores: they keep the
  promises of \<open>documented\<close> and \<open>codec_ok\<close>, so that the properties can be seen at work.
\<close>

fun remove_first :: "('a \<Rightarrow> bool) \<Rightarrow> 'a list \<Rightarrow> 'a list option" where
  "remove_first P [] = None"
| "remove_first P (x # xs) = (if P x then Some xs else map_option ((#) x) (remove_first P xs))"

lemma remove_first_cases:
  "case remove_first P xs of
     None \<Rightarrow> \<forall>x \<in> set xs. \<not> P x
   | Some ys \<Rightarrow> \<exists>as d bs. xs = as @ d # bs \<and> P d \<and> ys = as @ bs"
proof (induction xs)
  case (Cons x xs)
  show ?case
  proof (cases "P x")
    case True
    then show ?thesis
      by (auto intro: exI [of _ "[]"])
  next
    case False
    have "\<exists>as d bs. x # xs = as @ d # bs \<and> P d \<and> x # ys = as @ bs" if found: "remove_first P xs = Some ys" for ys
    proof -
      obtain as d bs where "xs = as @ d # bs" "P d" "ys = as @ bs"
        using Cons.IH by (simp add: found) blast
      then show ?thesis
        by (intro exI [of _ "x # as"]) auto
    qed
    then show ?thesis
      using False Cons by (cases "remove_first P xs") auto
  qed
qed simp

fun mem_mongo :: mongo where
  "mem_mongo n st (Find c f) = (Docs (filter (doc_matches f) (st c)), st)"
| "mem_mongo n st (FindOne c f) = (Found (find (doc_matches f) (st c)), st)"
| "mem_mongo n st (InsertOne c d) = (Count 1, st(c := st c @ [(''_id'', BsonNum (int n)) # d]))"
| "mem_mongo n st (DeleteOne c f) =
     (case remove_first (doc_matches f) (st c) of
        None \<Rightarrow> (Count 0, st)
      | Some ds \<Rightarrow> (Count 1, st(c := ds)))"
| "mem_mongo n st (DeleteMany c f) =
     (Count (length (filter (doc_matches f) (st c))), st(c := filter (\<lambda>d. \<not> doc_matches f d) (st c)))"
| "mem_mongo n st (DropCollection c) = (Count 0, st(c := []))"

lemma mem_documented: "documented mem_mongo"
proof -
  have "permitted st op (fst (mem_mongo n st op)) (snd (mem_mongo n st op))" for st op n
  proof (cases op)
    case (FindOne c f)
    then show ?thesis
      by (cases "find (doc_matches f) (st c)") (auto simp: find_None_iff find_Some_iff)
  next
    case (DeleteOne c f)
    show ?thesis
      using remove_first_cases [where P = "doc_matches f" and xs = "st c"] DeleteOne by (auto split: option.splits)
  qed auto
  then show ?thesis
    by (simp add: documented_def)
qed

text \<open>A policy is written as its place in a list, an address as its bytes or its number.\<close>

fun position :: "'a \<Rightarrow> 'a list \<Rightarrow> nat option" where
  "position x [] = None"
| "position x (y # ys) = (if x = y then Some 0 else map_option Suc (position x ys))"

lemma position_nth: "position x xs = Some i \<Longrightarrow> i < length xs \<and> xs ! i = x"
  by (induction xs arbitrary: i) (auto split: if_splits)

definition nth_text :: "'a list \<Rightarrow> string \<Rightarrow> 'a option" where
  "nth_text xs s = Option.bind (parse_nat s) (\<lambda>i. if i < length xs then Some (xs ! i) else None)"

fun text_of_ip :: "ip_addr \<Rightarrow> string" where
  "text_of_ip (V4 a b c d) = map (\<lambda>x. char_of (unat x)) [a, b, c, d]"
| "text_of_ip (V6 w) = ''v6-:'' @ show_nat (unat w)"

definition ip_of_text :: "string \<Rightarrow> ip_addr option" where
  "ip_of_text s =
     (case s of
        [a, b, c, d] \<Rightarrow> Some (V4 (word_of_nat (of_char a)) (word_of_nat (of_char b)) (word_of_nat (of_char c)) (word_of_nat (of_char d)))
      | _ \<Rightarrow> map_option (\<lambda>n. V6 (word_of_nat n)) (parse_nat (drop 4 s)))"

lemma text_of_ip_inverse: "ip_of_text (text_of_ip i) = Some i"
proof (cases i)
  case (V4 a b c d)
  have byte: "word_of_nat (unat x mod 256) = x" for x :: u8
  proof -
    have "unat x < 256"
      using unsigned_less [of x] by simp
    then show ?thesis
      by simp
  qed
  show ?thesis
    by (simp add: V4 ip_of_text_def byte)
next
  case (V6 w)
  obtain c cs where "show_nat (unat w) = c # cs"
    using show_nat_digits [of "unat w"] by (cases "show_nat (unat w)") auto
  then show ?thesis
    using parse_show_nat [of "unat w"] by (simp add: V6 ip_of_text_def)
qed

definition mem_codec :: "dp_policy list \<Rightarrow> cp_policy list \<Rightarrow> codec" where
  "mem_codec dps cps =
     \<lparr>cd_dp = (\<lambda>p. map_option show_nat (position p dps)), cd_of_dp = nth_text dps,
      cd_cp = (\<lambda>p. map_option show_nat (position p cps)), cd_of_cp = nth_text cps,
      cd_ip = text_of_ip, cd_of_ip = ip_of_text,
      cd_port = (\<lambda>p. BsonNum (uint p)), cd_of_port = (\<lambda>b. case b of BsonNum n \<Rightarrow> Some (word_of_int n) | _ \<Rightarrow> None),
      cd_url = Some, cd_url_host = Some, cd_url_port = (\<lambda>_. None)\<rparr>"

lemma mem_codec_ok: "codec_ok (mem_codec dps cps)"
  by (auto simp: codec_ok_def mem_codec_def nth_text_def text_of_ip_inverse dest: position_nth)

text \<open>A control plane over it; the other parameters do not matter for what is shown.\<close>

definition mem_control ::
    "dp_policy list \<Rightarrow> cp_policy list \<Rightarrow> petgraph \<Rightarrow> (cp_flat_literal event list \<Rightarrow> lib) \<Rightarrow>
       (cp_flat_literal event list \<Rightarrow> cp_flat_literal call \<Rightarrow> cp_flat_literal literal result) \<Rightarrow> control" where
  "mem_control dps cps pg lib_at rpc =
     \<lparr>ct_mongo = mem_mongo, ct_codec = mem_codec dps cps, ct_graph = pg, ct_lib = lib_at, ct_rpc = rpc\<rparr>"

lemma mem_control_sel [simp]:
  "documented (ct_mongo (mem_control dps cps pg lib_at rpc))" "codec_ok (ct_codec (mem_control dps cps pg lib_at rpc))"
  by (simp_all add: mem_control_def mem_documented mem_codec_ok)

definition control_start :: ctl_machine where
  "control_start = \<lparr>mc_meta = ie_default, mc_trace = [],
     mc_state = \<lparr>cs_store = (\<lambda>_. []), cs_ops = 0, cs_posts = []\<rparr>\<rparr>"

text \<open>An onboarding policy that onboards every service, and lets everything in and out.\<close>

definition onboard_all :: cp_policy where
  "onboard_all = \<lparr>pol_program = \<lparr>pr_code = [(ONBOARDING_SERVICES,
       Closure ''od'' (LetExpr [''id''] (CallExpr ''ControlPlane::newID'' [BVar ''od'' 0] False)
         (Closure ''id'' (BlockExpr Block
           [CallExpr ''ControlPlane::onboard'' [BVar ''id'' 0] False,
            CallExpr ''OnboardingResult::Ok'' [BVar ''id'' 0, CallExpr ''allow_ingress'' [] False,
              CallExpr ''allow_egress'' [] False] False]))))],
     pr_externals = externals_default, pr_headers = [(ONBOARDING_SERVICES, onboarding_sig)]\<rparr>, pol_fns = []\<rparr>"

definition onboard_all_request :: onboarding_update_request where
  "onboard_all_request = \<lparr>ou_label = [], ou_policy = onboard_all, ou_labels = []\<rparr>"

definition stored_onboarding :: "nat \<Rightarrow> document" where
  "stored_onboarding k = [(''_id'', BsonNum (int k)), (''label'', BsonStr ''onboarding_policy''),
     (''policy'', BsonDoc [(''HTTP'', BsonStr ''0'')]), (''labels'', BsonDoc []), (''selector'', BsonNull)]"

lemmas control_defs = control_serve_def update_onboarding_def pack_def replace_policy_def conv_def
  ser_cp_policy_update_def ser_policies_def policies_serialize_def ser_protocol_def ser_label_map_def ser_option_def
  db_change_def db_def ev_bind_def ev_ok_def

lemma show_nat_0: "show_nat 0 = ''0''"
  by code_simp

lemma onboarding_label_text: "show_label onboarding_policy_label = ''onboarding_policy''"
  by code_simp

lemma onboarding_updated:
  "control_serve (mem_control dps [onboard_all] pg lib_at rpc) n (UpdateOnboarding onboard_all_request) control_start =
     (Ok Finish, \<lparr>mc_meta = ie_default, mc_trace = [], mc_state =
       \<lparr>cs_store = (\<lambda>_. [])(POLICIES_COL := [stored_onboarding 1]), cs_ops = 2, cs_posts = []\<rparr>\<rparr>)"
  by (simp add: control_defs control_start_def onboard_all_request_def mem_control_def mem_codec_def
      onboarding_label_text ser_label_def stored_onboarding_def show_nat_0 Let_def)

text \<open>One such control plane, whose codec knows the policies that let everything in and out.\<close>

definition open_policies :: dp_policies where
  "open_policies =
     [(HTTP, \<lparr>pol_program = program_default, pol_fns = [(''allow_rest_request'', FnAllow), (''allow_rest_response'', FnAllow)]\<rparr>),
      (TCP, \<lparr>pol_program = program_default, pol_fns = [(''allow_tcp_connection'', FnAllow)]\<rparr>)]"

definition still_lib :: lib where
  "still_lib = \<lparr>lib_now = 0, lib_lookup_host = (\<lambda>_. None), lib_lookup_addr = (\<lambda>_. None), lib_lower = id, lib_upper = id,
     lib_trim_start = id, lib_trim_end = id, lib_utf8_lossy = map (char_of \<circ> unat), lib_base64 = map (char_of \<circ> unat),
     lib_base64_decode = (\<lambda>_. None), lib_query_pairs = (\<lambda>_. None), lib_is_match = (\<lambda>_ _. False),
     lib_captures = (\<lambda>_ _. None)\<rparr>"

definition memory :: control where
  "memory = mem_control (map snd open_policies) [onboard_all] \<lparr>pg_toposort = (\<lambda>_. None), pg_path = (\<lambda>_ _ _. False)\<rparr>
     (\<lambda>_. still_lib) (\<lambda>_ _. Inl (Error ''no service''))"

definition svc_request :: onboard_service_request where
  "svc_request = \<lparr>os_service = [Str ''svc''], os_host = [Str ''h1''], os_tmp_dpid = None, os_credentials = []\<rparr>"

definition svc_label :: label where
  "svc_label = [Str ''ServiceID'', Str ''h1'', Str ''svc'']"

definition ready :: ctl_machine where
  "ready = \<lparr>mc_meta = ie_default, mc_trace = [], mc_state =
     \<lparr>cs_store = (\<lambda>_. [])(POLICIES_COL := [stored_onboarding 1]), cs_ops = 2, cs_posts = []\<rparr>\<rparr>"

lemma memory_ok [simp]: "documented (ct_mongo memory)" "codec_ok (ct_codec memory)" "ct_mongo memory = mem_mongo"
  by (simp add: memory_def, simp add: memory_def, simp add: memory_def mem_control_def)

lemma ready_reached: "control_reach memory n ready"
proof -
  have "control_reach memory n control_start"
    unfolding control_start_def by (rule control_reach.start)
  then show ?thesis
    by (rule control_reach.serve [where r = "UpdateOnboarding onboard_all_request"])
      (simp only: memory_def onboarding_updated ready_def)
qed

lemma memory_evaluates:
  "case get_onboarding_policy memory ready of
     (Ok pol, u) \<Rightarrow>
       (case fst (policy_evaluate_onboarding memory 6 pol
           (LitExpr (FlatLit (OnboardingDataL (onboarding_data_of svc_request)))) u) of
          Ok (OnboardOk i p q) \<Rightarrow>
            bt_wf p \<and> policies_merge p q = open_policies \<and> id_find_label (label_const ''ServiceID::**'') i = Some svc_label
        | _ \<Rightarrow> False)
   | _ \<Rightarrow> False"
  by code_simp

lemma memory_onboards: "fst (control_serve memory 6 (OnboardService svc_request) ready) = Ok (JsonServiceId svc_label)"
  by code_simp

end
