(* ===== verification/ControlProps.thy ===== *)
theory ControlProps
  imports ControlEffects ControlMemory
begin

text \<open>
  The control plane over a database that behaves as documented: the policies it keeps, what becomes of an
  update, and the onboarding of services.
\<close>

section \<open>Invariants of the database\<close>

lemma db_permitted:
  assumes "documented (ct_mongo W)"
  obtains r st where
    "db W op s = (Ok r, s\<lparr>mc_state := (mc_state s)\<lparr>cs_store := st, cs_ops := Suc (cs_ops (mc_state s))\<rparr>\<rparr>)"
    "permitted (cs_store (mc_state s)) op r st"
proof (rule that)
  let ?m = "ct_mongo W (cs_ops (mc_state s)) (cs_store (mc_state s)) op"
  show "db W op s = (Ok (fst ?m), s\<lparr>mc_state := (mc_state s)\<lparr>cs_store := snd ?m, cs_ops := Suc (cs_ops (mc_state s))\<rparr>\<rparr>)"
    by (simp add: db_def Let_def split: prod.split)
  show "permitted (cs_store (mc_state s)) op (fst ?m) (snd ?m)"
    using assms by (simp add: documented_def)
qed

text \<open>\<open>I\<close> is kept, given that the database does what it promises.\<close>

definition kept :: "control \<Rightarrow> (control_state \<Rightarrow> bool) \<Rightarrow> ctl_machine \<Rightarrow> ctl_machine \<Rightarrow> bool" where
  "kept W I s t \<longleftrightarrow> (documented (ct_mongo W) \<longrightarrow> I (mc_state s) \<longrightarrow> I (mc_state t))"

interpretation kept: respecting "kept W I" for W I
  by unfold_locales (auto simp: kept_def)

lemma kept_db:
  assumes "\<And>c r st k. I c \<Longrightarrow> permitted (cs_store c) op r st \<Longrightarrow> I (c\<lparr>cs_store := st, cs_ops := k\<rparr>)"
  shows "kept.safe W I (db W op)"
  unfolding kept.safe_def
proof
  fix s
  show "kept W I s (snd (db W op s))"
  proof (cases "documented (ct_mongo W)")
    case True
    obtain r st where "db W op s = (Ok r, s\<lparr>mc_state := (mc_state s)\<lparr>cs_store := st, cs_ops := Suc (cs_ops (mc_state s))\<rparr>\<rparr>)"
        "permitted (cs_store (mc_state s)) op r st"
      by (rule db_permitted [OF True])
    then show ?thesis
      using assms by (auto simp: kept_def)
  qed (simp add: kept_def)
qed

text \<open>A read-only request keeps everything that does not count the requests.\<close>

lemma permitted_read: "permitted st (Find c f) r st' \<Longrightarrow> st' = st" "permitted st (FindOne c f) r st' \<Longrightarrow> st' = st"
  by simp_all

text \<open>The other collections are left alone.\<close>

fun op_col :: "db_op \<Rightarrow> string" where
  "op_col (Find c f) = c"
| "op_col (FindOne c f) = c"
| "op_col (InsertOne c d) = c"
| "op_col (DeleteOne c f) = c"
| "op_col (DeleteMany c f) = c"
| "op_col (DropCollection c) = c"

lemma permitted_frame: "permitted st op r st' \<Longrightarrow> c \<noteq> op_col op \<Longrightarrow> st' c = st c"
  by (cases op) auto

text \<open>What is there after a removal was there before.\<close>

lemma permitted_removes:
  "permitted st (DeleteOne c f) r st' \<Longrightarrow> mset (st' c) \<subseteq># mset (st c)"
  "permitted st (DeleteMany c f) r st' \<Longrightarrow> mset (st' c) \<subseteq># mset (st c)"
  "permitted st (DropCollection c) r st' \<Longrightarrow> mset (st' c) \<subseteq># mset (st c)"
  by auto

lemma db_change_cases:
  assumes "documented (ct_mongo W)" and "db_change W msg op s = (out, t)"
  obtains r st where "permitted (cs_store (mc_state s)) op r st"
    "t = s\<lparr>mc_state := (mc_state s)\<lparr>cs_store := st, cs_ops := Suc (cs_ops (mc_state s))\<rparr>\<rparr>"
    "out = (case r of Count n \<Rightarrow> Ok n | _ \<Rightarrow> Err (Error msg))"
proof -
  obtain r st where *: "db W op s = (Ok r, s\<lparr>mc_state := (mc_state s)\<lparr>cs_store := st, cs_ops := Suc (cs_ops (mc_state s))\<rparr>\<rparr>)"
      "permitted (cs_store (mc_state s)) op r st"
    by (rule db_permitted [OF assms(1)])
  show thesis
    by (rule that [OF *(2)])
      (use assms(2) * in \<open>auto simp: db_change_def ev_bind_def ev_ok_def ev_err_def split: db_reply.splits\<close>)
qed

text \<open>The documents of a policy are replaced, or some are lost and none is added.\<close>

definition without_label :: "label \<Rightarrow> document list \<Rightarrow> document list" where
  "without_label l ds = filter (\<lambda>d. \<not> doc_matches [(''label'', ser_label l)] d) ds"

lemma replace_policy_cases:
  assumes "documented (ct_mongo W)" and "replace_policy W l doc s = (out, t)"
  obtains st k where "t = s\<lparr>mc_state := (mc_state s)\<lparr>cs_store := st, cs_ops := k\<rparr>\<rparr>"
    "\<forall>c. c \<noteq> POLICIES_COL \<longrightarrow> st c = cs_store (mc_state s) c"
    "(\<exists>e. out = Err e) \<and> mset (st POLICIES_COL) \<subseteq># mset (cs_store (mc_state s) POLICIES_COL) \<or>
     ((\<exists>e. out = Err e) \<or> out = Ok ()) \<and> (\<exists>d oid. doc = Some d \<and>
       st POLICIES_COL = without_label l (cs_store (mc_state s) POLICIES_COL) @ [(''_id'', oid) # d])"
proof (cases doc)
  case None
  show ?thesis
    by (rule that [where st = "cs_store (mc_state s)" and k = "cs_ops (mc_state s)"])
      (use assms(2) None in \<open>auto simp: replace_policy_def conv_def ev_bind_def ev_err_def\<close>)
next
  case (Some d)
  let ?del = "DeleteMany POLICIES_COL [(''label'', ser_label l)]" and ?c = "mc_state s"
  obtain o1 u where u: "db_change W ''error removing old policies'' ?del s = (o1, u)"
    by fastforce
  obtain r st where del: "permitted (cs_store ?c) ?del r st"
      "u = s\<lparr>mc_state := ?c\<lparr>cs_store := st, cs_ops := Suc (cs_ops ?c)\<rparr>\<rparr>"
      "o1 = (case r of Count n \<Rightarrow> Ok n | _ \<Rightarrow> Err (Error ''error removing old policies''))"
    by (rule db_change_cases [OF assms(1) u])
  show ?thesis
  proof (cases "\<exists>n. r = Count n")
    case False
    show ?thesis
      by (rule that [where st = st and k = "Suc (cs_ops ?c)"])
        (use False assms(2) Some u del permitted_removes(2) [OF del(1)] permitted_frame [OF del(1)]
          in \<open>auto simp: replace_policy_def conv_def ev_bind_def ev_ok_def split: db_reply.splits\<close>)
  next
    case True
    then have gone: "st = (cs_store ?c)(POLICIES_COL := without_label l (cs_store ?c POLICIES_COL))" and n: "o1 = Ok (SOME n. r = Count n)"
      using del(1,3) by (auto simp: without_label_def)
    obtain o2 v where v: "db_change W ''error inserting new policy'' (InsertOne POLICIES_COL d) u = (o2, v)"
      by fastforce
    obtain r' st' where ins: "permitted (cs_store (mc_state u)) (InsertOne POLICIES_COL d) r' st'"
        "v = u\<lparr>mc_state := (mc_state u)\<lparr>cs_store := st', cs_ops := Suc (cs_ops (mc_state u))\<rparr>\<rparr>"
        "o2 = (case r' of Count n \<Rightarrow> Ok n | _ \<Rightarrow> Err (Error ''error inserting new policy''))"
      by (rule db_change_cases [OF assms(1) v])
    have out: "t = v" "out = (case o2 of Ok _ \<Rightarrow> Ok () | Err e \<Rightarrow> Err e | Panic \<Rightarrow> Panic | NoFuel \<Rightarrow> NoFuel)"
      using assms(2) Some u v n by (auto simp: replace_policy_def conv_def ev_bind_def ev_ok_def split: outcome.splits)
    show ?thesis
      by (rule that [where st = st' and k = "Suc (cs_ops (mc_state u))"])
        (use Some out ins del(2) gone permitted_frame [OF ins(1)] in \<open>auto simp: without_label_def split: db_reply.splits\<close>)
  qed
qed

text \<open>At most one policy for each label.\<close>

definition one_policy :: "control_state \<Rightarrow> bool" where
  "one_policy c \<longleftrightarrow> (\<forall>v. length (filter (\<lambda>d. field ''label'' d = Some v) (cs_store c POLICIES_COL)) \<le> 1)"

lemma one_policy_subset:
  assumes "one_policy c" and "mset (st POLICIES_COL) \<subseteq># mset (cs_store c POLICIES_COL)"
  shows "one_policy (c\<lparr>cs_store := st, cs_ops := k\<rparr>)"
proof -
  have "length (filter P (st POLICIES_COL)) \<le> length (filter P (cs_store c POLICIES_COL))" for P
    using size_mset_mono [OF multiset_filter_mono [OF assms(2), of P]] by (simp flip: mset_filter)
  from order_trans [OF this] show ?thesis
    using assms(1) by (simp add: one_policy_def)
qed

lemma bind_path_end [simp]: "Option.bind x (path_get []) = x"
  by (cases x) auto

lemma matches_label: "doc_matches [(''label'', v)] d \<longleftrightarrow> (\<exists>w. field ''label'' d = Some w \<and> value_matches v w)"
  by (auto simp: doc_matches_def split: option.splits)

lemma kept_replace:
  assumes "\<And>c st k. I c \<Longrightarrow> (\<forall>x. x \<noteq> POLICIES_COL \<longrightarrow> st x = cs_store c x) \<Longrightarrow>
      mset (st POLICIES_COL) \<subseteq># mset (cs_store c POLICIES_COL) \<or>
      (\<exists>d oid. doc = Some d \<and> st POLICIES_COL = without_label l (cs_store c POLICIES_COL) @ [(''_id'', oid) # d]) \<Longrightarrow>
      I (c\<lparr>cs_store := st, cs_ops := k\<rparr>)"
  shows "kept.safe W I (replace_policy W l doc)"
  unfolding kept.safe_def
proof
  fix s
  obtain out t where t: "replace_policy W l doc s = (out, t)"
    by fastforce
  show "kept W I s (snd (replace_policy W l doc s))"
  proof (cases "documented (ct_mongo W)")
    case True
    show ?thesis
      by (rule replace_policy_cases [OF True t]) (use assms t in \<open>auto simp: kept_def\<close>)
  qed (simp add: kept_def)
qed

lemma one_policy_replaced:
  assumes "one_policy c" and "field ''label'' d = Some (ser_label l)"
    and "st POLICIES_COL = without_label l (cs_store c POLICIES_COL) @ [(''_id'', oid) # d]"
  shows "one_policy (c\<lparr>cs_store := st, cs_ops := k\<rparr>)"
  unfolding one_policy_def
proof
  fix v
  let ?has = "\<lambda>d. field ''label'' d = Some v"
  have rest: "length (filter ?has (without_label l (cs_store c POLICIES_COL))) \<le> 1"
    using assms(1) length_filter_le [of "\<lambda>d. \<not> doc_matches [(''label'', ser_label l)] d" "filter ?has (cs_store c POLICIES_COL)"]
    by (auto simp: one_policy_def without_label_def conj_commute intro: order_trans)
  have "filter ?has (without_label l ds) = []" if "v = ser_label l" for ds
    using that by (auto simp: filter_empty_conv without_label_def matches_label value_matches_def)
  then show "length (filter ?has (cs_store (c\<lparr>cs_store := st, cs_ops := k\<rparr>) POLICIES_COL)) \<le> 1"
    using rest assms(2,3) by (auto simp: field_def)
qed

lemma one_policy_frame:
  "st POLICIES_COL = cs_store c POLICIES_COL \<Longrightarrow> one_policy (c\<lparr>cs_store := st, cs_ops := k\<rparr>) = one_policy c"
  "one_policy (c\<lparr>cs_posts := ps\<rparr>) = one_policy c"
  by (simp_all add: one_policy_def)

lemma cols [simp]:
  "POLICIES_COL \<noteq> HOSTS_COL" "POLICIES_COL \<noteq> SERVICES_COL" "SERVICES_COL \<noteq> HOSTS_COL"
  "HOSTS_COL \<noteq> POLICIES_COL" "SERVICES_COL \<noteq> POLICIES_COL" "HOSTS_COL \<noteq> SERVICES_COL"
  by (simp_all add: POLICIES_COL_def HOSTS_COL_def SERVICES_COL_def)

lemma unique_db: "op_col op \<noteq> POLICIES_COL \<Longrightarrow> kept.safe W one_policy (db W op)"
  by (rule kept_db) (metis one_policy_frame(1) permitted_frame)

lemma unique_removed:
  "kept.safe W one_policy (db W (DeleteOne POLICIES_COL f))" "kept.safe W one_policy (db W (DropCollection POLICIES_COL))"
  by (rule kept_db, blast intro: one_policy_subset permitted_removes)+

lemma kept_read:
  assumes "\<And>c k. I c \<Longrightarrow> I (c\<lparr>cs_ops := k\<rparr>)"
  shows "kept.safe W I (db W (Find col f))" "kept.safe W I (db W (FindOne col f))"
  by (rule kept_db, use assms in \<open>auto dest!: permitted_read\<close>)+

interpretation unique: evaluation_effects_ok "kept W one_policy" W for W
proof
  show "kept.safe W one_policy (db W (Find c f))" "kept.safe W one_policy (db W (FindOne c f))" for c f
    by (rule kept_read, simp add: one_policy_def)+
  show "kept.safe W one_policy (db W (InsertOne SERVICES_COL (ser_onboarded (ct_codec W) r)))" for r
    by (rule unique_db) simp
qed (simp add: kept_def)

lemma unique_post: "kept.safe W one_policy (push_policy W l p h)"
  by (auto simp: push_policy_def kept.safe_def post_def ev_ok_def kept_def one_policy_frame split: option.split)

lemma unique_told: "kept.safe W one_policy (update_hosts W l local_label p)"
proof -
  have "kept.safe W one_policy (hosts_loop W ds hs)" for ds hs
    by (induction ds arbitrary: hs) (auto split: option.split)
  then show ?thesis
    by (auto simp: update_hosts_def hosts_of_def unique_post)
qed

interpretation unique: service_effects_ok "kept W one_policy" W for W
proof
  show "doc = None \<or> field ''label'' (the doc) = Some (ser_label l) \<Longrightarrow> kept.safe W one_policy (replace_policy W l doc)" for doc l
    by (rule kept_replace) (auto intro: one_policy_subset one_policy_replaced)
qed (simp_all add: unique_db unique_removed unique_told)

text \<open>
  No host has been told anything, and every document of a service is one that the control plane wrote: it
  has no credentials, and its identity is a document.
\<close>

definition untold :: "control_state \<Rightarrow> bool" where
  "untold c \<longleftrightarrow> cs_posts c = [] \<and>
     (\<forall>d \<in> set (cs_store c SERVICES_COL). field ''credentials'' d = None \<and> (\<exists>i. field ''service_id'' d = Some (BsonDoc i)))"

lemma untold_subset:
  assumes "untold c" and "set (st SERVICES_COL) \<subseteq> set (cs_store c SERVICES_COL)"
  shows "untold (c\<lparr>cs_store := st, cs_ops := k\<rparr>)"
  using assms by (auto simp: untold_def)

lemma untold_db: "op_col op \<noteq> SERVICES_COL \<Longrightarrow> kept.safe W untold (db W op)"
  by (rule kept_db, rule untold_subset) (assumption, metis order_refl permitted_frame)

lemma untold_removed:
  "kept.safe W untold (db W (DeleteOne SERVICES_COL f))" "kept.safe W untold (db W (DeleteMany SERVICES_COL f))"
  by (rule kept_db, rule untold_subset, assumption, drule permitted_removes, metis set_mset_mono set_mset_mset)+

lemma untold_recorded: "kept.safe W untold (db W (InsertOne SERVICES_COL (ser_onboarded C r)))"
  by (rule kept_db) (auto simp: untold_def ser_onboarded_def ser_id_def field_def)

text \<open>A document without credentials is not read as a request to onboard a service.\<close>

lemma no_credentials: "field ''credentials'' d = None \<Longrightarrow> deser_onboard_service C d = None"
  by (auto simp: deser_onboard_service_def need_def bind_eq_None_conv)

lemma untold_hosts:
  assumes "documented (ct_mongo W)" and "untold (mc_state s)" and "hosts_of W l s = (out, t)"
  shows "untold (mc_state t) \<and> (\<forall>hs. out = Ok hs \<longrightarrow> hs = [] \<and>
    (\<forall>d \<in> set (cs_store (mc_state s) SERVICES_COL). \<not> doc_matches [(''service'', ser_label l)] d))"
proof -
  let ?f = "[(''service'', ser_label l)]" and ?c = "mc_state s"
  obtain r st where r: "db W (Find SERVICES_COL ?f) s = (Ok r, s\<lparr>mc_state := ?c\<lparr>cs_store := st, cs_ops := Suc (cs_ops ?c)\<rparr>\<rparr>)"
      "permitted (cs_store ?c) (Find SERVICES_COL ?f) r st"
    by (rule db_permitted [OF assms(1)])
  have "field ''credentials'' d = None" if "r = Docs ds" "d \<in> set ds" for d ds
  proof -
    have "set ds = set (filter (doc_matches ?f) (cs_store ?c SERVICES_COL))"
      by (rule mset_eq_setD) (use that(1) r(2) in simp)
    then show ?thesis
      using that(2) assms(2) by (auto simp: untold_def)
  qed
  moreover have "ds = [] \<longrightarrow> (\<forall>d \<in> set (cs_store ?c SERVICES_COL). \<not> doc_matches ?f d)" if "r = Docs ds" for ds
    using that r(2) by (auto simp: filter_empty_conv)
  moreover have "untold (?c\<lparr>cs_store := st, cs_ops := k\<rparr>)" for k
    using r(2) assms(2) by (simp add: untold_def)
  moreover have "hosts_of W l s = (case r of
      Docs ds \<Rightarrow> hosts_loop W ds [] (s\<lparr>mc_state := ?c\<lparr>cs_store := st, cs_ops := Suc (cs_ops ?c)\<rparr>\<rparr>)
    | _ \<Rightarrow> (Err (Error ''error notifying hosts''), s\<lparr>mc_state := ?c\<lparr>cs_store := st, cs_ops := Suc (cs_ops ?c)\<rparr>\<rparr>))"
    using r(1) by (simp add: hosts_of_def db_find_def ev_bind_def ev_ok_def ev_err_def split: db_reply.split)
  moreover have "hosts_loop W (d # ds) [] u = (Err (Error ''Bson conversion error''), u)" if "field ''credentials'' d = None" for d ds u
    using that by (simp add: conv_def no_credentials ev_bind_def ev_err_def)
  ultimately show ?thesis
    using assms(3) by (cases r; cases "case r of Docs ds \<Rightarrow> ds | _ \<Rightarrow> []") (auto simp: ev_ok_def)
qed

lemma untold_told: "kept.safe W untold (update_hosts W l local_label p)"
  unfolding kept.safe_def
proof
  fix s
  obtain out t where t: "hosts_of W l s = (out, t)"
    by fastforce
  show "kept W untold s (snd (update_hosts W l local_label p s))"
    using untold_hosts [OF _ _ t] t
    by (cases out) (auto simp: kept_def update_hosts_def ev_bind_def ev_ok_def)
qed

interpretation untold: service_effects_ok "kept W untold" W for W
proof
  show "doc = None \<or> field ''label'' (the doc) = Some (ser_label l) \<Longrightarrow> kept.safe W untold (replace_policy W l doc)" for doc l
    by (rule kept_replace) (auto intro: untold_subset)
  show "kept.safe W untold (db W (Find c f))" "kept.safe W untold (db W (FindOne c f))" for c f
    by (rule kept_read, simp add: untold_def)+
  show "mc_state t = mc_state s \<Longrightarrow> kept W untold s t" for s t
    by (simp add: kept_def)
qed (simp_all add: untold_db untold_removed untold_recorded untold_told)

section \<open>The service\<close>

lemma reach_kept:
  assumes "control_reach W n s" and "documented (ct_mongo W)"
    and "I \<lparr>cs_store = (\<lambda>_. []), cs_ops = 0, cs_posts = []\<rparr>"
    and "\<And>s r out t. control_serve W n r s = (out, t) \<Longrightarrow> kept W I s t"
  shows "I (mc_state s)"
  using assms(1) by induction (use assms(2-4) in \<open>auto simp: kept_def\<close>)

lemma reach_one_policy: "control_reach W n s \<Longrightarrow> documented (ct_mongo W) \<Longrightarrow> one_policy (mc_state s)"
  by (erule reach_kept [where I = one_policy]) (auto simp: one_policy_def [of "\<lparr>cs_store = _, cs_ops = _, cs_posts = _\<rparr>"] dest: unique.serve_respects)

lemma reach_untold: "control_reach W n s \<Longrightarrow> documented (ct_mongo W) \<Longrightarrow> untold (mc_state s)"
  by (erule reach_kept [where I = untold]) (auto simp: untold_def [of "\<lparr>cs_store = _, cs_ops = _, cs_posts = _\<rparr>"] dest: untold.serve_respects)

text \<open>Evaluation only adds services.\<close>

definition grown :: "control \<Rightarrow> ctl_machine \<Rightarrow> ctl_machine \<Rightarrow> bool" where
  "grown W s t \<longleftrightarrow> documented (ct_mongo W) \<longrightarrow>
     set (cs_store (mc_state s) SERVICES_COL) \<subseteq> set (cs_store (mc_state t) SERVICES_COL)"

interpretation grown: respecting "grown W" for W
  by unfold_locales (auto simp: grown_def)

lemma grown_db:
  assumes "\<And>st r st'. permitted st op r st' \<Longrightarrow> set (st SERVICES_COL) \<subseteq> set (st' SERVICES_COL)"
  shows "grown.safe W (db W op)"
  unfolding grown.safe_def
proof
  fix s
  show "grown W s (snd (db W op s))"
  proof (cases "documented (ct_mongo W)")
    case True
    obtain r st where "db W op s = (Ok r, s\<lparr>mc_state := (mc_state s)\<lparr>cs_store := st, cs_ops := Suc (cs_ops (mc_state s))\<rparr>\<rparr>)"
        "permitted (cs_store (mc_state s)) op r st"
      by (rule db_permitted [OF True])
    then show ?thesis
      using assms by (simp add: grown_def)
  qed (simp add: grown_def)
qed

interpretation grown: evaluation_effects_ok "grown W" W for W
  by unfold_locales (auto intro!: grown_db simp: grown_def)

lemma bind_OkE:
  assumes "ev_bind m f s = (Ok x, t)"
  obtains y u where "m s = (Ok y, u)" "f y u = (Ok x, t)"
  using assms by (cases "m s"; cases "fst (m s)") (auto simp: ev_bind_def)

text \<open>Whoever has a local label has a document, and whoever has a document cannot be pushed to.\<close>

lemma local_label_stored:
  assumes "documented (ct_mongo W)" and "get_local_service_label W l s = (Ok x, t)"
  shows "cs_store (mc_state t) = cs_store (mc_state s) \<and>
    (\<exists>d \<in> set (cs_store (mc_state s) SERVICES_COL). doc_matches [(''service'', ser_label l)] d)"
proof -
  let ?f = "[(''service'', ser_label l)]" and ?c = "mc_state s"
  obtain r st where r: "db W (FindOne SERVICES_COL ?f) s = (Ok r, s\<lparr>mc_state := ?c\<lparr>cs_store := st, cs_ops := Suc (cs_ops ?c)\<rparr>\<rparr>)"
      "permitted (cs_store ?c) (FindOne SERVICES_COL ?f) r st"
    by (rule db_permitted [OF assms(1)])
  obtain d where d: "r = Found (Some d)" and t: "t = s\<lparr>mc_state := ?c\<lparr>cs_store := st, cs_ops := Suc (cs_ops ?c)\<rparr>\<rparr>"
    using assms(2) r(1)
    by (auto simp: get_local_service_label_def db_find_one_def ev_bind_def ev_ok_def ev_err_def ev_opt_def conv_def
        ev_panic_def split: db_reply.splits option.splits)
  show ?thesis
    using r(2) d t by auto
qed

lemma helper_update_fails:
  assumes "documented (ct_mongo W)" and "untold (mc_state s)"
    and "d \<in> set (cs_store (mc_state s) SERVICES_COL)" "doc_matches [(''service'', ser_label (pu_label r))] d"
  shows "helper_update W local_label r s \<noteq> (Ok x, t)"
proof
  assume "helper_update W local_label r s = (Ok x, t)"
  then obtain u hs v where u: "replace_policy W (pu_label r) (ser_policy_update (ct_codec W) r) s = (Ok (), u)"
      and v: "hosts_of W (pu_label r) u = (Ok hs, v)"
    unfolding helper_update_def update_hosts_def by (auto elim!: bind_OkE)
  have "cs_store (mc_state u) SERVICES_COL = cs_store (mc_state s) SERVICES_COL" and "untold (mc_state u)"
    by (rule replace_policy_cases [OF assms(1) u], simp,
        rule replace_policy_cases [OF assms(1) u], use assms(2) in \<open>auto simp: untold_def\<close>)
  then show False
    using untold_hosts [OF assms(1) _ v] assms(3,4) by auto
qed

lemma update_services_fails:
  assumes "documented (ct_mongo W)" and "untold (mc_state s)" and "xs \<noteq> []"
  shows "update_services W n request xs s \<noteq> (Ok Finish, t)"
proof
  obtain y ys where xs: "xs = y # ys"
    using assms(3) by (cases xs) auto
  assume "update_services W n request xs s = (Ok Finish, t)"
  then obtain l u p v x w where l: "get_local_service_label W (po_service y) s = (Ok l, u)"
      and v: "compile_functions W n (cu_policy request) (po_service_id y) entry_functions None u = (Ok (Some p), v)"
      and w: "helper_update W l \<lparr>pu_label = po_service y, pu_policy = p, pu_labels = cu_labels request\<rparr> v = (Ok x, w)"
    by (auto simp: xs ev_ok_def elim!: bind_OkE split: option.splits)
  have "grown W u v" "kept W untold s u" "kept W untold u v"
    by (rule grown.safeD [OF grown.safe_compile_functions v] kept.safeD [OF untold.safe_parts(5) l]
        kept.safeD [OF untold.safe_compile_functions v])+
  then have "untold (mc_state v)" and "set (cs_store (mc_state u) SERVICES_COL) \<subseteq> set (cs_store (mc_state v) SERVICES_COL)"
    using assms(1,2) by (simp_all add: kept_def grown_def)
  then show False
    using local_label_stored [OF assms(1) l] helper_update_fails [OF assms(1), of v] w by fastforce
qed

lemma policy_update_fails:
  assumes "documented (ct_mongo W)" and "untold (mc_state s)"
  shows "policy_update W r s \<noteq> (Ok x, t)"
proof
  assume "policy_update W r s = (Ok x, t)"
  then obtain l u where l: "get_local_service_label W (pu_label r) s = (Ok l, u)" and u: "helper_update W l r u = (Ok x, t)"
    by (auto simp: policy_update_def elim: bind_OkE)
  have "untold (mc_state u)"
    using kept.safeD [OF untold.safe_parts(5) l] assms by (simp add: kept_def)
  then show False
    using local_label_stored [OF assms(1) l] helper_update_fails [OF assms(1), of u] u by fastforce
qed

lemma map_conv_Ok: "ev_map (\<lambda>d. conv (f d)) ds s = (Ok xs, t) \<Longrightarrow> t = s \<and> map_opt f ds = Some xs"
  by (induction ds arbitrary: xs)
    (auto simp: ev_ok_def conv_def ev_err_def elim!: bind_OkE split: option.splits)

lemma map_opt_set: "map_opt f xs = Some ys \<Longrightarrow> z \<in> set xs \<Longrightarrow> f z = Some y \<Longrightarrow> y \<in> set ys"
  by (induction xs arbitrary: ys) (auto split: option.splits)

lemma services_full_Ok:
  assumes "documented (ct_mongo W)" and "services_full W s = (Ok xs, t)"
  shows "cs_store (mc_state t) = cs_store (mc_state s) \<and>
    (\<forall>d \<in> set (cs_store (mc_state s) SERVICES_COL). \<forall>x. deser_onboarded (ct_codec W) d = Some x \<longrightarrow> x \<in> set xs)"
proof -
  let ?c = "mc_state s"
  obtain r st where r: "db W (Find SERVICES_COL []) s = (Ok r, s\<lparr>mc_state := ?c\<lparr>cs_store := st, cs_ops := Suc (cs_ops ?c)\<rparr>\<rparr>)"
      "permitted (cs_store ?c) (Find SERVICES_COL []) r st"
    by (rule db_permitted [OF assms(1)])
  obtain ds where ds: "r = Docs ds" "map_opt (deser_onboarded (ct_codec W)) ds = Some xs"
      "t = s\<lparr>mc_state := ?c\<lparr>cs_store := st, cs_ops := Suc (cs_ops ?c)\<rparr>\<rparr>"
    using assms(2) r(1) by (auto simp: services_full_def db_find_def ev_bind_def ev_ok_def ev_err_def
        split: db_reply.splits dest!: map_conv_Ok)
  have "set ds = set (cs_store ?c SERVICES_COL)"
    by (rule mset_eq_setD) (use r(2) ds(1) in \<open>simp add: doc_matches_def\<close>)
  then show ?thesis
    using r(2) ds map_opt_set [OF ds(2)] by auto
qed

definition selected :: "cp_policy_update_request \<Rightarrow> ID \<Rightarrow> bool" where
  "selected r = id_has_label (case cu_selector r of Some l \<Rightarrow> l | None \<Rightarrow> label_const ''ServiceID::**'')"

lemma update_global_selects:
  assumes "documented (ct_mongo W)" and "untold (mc_state s)" and "update_global W n r s = (Ok Finish, t)"
    and "d \<in> set (cs_store (mc_state t) SERVICES_COL)" and "deser_onboarded (ct_codec W) d = Some x"
  shows "\<not> selected r (po_service_id x)"
proof -
  let ?r = "r\<lparr>cu_label := global_policy_label\<rparr>"
  obtain u xs v where u: "replace_policy W (cu_label ?r) (ser_cp_policy_update (ct_codec W) ?r) s = (Ok (), u)"
      and v: "services_full W u = (Ok xs, v)"
      and t: "update_services W n ?r (filter (\<lambda>x. selected r (po_service_id x)) xs) v = (Ok Finish, t)"
    using assms(3) by (auto simp: update_global_def Let_def selected_def elim!: bind_OkE)
  have "kept W untold s u"
    by (rule kept.safeD [OF untold.safe_replaced(2) u]) simp
  moreover have "kept W untold u v"
    by (rule kept.safeD [OF untold.safe_parts(4) v])
  ultimately have "untold (mc_state v)"
    using assms(1,2) by (simp add: kept_def)
  then have none: "filter (\<lambda>x. selected r (po_service_id x)) xs = []"
    using update_services_fails [OF assms(1)] t by blast
  then have "t = v"
    using t by (simp add: ev_ok_def)
  then show ?thesis
    using services_full_Ok [OF assms(1) v] none assms(4,5) by (auto simp: filter_empty_conv)
qed

lemma policy_drop_fails:
  assumes "documented (ct_mongo W)" and "untold (mc_state s)"
  shows "policy_drop W l s \<noteq> (Ok x, t)"
proof
  let ?op = "DeleteOne POLICIES_COL [(''label'', BsonStr (show_label l))]"
  assume "policy_drop W l s = (Ok x, t)"
  then obtain n u a v local_label w deny b z where u: "db_change W ''failed to drop policy'' ?op s = (Ok n, u)"
      and v: "get_local_service_label W l u = (Ok local_label, v)" and z: "update_hosts W l local_label deny v = (Ok (), z)"
    unfolding policy_drop_def push_deny_all_def
    by (fastforce simp: ev_opt_def ev_ok_def ev_panic_def elim!: bind_OkE split: option.splits)
  have "kept W untold s u"
    by (rule kept.safeD [OF untold.safe_change [OF untold_db] u]) simp
  then have "untold (mc_state u)"
    using assms by (simp add: kept_def)
  moreover have "kept W untold u v"
    by (rule kept.safeD [OF untold.safe_parts(5) v])
  ultimately have "untold (mc_state v)"
    using assms(1) by (simp add: kept_def)
  moreover obtain hs w where "hosts_of W l v = (Ok hs, w)"
    using z by (auto simp: update_hosts_def elim: bind_OkE)
  ultimately show False
    using local_label_stored [OF assms(1) v] untold_hosts [OF assms(1)] by fastforce
qed

section \<open>Properties\<close>

text \<open>C10: whatever requests are served, and however the database fails in between, at most one stored policy has a
  given label, so that a query cannot be answered by an older policy.\<close>

theorem one_policy_per_label:
  assumes "control_reach W n s" and "documented (ct_mongo W)"
  shows "length (filter (\<lambda>d. field ''label'' d = Some (ser_label l)) (cs_store (mc_state s) POLICIES_COL)) \<le> 1"
  using reach_one_policy [OF assms] by (simp add: one_policy_def)

theorem one_policy_per_label_witness:
  "length (filter (\<lambda>d. field ''label'' d = Some (ser_label onboarding_policy_label)) (cs_store (mc_state ready) POLICIES_COL)) \<le> 1 \<and>
   cs_store (mc_state ready) POLICIES_COL \<noteq> []"
  using one_policy_per_label [OF ready_reached memory_ok(1), of onboarding_policy_label] by (simp add: ready_def)

text \<open>C19: no policy ever reaches the agent of a host. The documents of services lack a field that the loop over
  them reads, so a policy of a service can be neither updated nor dropped with success, and a global policy is
  updated with success only when it selects none of the services that are stored.\<close>

theorem updates_reach_no_host:
  assumes "control_reach W n s" and "documented (ct_mongo W)"
  shows "cs_posts (mc_state s) = [] \<and>
    (control_serve W n (UpdatePolicy r) s = (out, t) \<longrightarrow> (\<forall>x. out \<noteq> Ok x)) \<and>
    (control_serve W n (DropPolicy l) s = (out, t) \<longrightarrow> (\<forall>x. out \<noteq> Ok x)) \<and>
    (control_serve W n (UpdateGlobal g) s = (Ok Finish, t) \<longrightarrow>
      (\<forall>d \<in> set (cs_store (mc_state t) SERVICES_COL). \<forall>x. deser_onboarded (ct_codec W) d = Some x \<longrightarrow>
        \<not> selected g (po_service_id x)))"
proof -
  have u: "untold (mc_state s)"
    by (rule reach_untold [OF assms])
  then show ?thesis
    using policy_update_fails [OF assms(2), of "s\<lparr>mc_meta := ie_default\<rparr>"]
      policy_drop_fails [OF assms(2), of "s\<lparr>mc_meta := ie_default\<rparr>"]
      update_global_selects [OF assms(2), of "s\<lparr>mc_meta := ie_default\<rparr>"]
    by (auto simp: control_serve_def untold_def)
qed

theorem updates_reach_no_host_witness:
  "let s = snd (control_serve memory 6 (OnboardService svc_request) ready)
   in fst (control_serve memory 6 (OnboardService svc_request) ready) = Ok (JsonServiceId svc_label) \<and>
      cs_posts (mc_state s) = [] \<and> (\<forall>r x. fst (control_serve memory 6 (UpdatePolicy r) s) \<noteq> Ok x)"
proof -
  let ?s = "snd (control_serve memory 6 (OnboardService svc_request) ready)"
  have "control_reach memory 6 ?s"
    by (rule control_reach.serve [OF ready_reached prod.collapse [symmetric]])
  note r = updates_reach_no_host [OF this memory_ok(1)]
  have "fst (control_serve memory 6 (UpdatePolicy r) ?s) \<noteq> Ok x" for r x
    using r [of r] by (metis prod.collapse)
  then show ?thesis
    using r memory_onboards by (simp add: Let_def)
qed

end
