(* ===== verification/ControlOnboard.thy ===== *)
theory ControlOnboard
  imports ControlProps PolicyProps EvalLang
begin

text \<open>
  Onboarding: documents are read back as they were written, a service that was onboarded is found again,
  and the policy that was saved for it is the one that is answered.
\<close>

section \<open>Documents are read back\<close>

definition wf_label :: "label \<Rightarrow> bool" where
  "wf_label l \<longleftrightarrow> l \<noteq> [] \<and> (\<forall>n \<in> set l. wf_node n)"

lemma deser_ser_label [simp]: "wf_label l \<Longrightarrow> deser_label (ser_label l) = Some l"
  using parse_label_iff [of "show_label l" l] by (simp add: deser_label_def ser_label_def wf_label_def)

lemma foldl_bs_insert:
  assumes "bs_wf (a @ b)"
  shows "foldl (\<lambda>s x. bs_insert x s) a b = a @ b"
  using assms
proof (induction b arbitrary: a)
  case (Cons x b)
  then have "bs_insert x a = a @ [x]"
    by (auto simp: bs_wf_def bs_insert_def sorted_wrt_append strict_sorted_iff intro!: sorted_insort_is_snoc)
  then show ?case
    using Cons by simp
qed simp

lemma deser_set_map:
  assumes "bs_wf xs" and "\<And>x. x \<in> set xs \<Longrightarrow> f (g x) = Some x"
  shows "deser_set f (BsonArr (map g xs)) = Some xs"
proof -
  have "map_opt f (map g xs) = Some xs"
    using assms(2) by (induction xs) auto
  then show ?thesis
    using foldl_bs_insert [of "[]" xs] assms(1) by simp
qed

lemma deser_ser_labels [simp]: "bs_wf ls \<Longrightarrow> (\<And>l. l \<in> set ls \<Longrightarrow> wf_label l) \<Longrightarrow> deser_set deser_label (ser_labels ls) = Some ls"
  unfolding ser_labels_def by (rule deser_set_map) simp_all

lemma deser_option_present: "b \<noteq> BsonNull \<Longrightarrow> deser_option f (Some b) = map_option Some (f b)"
  by (cases b) (simp_all add: deser_option_def)

lemma deser_ser_port: "codec_ok C \<Longrightarrow> deser_port C (Some (ser_port C p)) = Some p"
  by (simp add: deser_port_def ser_port_def codec_ok_def deser_option_present split: option.split)
    (simp add: deser_option_def)

lemma deser_ser_id:
  assumes "codec_ok C" and "id_wf i" and "\<And>l. l \<in> set (id_labels i) \<Longrightarrow> wf_label l"
  shows "deser_id C (ser_id C i) = Some i"
proof -
  have "deser_set deser_str (BsonArr (map BsonStr (id_hosts i))) = Some (id_hosts i)"
    and "deser_set (\<lambda>b. Option.bind (deser_str b) (cd_of_ip C)) (BsonArr (map (BsonStr \<circ> cd_ip C) (id_ips i))) = Some (id_ips i)"
    by (rule deser_set_map; use assms(1,2) in \<open>simp add: id_wf_def codec_ok_def\<close>)+
  then show ?thesis
    using assms(2,3) by (auto simp: deser_ser_port [OF assms(1)] deser_id_def ser_id_def need_def field_def id_wf_def id_new_def)
qed

lemma field_skip [simp]: "k \<noteq> ''_id'' \<Longrightarrow> field k ((''_id'', oid) # d) = field k d"
  by (simp add: field_def)

lemma deser_ser_onboarded:
  assumes "codec_ok C" and "id_wf (po_service_id r)" and "\<And>l. l \<in> set (id_labels (po_service_id r)) \<Longrightarrow> wf_label l"
    and "wf_label (po_service r)" and "wf_label (po_host r)"
  shows "deser_onboarded C ((''_id'', oid) # ser_onboarded C r) = Some r"
  using deser_ser_id [OF assms(1-3)] assms(4,5)
  by (simp add: deser_onboarded_def need_def) (simp add: ser_onboarded_def field_def)

lemma deser_ser_policies:
  assumes "bt_wf ps" and "ser_policies enc ps = Some b" and "\<And>p s. enc p = Some s \<Longrightarrow> dec s = Some p"
  shows "deser_policies dec b = Some ps"
proof -
  obtain xs ys where xs: "policies_serialize enc ps = Inr xs"
      "map_opt (\<lambda>(p, s). map_option (\<lambda>k. (k, BsonStr s)) (ser_protocol p)) xs = Some ys" "b = BsonDoc ys"
    using assms(2) by (auto simp: ser_policies_def split: sum.splits)
  have "map_opt (\<lambda>(k, b). Option.bind (deser_protocol k) (\<lambda>p. map_option (Pair p) (deser_str b))) ys = Some xs"
    using xs(2) by (induction xs arbitrary: ys)
      (auto simp: ser_protocol_def deser_protocol_def split: option.splits protocol.splits)
  moreover have "list_all2 (\<lambda>(p, s) (q, pol). p = q \<and> dec s = Some pol) xs ps"
    using xs(1) assms(3) unfolding policies_serialize_def
    by (induction ps arbitrary: xs) (auto split: option.splits prod.splits sum.splits simp: bind_res_Inr_iff)
  then have "policies_deserialize dec xs = Inr ps"
    using visit_map_decoded [of dec xs ps "[]"] bt_collect_self [OF assms(1)]
    by (auto simp: policies_deserialize_def bt_collect_def)
  ultimately show ?thesis
    using xs(3) by (simp add: deser_policies_def)
qed

lemma deser_ser_policy_update:
  assumes "codec_ok C" and "ser_policy_update C r = Some d" and "wf_label (pu_label r)" and "bt_wf (pu_policy r)"
    and "pu_labels r = []"
  shows "deser_policy_update C ((''_id'', oid) # d) = Some r"
proof -
  obtain b where b: "ser_policies (cd_dp C) (pu_policy r) = Some b"
      "d = [(''label'', ser_label (pu_label r)), (''policy'', b), (''labels'', ser_label_map [])]"
    using assms(2,5) by (auto simp: ser_policy_update_def)
  have "deser_policies (cd_of_dp C) b = Some (pu_policy r)"
    by (rule deser_ser_policies [OF assms(4) b(1)]) (use assms(1) in \<open>simp add: codec_ok_def\<close>)
  then show ?thesis
    using assms(3,5) by (simp add: b(2) deser_policy_update_def need_def field_def deser_label_map_def ser_label_map_def
        bt_collect_def)
qed

section \<open>The identity of a service\<close>

lemma wild_const:
  "label_const ''Host::**'' = [Str ''Host'', RecAny []]"
  "label_const ''Service::**'' = [Str ''Service'', RecAny []]"
  "label_const ''ServiceID::**'' = [Str ''ServiceID'', RecAny []]"
  by code_simp+

lemma str_wild [simp]: "matches_with [Str a, RecAny []] (Str b # l) \<longleftrightarrow> a = b \<and> l \<noteq> []"
proof -
  have "matches_with [Str a] [Str b] \<longleftrightarrow> a = b"
    by (simp add: matches_with_def match_with_unfold [of "[Str a]"] match_gen_def extend_pattern_def Let_def)
  then show ?thesis
    using matches_with_wild [of "[Str a]" "Str b # l"] by (simp add: no_rec_any_def conj_commute)
qed

lemma find_unique:
  assumes "x \<in> set xs" and "P x" and "\<And>y. y \<in> set xs \<Longrightarrow> P y \<Longrightarrow> y = x"
  shows "find P xs = Some x"
proof (cases "find P xs")
  case None
  then show ?thesis
    using assms(1,2) by (simp add: find_None_iff)
next
  case (Some y)
  then have "y \<in> set xs" and "P y"
    by (auto simp: find_Some_iff)
  then show ?thesis
    using Some assms(3) by simp
qed

lemma onboarding_id_labels:
  "set (id_labels (onboarding_id obd)) = {Str ''Host'' # obd_host obd, Str ''Service'' # obd_service obd, new_ID obd}"
  by (simp add: onboarding_id_def id_add_label_def label_prefix_def default_id_def)

lemma onboarding_id_wf: "id_wf (onboarding_id obd)"
  by (simp add: onboarding_id_def id_wf_def id_add_label_def default_id_def)

lemma new_ID_nodes: "new_ID obd = Str ''ServiceID'' # obd_host obd @ obd_service obd"
  by (simp add: new_ID_def label_prefix_def label_concat_def)

lemma onboarding_id_find:
  assumes "obd_host obd \<noteq> []" and "obd_service obd \<noteq> []"
  shows "id_find_label (label_const ''Host::**'') (onboarding_id obd) = Some (Str ''Host'' # obd_host obd)"
    and "id_find_label (label_const ''Service::**'') (onboarding_id obd) = Some (Str ''Service'' # obd_service obd)"
    and "id_find_label (label_const ''ServiceID::**'') (onboarding_id obd) = Some (new_ID obd)"
  unfolding id_find_label_def wild_const
  by (rule find_unique; use assms in \<open>auto simp: onboarding_id_labels new_ID_nodes str_wild\<close>)+

lemma onboarding_id_wf_labels:
  assumes "wf_label (obd_host obd)" and "wf_label (obd_service obd)" and "l \<in> set (id_labels (onboarding_id obd))"
  shows "wf_label l"
proof -
  have "wf_node (Str ''Host'')" "wf_node (Str ''Service'')" "wf_node (Str ''ServiceID'')"
    by code_simp+
  then show ?thesis
    using assms by (auto simp: onboarding_id_labels new_ID_nodes wf_label_def)
qed

section \<open>Onboarding\<close>

definition service_doc :: "codec \<Rightarrow> onboarding_data \<Rightarrow> document" where
  "service_doc C obd = ser_onboarded C
     \<lparr>po_service = new_ID obd, po_service_id = onboarding_id obd, po_host = Str ''Host'' # obd_host obd\<rparr>"

lemma present_never:
  assumes "documented (ct_mongo W)" and "untold (mc_state s)"
    and "present W SERVICES_COL [(''service_id'', ser_label l)] s = (Ok there, t)"
  shows "\<not> there \<and> cs_store (mc_state t) = cs_store (mc_state s)"
proof -
  let ?f = "[(''service_id'', ser_label l)]" and ?c = "mc_state s"
  obtain r st where r: "db W (Find SERVICES_COL ?f) s = (Ok r, s\<lparr>mc_state := ?c\<lparr>cs_store := st, cs_ops := Suc (cs_ops ?c)\<rparr>\<rparr>)"
      "permitted (cs_store ?c) (Find SERVICES_COL ?f) r st"
    by (rule db_permitted [OF assms(1)])
  have "\<not> doc_matches ?f d" if "d \<in> set (cs_store ?c SERVICES_COL)" for d
    using that assms(2) by (auto simp: untold_def doc_matches_def value_matches_def ser_label_def split: option.splits bson.splits)
  then have "filter (doc_matches ?f) (cs_store ?c SERVICES_COL) = []"
    by (simp add: filter_empty_conv)
  then show ?thesis
    using r assms(3)
    by (auto simp: present_def db_find_def ev_bind_def ev_ok_def ev_err_def simp flip: mset_filter split: db_reply.splits)
qed

lemma onboard_stores:
  assumes "documented (ct_mongo W)" and "untold (mc_state s)" and "obd_host obd \<noteq> []" and "obd_service obd \<noteq> []"
    and "helper_onboard W (onboarding_id obd) s = (Ok v, t)"
  shows "v = cp_bool True \<and> (\<exists>oid. cs_store (mc_state t) SERVICES_COL =
      cs_store (mc_state s) SERVICES_COL @ [(''_id'', oid) # service_doc (ct_codec W) obd])"
proof -
  let ?op = "InsertOne SERVICES_COL (service_doc (ct_codec W) obd)"
  obtain there u where u: "present W SERVICES_COL [(''service_id'', ser_label (new_ID obd))] s = (Ok there, u)"
    using assms(5) by (auto simp: helper_onboard_def onboarding_id_find [OF assms(3,4)] Let_def elim: bind_OkE)
  have no: "\<not> there" "cs_store (mc_state u) = cs_store (mc_state s)"
    using present_never [OF assms(1,2) u] by simp_all
  obtain n where n: "db_change W ''error inserting in MongoDB'' ?op u = (Ok n, t)" "v = cp_bool True"
    using assms(5) u no(1)
    by (auto simp: helper_onboard_def onboarding_id_find [OF assms(3,4)] Let_def service_doc_def ev_ok_def elim!: bind_OkE)
  obtain r st where ins: "permitted (cs_store (mc_state u)) ?op r st"
      "t = u\<lparr>mc_state := (mc_state u)\<lparr>cs_store := st, cs_ops := Suc (cs_ops (mc_state u))\<rparr>\<rparr>"
      "Ok n = (case r of Count n \<Rightarrow> Ok n | _ \<Rightarrow> Err (Error ''error inserting in MongoDB''))"
    by (rule db_change_cases [OF assms(1) n(1)])
  show ?thesis
    using ins no(2) n(2) by auto
qed


lemma bt_wf_foldl_insert: "bt_wf m \<Longrightarrow> bt_wf (foldl (\<lambda>m (k, v). bt_insert k (h k v) m) m ys)"
  by (induction ys arbitrary: m) auto

lemma policies_merge_wf: "bt_wf a \<Longrightarrow> bt_wf (policies_merge a b)"
  unfolding policies_merge_def by (rule bt_wf_foldl_insert)

section \<open>The policy of an onboarded service\<close>

lemma saved_policy:
  assumes "documented (ct_mongo W)" and "save_policy W r s = (Ok x, t)"
  obtains d oid where "ser_policy_update (ct_codec W) r = Some d"
    "cs_store (mc_state t) POLICIES_COL =
       without_label (pu_label r) (cs_store (mc_state s) POLICIES_COL) @ [(''_id'', oid) # d]"
proof -
  obtain u where u: "replace_policy W (pu_label r) (ser_policy_update (ct_codec W) r) s = (Ok (), u)" "t = u"
    using assms(2) by (auto simp: save_policy_def ev_ok_def elim!: bind_OkE)
  show thesis
    by (rule replace_policy_cases [OF assms(1) u(1)]) (use u(2) that in auto)
qed

lemma query_finds:
  assumes "documented (ct_mongo W)" and "codec_ok (ct_codec W)" and "query W l s = (out, t)"
    and "cs_store (mc_state s) POLICIES_COL = without_label l ds @ [(''_id'', oid) # d]"
    and "ser_policy_update (ct_codec W) r = Some d" and "pu_label r = l" and "wf_label l" and "bt_wf (pu_policy r)"
    and "pu_labels r = []"
    and "fst (ct_mongo W (cs_ops (mc_state s)) (cs_store (mc_state s)) (FindOne POLICIES_COL [(''label'', ser_label l)])) \<noteq> DbError"
  shows "out = Ok (JsonPolicy r)"
proof -
  let ?f = "[(''label'', ser_label l)]" and ?c = "mc_state s"
  let ?r = "fst (ct_mongo W (cs_ops ?c) (cs_store ?c) (FindOne POLICIES_COL ?f))"
  have p: "permitted (cs_store ?c) (FindOne POLICIES_COL ?f) ?r (snd (ct_mongo W (cs_ops ?c) (cs_store ?c) (FindOne POLICIES_COL ?f)))"
    using assms(1) by (simp add: documented_def)
  have "field ''label'' d = Some (ser_label l)"
    using assms(5,6) by (auto simp: ser_policy_update_def field_def)
  then have "doc_matches ?f ((''_id'', oid) # d)"
    by (simp add: matches_label value_matches_def)
  then have "?r = Found (Some ((''_id'', oid) # d))"
    using p assms(10) by (auto simp: assms(4) without_label_def)
  moreover have "deser_policy_update (ct_codec W) ((''_id'', oid) # d) = Some r"
    using assms by (intro deser_ser_policy_update) auto
  ultimately show ?thesis
    using assms(3)
    by (auto simp: query_def db_look_def db_def Let_def ev_bind_def ev_ok_def conv_def ser_label_def split: prod.splits)
qed




section \<open>A service that was onboarded is found\<close>

lemma service_doc_found:
  "doc_matches [(''service_id.labels'', ser_label (new_ID obd))] ((''_id'', oid) # service_doc C obd)"
proof -
  have "split_char CHR ''.'' ''service_id.labels'' = [''service_id'', ''labels'']"
    by code_simp
  moreover have "new_ID obd \<in> set (id_labels (onboarding_id obd))"
    by (simp add: onboarding_id_labels)
  ultimately show ?thesis
    by (auto simp: doc_matches_def service_doc_def ser_onboarded_def ser_id_def field_def ser_labels_def value_matches_def)
qed

lemma onboarded_found:
  assumes "documented (ct_mongo W)" and "codec_ok (ct_codec W)" and "wf_label (obd_host obd)" and "wf_label (obd_service obd)"
    and "cs_store (mc_state s) SERVICES_COL = ds @ [(''_id'', oid) # service_doc (ct_codec W) obd]"
    and "\<And>d. d \<in> set ds \<Longrightarrow> \<not> doc_matches [(''service_id.labels'', ser_label (new_ID obd))] d"
    and "fst (ct_mongo W (cs_ops (mc_state s)) (cs_store (mc_state s))
        (FindOne SERVICES_COL [(''service_id.labels'', ser_label (new_ID obd))])) \<noteq> DbError"
  shows "fst (helper_onboarded W obd s) = Ok (lit_some (lit_id cp_lits (onboarding_id obd)))"
proof -
  let ?f = "[(''service_id.labels'', ser_label (new_ID obd))]" and ?c = "mc_state s"
  let ?r = "fst (ct_mongo W (cs_ops ?c) (cs_store ?c) (FindOne SERVICES_COL ?f))" and ?d = "(''_id'', oid) # service_doc (ct_codec W) obd"
  have "permitted (cs_store ?c) (FindOne SERVICES_COL ?f) ?r
      (snd (ct_mongo W (cs_ops ?c) (cs_store ?c) (FindOne SERVICES_COL ?f)))"
    using assms(1) by (simp add: documented_def)
  then have "?r = Found (Some ?d)"
    using assms(5-7) service_doc_found [of obd oid "ct_codec W"] by auto
  moreover have "wf_label (new_ID obd)" "wf_label (Str ''Host'' # obd_host obd)"
    by (rule onboarding_id_wf_labels [OF assms(3,4)]; simp add: onboarding_id_labels)+
  then have "deser_onboarded (ct_codec W) ?d =
      Some \<lparr>po_service = new_ID obd, po_service_id = onboarding_id obd, po_host = Str ''Host'' # obd_host obd\<rparr>"
    unfolding service_doc_def using onboarding_id_wf_labels [OF assms(3,4)]
    by (intro deser_ser_onboarded) (auto simp: assms(2) onboarding_id_wf)
  ultimately show ?thesis
    by (auto simp: helper_onboarded_def db_look_def db_def Let_def ev_bind_def ev_ok_def conv_def split: prod.splits)
qed

lemma call_onboard:
  "control_call W (Suc m) ''ControlPlane::onboard'' [LitExpr (lit_id cp_lits i)] s =
     ev_bind (helper_onboard W i) (\<lambda>v. ev_ok (LitExpr v)) (s\<lparr>mc_trace := Builtin ''ControlPlane::onboard'' # mc_trace s\<rparr>)"
  by (simp add: eval_control_def seval_call1_def lit_id_def cp_lits_def call_result_def ev_bind_def ev_ok_def ev_res_def Let_def
      split: outcome.split prod.split)

lemma call_onboarded:
  "control_call W (Suc m) ''ControlPlane::onboarded'' [LitExpr (FlatLit (OnboardingDataL obd))] s =
     ev_bind (helper_onboarded W obd) (\<lambda>v. ev_ok (LitExpr v)) (s\<lparr>mc_trace := Builtin ''ControlPlane::onboarded'' # mc_trace s\<rparr>)"
  by (simp add: eval_control_def seval_call1_def call_result_def ev_bind_def ev_ok_def ev_res_def Let_def
      split: outcome.split prod.split)




section \<open>Without an onboarding policy\<close>

lemma default_policy_evaluates:
  "policy_evaluate_onboarding W (Suc (Suc (Suc n))) default_onboarding_policy (LitExpr (FlatLit (OnboardingDataL obd))) s =
     (Ok (OnboardErr onboarding_disabled None None), s\<lparr>mc_trace := Builtin ''OnboardingResult::ErrStr'' # mc_trace s\<rparr>)"
proof -
  let ?d = "FlatLit (OnboardingDataL obd)"
  define X where "X = control_env W (Suc (Suc (Suc n))) (pr_code (pol_program default_onboarding_policy))"
  let ?body = "CallExpr ''OnboardingResult::ErrStr'' [LitExpr (lit_str cp_lits onboarding_disabled)] False"
  have code: "bt_get ONBOARDING_SERVICES (en_code X) = Some (closures [''od''] ?body)"
      "bt_get ''OnboardingResult::ErrStr'' (en_code X) = None"
      "pl_builtin (en_plane X) = cp_builtin" "en_call X = control_call W (Suc (Suc (Suc n)))"
    by (simp_all add: X_def control_env_def env_with_def default_onboarding_policy_def ONBOARDING_SERVICES_def
        cp_plane_def)
  have "apply_all (closures [''od''] ?body) [LitExpr ?d] = Inr ?body"
    using apply_all_closures [of "[''od'']" "[LitExpr ?d]" ?body] by simp
  then have outer: "eval X (Suc (Suc (Suc n))) (CallExpr ONBOARDING_SERVICES (map LitExpr [?d]) False) s =
      ev_bind (eval X (Suc (Suc n)) ?body) (\<lambda>r. ev_ok (strip_return r)) s"
    using ev_map_lits [of X "Suc n" "[?d]" s]
    by (simp only: eval.simps(2) [of X "Suc (Suc n)"] eval_step.simps ev_bind_Ok)
      (simp add: ev_call_def code ev_res_def ev_bind_Ok ev_ok_def del: eval.simps)
  have "is_builtin cp_builtin ''OnboardingResult::ErrStr''"
    by code_simp
  then have "eval X (Suc (Suc n)) (CallExpr ''OnboardingResult::ErrStr'' (map LitExpr [lit_str cp_lits onboarding_disabled]) False) s =
      en_call X ''OnboardingResult::ErrStr'' [LitExpr (lit_str cp_lits onboarding_disabled)] s"
    using ev_map_lits [of X n "[lit_str cp_lits onboarding_disabled]" s]
    by (simp only: eval.simps(2) [of X "Suc n"] eval_step.simps ev_bind_Ok)
      (simp add: ev_call_def code del: eval.simps)
  then have inner: "eval X (Suc (Suc n)) ?body s =
      (Ok (LitExpr (onboard_err_str_lit onboarding_disabled)), s\<lparr>mc_trace := Builtin ''OnboardingResult::ErrStr'' # mc_trace s\<rparr>)"
    by (simp add: code eval_control_def seval_call1_def call_result_def ev_bind_def ev_ok_def ev_res_def lit_str_def cp_lits_def
        lit_call1_def cp_plane_def cp_interp_def cp_call1_def del: eval.simps)
  show ?thesis
    using outer
    by (simp add: policy_evaluate_onboarding_def evaluate_def expr_call_def ev_bind_def ev_ok_def inner strip_return_def
        onboard_err_str_lit_def flip: X_def del: eval.simps)
qed
text \<open>C31: while no onboarding policy is stored no service is onboarded: the request is answered with the reason, and
  nothing in the database changes.\<close>

theorem onboarding_disabled_by_default:
  assumes "documented (ct_mongo W)"
    and "\<forall>d \<in> set (cs_store (mc_state s) POLICIES_COL). \<not> doc_matches [(''label'', ser_label onboarding_policy_label)] d"
    and "control_serve W (Suc (Suc (Suc n))) (OnboardService r) s = (out, t)"
  shows "out = Ok (Internal (Error onboarding_disabled)) \<and> cs_store (mc_state t) = cs_store (mc_state s)"
proof -
  let ?s = "s\<lparr>mc_meta := ie_default\<rparr>" and ?f = "[(''label'', ser_label onboarding_policy_label)]"
  obtain q st where q: "db W (FindOne POLICIES_COL ?f) ?s = (Ok q, ?s\<lparr>mc_state := (mc_state ?s)\<lparr>cs_store := st, cs_ops := Suc (cs_ops (mc_state ?s))\<rparr>\<rparr>)"
      "permitted (cs_store (mc_state ?s)) (FindOne POLICIES_COL ?f) q st"
    by (rule db_permitted [OF assms(1)])
  then have "st = cs_store (mc_state s)" and "(case q of Found d \<Rightarrow> d | _ \<Rightarrow> None) = None"
    using assms(2) by auto
  then have "\<exists>u. get_onboarding_policy W ?s = (Ok default_onboarding_policy, u) \<and> cs_store (mc_state u) = cs_store (mc_state s)"
    using q(1) by (simp add: get_onboarding_policy_def db_look_def ev_bind_def ev_ok_def)
  then show ?thesis
    using assms(3) by (auto simp: control_serve_def service_on_board_def helper_on_board_def ev_bind_def ev_try_def
        default_policy_evaluates ev_ok_def)
qed

theorem onboarding_disabled_by_default_witness:
  "fst (control_serve memory 3 (OnboardService svc_request) control_start) = Ok (Internal (Error onboarding_disabled))"
proof -
  let ?m = "control_serve memory (Suc (Suc (Suc 0))) (OnboardService svc_request) control_start"
  have "fst ?m = Ok (Internal (Error onboarding_disabled))"
    using onboarding_disabled_by_default [OF memory_ok(1) _ prod.collapse [symmetric], of control_start 0 svc_request]
    by (simp add: control_start_def)
  then show ?thesis
    by (simp add: eval_nat_numeral)
qed

end
