(* ===== verification/ControlFuel.thy ===== *)
theory ControlFuel
  imports ControlEffects ControlMemory EvalFuel
begin

text \<open>
  The fuel of the control plane: an amount that is enough for a request can be replaced by any larger one
  without changing the reply or the state. The evaluator, the specialiser and the builtins of the control
  plane hand the fuel to each other.
\<close>

section \<open>Environments whose builtins do more\<close>

definition env_le :: "('s, 'f, 'l) env \<Rightarrow> ('s, 'f, 'l) env \<Rightarrow> bool" where
  "env_le X Y \<longleftrightarrow>
     en_plane X = en_plane Y \<and> en_code X = en_code Y \<and> en_lib X = en_lib Y \<and> en_rpc X = en_rpc Y \<and>
     (\<forall>f args. ev_le (en_call X f args) (en_call Y f args))"

lemma env_le_outside:
  assumes "env_le X Y"
  shows "send_meta X = send_meta Y" "send_rpc X = send_rpc Y" "spawn_rpc X = spawn_rpc Y" "ev_match X = ev_match Y"
  using assms by (auto simp: env_le_def send_meta_def send_rpc_def spawn_rpc_def ev_match_def fun_eq_iff)

lemma env_le_call:
  assumes "env_le X Y" and "\<And>e. ev_le (ev e) (ev' e)"
  shows "ev_le (ev_call X ev f async args) (ev_call Y ev' f async args)"
proof -
  have "en_plane X = en_plane Y" "en_code X = en_code Y" "ev_le (en_call X f args) (en_call Y f args)"
    using assms(1) by (simp_all add: env_le_def)
  then show ?thesis
    unfolding ev_call_def env_le_outside [OF assms(1)] by (auto intro!: ev_mono assms(2) split: option.split)
qed

lemma env_le_step:
  assumes "env_le X Y" and "\<And>e. ev_le (ev e) (ev' e)"
  shows "ev_le (eval_step X ev e) (eval_step Y ev' e)"
proof (cases "\<exists>f args async. e = CallExpr f args async")
  case True
  then show ?thesis
    by (auto intro!: ev_le_bind ev_le_map assms(2) env_le_call [OF assms(1)])
next
  case False
  have plane: "en_plane X = en_plane Y"
    using assms(1) by (simp add: env_le_def)
  have "eval_step X ev e = eval_step Y ev e"
    using False by (cases e) (simp_all only: eval_step.simps plane env_le_outside(4) [OF assms(1)], simp_all)
  then show ?thesis
    using ev_le_step [of ev ev'] assms(2) by simp
qed

lemma env_le_eval: "env_le X Y \<Longrightarrow> ev_le (eval X n e) (eval Y (n + k) e)"
proof (induction n arbitrary: e)
  case 0
  then show ?case
    by (simp add: ev_le_def)
next
  case (Suc n)
  then show ?case
    by (simp add: env_le_step)
qed

lemma env_le_evaluate [ev_mono]: "env_le X Y \<Longrightarrow> ev_le (evaluate X n e) (evaluate Y (n + k) e)"
  unfolding evaluate_def by (intro ev_mono env_le_eval)

section \<open>Partial evaluation\<close>

lemma ev_le_pe_iter [ev_mono]:
  "(\<And>e. ev_le (pe e) (pe' e)) \<Longrightarrow> ev_le (pe_iter pe vs body ls acc) (pe_iter pe' vs body ls acc)"
  by (induction ls arbitrary: acc) (auto intro!: ev_mono split: prod.split)

lemma ev_le_pe_matches:
  assumes "env_le X Y" and "\<And>e. ev_le (pe e) (pe' e)"
  shows "ev_le (pe_matches X pe ms) (pe_matches Y pe' ms)"
proof -
  have "en_plane X = en_plane Y" "en_lib X = en_lib Y"
    using assms(1) by (simp_all add: env_le_def)
  then show ?thesis
    by (induction ms) (auto intro!: ev_mono assms(2) split: prod.split)
qed

lemma ev_le_pe_parts [ev_mono]:
  "ev_le m m' \<Longrightarrow> ev_le (pe_strip m) (pe_strip m')"
  "(\<And>e. ev_le (pe e) (pe' e)) \<Longrightarrow> ev_le (pe_opt pe alt) (pe_opt pe' alt)"
  by (auto simp: pe_strip_def pe_opt_def intro!: ev_mono split: option.split)

lemma ev_le_pe_call:
  assumes "env_le X Y" and "\<And>e. ev_le (pe e) (pe' e)"
  shows "ev_le (pe_call X pe only f arguments async args) (pe_call Y pe' only f arguments async args)"
proof -
  have "en_plane X = en_plane Y" "en_code X = en_code Y" "\<And>as. ev_le (en_call X f as) (en_call Y f as)"
    using assms(1) by (simp_all add: env_le_def)
  then show ?thesis
    unfolding pe_call_def Let_def by (auto intro!: ev_mono assms(2) split: option.split prod.split)
qed

lemma ev_le_pe_block [ev_mono]:
  "(\<And>b e. ev_le (pe b e) (pe' b e)) \<Longrightarrow> ev_le (pe_block pe only b es) (pe_block pe' only b es)"
  unfolding pe_block_def Let_def by (auto intro!: ev_mono split: list.split option.split prod.split expr.split)

lemma ev_le_pe_let [ev_mono]:
  "(\<And>e. ev_le (pe e) (pe' e)) \<Longrightarrow> ev_le (pe_let pe vs e1 e2) (pe_let pe' vs e1 e2)"
  unfolding pe_let_def by (auto intro!: ev_mono split: option.split prod.split expr.split literal.split)

lemma ev_le_pe_iter_expr [ev_mono]:
  "(\<And>e. ev_le (pe e) (pe' e)) \<Longrightarrow> ev_le (pe_iter_expr pe op vs e1 e2 acc) (pe_iter_expr pe' op vs e1 e2 acc)"
  unfolding pe_iter_expr_def by (auto intro!: ev_mono split: option.split prod.split expr.split literal.split)

lemma ev_le_pe_if [ev_mono]:
  "(\<And>e. ev_le (pe e) (pe' e)) \<Longrightarrow> ev_le (pe_if pe c t alt) (pe_if pe' c t alt)"
  unfolding pe_if_def by (auto intro!: ev_mono split: option.split prod.split expr.split)

lemma ev_le_pe_some_match [ev_mono]:
  "(\<And>e. ev_le (pe e) (pe' e)) \<Longrightarrow> ev_le (pe_some_match pe e t alt) (pe_some_match pe' e t alt)"
  unfolding pe_some_match_def by (auto intro!: ev_mono split: option.split prod.split expr.split literal.split)

lemma ev_le_pe_if_match:
  "env_le X Y \<Longrightarrow> (\<And>e. ev_le (pe e) (pe' e)) \<Longrightarrow> ev_le (pe_if_match X pe vs ms t alt) (pe_if_match Y pe' vs ms t alt)"
  unfolding pe_if_match_def by (auto intro!: ev_mono ev_le_pe_matches split: option.split prod.split)

lemma env_le_peval: "env_le X Y \<Longrightarrow> ev_le (peval X n only e) (peval Y (n + k) only e)"
proof (induction n arbitrary: only e)
  case 0
  then show ?case
    by (simp add: ev_le_def)
next
  case (Suc n)
  have plane: "en_plane X = en_plane Y"
    using Suc.prems by (simp add: env_le_def)
  show ?case
    using Suc
    by (cases e) (auto simp: plane intro!: ev_mono ev_le_pe_call ev_le_pe_if_match split: prod.split expr.split)
qed

lemma env_le_pevaluate [ev_mono]: "env_le X Y \<Longrightarrow> ev_le (pevaluate X n only e) (pevaluate Y (n + k) only e)"
  unfolding pevaluate_def by (intro ev_mono env_le_peval)

lemma env_le_compile_policy:
  "(\<And>code. env_le (X code) (Y code)) \<Longrightarrow>
     ev_le (compile_policy pg X n egress f to pol) (compile_policy pg Y (n + k) egress f to pol)"
  unfolding compile_policy_def Let_def by (auto intro!: ev_mono split: option.split prod.split)

lemma env_le_compile [ev_mono]:
  assumes "\<And>code. env_le (X code) (Y code)"
  shows "ev_le (compile_egress_ingress pg X n egress global f to) (compile_egress_ingress pg Y (n + k) egress global f to)"
proof -
  have "ev_le (compile_policies pg X n egress f to ps new) (compile_policies pg Y (n + k) egress f to ps new)" for ps new
    by (induction ps arbitrary: new) (auto intro!: ev_mono env_le_compile_policy assms)
  then show ?thesis
    unfolding compile_egress_ingress_def by (intro ev_mono)
qed


section \<open>The control plane\<close>

lemma ev_le_after: "(\<And>s. ev_le (m s) (m' s)) \<Longrightarrow> ev_le (\<lambda>s. m s (g s)) (\<lambda>s. m' s (g s))"
  by (simp add: ev_le_def)

lemma ev_le_try [ev_mono]: "ev_le m m' \<Longrightarrow> ev_le (ev_try m) (ev_try m')"
  unfolding ev_le_def
proof
  fix s
  assume "\<forall>s. fst (m s) = NoFuel \<or> m s = m' s"
  then consider "fst (m s) = NoFuel" | "m s = m' s"
    by blast
  then show "fst (ev_try m s) = NoFuel \<or> ev_try m s = ev_try m' s"
    by cases (cases "m s", simp_all add: ev_try_def)
qed

lemma ev_le_seval_call2:
  assumes "\<And>e p f i. ev_le (compile e p f i) (compile' e p f i)"
  shows "ev_le (seval_call2 W compile lb g a b) (seval_call2 W compile' lb g a b)"
proof (cases a)
  case a: (FlatLit x)
  show ?thesis
  proof (cases x)
    case x: (PrimitiveL p)
    show ?thesis
    proof (cases b)
      case b: (FlatLit y)
      show ?thesis
      proof (cases y)
        case (DPFlatL z)
        have "ev_le (helper_compile W (compile e) p i) (helper_compile W (compile' e) p i)" for e i
          unfolding helper_compile_def by (intro ev_mono assms)
        then show ?thesis
          by (cases z) (simp_all add: seval_call2_def a x b DPFlatL ev_le_bind)
      qed (simp_all add: seval_call2_def a x b)
    qed (simp_all add: seval_call2_def a x)
  qed (simp_all add: seval_call2_def a)
qed (simp_all add: seval_call2_def)

lemma ev_le_eval_control:
  assumes "\<And>e p f i. ev_le (compile e p f i) (compile' e p f i)"
  shows "ev_le (eval_control W compile f args) (eval_control W compile' f args)"
proof (cases "\<exists>a b. args = [LitExpr a, LitExpr b]")
  case True
  then obtain a b where args: "args = [LitExpr a, LitExpr b]"
    by blast
  show ?thesis
    unfolding eval_control_def Let_def args list.case expr.case
    by (rule ev_le_after) (rule ev_le_bind [OF ev_le_seval_call2 [OF assms] ev_le_refl])
next
  case False
  have "eval_control W compile f args = eval_control W compile' f args"
  proof (cases args)
    case args: (Cons x xs)
    show ?thesis
    proof (cases x)
      case x: (LitExpr a)
      show ?thesis
      proof (cases xs)
        case xs: (Cons y ys)
        show ?thesis
        proof (cases y)
          case y: (LitExpr b)
          then obtain z zs where "ys = z # zs"
            using False args x xs by (cases ys) auto
          then show ?thesis
            by (simp add: eval_control_def args x xs y)
        qed (simp_all add: eval_control_def args x xs)
      qed (simp add: eval_control_def args x)
    qed (simp_all add: eval_control_def args)
  qed (simp add: eval_control_def)
  then show ?thesis
    by simp
qed

lemma control_env_le:
  "env_le (env_with W c code) (env_with W c' code) \<longleftrightarrow> (\<forall>f args. ev_le (c f args) (c' f args))"
  by (simp add: env_le_def env_with_def)

lemma control_call_le [ev_mono]: "ev_le (control_call W n f args) (control_call W (n + k) f args)"
proof (induction n arbitrary: f args)
  case 0
  then show ?case
    by (simp add: ev_le_def)
next
  case (Suc n)
  then show ?case
    by (simp add: ev_le_eval_control env_le_compile control_env_le)
qed

lemma control_evaluation_le [ev_mono]:
  "ev_le (policy_evaluate_onboarding W n pol data) (policy_evaluate_onboarding W (n + k) pol data)"
  "ev_le (compile_egress_ingress pg (control_env W n) n egress global f i)
     (compile_egress_ingress pg (control_env W (n + k)) (n + k) egress global f i)"
  unfolding policy_evaluate_onboarding_def control_env_def by (intro ev_mono; simp add: control_env_le ev_mono)+

lemma compile_functions_le [ev_mono]:
  "ev_le (compile_functions W n global i fs pol) (compile_functions W (n + k) global i fs pol)"
  by (induction fs arbitrary: pol) (auto intro!: ev_mono)

lemma update_services_le [ev_mono]: "ev_le (update_services W n request xs) (update_services W (n + k) request xs)"
  by (induction xs) (auto intro!: ev_mono split: option.split)

lemma control_handle_le: "ev_le (control_handle W n r) (control_handle W (n + k) r)"
  by (cases r)
    (auto simp: service_on_board_def helper_on_board_def update_global_def specialize_def Let_def
      intro!: ev_mono split: sum.split option.split)

lemma serve_more_fuel:
  assumes "fst (control_serve W n r s) \<noteq> NoFuel" and "n \<le> m"
  shows "control_serve W m r s = control_serve W n r s"
proof -
  obtain k where "m = n + k"
    using assms(2) le_Suc_ex by blast
  then show ?thesis
    using control_handle_le [of W n r k] assms(1) unfolding control_serve_def ev_le_def by metis
qed

section \<open>Requests that end\<close>

definition ends :: "('s, 'l, 'a) ev \<Rightarrow> bool" where
  "ends m \<longleftrightarrow> (\<forall>s. fst (m s) \<noteq> NoFuel)"

lemma endsD: "ends m \<Longrightarrow> fst (m s) \<noteq> NoFuel"
  by (simp add: ends_def)

lemma ends_basic [intro!]:
  "ends (ev_ok x)" "ends (ev_err e)" "ends ev_panic" "ends (ev_res r)" "ends (ev_opt y)"
  by (auto simp: ends_def ev_ok_def ev_err_def ev_panic_def ev_res_def ev_opt_def split: sum.split option.split)

lemma ends_bind_at:
  assumes "fst (m s) \<noteq> NoFuel" and "\<And>x t. m s = (Ok x, t) \<Longrightarrow> fst (f x t) \<noteq> NoFuel"
  shows "fst (ev_bind m f s) \<noteq> NoFuel"
  using assms by (cases "m s"; cases "fst (m s)") (auto simp: ev_bind_def)

lemma ends_bind [intro!]: "ends m \<Longrightarrow> (\<And>x. ends (f x)) \<Longrightarrow> ends (ev_bind m f)"
  unfolding ends_def by (intro allI ends_bind_at) blast+

lemma ends_map [intro!]: "(\<And>x. ends (f x)) \<Longrightarrow> ends (ev_map f xs)"
  by (induction xs) auto

lemma ends_requests [intro!]: "ends (db W op)" "ends (conv x)"
  by (auto simp: ends_def db_def Let_def conv_def ev_ok_def ev_err_def split: prod.split option.split)

lemma ends_db [intro!]:
  "ends (db_find W msg c f)" "ends (db_find_one W msg c f)" "ends (db_change W msg op)" "ends (db_look W c f)"
  "ends (present W c f)"
  by (auto simp: db_find_def db_find_one_def db_change_def db_look_def present_def split: db_reply.split)

lemma ends_helpers [intro!]: "ends (helper_onboarded W obd)" "ends (helper_onboard W i)"
  by (auto simp: helper_onboarded_def helper_onboard_def Let_def split: option.split)

text \<open>The builtin functions other than the two that compile the global policy.\<close>

definition compiles :: "string \<Rightarrow> bool" where
  "compiles f \<longleftrightarrow> f = ''compile_ingress'' \<or> f = ''compile_egress''"

lemma ends_seval_call1 [intro!]: "ends (seval_call1 W lb f a)"
  by (auto simp: seval_call1_def split: literal.split cp_flat_literal.split flat_literal.split)

lemma ends_seval_call2 [intro!]: "\<not> compiles f \<Longrightarrow> ends (seval_call2 W compile lb f a b)"
  by (auto simp: seval_call2_def compiles_def split: literal.split cp_flat_literal.split flat_literal.split)

lemma ends_after: "(\<And>s. ends (m s)) \<Longrightarrow> ends (\<lambda>s. m s (g s))"
  by (simp add: ends_def)

lemma ends_control_call:
  assumes "\<not> compiles f"
  shows "ends (control_call W (Suc n) f args)"
  unfolding control_call.simps eval_control_def Let_def
  by (rule ends_after) (auto intro!: ends_seval_call2 assms split: list.split expr.split)

text \<open>A policy whose functions do not call each other in a circle, and do not compile the global policy.\<close>

definition plain_policy :: "cp_policy \<Rightarrow> bool" where
  "plain_policy pol \<longleftrightarrow>
     (\<exists>rank. ranked rank (pr_code (pol_program pol))) \<and>
     (\<forall>f body. bt_get f (pr_code (pol_program pol)) = Some body \<longrightarrow> calls_ok (\<lambda>g. \<not> compiles g) body)"

lemma plain_policy_evaluates:
  assumes "plain_policy pol"
  shows "\<exists>n. fst (policy_evaluate_onboarding W n pol (LitExpr l) s) \<noteq> NoFuel"
proof -
  let ?code = "pr_code (pol_program pol)" and ?e = "expr_call ONBOARDING_SERVICES [LitExpr l]"
  obtain rank where rank: "ranked rank ?code"
    using assms by (auto simp: plain_policy_def)
  have sel: "en_code (control_env W 1 ?code) = ?code" "en_call (control_env W 1 ?code) = control_call W (Suc 0)"
    by (simp_all add: control_env_def env_with_def)
  have "halting is_value (\<lambda>n. eval (control_env W 1 ?code) n ?e)"
  proof (rule halting_everything [where B = "\<lambda>g. \<not> compiles g" and rank = rank])
    show "halting is_value (\<lambda>_. en_call (control_env W 1 ?code) f vs)" if "\<not> compiles f" for f vs
      unfolding sel by (rule halting_const)
        (use ends_control_call [OF that, of W 0] control_call_value in \<open>auto simp: ends_def simp del: control_call.simps\<close>)
    show "calls_ok (\<lambda>g. \<not> compiles g) ?e"
      by (simp add: expr_call_def compiles_def ONBOARDING_SERVICES_def)
  qed (use assms rank sel in \<open>auto simp: plain_policy_def\<close>)
  then obtain n where n: "fst (eval (control_env W 1 ?code) n ?e s) \<noteq> NoFuel"
    unfolding halting_def by blast
  have "env_le (control_env W 1 ?code) (control_env W (Suc n) ?code)"
    using control_call_le [of W 1 _ _ n] by (simp add: control_env_def control_env_le)
  from env_le_eval [OF this, of n ?e 1] have "fst (eval (control_env W (Suc n) ?code) (Suc n) ?e s) \<noteq> NoFuel"
    using n by (auto simp: ev_le_def simp del: eval.simps)
  then have "fst (policy_evaluate_onboarding W (Suc n) pol (LitExpr l) s) \<noteq> NoFuel"
    unfolding policy_evaluate_onboarding_def evaluate_def
    by (intro ends_bind_at)
      (auto simp: ev_ok_def ev_err_def simp del: eval.simps split: expr.split literal.split cp_flat_literal.split)
  then show ?thesis
    by blast
qed

lemma ends_post [intro!]: "ends (post url d)"
  by (simp add: ends_def post_def)

lemma ends_parts [intro!]:
  "ends (get_onboarding_policy W)" "ends (replace_policy W l doc)" "ends (services W)" "ends (get_local_service_label W l)"
  "ends (push_policy W l p h)"
  by (auto simp: get_onboarding_policy_def replace_policy_def services_def get_local_service_label_def push_policy_def
      split: option.split)

lemma ends_update_hosts [intro!]: "ends (update_hosts W l local_label p)"
proof -
  have "ends (hosts_loop W ds hs)" for ds hs
    by (induction ds arbitrary: hs) (auto split: option.split)
  then show ?thesis
    by (auto simp: update_hosts_def hosts_of_def)
qed

lemma ends_handle:
  assumes "\<forall>q. r \<noteq> OnboardService q" "\<forall>q. r \<noteq> UpdateGlobal q" "\<forall>q. r \<noteq> SpecializePolicy q"
  shows "ends (control_handle W n r)"
  using assms
  by (cases r)
    (auto simp: host_list_def host_on_board_def host_drop_def service_list_def service_drop_def policy_list_def
      update_onboarding_def policy_update_def helper_update_def query_def query_global_def query_onboarding_def
      policy_drop_def push_deny_all_def drop_all_def Let_def split: option.split db_reply.split)

lemma ends_save_policy: "ends (save_policy W r)"
  by (auto simp: save_policy_def)

lemma onboarding_reply:
  assumes "\<And>pol u. get_onboarding_policy W s = (Ok pol, u) \<Longrightarrow> plain_policy pol"
  shows "\<exists>n. fst (service_on_board W n r s) \<noteq> NoFuel"
proof -
  let ?data = "LitExpr (FlatLit (OnboardingDataL (onboarding_data_of r)))"
  have "\<exists>n. \<forall>pol u. get_onboarding_policy W s = (Ok pol, u) \<longrightarrow> fst (policy_evaluate_onboarding W n pol ?data u) \<noteq> NoFuel"
    using plain_policy_evaluates assms by (cases "get_onboarding_policy W s") (metis Pair_inject outcome.inject(1))
  then obtain n where n: "\<And>pol u. get_onboarding_policy W s = (Ok pol, u) \<Longrightarrow>
      fst (policy_evaluate_onboarding W n pol ?data u) \<noteq> NoFuel"
    by blast
  have "fst (helper_on_board W n r s) \<noteq> NoFuel"
    unfolding helper_on_board_def
  proof (rule ends_bind_at)
    show "fst (get_onboarding_policy W s) \<noteq> NoFuel"
      using ends_parts(1) [of W] by (simp add: ends_def)
    fix pol u
    assume "get_onboarding_policy W s = (Ok pol, u)"
    then have "fst (policy_evaluate_onboarding W n pol ?data u) \<noteq> NoFuel"
      by (rule n)
    then have "fst (ev_try (policy_evaluate_onboarding W n pol ?data) u) \<noteq> NoFuel"
      by (auto simp: ev_try_def split: prod.split outcome.split)
    then show "fst (ev_bind (ev_try (policy_evaluate_onboarding W n pol ?data)) (\<lambda>r.
       case r of
         Inr (OnboardOk i ingress egress) \<Rightarrow>
           (case id_find_label (label_const ''ServiceID::**'') i of
              None \<Rightarrow> ev_err (Error ''Extracting service_id from id labels'')
            | Some service_id \<Rightarrow>
                ev_ok (Inr (service_id,
                  \<lparr>pu_label = service_id, pu_policy = ingress, pu_labels = []\<rparr>,
                  \<lparr>pu_label = service_id, pu_policy = egress, pu_labels = []\<rparr>)))
       | Inr (OnboardErr e _ _) \<Rightarrow> ev_ok (Inl (Error e))
       | Inl e \<Rightarrow> ev_ok (Inl e)) u) \<noteq> NoFuel"
      by (rule ends_bind_at) (auto simp: ev_ok_def ev_err_def split: sum.split onboarding_result.split option.split)
  qed
  then have "fst (service_on_board W n r s) \<noteq> NoFuel"
    unfolding service_on_board_def
    by (rule ends_bind_at) (rule endsD, auto intro: ends_save_policy split: sum.split)
  then show ?thesis
    by blast
qed

section \<open>Properties\<close>




lemma onboard_all_plain: "plain_policy onboard_all"
proof -
  have "ranked (\<lambda>_. 0) (pr_code (pol_program onboard_all))"
    by (auto simp: ranked_def callable_def onboard_all_def ONBOARDING_SERVICES_def split: if_splits)
  then show ?thesis
    unfolding plain_policy_def by (auto simp: onboard_all_def compiles_def split: if_splits)
qed


end
