(* ===== verification/HostAgent.thy ===== *)
theory HostAgent
  imports ControlApi
begin

text \<open>
  The agent of a host (\<open>armour-host\<close>): the proxies it knows, one function per message it handles,
  the actor that stands for the connection to one proxy, and what the REST interface and the
  command line turn into messages. Messages are handled one at a time; a handler returns what it
  sends, in order. The connection of a proxy is known by a number, its address.
\<close>

section \<open>Proxies and their description\<close>

datatype instance_selector = SelAll | SelLabel label | SelID nat

record host_meta =
  me_pid :: nat
  me_dpid :: "ID option"
  me_label :: label
  me_http :: string
  me_tcp :: string

record inst =
  in_meta :: "host_meta option"
  in_addr :: nat

definition instance_new :: "nat \<Rightarrow> inst" where
  "instance_new addr = \<lparr>in_meta = None, in_addr = addr\<rparr>"

definition set_meta :: "host_meta \<Rightarrow> inst \<Rightarrow> inst" where
  "set_meta m i = i\<lparr>in_meta := Some m\<rparr>"

definition set_http_hash :: "string \<Rightarrow> inst \<Rightarrow> inst" where
  "set_http_hash s i = i\<lparr>in_meta := map_option (\<lambda>m. m\<lparr>me_http := s\<rparr>) (in_meta i)\<rparr>"

definition set_tcp_hash :: "string \<Rightarrow> inst \<Rightarrow> inst" where
  "set_tcp_hash s i = i\<lparr>in_meta := map_option (\<lambda>m. m\<lparr>me_tcp := s\<rparr>) (in_meta i)\<rparr>"

record host_policy_status =
  hps_label :: label
  hps_http :: string
  hps_tcp :: string

definition status_of_meta :: "host_meta \<Rightarrow> host_policy_status" where
  "status_of_meta m = \<lparr>hps_label = me_label m, hps_http = me_http m, hps_tcp = me_tcp m\<rparr>"

section \<open>Messages\<close>

datatype log_level = LevelWarn | LevelInfo | LevelDebug

text \<open>The messages to the agent; those of the connections, of the REST interface and of the commands.\<close>

datatype host_msg =
    Connect nat
  | Disconnect nat
  | RegisterProxy nat host_meta
  | CPOnboardProxy nat "(ip_addr \<times> labels) list"
  | RegisterHttpHash nat string
  | RegisterTcpHash nat string
  | Launch label bool log_level "u8 option"
  | HostList
  | MetaData instance_selector
  | ServiceGlobalID ID instance_selector
  | PolicyCommand bool instance_selector policy_request
  | Quit

text \<open>The requests to the control plane and its answers.\<close>

record policy_query_response =
  pqr_policy :: "(flat_typ, flat_literal) policies"
  pqr_labels :: label_map

record control_plane =
  cp_on_board :: "onboard_service_request \<Rightarrow> string + label"
  cp_query :: "label \<Rightarrow> string + policy_query_response"

text \<open>What a handler sends: a request to a proxy, a message to itself, now or after a second, a new process
  (the key of the host is left out), and the removal of a service from the control plane.\<close>

datatype host_out =
    ToProxy nat policy_request
  | Notify host_msg
  | NotifyLater host_msg
  | SpawnProxy label log_level "u8 option"
  | DropService onboard_service_request
  | StopSystem

section \<open>The state of the agent\<close>

text \<open>
  The hash map of instances is kept in the order of its keys. Of the child processes, only their
  numbers are kept. \<open>count\<close> is a \<open>usize\<close> that is taken not to be used up.
\<close>

record host_state =
  hst_label :: label
  hst_onboarded :: bool
  hst_instances :: "(nat \<times> inst) list"
  hst_children :: "nat list"
  hst_count :: nat

definition host_new :: "label \<Rightarrow> bool \<Rightarrow> host_state" where
  "host_new l onboarded = \<lparr>hst_label = l, hst_onboarded = onboarded, hst_instances = [], hst_children = [], hst_count = 0\<rparr>"

definition selects :: "instance_selector \<Rightarrow> nat \<Rightarrow> inst \<Rightarrow> bool" where
  "selects sel n i =
     (case sel of
        SelLabel l \<Rightarrow> (case in_meta i of Some m \<Rightarrow> matches_with l (me_label m) | None \<Rightarrow> False)
      | SelID k \<Rightarrow> n = k
      | SelAll \<Rightarrow> True)"

definition get_instances :: "instance_selector \<Rightarrow> host_state \<Rightarrow> (nat \<times> inst) list" where
  "get_instances sel h =
     (case sel of
        SelLabel l \<Rightarrow> filter (\<lambda>(n, i). selects sel n i) (hst_instances h)
      | SelID k \<Rightarrow> (case bt_get k (hst_instances h) of None \<Rightarrow> [] | Some i \<Rightarrow> [(k, i)])
      | SelAll \<Rightarrow> hst_instances h)"

definition update_instances :: "instance_selector \<Rightarrow> ID \<Rightarrow> host_state \<Rightarrow> host_state" where
  "update_instances sel d h = h\<lparr>hst_instances :=
     map (\<lambda>(n, i). (n, if selects sel n i then i\<lparr>in_meta := map_option (\<lambda>m. m\<lparr>me_dpid := Some d\<rparr>) (in_meta i)\<rparr> else i))
       (hst_instances h)\<rparr>"

text \<open>\<open>get_mut\<close> on the map of instances.\<close>

definition at_instance :: "nat \<Rightarrow> (inst \<Rightarrow> inst) \<Rightarrow> host_state \<Rightarrow> host_state" where
  "at_instance n f h =
     (case bt_get n (hst_instances h) of
        Some i \<Rightarrow> h\<lparr>hst_instances := bt_insert n (f i) (hst_instances h)\<rparr>
      | None \<Rightarrow> h)"

section \<open>The handlers\<close>

text \<open>Starting a process and waiting for its end; either may fail.\<close>

record host_os =
  os_spawn :: "label \<Rightarrow> log_level \<Rightarrow> u8 option \<Rightarrow> nat option"
  os_wait :: "nat \<Rightarrow> bool"

definition SERVICE_ID :: label where
  "SERVICE_ID = (case parse_label ''ServiceID::**'' of Inr l \<Rightarrow> l | Inl _ \<Rightarrow> [])"

definition handle_connect :: "nat \<Rightarrow> host_state \<Rightarrow> nat \<times> host_state" where
  "handle_connect addr h =
     (let n = hst_count h
      in (n, h\<lparr>hst_instances := bt_insert n (instance_new addr) (hst_instances h), hst_count := n + 1\<rparr>))"

definition handle_disconnect :: "host_os \<Rightarrow> nat \<Rightarrow> host_state \<Rightarrow> host_out list \<times> host_state" where
  "handle_disconnect os n h =
     (case bt_get n (hst_instances h) of
        None \<Rightarrow> ([], h)
      | Some i \<Rightarrow>
          (let h1 = h\<lparr>hst_instances := bt_remove n (hst_instances h)\<rparr>
           in case in_meta i of
                None \<Rightarrow> ([], h1)
              | Some m \<Rightarrow>
                  (if me_pid m \<notin> set (hst_children h1) then ([], h1)
                   else
                     (let h2 = h1\<lparr>hst_children := bs_remove (me_pid m) (hst_children h1)\<rparr>;
                          service = (case me_dpid m of
                              Some d \<Rightarrow> (case id_find_label SERVICE_ID d of Some l \<Rightarrow> l | None \<Rightarrow> me_label m)
                            | None \<Rightarrow> me_label m)
                      in (if os_wait os (me_pid m) \<and> hst_onboarded h then
                            [DropService \<lparr>os_service = service, os_host = hst_label h, os_tmp_dpid = me_dpid m, os_credentials = []\<rparr>]
                          else [], h2)))))"

definition handle_register_proxy :: "nat \<Rightarrow> host_meta \<Rightarrow> host_state \<Rightarrow> host_state" where
  "handle_register_proxy n m h = at_instance n (set_meta m) h"

definition handle_register_http_hash :: "nat \<Rightarrow> string \<Rightarrow> host_state \<Rightarrow> host_state" where
  "handle_register_http_hash n s h = at_instance n (set_http_hash s) h"

definition handle_register_tcp_hash :: "nat \<Rightarrow> string \<Rightarrow> host_state \<Rightarrow> host_state" where
  "handle_register_tcp_hash n s h = at_instance n (set_tcp_hash s) h"

text \<open>
  The actor waits for both answers of the control plane. Of the map of addresses only the entry that
  comes first is used; the list is in the order in which the map is iterated over.
\<close>

definition handle_cp_onboard ::
    "control_plane \<Rightarrow> nat \<Rightarrow> (ip_addr \<times> labels) list \<Rightarrow> host_state \<Rightarrow> host_out list" where
  "handle_cp_onboard C n ip_labels h =
     (if \<not> hst_onboarded h then []
      else case bt_get n (hst_instances h) of
        None \<Rightarrow> []
      | Some i \<Rightarrow>
          (case in_meta i of
             None \<Rightarrow> []
           | Some m \<Rightarrow>
               (let d0 = (case me_dpid m of Some d \<Rightarrow> d | None \<Rightarrow> default_id);
                    d1 = (case ip_labels of (ip, ls) # _ \<Rightarrow> d0\<lparr>id_ips := [ip], id_labels := ls\<rparr> | [] \<Rightarrow> d0);
                    service_id = (case cp_on_board C \<lparr>os_service = me_label m, os_host = hst_label h,
                                      os_tmp_dpid = Some d1, os_credentials = []\<rparr> of
                        Inr l \<Rightarrow> l | Inl _ \<Rightarrow> me_label m);
                    d2 = id_add_label service_id d1
                in case cp_query C service_id of
                     Inl _ \<Rightarrow> []
                   | Inr p \<Rightarrow>
                       [Notify (PolicyCommand False (SelLabel (me_label m)) (LabelReq (AddUri (pqr_labels p)))),
                        Notify (PolicyCommand False (SelLabel (me_label m)) (SetPolicy (pqr_policy p))),
                        Notify (ServiceGlobalID d2 (SelLabel (me_label m)))])))"

definition handle_launch ::
    "host_os \<Rightarrow> label \<Rightarrow> bool \<Rightarrow> log_level \<Rightarrow> u8 option \<Rightarrow> host_state \<Rightarrow> host_out list \<times> host_state" where
  "handle_launch os l force level timeout h =
     (if force \<or> get_instances (SelLabel l) h = [] then
        (case os_spawn os l level timeout of
           Some pid \<Rightarrow> ([SpawnProxy l level timeout], h\<lparr>hst_children := bs_insert pid (hst_children h)\<rparr>)
         | None \<Rightarrow> ([], h))
      else ([], h))"

text \<open>The labels of the known proxies, sorted.\<close>

definition handle_list :: "host_state \<Rightarrow> string list" where
  "handle_list h = bs_extend [] (List.map_filter (\<lambda>(_, i). map_option (\<lambda>m. show_label (me_label m)) (in_meta i)) (hst_instances h))"

definition handle_meta_data :: "instance_selector \<Rightarrow> host_state \<Rightarrow> host_policy_status list" where
  "handle_meta_data sel h = List.map_filter (\<lambda>(_, i). map_option status_of_meta (in_meta i)) (get_instances sel h)"

definition handle_policy_command ::
    "bool \<Rightarrow> instance_selector \<Rightarrow> policy_request \<Rightarrow> host_state \<Rightarrow> string option \<times> host_out list" where
  "handle_policy_command retry sel req h =
     (let selected = get_instances sel h
      in if selected = [] then
           (if retry then (Some ''failed to select a proxy: will try once more...'', [NotifyLater (PolicyCommand False sel req)])
            else (Some ''failed to select a proxy'', []))
         else (None, map (\<lambda>(_, i). ToProxy (in_addr i) req) selected))"

datatype host_reply =
    NoReply
  | CountReply nat
  | ListReply "string list"
  | StatusReply "host_policy_status list"
  | CommandReply "string option"

definition host_handle ::
    "control_plane \<Rightarrow> host_os \<Rightarrow> host_msg \<Rightarrow> host_state \<Rightarrow> host_reply \<times> host_out list \<times> host_state" where
  "host_handle C os msg h =
     (case msg of
        Connect addr \<Rightarrow> (case handle_connect addr h of (n, h') \<Rightarrow> (CountReply n, [], h'))
      | Disconnect n \<Rightarrow> (NoReply, handle_disconnect os n h)
      | RegisterProxy n m \<Rightarrow> (NoReply, [], handle_register_proxy n m h)
      | CPOnboardProxy n ips \<Rightarrow> (NoReply, handle_cp_onboard C n ips h, h)
      | RegisterHttpHash n s \<Rightarrow> (NoReply, [], handle_register_http_hash n s h)
      | RegisterTcpHash n s \<Rightarrow> (NoReply, [], handle_register_tcp_hash n s h)
      | Launch l force level timeout \<Rightarrow> (NoReply, handle_launch os l force level timeout h)
      | HostList \<Rightarrow> (ListReply (handle_list h), [], h)
      | MetaData sel \<Rightarrow> (StatusReply (handle_meta_data sel h), [], h)
      | ServiceGlobalID d sel \<Rightarrow> (NoReply, [], update_instances sel d h)
      | PolicyCommand retry sel req \<Rightarrow>
          (case handle_policy_command retry sel req h of (r, out) \<Rightarrow> (CommandReply r, out, h))
      | Quit \<Rightarrow> (NoReply, [StopSystem], h))"

section \<open>The connection to a proxy\<close>

text \<open>
  \<open>ArmourDataInstance\<close>: what a response of the proxy makes the connection \<open>n\<close> tell the agent, and
  whether the connection goes on. \<open>None\<close> is \<open>unreachable!\<close>.
\<close>

definition instance_handle ::
    "(dp_policy \<Rightarrow> string) \<Rightarrow> nat \<Rightarrow> policy_response \<Rightarrow> (host_msg list \<times> bool) option" where
  "instance_handle blake3 n r =
     (case r of
        ConnectR pid d l http tcp \<Rightarrow>
          Some ([RegisterProxy n \<lparr>me_pid = pid, me_dpid = d, me_label = l, me_http = http, me_tcp = tcp\<rparr>], True)
      | CPOnboardingProxy ips \<Rightarrow> Some ([CPOnboardProxy n ips], True)
      | Started \<Rightarrow> Some ([], True)
      | Stopped \<Rightarrow> Some ([], True)
      | UpdatedPolicy HTTP h \<Rightarrow> Some ([RegisterHttpHash n h], True)
      | UpdatedPolicy TCP h \<Rightarrow> Some ([RegisterTcpHash n h], True)
      | UpdatedPolicy PhantomProtocol _ \<Rightarrow> None
      | RequestFailed \<Rightarrow> Some ([], True)
      | ShuttingDown \<Rightarrow> Some ([Disconnect n], False)
      | StatusR _ _ http tcp \<Rightarrow>
          Some ([RegisterHttpHash n (blake3 (st_policy http)), RegisterTcpHash n (blake3 (st_policy tcp))], True))"

text \<open>The end of the stream of responses.\<close>

definition instance_finished :: "nat \<Rightarrow> host_msg list" where
  "instance_finished n = [Disconnect n]"

end
