(* ===== verification/HostCommands.thy ===== *)
theory HostCommands
  imports HostAgent
begin

text \<open>
  What becomes messages to the agent of a host: the description of proxies that are to be launched
  (\<open>armour-api/src/host.rs\<close>), the REST interface (\<open>armour-host/src/rest_api.rs\<close>) and the command line
  and scripts (\<open>armour-host/src/commands.rs\<close>).
\<close>

section \<open>Proxies to launch\<close>

definition parse_u16 :: "string \<Rightarrow> u16 option" where
  "parse_u16 s = (case parse_usize s of Some n \<Rightarrow> if n < 65536 then Some (word_of_nat n) else None | None \<Rightarrow> None)"

definition parse_u8 :: "string \<Rightarrow> u8 option" where
  "parse_u8 s = (case parse_usize s of Some n \<Rightarrow> if n < 256 then Some (word_of_nat n) else None | None \<Rightarrow> None)"

text \<open>Reading and printing addresses.\<close>

record addr_text =
  at_v4 :: "string \<Rightarrow> ip_addr option"
  at_socket :: "string \<Rightarrow> socket_addr option"
  at_show :: "socket_addr \<Rightarrow> string"

record proxy_info =
  px_label :: label
  px_port :: "u16 option"
  px_timeout :: "u8 option"
  px_debug :: bool
  px_ingress :: "string option"

definition proxy_of_label :: "label \<Rightarrow> proxy_info" where
  "proxy_of_label l = \<lparr>px_label = l, px_port = None, px_timeout = None, px_debug = False, px_ingress = None\<rparr>"

text \<open>The counter is passed by value.\<close>

definition px_port_from :: "proxy_info \<Rightarrow> u16 \<Rightarrow> u16" where
  "px_port_from x p = (case px_port x of Some q \<Rightarrow> q | None \<Rightarrow> p + 1)"

definition px_ingress_addr :: "addr_text \<Rightarrow> proxy_info \<Rightarrow> socket_addr option" where
  "px_ingress_addr A x = Option.bind (px_ingress x) (at_socket A)"

definition px_set_ingress ::
    "addr_text \<Rightarrow> (string \<times> ip_addr) list \<Rightarrow> proxy_info \<Rightarrow> string + proxy_info" where
  "px_set_ingress A hosts x =
     (case px_ingress x of
        None \<Rightarrow> Inr x
      | Some s \<Rightarrow>
          (if px_ingress_addr A x \<noteq> None then Inr x
           else case split_char (CHR '':'') s of
             [host, port] \<Rightarrow>
               (case (bt_get host hosts, parse_u16 port) of
                  (Some ip, Some p) \<Rightarrow> Inr (x\<lparr>px_ingress := Some (at_show A (ip, p))\<rparr>)
                | _ \<Rightarrow> Inl (''failed to set ingress: '' @ s))
           | _ \<Rightarrow> Inl (''failed to set ingress: '' @ s)))"

definition px_config :: "addr_text \<Rightarrow> proxy_info \<Rightarrow> u16 \<Rightarrow> http_config" where
  "px_config A x p =
     (let port = px_port_from x p
      in case px_ingress_addr A x of Some s \<Rightarrow> IngressConfig port s | None \<Rightarrow> PortConfig port)"

record onboard_information =
  oi_proxies :: "proxy_info list"
  oi_labels :: "(ip_addr \<times> labels) list"

definition top_port :: "onboard_information \<Rightarrow> u16" where
  "top_port info = (case List.map_filter px_port (oi_proxies info) of [] \<Rightarrow> 5999 | p # ps \<Rightarrow> foldl max p ps)"

section \<open>The REST interface\<close>

text \<open>The answers of the agent are not looked at, but where noted; lost messages are left out.\<close>

definition launch_proxy :: "proxy_info \<Rightarrow> host_msg" where
  "launch_proxy x = Launch (px_label x) False (if px_debug x then LevelDebug else LevelInfo) (px_timeout x)"

definition add_ip_labels :: "instance_selector \<Rightarrow> (ip_addr \<times> labels) list \<Rightarrow> host_msg" where
  "add_ip_labels sel ip_labels = PolicyCommand True sel (LabelReq (AddIp ip_labels))"

definition merge_ip_labels :: "(ip_addr \<times> labels) list \<Rightarrow> (ip_addr \<times> labels) list" where
  "merge_ip_labels xs =
     foldl (\<lambda>m (ip, ls). case bt_get ip m of
         Some ls2 \<Rightarrow> bt_insert ip (bs_extend ls2 ls) m
       | None \<Rightarrow> bt_insert ip ls m) [] xs"

definition start_onboarding :: "instance_selector \<Rightarrow> (ip_addr \<times> labels) list \<Rightarrow> host_msg" where
  "start_onboarding sel ip_labels = PolicyCommand True sel (CPOnboard (merge_ip_labels ip_labels))"

definition start_proxy :: "instance_selector \<Rightarrow> http_config \<Rightarrow> host_msg" where
  "start_proxy sel config = PolicyCommand True sel (StartHttp config)"

definition rest_on_board :: "addr_text \<Rightarrow> onboard_information \<Rightarrow> host_msg list" where
  "rest_on_board A info =
     (let port = top_port info
      in concat (map (\<lambda>x.
           (let sel = SelLabel (px_label x)
            in [launch_proxy x, add_ip_labels sel (oi_labels info), start_onboarding sel (oi_labels info),
                start_proxy sel (px_config A x port)])) (oi_proxies info)))"

definition rest_drop :: "proxy_info list \<Rightarrow> host_msg list" where
  "rest_drop xs = map (\<lambda>x. PolicyCommand False (SelLabel (px_label x)) Shutdown) xs"

text \<open>Whether the request was good, and the body of the answer.\<close>

definition rest_policy_update ::
    "control_plane \<Rightarrow> host_os \<Rightarrow> label \<Rightarrow> (flat_typ, flat_literal) policies \<Rightarrow> host_state \<Rightarrow>
       (bool \<times> string) \<times> host_out list \<times> host_state" where
  "rest_policy_update C os l ps h =
     (case host_handle C os (PolicyCommand False (SelLabel l) (SetPolicy ps)) h of
        (CommandReply (Some e), out, h') \<Rightarrow> ((False, e), out, h')
      | (_, out, h') \<Rightarrow> ((True, []), out, h'))"

definition rest_policy_query :: "control_plane \<Rightarrow> host_os \<Rightarrow> label \<Rightarrow> host_state \<Rightarrow> host_policy_status list" where
  "rest_policy_query C os l h =
     (case host_handle C os (MetaData (SelLabel l)) h of (StatusReply s, _, _) \<Rightarrow> s | _ \<Rightarrow> [])"

definition rest_proxies :: "control_plane \<Rightarrow> host_os \<Rightarrow> host_state \<Rightarrow> string list" where
  "rest_proxies C os h = (case host_handle C os HostList h of (ListReply s, _, _) \<Rightarrow> s | _ \<Rightarrow> [])"

section \<open>The command line\<close>

text \<open>
  Splitting a line by the regular expression of commands into the parts it names, trimming, reading
  policies and scripts from files. A line of a script that cannot be read is \<open>None\<close>.
\<close>

record cli =
  cli_addr :: addr_text
  cli_captures :: "string \<Rightarrow> (string option \<times> string option \<times> string option) option"
  cli_trim :: "string \<Rightarrow> string"
  cli_trim_end :: "string \<Rightarrow> string"
  cli_policies :: "string \<Rightarrow> (flat_typ, flat_literal) policies option"
  cli_script :: "string \<Rightarrow> string option list option"

datatype host_action =
    Send host_msg
  | RunScript string
  | Wait u8
  | ShowHelp

text \<open>The outer \<open>None\<close>: the name of the instance is not one.\<close>

definition parse_selector :: "cli \<Rightarrow> string option \<Rightarrow> instance_selector option" where
  "parse_selector K caps =
     (case caps of
        None \<Rightarrow> Some SelAll
      | Some x \<Rightarrow>
          (let s = trim_end_char (CHR '':'') (cli_trim_end K x)
           in case parse_usize s of
                Some n \<Rightarrow> Some (SelID n)
              | None \<Rightarrow> (case parse_label s of Inr l \<Rightarrow> Some (SelLabel l) | Inl _ \<Rightarrow> None)))"

definition command_parts ::
    "cli \<Rightarrow> string option \<times> string option \<times> string option \<Rightarrow>
       instance_selector option \<times> string option \<times> string option" where
  "command_parts K caps =
     (case caps of (sel, cmd, arg) \<Rightarrow>
        (parse_selector K sel, cmd,
         map_option (\<lambda>s. trim_end_char (CHR ''\"'') (trim_start_char (CHR ''\"'') (cli_trim K s))) arg))"

definition cmd_set_policy :: "instance_selector \<Rightarrow> (flat_typ, flat_literal) policies \<Rightarrow> host_action list" where
  "cmd_set_policy sel ps = [Send (PolicyCommand False sel (SetPolicy ps))]"

definition cmd_launch :: "instance_selector \<Rightarrow> string \<Rightarrow> host_action list" where
  "cmd_launch sel s =
     (let level = (if ends_with s ''log'' then LevelInfo else if ends_with s ''debug'' then LevelDebug else LevelWarn)
      in case sel of
           SelLabel l \<Rightarrow> [Send (Launch l True level None)]
         | SelID _ \<Rightarrow> []
         | SelAll \<Rightarrow> [Send (Launch [Str ''proxy''] True level None)])"

definition cmd_start :: "cli \<Rightarrow> instance_selector \<Rightarrow> string \<Rightarrow> string \<Rightarrow> host_action list" where
  "cmd_start K sel s arg =
     (let start = (\<lambda>r. [Send (PolicyCommand False sel r)])
      in case parse_u16 arg of
           Some port \<Rightarrow> start (if ends_with s ''http'' then StartHttp (PortConfig port) else StartTcp port)
         | None \<Rightarrow>
             (if \<not> ends_with s ''http'' then []
              else case split_char (CHR '' '') arg of
                [port, socket] \<Rightarrow>
                  (case (at_socket (cli_addr K) socket, parse_u16 port) of
                     (Some a, Some p) \<Rightarrow> start (StartHttp (IngressConfig p a))
                   | _ \<Rightarrow> [])
              | _ \<Rightarrow> []))"

definition cmd_label :: "cli \<Rightarrow> instance_selector \<Rightarrow> string \<Rightarrow> string \<Rightarrow> host_action list" where
  "cmd_label K sel s arg =
     (case split_char (CHR '' '') arg of
        [key, value] \<Rightarrow>
          (case parse_label value of
             Inl _ \<Rightarrow> []
           | Inr l \<Rightarrow>
               [Send (PolicyCommand False sel (LabelReq
                 (case at_v4 (cli_addr K) key of
                    Some ip \<Rightarrow> if ends_with s ''add'' then AddIp [(ip, [l])] else RemoveIp ip (Some l)
                  | None \<Rightarrow> if ends_with s ''add'' then AddUri [(key, [l])] else RemoveUri key (Some l))))])
      | _ \<Rightarrow> [])"

text \<open>The second component says that the script ends here.\<close>

definition host_command ::
    "cli \<Rightarrow> string option \<times> string option \<times> string option \<Rightarrow> host_action list \<times> bool" where
  "host_command K caps =
     (case command_parts K caps of
        (None, _) \<Rightarrow> ([], False)
      | (Some sel, command, args) \<Rightarrow>
          (let all = (sel = SelAll); go = (\<lambda>acts. (acts, False)); req = (\<lambda>r. [Send (PolicyCommand False sel r)])
           in case (map_option (map lower_char) command, args) of
                (Some c, None) \<Rightarrow>
                  (if all \<and> c = ''help'' then go [ShowHelp]
                   else if all \<and> c = ''list'' then go [Send HostList]
                   else if all \<and> c = ''quit'' then ([Send Quit], True)
                   else if c = ''launch'' \<or> c = ''launch log'' \<or> c = ''launch debug'' then go (cmd_launch sel c)
                   else if c = ''shutdown'' then go (req Shutdown)
                   else if c = ''status'' then go (req StatusReq)
                   else if c = ''stop'' then go (req (StopReq HTTP) @ req (StopReq TCP))
                   else if c = ''stop http'' then go (req (StopReq HTTP))
                   else if c = ''stop tcp'' then go (req (StopReq TCP))
                   else if c = ''allow all'' then
                     go (case policies_allow_all dp_types of Some ps \<Rightarrow> cmd_set_policy sel ps | None \<Rightarrow> [])
                   else if c = ''deny all'' then
                     go (case policies_deny_all dp_types of Some ps \<Rightarrow> cmd_set_policy sel ps | None \<Rightarrow> [])
                   else if c = ''labels rm'' then go (req (LabelReq Clear))
                   else go [])
              | (Some c, Some arg) \<Rightarrow>
                  (if all \<and> c = ''run'' then go [RunScript arg]
                   else if all \<and> c = ''wait'' then
                     go (case parse_u8 arg of Some d \<Rightarrow> [Wait (min d 5)] | None \<Rightarrow> [])
                   else if c = ''start tcp'' \<or> c = ''start http'' then go (cmd_start K sel c arg)
                   else if c = ''timeout'' then
                     go (case parse_u8 arg of Some secs \<Rightarrow> req (Timeout secs) | None \<Rightarrow> [])
                   else if c = ''policy'' then
                     go (case cli_policies K arg of Some ps \<Rightarrow> cmd_set_policy sel ps | None \<Rightarrow> [])
                   else if c = ''label add'' \<or> c = ''label rm'' then go (cmd_label K sel c arg)
                   else if c = ''labels rm'' then
                     go (req (LabelReq (case at_v4 (cli_addr K) arg of
                           Some ip \<Rightarrow> RemoveIp ip None | None \<Rightarrow> RemoveUri arg None)))
                   else go [])
              | (None, _) \<Rightarrow> go []))"

definition run_command :: "cli \<Rightarrow> string \<Rightarrow> host_action list \<times> bool" where
  "run_command K cmd =
     (let cmd = cli_trim K cmd
      in if cmd = [] then ([], False)
         else case cli_captures K cmd of Some caps \<Rightarrow> host_command K caps | None \<Rightarrow> ([], False))"

text \<open>A script may run scripts, itself too: fuel bounds the nesting, and \<open>None\<close> is running out of it.\<close>

fun perform :: "(string \<Rightarrow> host_msg list option) \<Rightarrow> host_action list \<Rightarrow> host_msg list option" where
  "perform run [] = Some []"
| "perform run (a # acts) =
     (case (case a of Send m \<Rightarrow> Some [m] | RunScript f \<Rightarrow> run f | Wait _ \<Rightarrow> Some [] | ShowHelp \<Rightarrow> Some []) of
        None \<Rightarrow> None
      | Some ms \<Rightarrow> map_option ((@) ms) (perform run acts))"

fun run_lines :: "(string \<Rightarrow> host_msg list option) \<Rightarrow> cli \<Rightarrow> string option list \<Rightarrow> host_msg list option" where
  "run_lines run K [] = Some []"
| "run_lines run K (None # ls) = Some []"
| "run_lines run K (Some l # ls) =
     (let cmd = cli_trim K l
      in if cmd = [] \<or> starts_with cmd ''#'' then run_lines run K ls
         else case run_command K cmd of
           (acts, quit) \<Rightarrow>
             (case perform run acts of
                None \<Rightarrow> None
              | Some ms \<Rightarrow> if quit then Some ms else map_option ((@) ms) (run_lines run K ls)))"

fun run_script :: "cli \<Rightarrow> nat \<Rightarrow> string \<Rightarrow> host_msg list option" where
  "run_script K 0 file = None"
| "run_script K (Suc n) file =
     (case cli_script K file of
        None \<Rightarrow> Some []
      | Some ls \<Rightarrow> run_lines (run_script K n) K ls)"

end
