(* ===== verification/HostProps.thy ===== *)
theory HostProps
  imports HostCommands ProxyProps
begin

text \<open>
  The agent of a host: what it knows of a proxy is what the proxy holds, commands reach exactly the
  proxies that are selected, the ports of proxies that are launched together, and scripts.
\<close>

section \<open>States of the agent\<close>

definition host_run :: "control_plane \<Rightarrow> host_os \<Rightarrow> host_msg list \<Rightarrow> host_state \<Rightarrow> host_state" where
  "host_run C os ms h = foldl (\<lambda>h m. snd (snd (host_handle C os m h))) h ms"

lemma host_run_simps [simp]:
  "host_run C os [] h = h"
  "host_run C os (m # ms) h = host_run C os ms (snd (snd (host_handle C os m h)))"
  "host_run C os (ms @ ms') h = host_run C os ms' (host_run C os ms h)"
  by (simp_all add: host_run_def)

definition host_wf :: "host_state \<Rightarrow> bool" where
  "host_wf h \<longleftrightarrow> bt_wf (hst_instances h) \<and> (\<forall>n i. bt_get n (hst_instances h) = Some i \<longrightarrow> n < hst_count h)"

lemma keys_map_snd: "map fst (map (\<lambda>(k, v). (k, f k v)) m) = map fst m"
  by (induction m) auto

lemma bt_get_map_snd: "bt_get k (map (\<lambda>(k, v). (k, f k v)) m) = map_option (f k) (bt_get k m)"
  by (induction m) auto

lemma at_instance_get:
  "bt_get k (hst_instances (at_instance n f h)) = (if k = n then map_option f (bt_get k (hst_instances h)) else bt_get k (hst_instances h))"
  "hst_count (at_instance n f h) = hst_count h"
  "bt_wf (hst_instances h) \<Longrightarrow> bt_wf (hst_instances (at_instance n f h))"
  by (auto simp: at_instance_def split: option.split)

lemma update_instances_get:
  "bt_get k (hst_instances (update_instances sel d h)) =
     map_option (\<lambda>i. if selects sel k i then i\<lparr>in_meta := map_option (\<lambda>m. m\<lparr>me_dpid := Some d\<rparr>) (in_meta i)\<rparr> else i)
       (bt_get k (hst_instances h))"
  "hst_count (update_instances sel d h) = hst_count h"
  "bt_wf (hst_instances h) \<Longrightarrow> bt_wf (hst_instances (update_instances sel d h))"
  by (simp_all add: update_instances_def bt_get_map_snd bt_wf_def keys_map_snd del: map_map)

text \<open>The instances after a message.\<close>

lemma handle_instances:
  assumes "bt_wf (hst_instances h)"
  shows "bt_wf (hst_instances (snd (snd (host_handle C os msg h)))) \<and>
    bt_get k (hst_instances (snd (snd (host_handle C os msg h)))) =
      (case msg of
         Connect addr \<Rightarrow> if k = hst_count h then Some (instance_new addr) else bt_get k (hst_instances h)
       | Disconnect n \<Rightarrow> if k = n then None else bt_get k (hst_instances h)
       | RegisterProxy n m \<Rightarrow> if k = n then map_option (set_meta m) (bt_get k (hst_instances h)) else bt_get k (hst_instances h)
       | RegisterHttpHash n s \<Rightarrow> if k = n then map_option (set_http_hash s) (bt_get k (hst_instances h)) else bt_get k (hst_instances h)
       | RegisterTcpHash n s \<Rightarrow> if k = n then map_option (set_tcp_hash s) (bt_get k (hst_instances h)) else bt_get k (hst_instances h)
       | ServiceGlobalID d sel \<Rightarrow>
           map_option (\<lambda>i. if selects sel k i then i\<lparr>in_meta := map_option (\<lambda>m. m\<lparr>me_dpid := Some d\<rparr>) (in_meta i)\<rparr> else i)
             (bt_get k (hst_instances h))
       | _ \<Rightarrow> bt_get k (hst_instances h)) \<and>
    hst_count (snd (snd (host_handle C os msg h))) = (case msg of Connect _ \<Rightarrow> hst_count h + 1 | _ \<Rightarrow> hst_count h)"
  using assms
  by (cases msg) (auto simp: host_handle_def handle_connect_def handle_register_proxy_def handle_register_http_hash_def
      handle_register_tcp_hash_def at_instance_get update_instances_get handle_disconnect_def handle_launch_def Let_def
      split: option.split prod.split)

lemma host_wf_handle:
  assumes "host_wf h"
  shows "host_wf (snd (snd (host_handle C os msg h)))"
proof -
  have w: "bt_wf (hst_instances h)" "\<And>n i. bt_get n (hst_instances h) = Some i \<Longrightarrow> n < hst_count h"
    using assms by (auto simp: host_wf_def)
  show ?thesis
    using handle_instances [OF w(1), of C os msg] w(2)
    by (cases msg) (auto simp: host_wf_def less_Suc_eq split: if_splits)
qed

lemma host_wf_run: "host_wf h \<Longrightarrow> host_wf (host_run C os ms h)"
  by (induction ms arbitrary: h) (simp_all add: host_wf_handle)

lemma host_wf_new: "host_wf (host_new l onboarded)"
  by (simp add: host_wf_def host_new_def)

section \<open>What the agent knows of a proxy\<close>

text \<open>The hashes of the two policies that the agent has recorded for instance \<open>n\<close>.\<close>

definition recorded :: "host_state \<Rightarrow> nat \<Rightarrow> (string \<times> string) option" where
  "recorded h n = Option.bind (bt_get n (hst_instances h)) (\<lambda>i. map_option (\<lambda>m. (me_http m, me_tcp m)) (in_meta i))"

text \<open>The messages that come from the connection of instance \<open>n\<close>.\<close>

fun about :: "nat \<Rightarrow> host_msg \<Rightarrow> bool" where
  "about n (Disconnect k) = (k = n)"
| "about n (RegisterProxy k _) = (k = n)"
| "about n (CPOnboardProxy k _) = (k = n)"
| "about n (RegisterHttpHash k _) = (k = n)"
| "about n (RegisterTcpHash k _) = (k = n)"
| "about n _ = False"

text \<open>All that the connection tells the agent for the responses of the proxy, the last response first.\<close>

fun relay :: "(dp_policy \<Rightarrow> string) \<Rightarrow> nat \<Rightarrow> policy_response list \<Rightarrow> host_msg list" where
  "relay blake3 n [] = []"
| "relay blake3 n (r # rs) =
     relay blake3 n rs @ (case instance_handle blake3 n r of Some (ms, _) \<Rightarrow> ms | None \<Rightarrow> [])"

fun reported :: "(dp_policy \<Rightarrow> string) \<Rightarrow> policy_response list \<Rightarrow> (string \<times> string) option" where
  "reported blake3 [] = None"
| "reported blake3 (r # rs) =
     (case r of
        ConnectR _ _ _ h t \<Rightarrow> Some (h, t)
      | UpdatedPolicy HTTP h \<Rightarrow> map_option (\<lambda>(_, t). (h, t)) (reported blake3 rs)
      | UpdatedPolicy TCP t \<Rightarrow> map_option (\<lambda>(h, _). (h, t)) (reported blake3 rs)
      | StatusR _ _ h t \<Rightarrow> map_option (\<lambda>_. (blake3 (st_policy h), blake3 (st_policy t))) (reported blake3 rs)
      | _ \<Rightarrow> reported blake3 rs)"

lemma add_uris_reported: "reported blake3 (pa_out (add_uris N us a)) = reported blake3 (pa_out a)"
  by (induction N us a rule: add_uris.induct) (auto simp: actor_write_def split: option.splits)

lemma label_op_reported: "reported blake3 (pa_out (handle_label_op N op a)) = reported blake3 (pa_out a)"
  by (auto simp: handle_label_op_def add_uris_reported actor_write_def split: label_op.split option.split)

interpretation reports: actor_invariant N blake3
  "\<lambda>a. reported blake3 (pa_out a) = Some (blake3 (hs_policy (pa_http a)), blake3 (ts_policy (pa_tcp a)))"
  for N :: "'u net" and blake3
proof
  let ?I = "\<lambda>a. reported blake3 (pa_out a) = Some (blake3 (hs_policy (pa_http a)), blake3 (ts_policy (pa_tcp a)))"
  show "?I (actor_started blake3 pid (create_policy l timeout))" for pid l timeout
    by (simp add: actor_started_def create_policy_def actor_write_def http_set_timeout_def)
  show "?I b" if "?I a" "handle_policy_request N blake3 up msg a = Some b" for a b :: actor and up msg
    using that
    by (cases msg) (auto simp: request_cases label_op_reported label_op_frame http_status_def tcp_status_def
        split: protocol.splits if_splits option.splits)
  show "?I b" if "?I a" "actor_connection N p q a = (c, b)" for a b :: actor and c p q
    using that by (auto simp: actor_connection_def Let_def split: prod.splits)
  show "?I (a\<lparr>pa_connection_number := k\<rparr>)" if "?I a" for a :: actor and k
    using that by simp
qed

text \<open>How a message of the connection changes what is recorded.\<close>

fun record_msg :: "(string \<times> string) option \<Rightarrow> host_msg \<Rightarrow> (string \<times> string) option" where
  "record_msg c (RegisterProxy _ m) = Some (me_http m, me_tcp m)"
| "record_msg c (RegisterHttpHash _ s) = map_option (\<lambda>(_, t). (s, t)) c"
| "record_msg c (RegisterTcpHash _ s) = map_option (\<lambda>(h, _). (h, s)) c"
| "record_msg c _ = c"

lemma relay_reported:
  "ShuttingDown \<notin> set rs \<Longrightarrow> foldl record_msg None (relay blake3 n rs) = reported blake3 rs \<and> Disconnect n \<notin> set (relay blake3 n rs)"
proof (induction rs)
  case (Cons r rs)
  then have "foldl record_msg None (relay blake3 n rs) = reported blake3 rs" "Disconnect n \<notin> set (relay blake3 n rs)" "r \<noteq> ShuttingDown"
    by auto
  then show ?case
    by (cases r) (auto simp: instance_handle_def option.map_comp o_def split_def split: protocol.splits)
qed simp

lemma handle_recorded:
  assumes "host_wf h" and "bt_get n (hst_instances h) \<noteq> None" and "msg \<noteq> Disconnect n"
  shows "recorded (snd (snd (host_handle C os msg h))) n = (if about n msg then record_msg (recorded h n) msg else recorded h n) \<and>
    bt_get n (hst_instances (snd (snd (host_handle C os msg h)))) \<noteq> None"
proof -
  obtain i where i: "bt_get n (hst_instances h) = Some i" "n < hst_count h" "bt_wf (hst_instances h)"
    using assms by (auto simp: host_wf_def)
  show ?thesis
    using handle_instances [OF i(3), of C os msg n] i assms(3)
    by (cases msg; cases "in_meta i")
      (auto simp: recorded_def set_meta_def set_http_hash_def set_tcp_hash_def)
qed

lemma run_recorded:
  assumes "host_wf h" and "bt_get n (hst_instances h) \<noteq> None" and "Disconnect n \<notin> set ms"
  shows "recorded (host_run C os ms h) n = foldl record_msg (recorded h n) (filter (about n) ms)"
  using assms
proof (induction ms arbitrary: h)
  case (Cons msg ms)
  let ?h = "snd (snd (host_handle C os msg h))"
  have "recorded ?h n = (if about n msg then record_msg (recorded h n) msg else recorded h n)"
      "bt_get n (hst_instances ?h) \<noteq> None"
    using handle_recorded [of h n msg C os] Cons.prems by auto
  then show ?case
    using Cons.IH [of ?h] Cons.prems host_wf_handle [of h C os msg] by simp
qed simp

text \<open>C5: for a proxy whose connection the agent has accepted, once the agent has handled what the connection
  made of the proxy's responses, with any other messages in between, the hashes it has on record are
  those of the policies that the proxy's actor holds.\<close>

theorem host_records_policy_in_force:
  assumes "actor_reach N blake3 a" and "ShuttingDown \<notin> set (pa_out a)"
    and "handle_connect addr (host_run C os before (host_new l onboarded)) = (n, h)"
    and "filter (about n) ms = relay blake3 n (pa_out a)"
  shows "recorded (host_run C os ms h) n = Some (blake3 (hs_policy (pa_http a)), blake3 (ts_policy (pa_tcp a)))"
proof -
  let ?g = "host_run C os before (host_new l onboarded)"
  have g: "host_wf ?g"
    by (rule host_wf_run [OF host_wf_new])
  have h: "h = snd (snd (host_handle C os (Connect addr) ?g))" "n = hst_count ?g"
    using assms(3) by (auto simp: host_handle_def handle_connect_def Let_def split: prod.split)
  have "bt_get n (hst_instances h) = Some (instance_new addr)" "host_wf h"
    using handle_instances [of ?g C os "Connect addr" n] host_wf_handle [OF g, of C os "Connect addr"] g h
    by (simp_all add: host_wf_def)
  moreover from this have "recorded h n = None"
    by (simp add: recorded_def instance_new_def)
  moreover have "Disconnect n \<notin> set ms"
  proof
    assume "Disconnect n \<in> set ms"
    then have "Disconnect n \<in> set (filter (about n) ms)"
      by simp
    then show False
      using relay_reported [OF assms(2), of blake3 n] assms(4) by simp
  qed
  ultimately have "recorded (host_run C os ms h) n = foldl record_msg None (relay blake3 n (pa_out a))"
    using run_recorded [of h n ms C os] assms(4) by simp
  then show ?thesis
    using relay_reported [OF assms(2), of blake3 n] reports.reach_invariant [OF assms(1)] by simp
qed

theorem host_records_policy_in_force_witness:
  "\<forall>C os. \<exists>h. handle_connect 7 (host_new [] True) = (0, h) \<and>
     recorded (host_run C os (HostList # relay (\<lambda>_. []) 0 (pa_out checking_actor)) h) 0 = Some ([], [])"
proof (intro allI)
  fix C os
  obtain h where h: "handle_connect 7 (host_run C os [] (host_new [] True)) = (0, h)"
    by (simp add: handle_connect_def host_new_def Let_def)
  have s: "ShuttingDown \<notin> set (pa_out checking_actor)"
    by (simp add: checking_actor_def install_http_def actor_write_def actor_started_def create_policy_def)
  have m: "filter (about 0) (HostList # relay (\<lambda>_. []) 0 (pa_out checking_actor)) = relay (\<lambda>_. []) 0 (pa_out checking_actor)"
    by (simp add: checking_actor_def install_http_def actor_write_def actor_started_def create_policy_def instance_handle_def)
  show "\<exists>h. handle_connect 7 (host_new [] True) = (0, h) \<and>
     recorded (host_run C os (HostList # relay (\<lambda>_. []) 0 (pa_out checking_actor)) h) 0 = Some ([], [])"
    using h host_records_policy_in_force [OF checking_reach [of plain_net] s h m] by (intro exI [of _ h] conjI) simp_all
qed

section \<open>Commands\<close>

lemma get_instances_selects:
  assumes "bt_wf (hst_instances h)"
  shows "(n, i) \<in> set (get_instances sel h) \<longleftrightarrow> bt_get n (hst_instances h) = Some i \<and> selects sel n i"
proof (cases sel)
  case (SelID k)
  then show ?thesis
    by (cases "bt_get k (hst_instances h)") (auto simp: get_instances_def selects_def)
qed (auto simp: get_instances_def selects_def bt_get_in_set [OF assms])

lemma get_instances_distinct:
  assumes "bt_wf (hst_instances h)"
  shows "distinct (map fst (get_instances sel h))"
  using bt_wf_distinct [OF assms]
  by (auto simp: get_instances_def distinct_map_filter split: instance_selector.split option.split)

text \<open>C24: a command of the host reaches every proxy that is connected and selected and no other, each exactly once,
  and is reported as failed exactly when none is selected; then it is sent again once, without
  another try, if it was to be tried again, and lost otherwise.\<close>

theorem policy_command_delivers:
  assumes "host_handle C os (PolicyCommand retry sel req) (host_run C os ms (host_new l onboarded)) = (r, out, h)"
  shows "h = host_run C os ms (host_new l onboarded) \<and>
    (\<exists>ns. distinct ns \<and> (\<forall>n. n \<in> set ns \<longleftrightarrow> (\<exists>i. bt_get n (hst_instances h) = Some i \<and> selects sel n i)) \<and>
      (if ns = [] then r \<noteq> CommandReply None \<and> out = (if retry then [NotifyLater (PolicyCommand False sel req)] else [])
       else r = CommandReply None \<and> out = map (\<lambda>n. ToProxy (in_addr (the (bt_get n (hst_instances h)))) req) ns))"
proof -
  have h: "h = host_run C os ms (host_new l onboarded)"
    using assms by (auto simp: host_handle_def split: prod.splits)
  have w: "bt_wf (hst_instances h)"
    using host_wf_run [OF host_wf_new, of C os ms l onboarded] by (simp add: h host_wf_def)
  let ?ns = "map fst (get_instances sel h)"
  have "map (\<lambda>(n, i). ToProxy (in_addr i) req) (get_instances sel h) =
      map (\<lambda>n. ToProxy (in_addr (the (bt_get n (hst_instances h)))) req) ?ns"
    using get_instances_selects [OF w, of _ _ sel] by auto
  moreover have "n \<in> set ?ns \<longleftrightarrow> (\<exists>i. bt_get n (hst_instances h) = Some i \<and> selects sel n i)" for n
    using get_instances_selects [OF w, of n _ sel] by force
  ultimately show ?thesis
    using assms get_instances_distinct [OF w, of sel] unfolding h [symmetric]
    by (intro conjI exI [of _ ?ns]) (auto simp: host_handle_def handle_policy_command_def Let_def split: if_splits)
qed

theorem policy_command_delivers_witness:
  "\<forall>C os. snd (snd (host_handle C os (PolicyCommand True SelAll Shutdown) (host_run C os [Connect 7] (host_new [] True)))) =
     host_run C os [Connect 7] (host_new [] True)"
proof (intro allI)
  fix C os
  obtain r out h where h: "host_handle C os (PolicyCommand True SelAll Shutdown) (host_run C os [Connect 7] (host_new [] True)) = (r, out, h)"
    by (metis prod_cases3)
  show "snd (snd (host_handle C os (PolicyCommand True SelAll Shutdown) (host_run C os [Connect 7] (host_new [] True)))) =
     host_run C os [Connect 7] (host_new [] True)"
    using policy_command_delivers [OF h] unfolding h by simp
qed

section \<open>Proxies that are launched together\<close>

lemma foldl_max: "q \<in> set (p # ps) \<Longrightarrow> q \<le> foldl max (p :: 'a::linorder) ps"
proof (induction ps arbitrary: p q)
  case (Cons x ps)
  have "max p x \<le> foldl max (max p x) ps"
    using Cons.IH [of "max p x" "max p x"] by simp
  then have "p \<le> foldl max (max p x) ps" "x \<le> foldl max (max p x) ps"
    by simp_all
  then show ?case
    using Cons.IH [of q "max p x"] Cons.prems by auto
qed simp

lemma top_port_upper: "x \<in> set (oi_proxies info) \<Longrightarrow> px_port x = Some q \<Longrightarrow> q \<le> top_port info"
proof -
  assume x: "x \<in> set (oi_proxies info)" "px_port x = Some q"
  then have "q \<in> set (List.map_filter px_port (oi_proxies info))"
    by (force simp: List.map_filter_def)
  then show "q \<le> top_port info"
    by (cases "List.map_filter px_port (oi_proxies info)") (simp_all add: top_port_def foldl_max)
qed

text \<open>Of the proxies of one request that are launched together, those without a port of their own all get
  the same one, the one after the highest that is given, so that of two such proxies at most one
  can listen; it is a free one unless the highest is the last port there is, in which case it is 0.\<close>

theorem onboarded_ports_collide:
  assumes "x \<in> set (oi_proxies info)" and "px_port x = None"
  shows "config_port (px_config A x (top_port info)) = top_port info + 1 \<and>
    start_proxy (SelLabel (px_label x)) (px_config A x (top_port info)) \<in> set (rest_on_board A info) \<and>
    (\<forall>y \<in> set (oi_proxies info). config_port (px_config A y (top_port info)) = top_port info + 1 \<longleftrightarrow>
       px_port y = None \<or> top_port info = - 1 \<and> px_port y = Some 0)"
proof -
  have port: "config_port (px_config A y p) = (case px_port y of Some q \<Rightarrow> q | None \<Rightarrow> p + 1)" for y p
    by (simp add: px_config_def px_port_from_def config_port_def Let_def split: option.split)
  have "config_port (px_config A y (top_port info)) = top_port info + 1 \<longleftrightarrow>
       px_port y = None \<or> top_port info = - 1 \<and> px_port y = Some 0" if y: "y \<in> set (oi_proxies info)" for y
  proof (cases "px_port y")
    case (Some q)
    have "q \<le> top_port info"
      using top_port_upper [OF y Some] .
    then have "q = top_port info + 1 \<longleftrightarrow> top_port info = - 1 \<and> q = 0"
      using inc_less_eq_iff [of "top_port info"] by auto
    then show ?thesis
      by (simp add: port Some)
  qed (simp add: port)
  moreover have "start_proxy (SelLabel (px_label x)) (px_config A x (top_port info)) \<in> set (rest_on_board A info)"
    using assms(1) by (force simp: rest_on_board_def Let_def)
  ultimately show ?thesis
    using assms(2) by (simp add: port)
qed

theorem onboarded_ports_collide_witness:
  "\<forall>A. let info = \<lparr>oi_proxies = [proxy_of_label [Str ''a''], proxy_of_label [Str ''b'']], oi_labels = []\<rparr>
     in map (\<lambda>x. config_port (px_config A x (top_port info))) (oi_proxies info) = [6000, 6000]"
proof
  fix A
  let ?info = "\<lparr>oi_proxies = [proxy_of_label [Str ''a''], proxy_of_label [Str ''b'']], oi_labels = []\<rparr>"
  have p: "top_port ?info = 5999"
    by (simp add: top_port_def proxy_of_label_def List.map_filter_def)
  have "config_port (px_config A x (top_port ?info)) = 6000" if "x \<in> set (oi_proxies ?info)" for x
  proof -
    have "config_port (px_config A x (top_port ?info)) = top_port ?info + 1"
      using conjunct1 [OF onboarded_ports_collide [OF that, of A]] that by (auto simp: proxy_of_label_def)
    then show ?thesis
      by (simp add: p)
  qed
  then show "let info = ?info in map (\<lambda>x. config_port (px_config A x (top_port info))) (oi_proxies info) = [6000, 6000]"
    by (simp add: Let_def)
qed

text \<open>Launching without force the same proxy twice before it has connected starts two processes.\<close>

lemma launched_twice:
  assumes "get_instances (SelLabel l) h = []" and "\<And>l v t. os_spawn os l v t \<noteq> None"
  shows "fst (handle_launch os l False v t h) = [SpawnProxy l v t] \<and>
    fst (handle_launch os l False v t (snd (handle_launch os l False v t h))) = [SpawnProxy l v t]"
  using assms by (auto simp: handle_launch_def get_instances_def selects_def split: option.split)

section \<open>Scripts\<close>

lemma perform_None:
  "perform run acts = None \<longleftrightarrow> (\<exists>f. RunScript f \<in> set acts \<and> run f = None)"
  by (induction run acts rule: perform.induct) (auto split: host_action.splits option.splits)

lemma run_lines_None:
  "run_lines run K ls = None \<Longrightarrow>
     \<exists>l f. Some l \<in> set ls \<and> RunScript f \<in> set (fst (run_command K (cli_trim K l))) \<and> run f = None"
proof (induction ls)
  case (Cons a ls)
  show ?case
  proof (cases a)
    case (Some l)
    obtain acts quit where r: "run_command K (cli_trim K l) = (acts, quit)"
      by (cases "run_command K (cli_trim K l)")
    show ?thesis
    proof (cases "run_lines run K ls = None")
      case True
      then show ?thesis
        using Cons.IH by auto
    next
      case False
      then have "perform run acts = None"
        using Cons.prems Some r by (auto simp: Let_def split: if_splits option.splits)
      then show ?thesis
        using r Some perform_None [of run acts] by (metis fst_conv list.set_intros(1))
    qed
  qed (use Cons.prems in simp)
qed simp

text \<open>More answers for the scripts that are run do not change what is sent.\<close>

lemma perform_mono:
  assumes "\<And>f x. run f = Some x \<Longrightarrow> run' f = Some x"
  shows "perform run acts = Some ms \<Longrightarrow> perform run' acts = Some ms"
proof (induction acts arbitrary: ms)
  case (Cons a acts)
  then show ?case
    using assms by (cases a) (auto split: option.splits)
qed simp

lemma run_lines_mono:
  assumes "\<And>f x. run f = Some x \<Longrightarrow> run' f = Some x"
  shows "run_lines run K ls = Some ms \<Longrightarrow> run_lines run' K ls = Some ms"
proof (induction ls arbitrary: ms)
  case (Cons a ls)
  show ?case
  proof (cases a)
    case (Some l)
    obtain acts quit where r: "run_command K (cli_trim K l) = (acts, quit)"
      by (cases "run_command K (cli_trim K l)")
    then show ?thesis
      using Cons Some perform_mono [of run run', OF assms]
      by (auto simp: Let_def split: if_splits option.splits)
  qed (use Cons.prems in simp)
qed simp

lemma run_script_mono: "run_script K n f = Some ms \<Longrightarrow> n \<le> k \<Longrightarrow> run_script K k f = Some ms"
proof (induction n arbitrary: f ms k)
  case (Suc n)
  obtain j where j: "k = Suc j" "n \<le> j"
    using Suc.prems(2) by (cases k) auto
  show ?case
  proof (cases "cli_script K f")
    case (Some ls)
    then have "run_lines (run_script K n) K ls = Some ms"
      using Suc.prems(1) by simp
    then have "run_lines (run_script K j) K ls = Some ms"
      by (rule run_lines_mono [rotated]) (use Suc.IH j in blast)
    then show ?thesis
      using Some j by simp
  qed (use Suc.prems j in simp)
qed simp


text \<open>One script that runs another.\<close>

definition plain_cli :: cli where
  "plain_cli = \<lparr>cli_addr = \<lparr>at_v4 = (\<lambda>_. None), at_socket = (\<lambda>_. None), at_show = (\<lambda>_. [])\<rparr>,
     cli_captures = (\<lambda>s. if s = ''run b'' then Some (None, Some ''run'', Some ''b'') else Some (None, Some s, None)),
     cli_trim = (\<lambda>s. s), cli_trim_end = (\<lambda>s. s), cli_policies = (\<lambda>_. None),
     cli_script = (\<lambda>f. if f = ''a'' then Some [Some ''run b'', Some ''quit'']
       else if f = ''b'' then Some [Some ''list''] else None)\<rparr>"


lemma run_script_itself:
  assumes "cli_script K f = Some (Some l # ls)" and "run_command K (cli_trim K l) = ([RunScript f], False)"
    and "cli_trim K l \<noteq> []" and "\<not> starts_with (cli_trim K l) ''#''"
  shows "run_script K n f = None"
  using assms by (induction n) (simp_all add: Let_def)

end
